(* ===== verification/Prelude.thy ===== *)
theory Prelude
  imports Main "HOL-Library.Multiset"
begin

text \<open>
  Shared vocabulary of the MindMate chat-relay development: the types that name
  identities and rooms, and executable models of the JavaScript primitives the
  backend and the browser client rely on (\<open>String.prototype.trim\<close>,
  \<open>toLowerCase\<close> on Latin-1, truthiness of optional strings,
  \<open>Array.prototype.findIndex\<close>, the ``move entry to front'' idiom of the chat
  pages, and the 24-hex-digit syntax of a MongoDB ObjectId). The lemmas here are
  the generic facts the component theories share; the rules named
  \<open>js_simps\<close> evaluate the helpers on concrete inputs.
\<close>

named_theorems js_simps "evaluation rules of the JavaScript helper models"

type_synonym oid = string
  \<comment> \<open>an identity reference as it travels on the wire: a string\<close>
type_synonym room = string
  \<comment> \<open>a Socket.IO room name, \<open>String(id)\<close>\<close>

subsection \<open>Strings\<close>

text \<open>
  JavaScript's \<open>trim\<close> (and the class \<open>\\s\<close> of regular expressions) removes
  leading and trailing white space. A character of the model is a UTF-16 code unit
  below 256 (Latin-1), so the white-space characters in that range are the ones
  modelled: tab, line feed, vertical tab, form feed, carriage return, space and the
  no-break space U+00A0.
\<close>

definition js_is_ws :: "char \<Rightarrow> bool" where
  "js_is_ws c \<longleftrightarrow> c \<in> set [CHR '' '', CHR 0x09, CHR 0x0A, CHR 0x0B, CHR 0x0C, CHR 0x0D, CHR 0xA0]"

definition js_trim :: "string \<Rightarrow> string" where
  "js_trim s = rev (dropWhile js_is_ws (rev (dropWhile js_is_ws s)))"

text \<open>A string is truthy in JavaScript exactly when it is not empty; a missing
  (\<open>undefined\<close>) value is falsy.\<close>

fun opt_truthy :: "string option \<Rightarrow> bool" where
  "opt_truthy None = False"
| "opt_truthy (Some s) = (s \<noteq> [])"

definition ascii_lower :: "char \<Rightarrow> char" where
  "ascii_lower c =
     (let n = (of_char c :: nat) in if 65 \<le> n \<and> n \<le> 90 then char_of (n + 32) else c)"

text \<open>\<open>String.prototype.toLowerCase\<close> on the characters a \<open>char\<close> can hold,
  read as the code points U+0000 to U+00FF: the capitals \<open>A-Z\<close> and the Latin-1
  capitals U+00C0 to U+00DE other than U+00D7 move up by 32; every other code
  point of the range is its own lower case.\<close>

definition js_lower_char :: "char \<Rightarrow> char" where
  "js_lower_char c =
     (let n = (of_char c :: nat) in
      if (65 \<le> n \<and> n \<le> 90) \<or> (192 \<le> n \<and> n \<le> 222 \<and> n \<noteq> 215) then char_of (n + 32) else c)"

definition js_to_lower :: "string \<Rightarrow> string" where
  "js_to_lower s = map js_lower_char s"

definition is_hex_digit :: "char \<Rightarrow> bool" where
  "is_hex_digit c \<longleftrightarrow>
     (let n = (of_char c :: nat) in
      (48 \<le> n \<and> n \<le> 57) \<or> (97 \<le> n \<and> n \<le> 102) \<or> (65 \<le> n \<and> n \<le> 70))"

text \<open>\<open>mongoose.Types.ObjectId.isValid\<close> on a string: 24 hexadecimal digits.\<close>

definition is_valid_oid :: "string \<Rightarrow> bool" where
  "is_valid_oid s \<longleftrightarrow> length s = 24 \<and> list_all is_hex_digit s"

text \<open>Casting a valid string to an ObjectId and printing it back gives the
  lower-case hexadecimal form.\<close>

definition oid_canon :: "string \<Rightarrow> oid" where
  "oid_canon s = map ascii_lower s"

subsection \<open>Arrays\<close>

text \<open>\<open>Array.prototype.findIndex\<close>: the first index whose element satisfies the
  predicate, or \<open>-1\<close>.\<close>

fun find_index_js :: "('a \<Rightarrow> bool) \<Rightarrow> 'a list \<Rightarrow> int" where
  "find_index_js p [] = -1"
| "find_index_js p (x # xs) =
     (if p x then 0 else (let i = find_index_js p xs in if i = -1 then -1 else i + 1))"

text \<open>
  The chat pages update a contact list by
  \<^verbatim>\<open>const idx = prev.findIndex(pred); if (idx === -1) return prev;
  return [f(prev[idx]), ...prev.slice(0, idx), ...prev.slice(idx + 1)];\<close>
\<close>

definition bump_front :: "('a \<Rightarrow> bool) \<Rightarrow> ('a \<Rightarrow> 'a) \<Rightarrow> 'a list \<Rightarrow> 'a list" where
  "bump_front p f xs =
     (let idx = find_index_js p xs in
      if idx = -1 then xs
      else f (xs ! nat idx) # take (nat idx) xs @ drop (nat idx + 1) xs)"

text \<open>\<open>s.includes(t)\<close>: \<open>t\<close> occurs in \<open>s\<close> at some position.\<close>

definition js_includes :: "string \<Rightarrow> string \<Rightarrow> bool" where
  "js_includes s t = list_ex (\<lambda>i. take (length t) (drop i s) = t) [0..<Suc (length s)]"

text \<open>\<open>s.split(c)\<close> for a one-character separator.\<close>

fun js_split :: "char \<Rightarrow> string \<Rightarrow> string list" where
  "js_split c [] = [[]]"
| "js_split c (x # xs) =
     (if x = c then [] # js_split c xs
      else (case js_split c xs of y # ys \<Rightarrow> (x # y) # ys | [] \<Rightarrow> [[x]]))"

text \<open>\<open>Array.from(new Set(xs))\<close>: duplicates removed, first occurrences kept in order.\<close>

definition dedup_first :: "'a list \<Rightarrow> 'a list" where
  "dedup_first xs = rev (remdups (rev xs))"

subsection \<open>Facts about the helpers\<close>

text \<open>\<open>findIndex\<close> is the length of the longest prefix of non-matching elements
  when a match exists.\<close>

lemma find_index_js_eq:
  "find_index_js p xs =
     (if \<exists>x\<in>set xs. p x then int (length (takeWhile (\<lambda>x. \<not> p x) xs)) else -1)"
  by (induction xs) (auto simp: Let_def)

lemma length_takeWhile_not_less:
  "\<exists>x\<in>set xs. p x \<Longrightarrow> length (takeWhile (\<lambda>x. \<not> p x) xs) < length xs"
  by (induction xs) auto

lemma find_index_js_none: "find_index_js p xs = -1 \<longleftrightarrow> \<not> (\<exists>x\<in>set xs. p x)"
  by (simp add: find_index_js_eq)

lemma bump_front_absent [simp]: "\<not> (\<exists>x\<in>set xs. p x) \<Longrightarrow> bump_front p f xs = xs"
  by (simp add: bump_front_def find_index_js_eq)

lemma bump_front_present:
  assumes "\<exists>x\<in>set xs. p x"
  obtains i where "i < length xs" and "p (xs ! i)" and "\<forall>j<i. \<not> p (xs ! j)"
    and "bump_front p f xs = f (xs ! i) # take i xs @ drop (Suc i) xs"
proof
  let ?i = "length (takeWhile (\<lambda>x. \<not> p x) xs)"
  show "?i < length xs" using assms by (simp add: length_takeWhile_not_less)
  show "p (xs ! ?i)" using assms nth_length_takeWhile [of "\<lambda>x. \<not> p x" xs] 
    by (simp add: length_takeWhile_not_less)
  show "\<forall>j<?i. \<not> p (xs ! j)"
    by (metis (mono_tags, lifting) nth_mem set_takeWhileD takeWhile_nth)
  show "bump_front p f xs = f (xs ! ?i) # take ?i xs @ drop (Suc ?i) xs"
    using assms by (simp add: bump_front_def find_index_js_eq)
qed

text \<open>The list without position \<open>i\<close>, put back together, is the original list
  with \<open>i\<close> removed: the multiset of the bumped list replaces one element.\<close>

lemma mset_take_drop_Suc:
  assumes "i < length xs"
  shows "mset (take i xs @ drop (Suc i) xs) = mset xs - {#xs ! i#}"
proof -
  have "mset xs = mset (take i xs @ xs ! i # drop (Suc i) xs)"
    using assms by (simp add: id_take_nth_drop [symmetric])
  also have "\<dots> = add_mset (xs ! i) (mset (take i xs @ drop (Suc i) xs))"
    by simp
  finally show ?thesis by simp
qed

lemma length_bump_front [simp]: "length (bump_front p f xs) = length xs"
proof (cases "\<exists>x\<in>set xs. p x")
  case True
  then obtain i where "i < length xs"
    and "bump_front p f xs = f (xs ! i) # take i xs @ drop (Suc i) xs"
    by (rule bump_front_present)
  then show ?thesis by simp
qed simp

text \<open>When the update keeps the key the list is searched by, the bumped list holds
  the same keys with the same multiplicities: moving an entry to the front neither
  loses nor duplicates a contact.\<close>

lemma mset_map_bump_front:
  assumes "\<And>x. k (f x) = k x"
  shows "mset (map k (bump_front p f xs)) = mset (map k xs)"
proof (cases "\<exists>x\<in>set xs. p x")
  case True
  then obtain i where i: "i < length xs"
    and eq: "bump_front p f xs = f (xs ! i) # take i xs @ drop (Suc i) xs"
    by (rule bump_front_present)
  have "mset (map k (bump_front p f xs)) =
      add_mset (k (xs ! i)) (image_mset k (mset (take i xs @ drop (Suc i) xs)))"
    using eq assms by (simp add: mset_map [symmetric] del: mset_map)
  also have "\<dots> = add_mset (k (xs ! i)) (image_mset k (mset xs - {#xs ! i#}))"
    unfolding mset_take_drop_Suc [OF i] ..
  also have "\<dots> = image_mset k (mset xs)"
    using i by (simp add: image_mset_Diff insert_DiffM)
  finally show ?thesis by simp
qed simp

lemma hd_bump_front:
  assumes "\<exists>x\<in>set xs. p x"
  shows "\<exists>i<length xs. p (xs ! i) \<and> (\<forall>j<i. \<not> p (xs ! j)) \<and> hd (bump_front p f xs) = f (xs ! i)"
  using bump_front_present [OF assms, of f] by (metis list.sel(1))

text \<open>On a list with distinct keys, bumping the entry with a present key puts the
  updated entry first and keeps the others in their order.\<close>

lemma bump_front_key:
  assumes "x \<in> set xs" and "distinct (map k xs)"
  shows "bump_front (\<lambda>p. k p = k x) f xs = f x # filter (\<lambda>p. k p \<noteq> k x) xs"
proof -
  obtain i where i: "i < length xs" and ki: "k (xs ! i) = k x"
    and eq: "bump_front (\<lambda>p. k p = k x) f xs = f (xs ! i) # take i xs @ drop (Suc i) xs"
    using bump_front_present [of xs "\<lambda>p. k p = k x" f] assms(1) by blast
  have xi: "xs ! i = x"
    using assms ki i by (metis distinct_map inj_on_eq_iff nth_mem)
  have split: "xs = take i xs @ x # drop (Suc i) xs"
    using i xi by (metis id_take_nth_drop)
  have "distinct (map k (take i xs @ x # drop (Suc i) xs))"
    using assms(2) split by simp
  then have "\<forall>p\<in>set (take i xs) \<union> set (drop (Suc i) xs). k p \<noteq> k x"
    by (auto simp: image_iff)
  then have "filter (\<lambda>p. k p \<noteq> k x) (take i xs @ x # drop (Suc i) xs) = take i xs @ drop (Suc i) xs"
    by simp
  moreover have "filter (\<lambda>p. k p \<noteq> k x) xs = filter (\<lambda>p. k p \<noteq> k x) (take i xs @ x # drop (Suc i) xs)"
    using split by (rule arg_cong)
  ultimately show ?thesis using eq xi by simp
qed

lemma filter_eq_distinct: "distinct xs \<Longrightarrow> x \<in> set xs \<Longrightarrow> filter (\<lambda>y. x = y) xs = [x]"
  by (induction xs) (auto simp: filter_empty_conv)

text \<open>Intervals of \<open>upt\<close>: a filter by bounds and a prefix are again intervals.\<close>

lemma filter_upt_interval: "filter (\<lambda>p. l \<le> p \<and> p \<le> h) [i..<j] = [max i l..<min j (Suc h)]"
proof (induction j)
  case (Suc j)
  show ?case
  proof (cases "i \<le> j \<and> l \<le> j \<and> j \<le> h")
    case True
    then have "min (Suc j) (Suc h) = Suc (min j (Suc h))" and "max i l \<le> min j (Suc h)" by auto
    then show ?thesis using Suc True by simp
  next
    case False
    then have "[max i l..<min (Suc j) (Suc h)] = [max i l..<min j (Suc h)]"
      by (cases "min (Suc j) (Suc h) = min j (Suc h)") (auto simp: min_def max_def)
    then show ?thesis using Suc False by auto
  qed
qed simp

lemma take_upt_min: "take m [i..<n] = [i..<min n (i + m)]"
  by (cases "i + m \<le> n") (auto simp: min_def)

lemma all_set_dropWhile: "(\<forall>x\<in>set (dropWhile P s). P x) \<longleftrightarrow> (\<forall>x\<in>set s. P x)"
  by (induction s) auto

lemma distinct_mset_sub:
  assumes sub: "mset xs \<subseteq># mset ys" and d: "distinct ys"
  shows "distinct xs"
proof -
  obtain C where "mset ys = mset xs + C" using sub by (auto simp: subset_mset.le_iff_add)
  moreover obtain zs where "mset zs = C" using ex_mset by blast
  ultimately have "mset ys = mset (xs @ zs)" by simp
  then have "distinct (xs @ zs)" using d mset_eq_imp_distinct_iff by blast
  then show ?thesis by simp
qed

lemma js_trim_Nil_iff: "js_trim s = [] \<longleftrightarrow> (\<forall>c\<in>set s. js_is_ws c)"
  by (simp add: js_trim_def all_set_dropWhile)

lemma opt_truthy_iff: "opt_truthy v \<longleftrightarrow> (\<exists>s. v = Some s \<and> s \<noteq> [])"
  by (cases v) auto

lemma length_js_to_lower [simp]: "length (js_to_lower s) = length s"
  by (simp add: js_to_lower_def)

lemma find_append_None: "find P xs = None \<Longrightarrow> find P (xs @ ys) = find P ys"
  by (induction xs) (auto split: if_splits)

lemma find_key_distinct:
  "x \<in> set xs \<Longrightarrow> distinct (map k xs) \<Longrightarrow> find (\<lambda>y. k y = k x) xs = Some x"
  by (induction xs) (auto simp: image_iff)

lemma find_map_eq: "find P (map f xs) = map_option f (find (\<lambda>x. P (f x)) xs)"
  by (induction xs) auto

lemmas [js_simps] = js_is_ws_def js_trim_def ascii_lower_def js_lower_char_def js_to_lower_def
  is_hex_digit_def is_valid_oid_def oid_canon_def bump_front_def

end
