(* ===== verification/Tokens.thy ===== *)
theory Tokens
  imports Prelude
begin

text \<open>
  Session tokens. The backend signs and verifies JSON Web Tokens with the
  \<open>jsonwebtoken\<close> library; that library is not part of the repository, so its
  \<open>sign\<close> and \<open>verify\<close> are modelled from their documented behaviour: a token is
  a payload, the key it was signed with (an ideal MAC: a token verifies under a key
  exactly when it was signed with that key) and an expiry time in seconds. A token
  travels as a string; which strings decode to which tokens is the parameter
  \<open>dec :: jwt_codec\<close> (base64 and JSON decoding), so that the model makes no
  assumption about the encoding.

  The issuing side is modelled from the source: \<open>login\<close> and \<open>googleRegister\<close>
  of \<open>controllers/auth.controller.js\<close> and \<open>generateAuthToken\<close> of
  \<open>models/Caretaker.model.js\<close>, each with its fallback secret and lifetime. The
  configuration record distinguishes \<open>JWT_SECRET\<close> as seen when
  \<open>auth.controller.js\<close> is evaluated (module load, before \<open>dotenv.config()\<close>
  in \<open>server.js\<close> runs, since ES-module imports are evaluated first) from the
  value seen at request time.
\<close>

record jwt_payload =
  pl_id :: "oid option"     \<comment> \<open>the \<open>id\<close> claim\<close>
  pl__id :: "oid option"    \<comment> \<open>the \<open>_id\<close> claim\<close>

record jwt =
  jwt_body :: jwt_payload
  jwt_key :: string         \<comment> \<open>the secret the token was signed with\<close>
  jwt_exp :: nat            \<comment> \<open>the \<open>exp\<close> claim, seconds\<close>

type_synonym jwt_codec = "string \<rightharpoonup> jwt"

datatype jwt_error = JwtMissing | JwtMalformed | SecretMissing | InvalidSignature | TokenExpired

text \<open>\<open>jwt.verify(token, secret)\<close>, in the order of its checks; the library reports a
  token as expired when the clock has reached \<open>exp\<close>.\<close>

definition jwt_verify :: "jwt_codec \<Rightarrow> string option \<Rightarrow> nat \<Rightarrow> string \<Rightarrow> jwt_error + jwt_payload" where
  "jwt_verify dec secret now s =
     (if s = [] then Inl JwtMissing
      else case dec s of
        None \<Rightarrow> Inl JwtMalformed
      | Some t \<Rightarrow>
          (if \<not> opt_truthy secret then Inl SecretMissing
           else if secret \<noteq> Some (jwt_key t) then Inl InvalidSignature
           else if jwt_exp t \<le> now then Inl TokenExpired
           else Inr (jwt_body t)))"

text \<open>\<open>jwt.sign(payload, key, { expiresIn })\<close> at time \<open>now\<close>.\<close>

definition jwt_sign :: "jwt_payload \<Rightarrow> string \<Rightarrow> nat \<Rightarrow> nat \<Rightarrow> jwt" where
  "jwt_sign p key lifetime now = \<lparr>jwt_body = p, jwt_key = key, jwt_exp = now + lifetime\<rparr>"

record config =
  env_load :: "string option"  \<comment> \<open>\<open>process.env.JWT_SECRET\<close> when auth.controller.js is evaluated\<close>
  env_run :: "string option"   \<comment> \<open>\<open>process.env.JWT_SECRET\<close> at request time\<close>

text \<open>JavaScript's \<open>a || b\<close> on an optional string.\<close>

definition js_or_str :: "string option \<Rightarrow> string \<Rightarrow> string" where
  "js_or_str v d = (case v of Some s \<Rightarrow> if s \<noteq> [] then s else d | None \<Rightarrow> d)"

definition day_secs :: nat where "day_secs = 86400"

text \<open>\<open>const JWT_SECRET = process.env.JWT_SECRET || "mysecretdevkey"\<close>, a module
  constant of auth.controller.js.\<close>

definition user_sign_key :: "config \<Rightarrow> string" where
  "user_sign_key cfg = js_or_str (env_load cfg) ''mysecretdevkey''"

text \<open>\<open>login\<close>: \<open>jwt.sign({ id: user._id }, JWT_SECRET, { expiresIn: "1d" })\<close>.\<close>

definition login_token :: "config \<Rightarrow> oid \<Rightarrow> nat \<Rightarrow> jwt" where
  "login_token cfg uid now =
     jwt_sign \<lparr>pl_id = Some uid, pl__id = None\<rparr> (user_sign_key cfg) day_secs now"

text \<open>\<open>googleRegister\<close>: the same claim and key, \<open>expiresIn: "7d"\<close>.\<close>

definition google_token :: "config \<Rightarrow> oid \<Rightarrow> nat \<Rightarrow> jwt" where
  "google_token cfg uid now =
     jwt_sign \<lparr>pl_id = Some uid, pl__id = None\<rparr> (user_sign_key cfg) (7 * day_secs) now"

text \<open>\<open>generateAuthToken\<close>: the secret is read at call time, with its own fallback.\<close>

definition caretaker_token :: "config \<Rightarrow> oid \<Rightarrow> nat \<Rightarrow> jwt" where
  "caretaker_token cfg cid now =
     jwt_sign \<lparr>pl_id = Some cid, pl__id = None\<rparr> (js_or_str (env_run cfg) ''changeme'')
       (7 * day_secs) now"

subsection \<open>Facts\<close>

lemma jwt_verify_ok_iff:
  "jwt_verify dec secret now s = Inr p \<longleftrightarrow>
     (\<exists>t. s \<noteq> [] \<and> dec s = Some t \<and> secret = Some (jwt_key t) \<and> jwt_key t \<noteq> [] \<and>
          now < jwt_exp t \<and> p = jwt_body t)"
  by (auto simp: jwt_verify_def split: option.splits)

lemma jwt_verify_Nil [simp]: "jwt_verify dec secret now [] = Inl JwtMissing"
  by (simp add: jwt_verify_def)

lemma jwt_verify_no_secret: "\<not> opt_truthy secret \<Longrightarrow> \<exists>e. jwt_verify dec secret now s = Inl e"
  by (auto simp: jwt_verify_def split: option.splits)

lemma jwt_verify_no_secret_Inr:
  "\<not> opt_truthy secret \<Longrightarrow> jwt_verify dec secret now s \<noteq> Inr p"
  by (auto simp: jwt_verify_def split: option.splits)

lemma js_or_str_nonempty: "d \<noteq> [] \<Longrightarrow> js_or_str v d \<noteq> []"
  by (simp add: js_or_str_def split: option.splits)

lemma user_sign_key_nonempty: "user_sign_key cfg \<noteq> []"
  by (simp add: user_sign_key_def js_or_str_nonempty)

lemmas token_defs = jwt_sign_def login_token_def google_token_def caretaker_token_def
  user_sign_key_def js_or_str_def day_secs_def

end
