(* ===== verification/Gateway.thy ===== *)
theory Gateway
  imports Tokens
begin

text \<open>
  The connection gateway: the Socket.IO authentication middleware and connection
  handler of \<open>server.js\<close> (\<open>io.use\<close>, \<open>io.on("connection")\<close>), and the HTTP
  authentication middleware \<open>middleware/auth.js\<close> that guards the REST history
  routes. A handshake either fails with the middleware's error or yields the
  socket that the connection handler joins to the room named \<open>String(userId)\<close>.
\<close>

datatype handshake_error = NoTokenProvided | InvalidToken

text \<open>\<open>decoded.id || decoded._id\<close>\<close>

definition js_or_opt :: "string option \<Rightarrow> string option \<Rightarrow> string option" where
  "js_or_opt a b = (if opt_truthy a then a else b)"

text \<open>\<open>String(v)\<close> of an optional string: \<open>undefined\<close> prints as ''undefined''.\<close>

fun js_string :: "string option \<Rightarrow> string" where
  "js_string None = ''undefined''"
| "js_string (Some s) = s"

text \<open>The \<open>io.use\<close> middleware: \<open>socket.handshake.auth?.token\<close> is \<open>tok\<close>; on
  success the result is the value stored in \<open>socket.userId\<close>.\<close>

definition io_auth ::
  "config \<Rightarrow> jwt_codec \<Rightarrow> nat \<Rightarrow> string option \<Rightarrow> handshake_error + oid option" where
  "io_auth cfg dec now tok =
     (case tok of
        None \<Rightarrow> Inl NoTokenProvided
      | Some s \<Rightarrow>
          if s = [] then Inl NoTokenProvided
          else (case jwt_verify dec (env_run cfg) now s of
                  Inl _ \<Rightarrow> Inl InvalidToken
                | Inr p \<Rightarrow> Inr (js_or_opt (pl_id p) (pl__id p))))"

record socket =
  sock_id :: nat
  sock_user :: "oid option"   \<comment> \<open>\<open>socket.userId\<close>\<close>
  sock_rooms :: "room list"   \<comment> \<open>rooms joined, in join order\<close>

text \<open>The connection handler: \<open>socket.join(String(socket.userId))\<close>. A rejected
  handshake never reaches it.\<close>

definition io_handshake ::
  "config \<Rightarrow> jwt_codec \<Rightarrow> nat \<Rightarrow> nat \<Rightarrow> string option \<Rightarrow> handshake_error + socket" where
  "io_handshake cfg dec now sid tok =
     (case io_auth cfg dec now tok of
        Inl e \<Rightarrow> Inl e
      | Inr u \<Rightarrow> Inr \<lparr>sock_id = sid, sock_user = u, sock_rooms = [js_string u]\<rparr>)"

subsection \<open>The HTTP middleware\<close>

datatype principal = PUser oid | PCaretaker oid

fun principal_id :: "principal \<Rightarrow> oid" where
  "principal_id (PUser u) = u"
| "principal_id (PCaretaker c) = c"

record directory =
  dir_users :: "oid list"       \<comment> \<open>the \<open>_id\<close>s of the User collection\<close>
  dir_caretakers :: "oid list"  \<comment> \<open>the \<open>_id\<close>s of the Caretaker collection\<close>

text \<open>\<open>Model.findById(id)\<close>: \<open>undefined\<close> finds nothing, a string that is not an
  ObjectId raises a cast error (\<open>Inl ()\<close>), a valid one is compared in canonical
  form.\<close>

fun find_by_id :: "oid list \<Rightarrow> oid option \<Rightarrow> unit + oid option" where
  "find_by_id ids None = Inr None"
| "find_by_id ids (Some s) =
     (if \<not> is_valid_oid s then Inl ()
      else if oid_canon s \<in> set ids then Inr (Some (oid_canon s)) else Inr None)"

datatype rest_auth_error = RestNoToken | RestNotFound | RestInvalid

text \<open>\<open>authHeader.split(" ")[1]\<close> for a header that starts with \<open>"Bearer "\<close>.\<close>

definition bearer_token :: "string \<Rightarrow> string" where
  "bearer_token h = takeWhile (\<lambda>c. c \<noteq> CHR '' '') (drop 7 h)"

definition rest_auth ::
  "config \<Rightarrow> jwt_codec \<Rightarrow> nat \<Rightarrow> directory \<Rightarrow> string option \<Rightarrow> rest_auth_error + principal" where
  "rest_auth cfg dec now dir hdr =
     (case hdr of
        None \<Rightarrow> Inl RestNoToken
      | Some h \<Rightarrow>
          if take 7 h \<noteq> ''Bearer '' then Inl RestNoToken
          else (case jwt_verify dec (env_run cfg) now (bearer_token h) of
                  Inl _ \<Rightarrow> Inl RestInvalid
                | Inr p \<Rightarrow>
                    (case find_by_id (dir_users dir) (pl_id p) of
                       Inl _ \<Rightarrow> Inl RestInvalid
                     | Inr (Some u) \<Rightarrow> Inr (PUser u)
                     | Inr None \<Rightarrow>
                         (case find_by_id (dir_caretakers dir) (pl_id p) of
                            Inl _ \<Rightarrow> Inl RestInvalid
                          | Inr (Some c) \<Rightarrow> Inr (PCaretaker c)
                          | Inr None \<Rightarrow> Inl RestNotFound))))"

subsection \<open>Facts\<close>

lemma io_auth_ok_iff:
  "io_auth cfg dec now tok = Inr u \<longleftrightarrow>
     (\<exists>s p. tok = Some s \<and> jwt_verify dec (env_run cfg) now s = Inr p \<and>
            u = js_or_opt (pl_id p) (pl__id p))"
  by (auto simp: io_auth_def split: option.splits sum.splits)

lemma io_handshake_ok_iff:
  "io_handshake cfg dec now sid tok = Inr sk \<longleftrightarrow>
     (\<exists>u. io_auth cfg dec now tok = Inr u \<and>
          sk = \<lparr>sock_id = sid, sock_user = u, sock_rooms = [js_string u]\<rparr>)"
  by (auto simp: io_handshake_def split: sum.splits)

lemma io_handshake_rooms:
  "io_handshake cfg dec now sid tok = Inr sk \<Longrightarrow> sock_rooms sk = [js_string (sock_user sk)]"
  by (auto simp: io_handshake_ok_iff)

lemma io_handshake_id:
  "io_handshake cfg dec now sid tok = Inr sk \<Longrightarrow> sock_id sk = sid"
  by (auto simp: io_handshake_ok_iff)

end
