(* ===== verification/Store.thy ===== *)
theory Store
  imports Prelude
begin

text \<open>
  The message store: the Mongoose model \<open>models/Chat.model.js\<close> and what
  \<open>Chat.create\<close> does with a document. A chat record has the schema's fields, a
  store-assigned id (the ObjectId, modelled by a counter) and the \<open>createdAt\<close>
  timestamp. \<open>Chat.create\<close> casts the two ObjectId paths (a string that is not
  24 hex digits is a cast error; a valid one is stored in canonical lower-case
  form), checks \<open>required\<close> on every path (a missing value or the empty string
  fails) and the \<open>enum\<close> of \<open>receiverType\<close>, and reports every failing path
  in one validation error, in schema order; otherwise it inserts the record.
\<close>

record chat =
  chat_id :: nat
  chat_sender :: oid
  chat_receiver :: oid
  chat_receiverType :: string
  chat_message :: string
  chat_createdAt :: nat

datatype store_error = ValidationError "string list"

definition receiver_type_enum :: "string list" where
  "receiver_type_enum = [''user'', ''caretaker'', ''ai'', ''User'', ''Caretaker'', ''AI'']"

text \<open>The failing path of an ObjectId field, if any.\<close>

fun oid_path_error :: "string \<Rightarrow> string option \<Rightarrow> string list" where
  "oid_path_error path None = [path]"
| "oid_path_error path (Some s) = (if is_valid_oid s then [] else [path])"

fun string_path_error :: "string \<Rightarrow> string list \<Rightarrow> string option \<Rightarrow> string list" where
  "string_path_error path enum None = [path]"
| "string_path_error path enum (Some s) =
     (if s = [] \<or> (enum \<noteq> [] \<and> s \<notin> set enum) then [path] else [])"

definition chat_errors ::
  "string option \<Rightarrow> string option \<Rightarrow> string option \<Rightarrow> string option \<Rightarrow> string list" where
  "chat_errors sndr rcv rtype msg =
     oid_path_error ''sender'' sndr @ oid_path_error ''receiver'' rcv @
     string_path_error ''receiverType'' receiver_type_enum rtype @
     string_path_error ''message'' [] msg"

text \<open>\<open>Chat.create({sender, receiver, receiverType, message})\<close> with the next
  id \<open>cid\<close> at time \<open>now\<close>.\<close>

definition chat_create ::
  "nat \<Rightarrow> nat \<Rightarrow> string option \<Rightarrow> string option \<Rightarrow> string option \<Rightarrow> string option \<Rightarrow>
   store_error + chat" where
  "chat_create cid now sndr rcv rtype msg =
     (let errs = chat_errors sndr rcv rtype msg in
      if errs \<noteq> [] then Inl (ValidationError errs)
      else (case (sndr, rcv, rtype, msg) of
              (Some s, Some r, Some t, Some m) \<Rightarrow>
                Inr \<lparr>chat_id = cid, chat_sender = oid_canon s, chat_receiver = oid_canon r,
                     chat_receiverType = t, chat_message = m, chat_createdAt = now\<rparr>
            | _ \<Rightarrow> Inl (ValidationError errs)))"

text \<open>What the schema guarantees of every stored record.\<close>

definition chat_wf :: "chat \<Rightarrow> bool" where
  "chat_wf c \<longleftrightarrow>
     is_valid_oid (chat_sender c) \<and> oid_canon (chat_sender c) = chat_sender c \<and>
     is_valid_oid (chat_receiver c) \<and> oid_canon (chat_receiver c) = chat_receiver c \<and>
     chat_receiverType c \<in> set receiver_type_enum \<and> chat_message c \<noteq> []"

subsection \<open>Facts\<close>

lemma ascii_lower_idem [simp]: "ascii_lower (ascii_lower c) = ascii_lower c"
  by (simp add: ascii_lower_def Let_def)

lemma oid_canon_idem [simp]: "oid_canon (oid_canon s) = oid_canon s"
  by (simp add: oid_canon_def comp_def)

lemma is_hex_digit_lower: "is_hex_digit c \<Longrightarrow> is_hex_digit (ascii_lower c)"
  by (auto simp: is_hex_digit_def ascii_lower_def Let_def)

lemma is_valid_oid_canon: "is_valid_oid s \<Longrightarrow> is_valid_oid (oid_canon s)"
  by (auto simp: is_valid_oid_def oid_canon_def list_all_iff is_hex_digit_lower)

lemma chat_errors_Nil_iff:
  "chat_errors sndr rcv rtype msg = [] \<longleftrightarrow>
     (\<exists>s r t m. sndr = Some s \<and> rcv = Some r \<and> rtype = Some t \<and> msg = Some m \<and>
        is_valid_oid s \<and> is_valid_oid r \<and> t \<in> set receiver_type_enum \<and> m \<noteq> [])"
  by (cases sndr; cases rcv; cases rtype; cases msg)
    (auto simp: chat_errors_def receiver_type_enum_def)

lemma chat_create_ok_iff:
  "chat_create cid now sndr rcv rtype msg = Inr c \<longleftrightarrow>
     (\<exists>s r t m. sndr = Some s \<and> rcv = Some r \<and> rtype = Some t \<and> msg = Some m \<and>
        is_valid_oid s \<and> is_valid_oid r \<and> t \<in> set receiver_type_enum \<and> m \<noteq> [] \<and>
        c = \<lparr>chat_id = cid, chat_sender = oid_canon s, chat_receiver = oid_canon r,
             chat_receiverType = t, chat_message = m, chat_createdAt = now\<rparr>)"
proof (cases "chat_errors sndr rcv rtype msg = []")
  case True
  then show ?thesis by (auto simp: chat_create_def chat_errors_Nil_iff)
next
  case False
  then show ?thesis by (auto simp: chat_create_def chat_errors_Nil_iff)
qed

lemma chat_create_wf: "chat_create cid now sndr rcv rtype msg = Inr c \<Longrightarrow> chat_wf c"
  by (auto simp: chat_create_ok_iff chat_wf_def is_valid_oid_canon)

lemma chat_create_fields:
  "chat_create cid now sndr rcv rtype msg = Inr c \<Longrightarrow>
     chat_id c = cid \<and> chat_createdAt c = now \<and> msg = Some (chat_message c) \<and>
     rtype = Some (chat_receiverType c)"
  by (auto simp: chat_create_ok_iff)

lemma chat_create_error:
  "chat_errors sndr rcv rtype msg \<noteq> [] \<Longrightarrow>
     chat_create cid now sndr rcv rtype msg = Inl (ValidationError (chat_errors sndr rcv rtype msg))"
  by (simp add: chat_create_def)

end
