(* ===== verification/History.thy ===== *)
theory History
  imports Gateway Store "HOL-Library.Sublist"
begin

text \<open>
  The REST history and directory service: the handlers of
  \<open>controllers/chat.controller.js\<close> (\<open>getUsers\<close>, \<open>getMessages\<close>,
  \<open>sendMessage\<close>) and the interaction counters of \<open>routes/chat.route.js\<close> and
  \<open>routes/caretaker.chatRoutes.js\<close>. Each handler reads the message store, a
  list of chat records in insertion order (the order in which MongoDB returns
  documents of an unsorted query), for the principal the HTTP middleware
  authenticated. A failure is an HTTP error value: 400 for a rejected body, 500 for
  a store error (a cast error included).

  Time is in seconds of local time; \<open>today.setHours(0, 0, 0, 0)\<close> is the start
  of the current day, \<open>now - now mod 86400\<close>.
\<close>

datatype http_error = BadRequest string | ServerError

subsection \<open>Queries\<close>

text \<open>\<open>User.find({ _id: { $ne: excludeId } })\<close>: every user but the caller.\<close>

definition getUsers :: "directory \<Rightarrow> principal \<Rightarrow> oid list" where
  "getUsers dir me = filter (\<lambda>u. u \<noteq> principal_id me) (dir_users dir)"

text \<open>Does the chat belong to the conversation between \<open>a\<close> and \<open>b\<close>?\<close>

definition between :: "oid \<Rightarrow> oid \<Rightarrow> chat \<Rightarrow> bool" where
  "between a b c \<longleftrightarrow>
     (chat_sender c = a \<and> chat_receiver c = b) \<or> (chat_sender c = b \<and> chat_receiver c = a)"

text \<open>\<open>getMessages\<close>: \<open>receiverId\<close> is a URL parameter, cast to an ObjectId by the
  query; a string that is not an ObjectId makes the query throw.\<close>

definition getMessages :: "chat list \<Rightarrow> principal \<Rightarrow> string \<Rightarrow> http_error + chat list" where
  "getMessages chats me receiverId =
     (if \<not> is_valid_oid receiverId then Inl ServerError
      else Inr (filter (between (principal_id me) (oid_canon receiverId)) chats))"

record send_body =
  b_receiverId :: "string option"
  b_message :: "string option"
  b_receiverType :: "string option"

text \<open>\<open>sendMessage\<close> (\<open>POST /api/chat/send\<close>): the truthiness checks, then
  \<open>Chats.create\<close> with the body's \<open>receiverType\<close> as given.\<close>

definition rest_sendMessage :: "nat \<Rightarrow> nat \<Rightarrow> principal \<Rightarrow> send_body \<Rightarrow> http_error + chat" where
  "rest_sendMessage cid now me b =
     (if \<not> opt_truthy (b_receiverId b) \<or> \<not> opt_truthy (b_message b) \<or> \<not> opt_truthy (b_receiverType b)
      then Inl (BadRequest ''receiverId, message, and receiverType are required'')
      else (case chat_create cid now (Some (principal_id me)) (b_receiverId b)
                   (b_receiverType b) (b_message b) of
              Inl _ \<Rightarrow> Inl ServerError
            | Inr c \<Rightarrow> Inr c))"

subsection \<open>Interaction counters\<close>

definition day_start :: "nat \<Rightarrow> nat" where
  "day_start now = now - now mod 86400"

definition involves :: "oid \<Rightarrow> chat \<Rightarrow> bool" where
  "involves me c \<longleftrightarrow> chat_sender c = me \<or> chat_receiver c = me"

text \<open>\<open>GET /api/chat/interactions\<close>: \<open>countDocuments\<close> of the caller's messages,
  all of them and those created since the start of the day.\<close>

definition interactions_total :: "chat list \<Rightarrow> principal \<Rightarrow> nat" where
  "interactions_total chats me = length (filter (involves (principal_id me)) chats)"

definition interactions_today :: "chat list \<Rightarrow> nat \<Rightarrow> principal \<Rightarrow> nat" where
  "interactions_today chats now me =
     length (filter (\<lambda>c. involves (principal_id me) c \<and> day_start now \<le> chat_createdAt c) chats)"

text \<open>The caretaker routes project each matching message to ``the other side''
  (\<open>$cond: [{ $eq: ["$sender", me] }, "$receiver", "$sender"]\<close>) and group by it.
  \<open>$group\<close> returns the groups in no specified order; the model lists them in order
  of first occurrence, and the properties below are stated about the set.\<close>

definition partner :: "oid \<Rightarrow> chat \<Rightarrow> oid" where
  "partner me c = (if chat_sender c = me then chat_receiver c else chat_sender c)"

definition partners :: "oid \<Rightarrow> chat list \<Rightarrow> oid list" where
  "partners me chats = remdups (map (partner me) (filter (involves me) chats))"

definition caretaker_interactions :: "chat list \<Rightarrow> principal \<Rightarrow> nat" where
  "caretaker_interactions chats me = length (partners (principal_id me) chats)"

definition today_chats :: "chat list \<Rightarrow> nat \<Rightarrow> chat list" where
  "today_chats chats now = filter (\<lambda>c. day_start now \<le> chat_createdAt c) chats"

definition caretaker_interactions_today :: "chat list \<Rightarrow> nat \<Rightarrow> principal \<Rightarrow> nat" where
  "caretaker_interactions_today chats now me =
     length (partners (principal_id me) (today_chats chats now))"

definition caretaker_today_users :: "chat list \<Rightarrow> nat \<Rightarrow> principal \<Rightarrow> oid list" where
  "caretaker_today_users chats now me = partners (principal_id me) (today_chats chats now)"

text \<open>\<open>GET /api/caretaker/chat/messages/count\<close>: messages the caller sent.\<close>

definition caretaker_message_count :: "chat list \<Rightarrow> principal \<Rightarrow> nat" where
  "caretaker_message_count chats me = length (filter (\<lambda>c. chat_sender c = principal_id me) chats)"

subsection \<open>Facts\<close>

lemma set_partners:
  "set (partners me chats) = {y. \<exists>c\<in>set chats. between me y c}"
  by (auto simp: partners_def partner_def involves_def between_def)

lemma partners_today_subset:
  "set (partners me (today_chats chats now)) \<subseteq> set (partners me chats)"
  by (auto simp: partners_def today_chats_def)

lemma length_partners: "length (partners me chats) = card (set (partners me chats))"
  by (simp add: partners_def distinct_card [symmetric])

lemma between_doubleton:
  "between a b c \<longleftrightarrow> {chat_sender c, chat_receiver c} = {a, b}"
  by (auto simp: between_def doubleton_eq_iff)

lemma length_partners_le: "length (partners me chats) \<le> length (filter (involves me) chats)"
  unfolding partners_def by (metis length_map length_remdups_leq)

lemma rest_sendMessage_ok_iff:
  "rest_sendMessage cid now me b = Inr c \<longleftrightarrow>
     opt_truthy (b_receiverId b) \<and> opt_truthy (b_message b) \<and> opt_truthy (b_receiverType b) \<and>
     chat_create cid now (Some (principal_id me)) (b_receiverId b) (b_receiverType b) (b_message b) = Inr c"
  by (auto simp: rest_sendMessage_def split: sum.splits)

end
