(* ===== verification/Relay.thy ===== *)
theory Relay
  imports History
begin

text \<open>
  The relay core: the \<open>send_message\<close> handler of \<open>server.js\<close> and the
  single-process state it runs in. The handler is an \<open>async\<close> function that
  suspends at \<open>await Chat.create(...)\<close>, so one send is three steps that other
  events may interleave with:
  \<^enum> \<open>ESend\<close>: the synchronous part. The guards of the handler, the lower-casing
    of \<open>receiverType\<close>, and the construction of the document: Mongoose assigns
    the ObjectId and the \<open>createdAt\<close> timestamp and validates before it sends
    the insert, so a document that fails validation is dropped here (the error
    is caught and logged). A valid one becomes a pending write.
  \<^enum> \<open>EPersist i\<close>: the store acknowledges the \<open>i\<close>-th pending write, which is
    appended to the store (the store's order is the order of acknowledgement);
    \<open>EDbFail i\<close>: the write fails (store unavailable) and is logged.
  \<^enum> \<open>EAck i\<close>: the handler resumes and runs
    \<open>io.to(String(receiver)).emit(...)\<close> and \<open>io.to(String(socket.userId)).emit(...)\<close>
    on the sockets connected at that moment.
  Connections come and go with \<open>EConnect\<close> (the gateway's handshake) and
  \<open>EDisconnect\<close>, the clock advances with \<open>ETick\<close>, and \<open>ERestSend\<close> is the
  REST \<open>sendMessage\<close> writing to the same store. Which pending write completes
  next is the scheduler's choice, given by the index.
\<close>

record send_payload =
  p_receiver :: "string option"
  p_receiverType :: "string option"
  p_message :: "string option"

text \<open>A handler suspended at its \<open>await\<close>, with the values its continuation uses.\<close>

record pending =
  pd_sock :: nat
  pd_user :: "oid option"   \<comment> \<open>\<open>socket.userId\<close>\<close>
  pd_room :: room           \<comment> \<open>\<open>String(receiver)\<close>\<close>
  pd_chat :: chat

record relay =
  r_socks :: "socket list"        \<comment> \<open>connected sockets, in connection order\<close>
  r_chats :: "chat list"          \<comment> \<open>the message store, in insertion order\<close>
  r_next :: nat                   \<comment> \<open>the next ObjectId\<close>
  r_now :: nat                    \<comment> \<open>the clock, seconds\<close>
  r_inflight :: "pending list"    \<comment> \<open>writes sent, not yet acknowledged\<close>
  r_acked :: "pending list"       \<comment> \<open>writes acknowledged, continuation not yet run\<close>
  r_log :: "(nat \<times> chat) list"   \<comment> \<open>\<open>receive_message\<close> events, by socket id\<close>
  r_errors :: "store_error list"  \<comment> \<open>errors caught and logged by the handler\<close>

definition relay_init :: "nat \<Rightarrow> relay" where
  "relay_init t = \<lparr>r_socks = [], r_chats = [], r_next = 0, r_now = t, r_inflight = [],
     r_acked = [], r_log = [], r_errors = []\<rparr>"

datatype event =
    EConnect nat "string option"   \<comment> \<open>socket id, \<open>handshake.auth.token\<close>\<close>
  | EDisconnect nat
  | ESend nat send_payload         \<comment> \<open>a \<open>send_message\<close> event on a socket\<close>
  | EPersist nat
  | EDbFail nat
  | EAck nat
  | ERestSend "string option" send_body  \<comment> \<open>Authorization header, body\<close>
  | ETick

definition remove_at :: "nat \<Rightarrow> 'a list \<Rightarrow> 'a list" where
  "remove_at i xs = take i xs @ drop (Suc i) xs"

text \<open>\<open>io.to(room).emit("receive_message", c)\<close>: one event for every socket in the
  room.\<close>

definition io_emit :: "socket list \<Rightarrow> room \<Rightarrow> chat \<Rightarrow> (nat \<times> chat) list" where
  "io_emit socks rm c = map (\<lambda>sk. (sock_id sk, c)) (filter (\<lambda>sk. rm \<in> set (sock_rooms sk)) socks)"

text \<open>The guards: \<open>if (!receiver || !message?.trim()) return;\<close> and
  \<open>if (!mongoose.Types.ObjectId.isValid(receiver)) return;\<close>.\<close>

datatype drop_reason = DropMissing | DropInvalidReceiver

definition send_guard :: "send_payload \<Rightarrow> drop_reason + (string \<times> string)" where
  "send_guard p =
     (case (p_receiver p, p_message p) of
        (Some r, Some m) \<Rightarrow>
          if r = [] \<or> js_trim m = [] then Inl DropMissing
          else if \<not> is_valid_oid r then Inl DropInvalidReceiver
          else Inr (r, m)
      | _ \<Rightarrow> Inl DropMissing)"

text \<open>The synchronous part of the handler on socket \<open>sk\<close>.\<close>

definition on_send_message :: "relay \<Rightarrow> socket \<Rightarrow> send_payload \<Rightarrow> relay" where
  "on_send_message st sk p =
     (case send_guard p of
        Inl _ \<Rightarrow> st
      | Inr (r, m) \<Rightarrow>
          (case chat_create (r_next st) (r_now st) (sock_user sk) (Some r)
                  (map_option js_to_lower (p_receiverType p)) (Some m) of
             Inl e \<Rightarrow> st\<lparr>r_next := Suc (r_next st), r_errors := r_errors st @ [e]\<rparr>
           | Inr c \<Rightarrow>
               st\<lparr>r_next := Suc (r_next st),
                  r_inflight := r_inflight st @
                    [\<lparr>pd_sock = sock_id sk, pd_user = sock_user sk, pd_room = r, pd_chat = c\<rparr>]\<rparr>))"

definition db_persist :: "relay \<Rightarrow> nat \<Rightarrow> relay" where
  "db_persist st i =
     (let p = r_inflight st ! i in
      st\<lparr>r_inflight := remove_at i (r_inflight st), r_chats := r_chats st @ [pd_chat p],
         r_acked := r_acked st @ [p]\<rparr>)"

definition db_fail :: "relay \<Rightarrow> nat \<Rightarrow> relay" where
  "db_fail st i =
     st\<lparr>r_inflight := remove_at i (r_inflight st),
        r_errors := r_errors st @ [ValidationError []]\<rparr>"

text \<open>The continuation after \<open>await\<close>: two emits, to the receiver's room and to
  the sender's own room, on the sockets connected now.\<close>

definition deliver :: "relay \<Rightarrow> nat \<Rightarrow> relay" where
  "deliver st i =
     (let p = r_acked st ! i in
      st\<lparr>r_acked := remove_at i (r_acked st),
         r_log := r_log st @ io_emit (r_socks st) (pd_room p) (pd_chat p)
                           @ io_emit (r_socks st) (js_string (pd_user p)) (pd_chat p)\<rparr>)"

text \<open>One event. An event that does not apply (an unknown socket, an index out of
  range, a socket id already in use, a rejected handshake or request) leaves the
  state unchanged.\<close>

fun relay_step :: "config \<Rightarrow> jwt_codec \<Rightarrow> directory \<Rightarrow> relay \<Rightarrow> event \<Rightarrow> relay" where
  "relay_step cfg dec dir st (EConnect sid tok) =
     (if sid \<in> set (map sock_id (r_socks st)) then st
      else (case io_handshake cfg dec (r_now st) sid tok of
              Inl _ \<Rightarrow> st
            | Inr sk \<Rightarrow> st\<lparr>r_socks := r_socks st @ [sk]\<rparr>))"
| "relay_step cfg dec dir st (EDisconnect sid) =
     st\<lparr>r_socks := filter (\<lambda>sk. sock_id sk \<noteq> sid) (r_socks st)\<rparr>"
| "relay_step cfg dec dir st (ESend sid p) =
     (case find (\<lambda>sk. sock_id sk = sid) (r_socks st) of
        None \<Rightarrow> st
      | Some sk \<Rightarrow> on_send_message st sk p)"
| "relay_step cfg dec dir st (EPersist i) =
     (if i < length (r_inflight st) then db_persist st i else st)"
| "relay_step cfg dec dir st (EDbFail i) =
     (if i < length (r_inflight st) then db_fail st i else st)"
| "relay_step cfg dec dir st (EAck i) =
     (if i < length (r_acked st) then deliver st i else st)"
| "relay_step cfg dec dir st (ERestSend hdr b) =
     (case rest_auth cfg dec (r_now st) dir hdr of
        Inl _ \<Rightarrow> st
      | Inr me \<Rightarrow>
          (case rest_sendMessage (r_next st) (r_now st) me b of
             Inl _ \<Rightarrow> st\<lparr>r_next := Suc (r_next st)\<rparr>
           | Inr c \<Rightarrow> st\<lparr>r_next := Suc (r_next st), r_chats := r_chats st @ [c]\<rparr>))"
| "relay_step cfg dec dir st ETick = st\<lparr>r_now := Suc (r_now st)\<rparr>"

definition relay_run :: "config \<Rightarrow> jwt_codec \<Rightarrow> directory \<Rightarrow> relay \<Rightarrow> event list \<Rightarrow> relay" where
  "relay_run cfg dec dir st es = fold (\<lambda>e s. relay_step cfg dec dir s e) es st"

inductive reachable :: "config \<Rightarrow> jwt_codec \<Rightarrow> directory \<Rightarrow> relay \<Rightarrow> bool"
  for cfg dec dir where
  init: "reachable cfg dec dir (relay_init t)"
| step: "reachable cfg dec dir st \<Longrightarrow> reachable cfg dec dir (relay_step cfg dec dir st e)"

lemmas relay_defs = on_send_message_def db_persist_def db_fail_def deliver_def
  remove_at_def io_emit_def send_guard_def

end
