(* ===== verification/RelayInv.thy ===== *)
theory RelayInv
  imports Relay
begin

text \<open>
  The invariant of the relay state and its preservation by every event. It says
  that each connected socket has a distinct id and sits in exactly its own
  identity's room; that every record in the store or in flight is well formed
  (canonical ObjectIds, a \<open>receiverType\<close> of the schema's enum, a non-empty body),
  was created no later than now and has an id below the next one, and that ids are
  unique; and that nothing is delivered, or waits to be delivered, that is not in
  the store (the order \<open>Persisted \<rightarrow> Delivered\<close> of the relay's state machine).
\<close>

definition all_chats :: "relay \<Rightarrow> chat list" where
  "all_chats st = r_chats st @ map pd_chat (r_inflight st)"

definition chats_ok :: "chat list \<Rightarrow> nat \<Rightarrow> nat \<Rightarrow> bool" where
  "chats_ok cs n t \<longleftrightarrow>
     (\<forall>c\<in>set cs. chat_wf c \<and> chat_createdAt c \<le> t \<and> chat_id c < n) \<and> distinct (map chat_id cs)"

definition socks_ok :: "socket list \<Rightarrow> bool" where
  "socks_ok ss \<longleftrightarrow>
     distinct (map sock_id ss) \<and> (\<forall>sk\<in>set ss. sock_rooms sk = [js_string (sock_user sk)])"

definition socks_admitted :: "config \<Rightarrow> jwt_codec \<Rightarrow> relay \<Rightarrow> bool" where
  "socks_admitted cfg dec st \<longleftrightarrow>
     (\<forall>sk\<in>set (r_socks st). \<exists>t tok. t \<le> r_now st \<and> io_auth cfg dec t tok = Inr (sock_user sk))"

definition relay_inv :: "relay \<Rightarrow> bool" where
  "relay_inv st \<longleftrightarrow>
     socks_ok (r_socks st) \<and> chats_ok (all_chats st) (r_next st) (r_now st) \<and>
     (\<forall>p\<in>set (r_acked st). pd_chat p \<in> set (r_chats st)) \<and>
     (\<forall>e\<in>set (r_log st). snd e \<in> set (r_chats st))"

subsection \<open>Lemmas on the parts\<close>

lemma chats_ok_add:
  assumes "chats_ok cs n t" and "chat_create n t a b c d = Inr ch"
  shows "chats_ok (cs @ [ch]) (Suc n) t"
proof -
  from assms(2) have "chat_wf ch" by (rule chat_create_wf)
  moreover from assms(2) have "chat_id ch = n" and "chat_createdAt ch = t"
    by (simp_all add: chat_create_fields)
  ultimately show ?thesis using assms(1) by (auto simp: chats_ok_def)
qed

lemma chats_ok_mono: "chats_ok cs n t \<Longrightarrow> n \<le> n' \<Longrightarrow> t \<le> t' \<Longrightarrow> chats_ok cs n' t'"
  by (fastforce simp: chats_ok_def)

lemma chats_ok_sub: "chats_ok cs n t \<Longrightarrow> mset cs' \<subseteq># mset cs \<Longrightarrow> chats_ok cs' n t"
proof -
  assume ok: "chats_ok cs n t" and sub: "mset cs' \<subseteq># mset cs"
  from sub have "set cs' \<subseteq> set cs" by (metis set_mset_mono set_mset_mset)
  moreover have "distinct (map chat_id cs')"
  proof (rule distinct_mset_sub)
    show "mset (map chat_id cs') \<subseteq># mset (map chat_id cs)"
      using sub by (simp add: image_mset_subseteq_mono)
    show "distinct (map chat_id cs)" using ok by (simp add: chats_ok_def)
  qed
  ultimately show ?thesis using ok by (auto simp: chats_ok_def)
qed

lemma mset_remove_at: "i < length xs \<Longrightarrow> mset (remove_at i xs) = mset xs - {#xs ! i#}"
  unfolding remove_at_def by (rule mset_take_drop_Suc)

lemma set_remove_at: "set (remove_at i xs) \<subseteq> set xs"
  by (auto simp: remove_at_def dest: in_set_takeD in_set_dropD)

lemma snd_io_emit: "e \<in> set (io_emit ss rm c) \<Longrightarrow> snd e = c"
  by (auto simp: io_emit_def)

lemma all_chats_persist:
  assumes "i < length (r_inflight st)"
  shows "mset (all_chats (db_persist st i)) = mset (all_chats st)"
proof -
  let ?p = "r_inflight st ! i"
  have "mset (map pd_chat (remove_at i (r_inflight st))) =
      image_mset pd_chat (mset (r_inflight st) - {#?p#})"
    using assms by (simp add: mset_remove_at)
  moreover have "?p \<in># mset (r_inflight st)" using assms by simp
  ultimately show ?thesis
    by (simp add: all_chats_def db_persist_def Let_def image_mset_Diff)
qed

lemma all_chats_fail:
  assumes "i < length (r_inflight st)"
  shows "mset (all_chats (db_fail st i)) \<subseteq># mset (all_chats st)"
proof -
  have "mset (remove_at i (r_inflight st)) \<subseteq># mset (r_inflight st)"
    using assms by (simp add: mset_remove_at)
  then have "image_mset pd_chat (mset (remove_at i (r_inflight st))) \<subseteq>#
      image_mset pd_chat (mset (r_inflight st))"
    by (rule image_mset_subseteq_mono)
  then show ?thesis by (simp add: all_chats_def db_fail_def)
qed

subsection \<open>Each operation keeps the invariant\<close>

lemma on_send_message_inv:
  assumes inv: "relay_inv st"
  shows "relay_inv (on_send_message st sk p)"
proof (cases "send_guard p")
  case (Inr rm)
  obtain r m where rm: "rm = (r, m)" by fastforce
  let ?cc = "chat_create (r_next st) (r_now st) (sock_user sk) (Some r)
               (map_option js_to_lower (p_receiverType p)) (Some m)"
  show ?thesis
  proof (cases ?cc)
    case (Inl e)
    with Inr rm inv show ?thesis
      by (auto simp: on_send_message_def relay_inv_def all_chats_def intro: chats_ok_mono)
  next
    case created: (Inr c)
    from inv have "chats_ok (all_chats st @ [c]) (Suc (r_next st)) (r_now st)"
      using created by (auto simp: relay_inv_def intro: chats_ok_add)
    with Inr rm created inv show ?thesis
      by (auto simp: on_send_message_def relay_inv_def all_chats_def)
  qed
qed (use inv in \<open>simp add: on_send_message_def\<close>)

lemma db_persist_inv:
  assumes inv: "relay_inv st" and i: "i < length (r_inflight st)"
  shows "relay_inv (db_persist st i)"
proof -
  have "chats_ok (all_chats (db_persist st i)) (r_next st) (r_now st)"
    using inv all_chats_persist [OF i] by (auto simp: relay_inv_def intro: chats_ok_sub)
  with inv show ?thesis
    by (auto simp: relay_inv_def db_persist_def Let_def)
qed

lemma db_fail_inv:
  assumes inv: "relay_inv st" and i: "i < length (r_inflight st)"
  shows "relay_inv (db_fail st i)"
proof -
  have "chats_ok (all_chats (db_fail st i)) (r_next st) (r_now st)"
    using inv all_chats_fail [OF i] by (auto simp: relay_inv_def intro: chats_ok_sub)
  with inv show ?thesis by (auto simp: relay_inv_def db_fail_def)
qed

lemma deliver_inv:
  assumes inv: "relay_inv st" and i: "i < length (r_acked st)"
  shows "relay_inv (deliver st i)"
proof -
  have p: "pd_chat (r_acked st ! i) \<in> set (r_chats st)"
    using inv i by (auto simp: relay_inv_def)
  have "all_chats (deliver st i) = all_chats st"
    by (simp add: all_chats_def deliver_def Let_def)
  with inv p show ?thesis
    by (auto simp: relay_inv_def deliver_def Let_def dest: snd_io_emit
        subsetD [OF set_remove_at])
qed

lemma connect_inv:
  assumes inv: "relay_inv st" and fresh: "sid \<notin> set (map sock_id (r_socks st))"
    and hs: "io_handshake cfg dec (r_now st) sid tok = Inr sk"
  shows "relay_inv (st\<lparr>r_socks := r_socks st @ [sk]\<rparr>)"
  using inv fresh io_handshake_id [OF hs] io_handshake_rooms [OF hs]
  by (auto simp: relay_inv_def socks_ok_def all_chats_def)

lemma rest_send_inv:
  assumes inv: "relay_inv st" and ok: "rest_sendMessage (r_next st) (r_now st) me b = Inr c"
  shows "relay_inv (st\<lparr>r_next := Suc (r_next st), r_chats := r_chats st @ [c]\<rparr>)"
proof -
  from ok obtain a d e where
    cc: "chat_create (r_next st) (r_now st) a d e (b_message b) = Inr c"
    by (auto simp: rest_sendMessage_ok_iff)
  from inv have co: "chats_ok (all_chats st) (r_next st) (r_now st)" by (simp add: relay_inv_def)
  have "chats_ok (all_chats st @ [c]) (Suc (r_next st)) (r_now st)"
    by (rule chats_ok_add [OF co cc])
  moreover have "mset (r_chats st @ [c] @ map pd_chat (r_inflight st)) = mset (all_chats st @ [c])"
    by (simp add: all_chats_def)
  ultimately have "chats_ok (r_chats st @ [c] @ map pd_chat (r_inflight st)) (Suc (r_next st)) (r_now st)"
    by (metis chats_ok_sub subset_mset.order_refl)
  with inv show ?thesis by (auto simp: relay_inv_def all_chats_def)
qed

theorem relay_step_inv:
  assumes inv: "relay_inv st"
  shows "relay_inv (relay_step cfg dec dir st e)"
proof (cases e)
  case (EConnect sid tok)
  then show ?thesis using inv connect_inv
    by (auto split: sum.splits)
next
  case (EDisconnect sid)
  then show ?thesis using inv
    by (auto simp: relay_inv_def socks_ok_def all_chats_def distinct_map_filter)
next
  case (ESend sid p)
  then show ?thesis using inv on_send_message_inv by (auto split: option.splits)
next
  case (EPersist i)
  then show ?thesis using inv db_persist_inv by auto
next
  case (EDbFail i)
  then show ?thesis using inv db_fail_inv by auto
next
  case (EAck i)
  then show ?thesis using inv deliver_inv by auto
next
  case (ERestSend hdr b)
  then show ?thesis using inv rest_send_inv
    by (auto simp: relay_inv_def all_chats_def intro: chats_ok_mono split: sum.splits)
next
  case ETick
  then show ?thesis using inv
    by (auto simp: relay_inv_def all_chats_def intro: chats_ok_mono)
qed

lemma relay_init_inv: "relay_inv (relay_init t)"
  by (simp add: relay_inv_def relay_init_def all_chats_def chats_ok_def socks_ok_def)

lemma reachable_inv: "reachable cfg dec dir st \<Longrightarrow> relay_inv st"
  by (induction rule: reachable.induct) (auto intro: relay_init_inv relay_step_inv)

subsection \<open>Runs\<close>

lemma reachable_fold:
  "reachable cfg dec dir st \<Longrightarrow> reachable cfg dec dir (fold (\<lambda>e s. relay_step cfg dec dir s e) es st)"
  by (induction es arbitrary: st) (auto intro: reachable.step)

lemma reachable_run: "reachable cfg dec dir (relay_run cfg dec dir (relay_init t) es)"
  unfolding relay_run_def by (rule reachable_fold [OF reachable.init])

lemma relay_run_Cons [simp]:
  "relay_run cfg dec dir st (e # es) = relay_run cfg dec dir (relay_step cfg dec dir st e) es"
  by (simp add: relay_run_def)

lemma relay_run_Nil [simp]: "relay_run cfg dec dir st [] = st"
  by (simp add: relay_run_def)

lemma find_sock:
  "distinct (map sock_id ss) \<Longrightarrow> sk \<in> set ss \<Longrightarrow> find (\<lambda>x. sock_id x = sock_id sk) ss = Some sk"
  by (induction ss) (auto simp: find_Some_iff)

lemma send_guard_ok_iff:
  "send_guard p = Inr (r, m) \<longleftrightarrow>
     p_receiver p = Some r \<and> p_message p = Some m \<and> is_valid_oid r \<and> js_trim m \<noteq> []"
  by (auto simp: send_guard_def is_valid_oid_def split: option.splits)

text \<open>One whole delivery: the send event, the store's acknowledgement and the
  continuation, with nothing else pending.\<close>

lemma send_persist_ack:
  assumes sk: "find (\<lambda>x. sock_id x = sid) (r_socks st) = Some sk"
    and idle: "r_inflight st = []" "r_acked st = []"
    and g: "send_guard p = Inr (r, m)"
    and cc: "chat_create (r_next st) (r_now st) (sock_user sk) (Some r)
               (map_option js_to_lower (p_receiverType p)) (Some m) = Inr c"
  shows "relay_run cfg dec dir st [ESend sid p, EPersist 0, EAck 0] =
    st\<lparr>r_next := Suc (r_next st), r_chats := r_chats st @ [c],
       r_log := r_log st @ io_emit (r_socks st) r c @ io_emit (r_socks st) (js_string (sock_user sk)) c\<rparr>"
  using assms by (simp add: on_send_message_def db_persist_def deliver_def remove_at_def)

subsection \<open>Emission\<close>

lemma io_emit_mem:
  "(sid, d) \<in> set (io_emit ss rm c) \<longleftrightarrow>
     d = c \<and> (\<exists>sk\<in>set ss. sock_id sk = sid \<and> rm \<in> set (sock_rooms sk))"
  by (auto simp: io_emit_def)

lemma count_io_emit:
  "distinct (map sock_id ss) \<Longrightarrow> sk \<in> set ss \<Longrightarrow> rm \<in> set (sock_rooms sk) \<Longrightarrow>
     count_list (io_emit ss rm c) (sock_id sk, c) = 1"
proof (induction ss)
  case Nil
  then show ?case by simp
next
  case (Cons x xs)
  show ?case
  proof (cases "x = sk")
    case True
    with Cons.prems have "sock_id sk \<notin> sock_id ` set xs" by simp
    then have "(sock_id sk, c) \<notin> set (io_emit xs rm c)"
      by (auto simp: io_emit_mem image_iff)
    with True Cons.prems show ?thesis
      by (simp add: io_emit_def count_list_0_iff [symmetric])
  next
    case False
    with Cons.prems have "sock_id x \<noteq> sock_id sk" by auto
    with False Cons.prems Cons.IH show ?thesis by (simp add: io_emit_def)
  qed
qed

subsection \<open>Admitted connections\<close>

lemma relay_step_admitted:
  assumes adm: "socks_admitted cfg dec st"
  shows "socks_admitted cfg dec (relay_step cfg dec dir st e)"
proof (cases e)
  case (EConnect sid tok)
  show ?thesis
  proof (cases "io_handshake cfg dec (r_now st) sid tok")
    case (Inr sk)
    then have "io_auth cfg dec (r_now st) tok = Inr (sock_user sk)"
      by (auto simp: io_handshake_ok_iff)
    with adm EConnect Inr show ?thesis by (auto simp: socks_admitted_def)
  qed (use adm EConnect in \<open>simp\<close>)
next
  case ETick
  with adm show ?thesis by (simp add: socks_admitted_def) (metis le_SucI)
qed (use adm in \<open>auto simp: socks_admitted_def on_send_message_def db_persist_def
        db_fail_def deliver_def Let_def split: option.splits sum.splits prod.splits\<close>)

subsection \<open>No mailbox\<close>

lemma distinct_ids_neq:
  "distinct (map chat_id (xs @ ys)) \<Longrightarrow> c \<in> set xs \<Longrightarrow> d \<in> set ys \<Longrightarrow> c \<noteq> d"
  by auto

text \<open>Once a stored message has been delivered (it is no longer waiting for its
  continuation), no later event delivers it again, to any socket.\<close>

lemma relay_step_no_redelivery:
  assumes inv: "relay_inv st" and c: "c \<in> set (r_chats st)" "c \<notin> pd_chat ` set (r_acked st)"
  shows "filter (\<lambda>x. snd x = c) (r_log (relay_step cfg dec dir st e)) = filter (\<lambda>x. snd x = c) (r_log st) \<and>
    c \<in> set (r_chats (relay_step cfg dec dir st e)) \<and>
    c \<notin> pd_chat ` set (r_acked (relay_step cfg dec dir st e))"
proof (cases e)
  case (EPersist i)
  show ?thesis
  proof (cases "i < length (r_inflight st)")
    case True
    then have "pd_chat (r_inflight st ! i) \<in> set (map pd_chat (r_inflight st))" by simp
    moreover from inv have "distinct (map chat_id (r_chats st @ map pd_chat (r_inflight st)))"
      by (simp add: relay_inv_def chats_ok_def all_chats_def)
    ultimately have "c \<noteq> pd_chat (r_inflight st ! i)" using c(1) distinct_ids_neq by blast
    with True EPersist c show ?thesis by (auto simp: db_persist_def Let_def)
  qed (use EPersist c in simp)
next
  case (EAck i)
  show ?thesis
  proof (cases "i < length (r_acked st)")
    case True
    then have "c \<noteq> pd_chat (r_acked st ! i)" using c(2) by (metis image_eqI nth_mem)
    moreover have "set (remove_at i (r_acked st)) \<subseteq> set (r_acked st)" by (rule set_remove_at)
    ultimately show ?thesis using True EAck c
      by (auto simp: deliver_def Let_def io_emit_def filter_empty_conv)
  qed (use EAck c in simp)
qed (use c in \<open>auto simp: on_send_message_def db_fail_def Let_def
        split: option.splits sum.splits prod.splits\<close>)

subsection \<open>One send, with its conditions spelled out\<close>

lemma js_trim_nonempty: "js_trim m \<noteq> [] \<Longrightarrow> m \<noteq> []"
  by (auto simp: js_trim_def)

lemma send_persist_ack_explicit:
  assumes inv: "relay_inv st" and sk: "sk \<in> set (r_socks st)"
    and idle: "r_inflight st = []" "r_acked st = []"
    and u: "sock_user sk = Some u" "is_valid_oid u"
    and r: "is_valid_oid r" and m: "js_trim m \<noteq> []"
    and t: "js_to_lower t \<in> set receiver_type_enum"
  shows "relay_run cfg dec dir st
      [ESend (sock_id sk) \<lparr>p_receiver = Some r, p_receiverType = Some t, p_message = Some m\<rparr>,
       EPersist 0, EAck 0] =
    (let c = \<lparr>chat_id = r_next st, chat_sender = oid_canon u, chat_receiver = oid_canon r,
               chat_receiverType = js_to_lower t, chat_message = m, chat_createdAt = r_now st\<rparr>
     in st\<lparr>r_next := Suc (r_next st), r_chats := r_chats st @ [c],
           r_log := r_log st @ io_emit (r_socks st) r c @ io_emit (r_socks st) u c\<rparr>)"
proof -
  let ?p = "\<lparr>p_receiver = Some r, p_receiverType = Some t, p_message = Some m\<rparr>"
  let ?c = "\<lparr>chat_id = r_next st, chat_sender = oid_canon u, chat_receiver = oid_canon r,
               chat_receiverType = js_to_lower t, chat_message = m, chat_createdAt = r_now st\<rparr>"
  have f: "find (\<lambda>x. sock_id x = sock_id sk) (r_socks st) = Some sk"
    using inv sk by (simp add: relay_inv_def socks_ok_def find_sock)
  have g: "send_guard ?p = Inr (r, m)"
    using r m by (simp add: send_guard_ok_iff)
  have cc: "chat_create (r_next st) (r_now st) (sock_user sk) (Some r)
      (map_option js_to_lower (p_receiverType ?p)) (Some m) = Inr ?c"
    using u r t js_trim_nonempty [OF m] by (simp add: chat_create_ok_iff)
  have "relay_run cfg dec dir st [ESend (sock_id sk) ?p, EPersist 0, EAck 0] =
      st\<lparr>r_next := Suc (r_next st), r_chats := r_chats st @ [?c],
         r_log := r_log st @ io_emit (r_socks st) r ?c @ io_emit (r_socks st) (js_string (sock_user sk)) ?c\<rparr>"
    by (rule send_persist_ack [OF f idle g cc])
  then show ?thesis using u by (simp add: Let_def)
qed

text \<open>A valid send puts one write in flight, after those already pending.\<close>

lemma valid_send_inflight:
  assumes f: "find (\<lambda>x. sock_id x = sock_id sk) (r_socks st) = Some sk"
    and u: "sock_user sk = Some u" "is_valid_oid u"
    and r: "is_valid_oid r" and m: "js_trim m \<noteq> []"
    and t: "js_to_lower t \<in> set receiver_type_enum"
  shows "relay_step cfg dec dir st
      (ESend (sock_id sk) \<lparr>p_receiver = Some r, p_receiverType = Some t, p_message = Some m\<rparr>) =
    st\<lparr>r_next := Suc (r_next st),
       r_inflight := r_inflight st @
         [\<lparr>pd_sock = sock_id sk, pd_user = Some u, pd_room = r,
           pd_chat = \<lparr>chat_id = r_next st, chat_sender = oid_canon u, chat_receiver = oid_canon r,
               chat_receiverType = js_to_lower t, chat_message = m, chat_createdAt = r_now st\<rparr>\<rparr>]\<rparr>"
proof -
  have g: "send_guard \<lparr>p_receiver = Some r, p_receiverType = Some t, p_message = Some m\<rparr> = Inr (r, m)"
    using r m by (simp add: send_guard_ok_iff)
  have cc: "chat_create (r_next st) (r_now st) (sock_user sk) (Some r) (Some (js_to_lower t)) (Some m) =
      Inr \<lparr>chat_id = r_next st, chat_sender = oid_canon u, chat_receiver = oid_canon r,
               chat_receiverType = js_to_lower t, chat_message = m, chat_createdAt = r_now st\<rparr>"
    using u r t js_trim_nonempty [OF m] by (simp add: chat_create_ok_iff)
  show ?thesis using f g cc u by (simp add: on_send_message_def)
qed

lemma filter_io_emit_other:
  assumes "socks_ok ss" and "sk \<in> set ss" and "rm \<notin> set (sock_rooms sk)"
  shows "filter (\<lambda>e. fst e = sock_id sk) (io_emit ss rm c) = []"
proof -
  have "\<And>x. x \<in> set ss \<Longrightarrow> sock_id x = sock_id sk \<Longrightarrow> x = sk"
    using assms(1,2) by (auto simp: socks_ok_def dest: inj_onD [OF distinct_map [THEN iffD1, THEN conjunct2]])
  with assms(3) show ?thesis by (auto simp: io_emit_def filter_empty_conv)
qed

end
