(* ===== verification/ClientChat.thy ===== *)
theory ClientChat
  imports Relay
begin

text \<open>
  The client relay adapter of the user application, \<open>Frontend/src/Pages/Chat.jsx\<close>.
  The component's React state is the record \<open>chat_client\<close>; each handler of the
  component is a function on it, and \<open>client_step\<close> dispatches the events the
  component reacts to: a \<open>receive_message\<close> push, the completion of one of its
  REST requests, or a user action. Requests and socket operations the component
  starts are appended to \<open>cl_out\<close>, in the order the code issues them.

  React runs an effect after a render in which one of its dependencies changed
  identity. Two effects matter: the socket effect (dependencies \<open>currentUserId\<close>
  and \<open>caretakers\<close>) and the history effect (dependency \<open>activeUser\<close>). Every
  call of \<open>setCaretakers\<close> or \<open>setActiveUser\<close> with a new object is counted in
  \<open>cl_ct_ver\<close> and \<open>cl_act_ver\<close>; \<open>commit\<close> compares the counters before and
  after a handler and runs the effects whose dependencies changed, in the order
  they are declared, the cleanup of the previous run first.
\<close>

datatype peer_kind = KUser | KCaretaker | KAi

fun kind_str :: "peer_kind \<Rightarrow> string" where
  "kind_str KUser = ''user''"
| "kind_str KCaretaker = ''caretaker''"
| "kind_str KAi = ''ai''"

text \<open>An entry of the contact lists: a user or caretaker document of the server
  with the fields the component reads and the two it adds.\<close>

record contact =
  ct_id :: oid
  ct_name :: "string option"
  ct_email :: "string option"
  ct_role :: "string option"
  ct_kind :: peer_kind
  ct_hasNewMsg :: bool
  ct_lastMessageTime :: "nat option"

text \<open>A message of the open conversation: a stored chat record, or the optimistic
  copy made on submit, whose id is \<open>local-${Date.now()}\<close>.\<close>

datatype msg_key = SrvId nat | LocalId nat

record cmsg =
  cm_id :: msg_key
  cm_sender :: "oid option"
  cm_receiver :: oid
  cm_message :: string
  cm_createdAt :: nat

definition chat_view :: "chat \<Rightarrow> cmsg" where
  "chat_view c = \<lparr>cm_id = SrvId (chat_id c), cm_sender = Some (chat_sender c),
     cm_receiver = chat_receiver c, cm_message = chat_message c, cm_createdAt = chat_createdAt c\<rparr>"

record ai_msg =
  am_message :: string
  am_role :: string
  am_createdAt :: nat

datatype client_out =
    OConnect string                      \<comment> \<open>\<open>io(socketUrl, { auth: { token } })\<close>\<close>
  | ODisconnect                          \<comment> \<open>\<open>s.disconnect()\<close>\<close>
  | OGetLists                            \<comment> \<open>\<open>GET /chat\<close> and \<open>GET /caretaker\<close>\<close>
  | OGetMessages oid string              \<comment> \<open>\<open>GET /chat/messages/:id?type=\<close>\<close>
  | OEmit send_payload                   \<comment> \<open>\<open>socket.emit("send_message", payload)\<close>\<close>
  | OUpdateProfile oid string            \<comment> \<open>\<open>POST /chat/updateprofile\<close>\<close>
  | OAiRequest "(string \<times> string) list"  \<comment> \<open>\<open>POST /chat\<close> with (role, content) pairs\<close>

record chat_client =
  cl_me :: "oid option"            \<comment> \<open>\<open>currentUserId\<close>, from \<open>localStorage.user\<close>\<close>
  cl_token :: "string option"      \<comment> \<open>\<open>localStorage.token\<close>\<close>
  cl_pre :: "oid option"           \<comment> \<open>\<open>location.state?.caretakerId\<close>\<close>
  cl_mobile :: bool                \<comment> \<open>\<open>width < 768\<close>\<close>
  cl_now :: nat
  cl_users :: "contact list"
  cl_caretakers :: "contact list"
  cl_active :: "contact option"
  cl_messages :: "cmsg list"
  cl_ai :: "ai_msg list"
  cl_loading :: bool
  cl_socket :: bool                \<comment> \<open>\<open>socket !== null\<close>\<close>
  cl_newMessage :: string
  cl_showSidebar :: bool
  cl_search :: string
  cl_load :: nat                   \<comment> \<open>the history request not cancelled\<close>
  cl_ct_ver :: nat
  cl_act_ver :: nat
  cl_out :: "client_out list"

subsection \<open>Effects\<close>

definition set_caretakers :: "contact list \<Rightarrow> chat_client \<Rightarrow> chat_client" where
  "set_caretakers cs st = st\<lparr>cl_caretakers := cs, cl_ct_ver := Suc (cl_ct_ver st)\<rparr>"

definition set_active :: "contact \<Rightarrow> chat_client \<Rightarrow> chat_client" where
  "set_active a st = st\<lparr>cl_active := Some a, cl_act_ver := Suc (cl_act_ver st)\<rparr>"

text \<open>The socket effect: the cleanup of the previous run disconnects its socket;
  the new run opens a socket when a token is stored and registers the handlers
  below.\<close>

definition socket_effect :: "chat_client \<Rightarrow> chat_client" where
  "socket_effect st =
     (let st1 = (if cl_socket st then st\<lparr>cl_socket := False, cl_out := cl_out st @ [ODisconnect]\<rparr>
                 else st) in
      case cl_token st1 of
        Some tok \<Rightarrow> if tok = [] then st1
                    else st1\<lparr>cl_socket := True, cl_out := cl_out st1 @ [OConnect tok]\<rparr>
      | None \<Rightarrow> st1)"

text \<open>The history effect \<open>loadMessages\<close>: the cleanup cancels the previous
  request; for a user or caretaker it shows the spinner, empties the list and
  requests the conversation.\<close>

definition load_effect :: "chat_client \<Rightarrow> chat_client" where
  "load_effect st =
     (let st1 = st\<lparr>cl_load := Suc (cl_load st)\<rparr> in
      case cl_active st1 of
        None \<Rightarrow> st1
      | Some a \<Rightarrow>
          if ct_kind a = KAi then st1
          else st1\<lparr>cl_loading := True, cl_messages := [],
                   cl_out := cl_out st1 @ [OGetMessages (ct_id a)
                     (if ct_kind a = KCaretaker then ''caretaker'' else ''user'')]\<rparr>)"

definition commit :: "chat_client \<Rightarrow> chat_client \<Rightarrow> chat_client" where
  "commit old st =
     (let st1 = (if cl_ct_ver st \<noteq> cl_ct_ver old then socket_effect st else st) in
      if cl_act_ver st1 \<noteq> cl_act_ver old then load_effect st1 else st1)"

text \<open>Mount: the initial state, then the three effects in order (the list fetch
  is the second).\<close>

definition chat_mount ::
  "oid option \<Rightarrow> string option \<Rightarrow> oid option \<Rightarrow> bool \<Rightarrow> nat \<Rightarrow> chat_client" where
  "chat_mount me tok pre mobile now =
     (let st0 = \<lparr>cl_me = me, cl_token = tok, cl_pre = pre, cl_mobile = mobile, cl_now = now,
                 cl_users = [], cl_caretakers = [], cl_active = None, cl_messages = [], cl_ai = [],
                 cl_loading = False, cl_socket = False, cl_newMessage = [], cl_showSidebar = True,
                 cl_search = [], cl_load = 0, cl_ct_ver = 0, cl_act_ver = 0, cl_out = []\<rparr>;
          st1 = socket_effect st0
      in load_effect (st1\<lparr>cl_out := cl_out st1 @ [OGetLists]\<rparr>))"

subsection \<open>Handlers\<close>

text \<open>The \<open>receive_message\<close> handler. A message of the caller's own identity is
  ignored; any other is appended to the open list, and its sender's entry is marked
  and moved to the front of the contact list (and of the caretaker list, when the
  sender is a caretaker).\<close>

definition mark_new :: "nat \<Rightarrow> contact \<Rightarrow> contact" where
  "mark_new t u = u\<lparr>ct_hasNewMsg := True, ct_lastMessageTime := Some t\<rparr>"

definition on_receive :: "chat_client \<Rightarrow> chat \<Rightarrow> chat_client" where
  "on_receive st c =
     (let s = chat_sender c in
      if s = [] then st
      else if s = js_string (cl_me st) then st
      else
        (let st1 = st\<lparr>cl_messages := cl_messages st @ [chat_view c]\<rparr>;
             isCaretaker = (\<exists>ct\<in>set (cl_caretakers st). ct_id ct = s);
             st2 = st1\<lparr>cl_users := bump_front (\<lambda>u. ct_id u = s) (mark_new (chat_createdAt c)) (cl_users st1)\<rparr>
         in if isCaretaker
            then set_caretakers (bump_front (\<lambda>ct. ct_id ct = s) (mark_new (chat_createdAt c))
                                  (cl_caretakers st2)) st2
            else st2))"

text \<open>\<open>fetchLists\<close> resolved: both lists are tagged with their kind; the caretaker
  given in the navigation state, if listed, is opened.\<close>

definition lists_loaded :: "chat_client \<Rightarrow> contact list \<Rightarrow> contact list \<Rightarrow> chat_client" where
  "lists_loaded st us cs =
     (let mu = map (\<lambda>u. u\<lparr>ct_kind := KUser\<rparr>) us;
          mc = map (\<lambda>c. c\<lparr>ct_kind := KCaretaker\<rparr>) cs;
          st1 = set_caretakers mc (st\<lparr>cl_users := mu @ mc\<rparr>)
      in if opt_truthy (cl_pre st) then
           (case find (\<lambda>c. ct_id c = js_string (cl_pre st)) mc of
              Some f \<Rightarrow> set_active (f\<lparr>ct_kind := KCaretaker\<rparr>) st1
            | None \<Rightarrow> st1)
         else st1)"

text \<open>\<open>loadMessages\<close> resolved or failed; a cancelled request changes nothing.\<close>

definition messages_loaded :: "chat_client \<Rightarrow> nat \<Rightarrow> chat list \<Rightarrow> chat_client" where
  "messages_loaded st g cs =
     (if g \<noteq> cl_load st then st
      else st\<lparr>cl_messages := map chat_view cs, cl_loading := False\<rparr>)"

definition messages_failed :: "chat_client \<Rightarrow> nat \<Rightarrow> chat_client" where
  "messages_failed st g = (if g \<noteq> cl_load st then st else st\<lparr>cl_loading := False\<rparr>)"

definition clear_new :: "contact \<Rightarrow> contact" where
  "clear_new u = u\<lparr>ct_hasNewMsg := False\<rparr>"

text \<open>\<open>handleSendToSocket\<close>.\<close>

definition send_to_socket :: "chat_client \<Rightarrow> string \<Rightarrow> chat_client" where
  "send_to_socket st text =
     (case cl_active st of
        None \<Rightarrow> st
      | Some a \<Rightarrow>
          if \<not> cl_socket st then st
          else
            (let payload = \<lparr>p_receiver = Some (ct_id a), p_receiverType = Some (kind_str (ct_kind a)),
                            p_message = Some text\<rparr>;
                 opt = \<lparr>cm_id = LocalId (cl_now st), cm_sender = cl_me st, cm_receiver = ct_id a,
                        cm_message = text, cm_createdAt = cl_now st\<rparr>
             in st\<lparr>cl_messages := cl_messages st @ [opt],
                   cl_users := bump_front (\<lambda>u. ct_id u = ct_id a)
                     (\<lambda>u. u\<lparr>ct_hasNewMsg := False, ct_lastMessageTime := Some (cl_now st)\<rparr>) (cl_users st),
                   cl_out := cl_out st @ [OEmit payload, OUpdateProfile (ct_id a) text]\<rparr>))"

text \<open>\<open>handleAiSend\<close>: the request carries the history as rendered, then the new
  text; the reply is appended when it arrives.\<close>

definition ai_send :: "chat_client \<Rightarrow> string \<Rightarrow> chat_client" where
  "ai_send st text =
     st\<lparr>cl_ai := cl_ai st @ [\<lparr>am_message = text, am_role = ''user'', am_createdAt = cl_now st\<rparr>],
        cl_out := cl_out st @
          [OAiRequest (map (\<lambda>m. (if am_role m = [] then ''assistant'' else am_role m, am_message m)) (cl_ai st)
                       @ [(''user'', text)])]\<rparr>"

definition js_or_default :: "string option \<Rightarrow> string \<Rightarrow> string" where
  "js_or_default v d = (case v of Some s \<Rightarrow> if s = [] then d else s | None \<Rightarrow> d)"

text \<open>The reply: \<open>res.data?.message?.content || res.data?.reply || "Sorry, ..."\<close>.\<close>

definition ai_reply :: "chat_client \<Rightarrow> string option \<Rightarrow> string option \<Rightarrow> chat_client" where
  "ai_reply st content reply =
     st\<lparr>cl_ai := cl_ai st @ [\<lparr>am_message = js_or_default (js_or_opt content reply) ''Sorry, I couldn't process that.'',
                             am_role = ''assistant'', am_createdAt = cl_now st\<rparr>]\<rparr>"

definition ai_error :: "chat_client \<Rightarrow> chat_client" where
  "ai_error st =
     st\<lparr>cl_ai := cl_ai st @ [\<lparr>am_message = ''AI is unavailable right now.'', am_role = ''assistant'',
                             am_createdAt = cl_now st\<rparr>]\<rparr>"

text \<open>\<open>handleSend\<close>: the trimmed input goes to the assistant or to the socket, and
  the input is cleared whether or not it was sent.\<close>

definition handle_send :: "chat_client \<Rightarrow> chat_client" where
  "handle_send st =
     (let text = js_trim (cl_newMessage st) in
      case cl_active st of
        None \<Rightarrow> st
      | Some a \<Rightarrow>
          if text = [] then st
          else (if ct_kind a = KAi then ai_send st text else send_to_socket st text)\<lparr>cl_newMessage := []\<rparr>)"

text \<open>The contact filter: \<open>name\<close> or \<open>email\<close>, lower-cased, contains the lower-cased
  search term.\<close>

definition filtered_users :: "chat_client \<Rightarrow> contact list" where
  "filtered_users st =
     filter (\<lambda>u. (case ct_name u of Some n \<Rightarrow> js_includes (js_to_lower n) (js_to_lower (cl_search st)) | None \<Rightarrow> False)
               \<or> (case ct_email u of Some e \<Rightarrow> js_includes (js_to_lower e) (js_to_lower (cl_search st)) | None \<Rightarrow> False))
       (cl_users st)"

definition sidebar_visible :: "chat_client \<Rightarrow> bool" where
  "sidebar_visible st \<longleftrightarrow> \<not> cl_mobile st \<or> cl_showSidebar st"

definition chat_area_visible :: "chat_client \<Rightarrow> bool" where
  "chat_area_visible st \<longleftrightarrow> \<not> cl_mobile st \<or> \<not> cl_showSidebar st"

text \<open>The click handlers of the three sidebar sections.\<close>

definition click_user :: "chat_client \<Rightarrow> contact \<Rightarrow> chat_client" where
  "click_user st u =
     (let st1 = set_active (u\<lparr>ct_kind := KUser\<rparr>) st;
          st2 = st1\<lparr>cl_users := bump_front (\<lambda>p. ct_id p = ct_id u) clear_new (cl_users st1)\<rparr>
      in if cl_mobile st2 then st2\<lparr>cl_showSidebar := False\<rparr> else st2)"

definition click_caretaker :: "chat_client \<Rightarrow> contact \<Rightarrow> chat_client" where
  "click_caretaker st c =
     (let st1 = set_active (c\<lparr>ct_kind := KCaretaker\<rparr>) st;
          st2 = (if \<exists>p\<in>set (cl_caretakers st1). ct_id p = ct_id c
                 then set_caretakers (bump_front (\<lambda>p. ct_id p = ct_id c) clear_new (cl_caretakers st1)) st1
                 else st1);
          st3 = st2\<lparr>cl_users := bump_front (\<lambda>p. ct_id p = ct_id c) clear_new (cl_users st2)\<rparr>
      in if cl_mobile st3 then st3\<lparr>cl_showSidebar := False\<rparr> else st3)"

definition ai_contact :: contact where
  "ai_contact = \<lparr>ct_id = ''ai'', ct_name = Some ''MindMate AI'', ct_email = None, ct_role = None,
     ct_kind = KAi, ct_hasNewMsg = False, ct_lastMessageTime = None\<rparr>"

definition click_ai :: "chat_client \<Rightarrow> chat_client" where
  "click_ai st =
     (let st1 = set_active ai_contact st in
      if cl_mobile st1 then st1\<lparr>cl_showSidebar := False\<rparr> else st1)"

datatype client_ev =
    CReceive chat
  | CListsLoaded "contact list" "contact list"
  | CMessagesLoaded nat "chat list"
  | CMessagesFailed nat
  | CType string
  | CSubmit
  | CClickUser oid
  | CClickCaretaker oid
  | CClickAi
  | CAiReply "string option" "string option"
  | CAiError
  | CSearch string
  | CBack
  | CTick

text \<open>One event. A receive arrives only on an open socket; a click names an entry
  the sidebar shows; the input bar exists while a conversation is open and the
  chat area is shown.\<close>

fun client_step :: "chat_client \<Rightarrow> client_ev \<Rightarrow> chat_client" where
  "client_step st (CReceive c) = (if cl_socket st then commit st (on_receive st c) else st)"
| "client_step st (CListsLoaded us cs) = commit st (lists_loaded st us cs)"
| "client_step st (CMessagesLoaded g cs) = messages_loaded st g cs"
| "client_step st (CMessagesFailed g) = messages_failed st g"
| "client_step st (CType s) =
     (if cl_active st \<noteq> None \<and> chat_area_visible st then st\<lparr>cl_newMessage := s\<rparr> else st)"
| "client_step st CSubmit =
     (if chat_area_visible st then commit st (handle_send st) else st)"
| "client_step st (CClickUser x) =
     (if \<not> sidebar_visible st then st
      else case find (\<lambda>u. ct_id u = x \<and> ct_kind u = KUser) (filtered_users st) of
             None \<Rightarrow> st
           | Some u \<Rightarrow> commit st (click_user st u))"
| "client_step st (CClickCaretaker x) =
     (if \<not> sidebar_visible st then st
      else case find (\<lambda>u. ct_id u = x \<and> ct_kind u = KCaretaker) (filtered_users st) of
             None \<Rightarrow> st
           | Some c \<Rightarrow> commit st (click_caretaker st c))"
| "client_step st CClickAi = (if sidebar_visible st then commit st (click_ai st) else st)"
| "client_step st (CAiReply c r) = ai_reply st c r"
| "client_step st CAiError = ai_error st"
| "client_step st (CSearch s) = (if sidebar_visible st then st\<lparr>cl_search := s\<rparr> else st)"
| "client_step st CBack =
     (if cl_mobile st \<and> chat_area_visible st \<and> cl_active st \<noteq> None then st\<lparr>cl_showSidebar := True\<rparr> else st)"
| "client_step st CTick = st\<lparr>cl_now := Suc (cl_now st)\<rparr>"

definition client_run :: "chat_client \<Rightarrow> client_ev list \<Rightarrow> chat_client" where
  "client_run st es = fold (\<lambda>e s. client_step s e) es st"

text \<open>What the message pane shows: the welcome card, the spinner, or the bubbles
  as (\<open>isMe\<close>, text) pairs.\<close>

datatype pane = PaneWelcome | PaneSpinner | PaneBubbles "(bool \<times> string) list"

definition pane_of :: "chat_client \<Rightarrow> pane" where
  "pane_of st =
     (case cl_active st of
        None \<Rightarrow> PaneWelcome
      | Some a \<Rightarrow>
          if ct_kind a = KAi then PaneBubbles (map (\<lambda>m. (am_role m = ''user'', am_message m)) (cl_ai st))
          else if cl_loading st then PaneSpinner
          else PaneBubbles (map (\<lambda>m. (js_string (cm_sender m) = js_string (cl_me st), cm_message m))
                                (cl_messages st)))"

lemmas client_defs = commit_def set_caretakers_def set_active_def on_receive_def
  send_to_socket_def handle_send_def click_user_def click_caretaker_def click_ai_def
  lists_loaded_def messages_loaded_def messages_failed_def

subsection \<open>Facts\<close>

lemma socket_effect_keeps [simp]:
  "cl_messages (socket_effect st) = cl_messages st" "cl_active (socket_effect st) = cl_active st"
  "cl_users (socket_effect st) = cl_users st" "cl_caretakers (socket_effect st) = cl_caretakers st"
  "cl_act_ver (socket_effect st) = cl_act_ver st" "cl_ct_ver (socket_effect st) = cl_ct_ver st"
  "cl_newMessage (socket_effect st) = cl_newMessage st" "cl_load (socket_effect st) = cl_load st"
  "cl_loading (socket_effect st) = cl_loading st" "cl_me (socket_effect st) = cl_me st"
  "cl_ai (socket_effect st) = cl_ai st"
  by (simp_all add: socket_effect_def Let_def split: option.split)

lemma socket_effect_reconnect:
  "cl_socket st \<Longrightarrow> cl_token st = Some tok \<Longrightarrow> tok \<noteq> [] \<Longrightarrow>
   cl_out (socket_effect st) = cl_out st @ [ODisconnect, OConnect tok] \<and> cl_socket (socket_effect st)"
  by (simp add: socket_effect_def)

lemma commit_same: "cl_ct_ver st = cl_ct_ver old \<Longrightarrow> cl_act_ver st = cl_act_ver old \<Longrightarrow> commit old st = st"
  by (simp add: commit_def)

lemma on_receive_act_ver [simp]: "cl_act_ver (on_receive st c) = cl_act_ver st"
  by (simp add: on_receive_def Let_def set_caretakers_def)

lemma on_receive_messages:
  "chat_sender c \<noteq> [] \<Longrightarrow> chat_sender c \<noteq> js_string (cl_me st) \<Longrightarrow>
   cl_messages (on_receive st c) = cl_messages st @ [chat_view c]"
  by (simp add: on_receive_def Let_def set_caretakers_def)

lemma client_receive_messages:
  assumes "cl_socket st" "chat_sender c \<noteq> []" "chat_sender c \<noteq> js_string (cl_me st)"
  shows "cl_messages (client_step st (CReceive c)) = cl_messages st @ [chat_view c] \<and>
         cl_active (client_step st (CReceive c)) = cl_active st \<and>
         cl_loading (client_step st (CReceive c)) = cl_loading st \<and>
         cl_me (client_step st (CReceive c)) = cl_me st"
  using assms by (simp add: commit_def on_receive_messages) (simp add: on_receive_def Let_def set_caretakers_def)

lemma on_receive_self:
  "chat_sender c = js_string (cl_me st) \<Longrightarrow> on_receive st c = st"
  by (simp add: on_receive_def Let_def)

lemma client_receive_users:
  assumes "cl_socket st" "chat_sender c \<noteq> []" "chat_sender c \<noteq> js_string (cl_me st)"
  shows "cl_users (client_step st (CReceive c)) =
           bump_front (\<lambda>u. ct_id u = chat_sender c) (mark_new (chat_createdAt c)) (cl_users st)"
  using assms by (simp add: commit_def) (simp add: on_receive_def Let_def set_caretakers_def)

lemma handle_send_vers [simp]:
  "cl_ct_ver (handle_send st) = cl_ct_ver st" "cl_act_ver (handle_send st) = cl_act_ver st"
  by (simp_all add: handle_send_def Let_def send_to_socket_def ai_send_def split: option.split)

lemma client_submit:
  assumes "chat_area_visible st" and "cl_active st = Some a" and "ct_kind a \<noteq> KAi"
    and "js_trim (cl_newMessage st) \<noteq> []"
  shows "client_step st CSubmit =
     (if cl_socket st then send_to_socket st (js_trim (cl_newMessage st)) else st)\<lparr>cl_newMessage := []\<rparr>"
  using assms by (simp add: commit_same handle_send_def send_to_socket_def Let_def)

end
