(* ===== verification/CareChat.thy ===== *)
theory CareChat
  imports ClientChat
begin

text \<open>
  The caretaker's chat screen \<open>Adminpages/CaretakerChat.jsx\<close>, in the style of
  \<open>ClientChat\<close> (whose contact, message and assistant types it shares): the
  state of the component, its three effects, the receive handler, the send path to
  the socket or the assistant, and the contact list. It differs from the user's
  screen in three ways the model keeps: the socket effect has no dependencies (one
  connection per mount), the caretaker's own id is read from the stored \<open>user\<close>
  (\<open>_id || id\<close>), and only users are listed, with the assistant as a fixed entry.

  The load effect depends on \<open>activeUser\<close>, a new object at every click, so it
  reruns on every click; \<open>cc_load\<close> numbers its runs, and a reply to an earlier
  run is ignored (its \<open>cancelled\<close> flag is set by the cleanup).
\<close>

datatype cc_out =
    CcConnect string                      \<comment> \<open>\<open>io(socketUrl, { auth: { token } })\<close>\<close>
  | CcDisconnect                          \<comment> \<open>\<open>s.disconnect()\<close>\<close>
  | CcGetUsers                            \<comment> \<open>\<open>GET /chat\<close>\<close>
  | CcGetMessages oid string              \<comment> \<open>\<open>GET /chat/messages/:id?type=\<close>\<close>
  | CcEmit send_payload                   \<comment> \<open>\<open>socket.emit("send_message", payload)\<close>\<close>
  | CcUpdateProfile                       \<comment> \<open>\<open>POST /caretaker/updateProfile\<close>\<close>
  | CcAiRequest "(string \<times> string) list"  \<comment> \<open>\<open>POST /chat\<close> with (role, content) pairs\<close>

record care_chat =
  cc_me :: "string option"         \<comment> \<open>\<open>storedCaretaker?._id || storedCaretaker?.id\<close>\<close>
  cc_token :: "string option"
  cc_mobile :: bool
  cc_now :: nat
  cc_users :: "contact list"
  cc_active :: "contact option"
  cc_messages :: "cmsg list"
  cc_ai :: "ai_msg list"
  cc_loading :: bool
  cc_socket :: bool
  cc_newMessage :: string
  cc_showSidebar :: bool
  cc_search :: string
  cc_load :: nat
  cc_out :: "cc_out list"

definition cc_emit :: "cc_out list \<Rightarrow> care_chat \<Rightarrow> care_chat" where
  "cc_emit os st = st\<lparr>cc_out := cc_out st @ os\<rparr>"

definition cc_initial :: "string option \<Rightarrow> string option \<Rightarrow> bool \<Rightarrow> nat \<Rightarrow> care_chat" where
  "cc_initial me tok mobile now =
     \<lparr>cc_me = me, cc_token = tok, cc_mobile = mobile, cc_now = now, cc_users = [], cc_active = None,
      cc_messages = [], cc_ai = [], cc_loading = False, cc_socket = False, cc_newMessage = [],
      cc_showSidebar = True, cc_search = [], cc_load = 0, cc_out = []\<rparr>"

text \<open>The load effect of \<open>activeUser\<close>: nothing for the assistant (the flag and
  the list stay as they are), otherwise the list is emptied and the history
  requested.\<close>

definition cc_load_effect :: "care_chat \<Rightarrow> care_chat" where
  "cc_load_effect st =
     (let st1 = st\<lparr>cc_load := Suc (cc_load st)\<rparr> in
      case cc_active st of
        None \<Rightarrow> st1
      | Some a \<Rightarrow>
          if ct_kind a = KAi then st1
          else cc_emit [CcGetMessages (ct_id a) (if ct_kind a = KUser then ''user'' else ''caretaker'')]
                 (st1\<lparr>cc_loading := True, cc_messages := []\<rparr>))"

text \<open>Mount: the socket effect (only with a token), then the user list request;
  the load effect finds no active contact.\<close>

definition cc_mount :: "care_chat \<Rightarrow> care_chat" where
  "cc_mount st =
     (let st1 = (if opt_truthy (cc_token st)
                 then cc_emit [CcConnect (the (cc_token st))] (st\<lparr>cc_socket := True\<rparr>) else st)
      in cc_emit [CcGetUsers] st1)"

definition cc_unmount :: "care_chat \<Rightarrow> care_chat" where
  "cc_unmount st = (if cc_socket st then cc_emit [CcDisconnect] (st\<lparr>cc_socket := False\<rparr>) else st)"

text \<open>\<open>fetchUsers\<close> resolved: every user is tagged \<open>type: "user"\<close>.\<close>

definition cc_users_loaded :: "contact list \<Rightarrow> care_chat \<Rightarrow> care_chat" where
  "cc_users_loaded us st = st\<lparr>cc_users := map (\<lambda>u. u\<lparr>ct_kind := KUser\<rparr>) us\<rparr>"

text \<open>The \<open>receive_message\<close> handler: a message from anyone but the caretaker
  is appended to the open conversation, and its sender, if listed, is marked and
  moved to the top.\<close>

definition cc_on_receive :: "care_chat \<Rightarrow> chat \<Rightarrow> care_chat" where
  "cc_on_receive st c =
     (let s = chat_sender c in
      if s = [] then st
      else if s = js_string (cc_me st) then st
      else st\<lparr>cc_messages := cc_messages st @ [chat_view c],
              cc_users := bump_front (\<lambda>u. ct_id u = s) (mark_new (chat_createdAt c)) (cc_users st)\<rparr>)"

definition cc_messages_loaded :: "nat \<Rightarrow> chat list \<Rightarrow> care_chat \<Rightarrow> care_chat" where
  "cc_messages_loaded g cs st =
     (if g = cc_load st then st\<lparr>cc_messages := map chat_view cs, cc_loading := False\<rparr> else st)"

definition cc_messages_failed :: "nat \<Rightarrow> care_chat \<Rightarrow> care_chat" where
  "cc_messages_failed g st = (if g = cc_load st then st\<lparr>cc_loading := False\<rparr> else st)"

text \<open>\<open>handleSendToSocket\<close>.\<close>

definition cc_send_to_socket :: "care_chat \<Rightarrow> string \<Rightarrow> care_chat" where
  "cc_send_to_socket st text =
     (case cc_active st of
        None \<Rightarrow> st
      | Some a \<Rightarrow>
          if \<not> cc_socket st then st
          else
            (let payload = \<lparr>p_receiver = Some (ct_id a), p_receiverType = Some (kind_str (ct_kind a)),
                            p_message = Some text\<rparr>;
                 opt = \<lparr>cm_id = LocalId (cc_now st), cm_sender = cc_me st, cm_receiver = ct_id a,
                        cm_message = text, cm_createdAt = cc_now st\<rparr>
             in cc_emit [CcEmit payload, CcUpdateProfile]
                  (st\<lparr>cc_messages := cc_messages st @ [opt],
                      cc_users := bump_front (\<lambda>u. ct_id u = ct_id a)
                        (\<lambda>u. u\<lparr>ct_hasNewMsg := False, ct_lastMessageTime := Some (cc_now st)\<rparr>) (cc_users st)\<rparr>)))"

definition cc_ai_send :: "care_chat \<Rightarrow> string \<Rightarrow> care_chat" where
  "cc_ai_send st text =
     cc_emit [CcAiRequest (map (\<lambda>m. (if am_role m = [] then ''assistant'' else am_role m, am_message m)) (cc_ai st)
                           @ [(''user'', text)])]
       (st\<lparr>cc_ai := cc_ai st @ [\<lparr>am_message = text, am_role = ''user'', am_createdAt = cc_now st\<rparr>]\<rparr>)"

definition cc_ai_reply :: "string option \<Rightarrow> string option \<Rightarrow> care_chat \<Rightarrow> care_chat" where
  "cc_ai_reply content reply st =
     st\<lparr>cc_ai := cc_ai st @ [\<lparr>am_message = js_or_default (js_or_opt content reply) ''Sorry, I couldn't process that.'',
                             am_role = ''assistant'', am_createdAt = cc_now st\<rparr>]\<rparr>"

definition cc_ai_error :: "care_chat \<Rightarrow> care_chat" where
  "cc_ai_error st =
     st\<lparr>cc_ai := cc_ai st @ [\<lparr>am_message = ''AI is unavailable right now.'', am_role = ''assistant'',
                             am_createdAt = cc_now st\<rparr>]\<rparr>"

text \<open>\<open>handleSend\<close>: blank input or no open conversation keeps the input;
  otherwise the text goes to the assistant or the socket and the input is cleared,
  also when there is no socket and nothing was sent.\<close>

definition cc_handle_send :: "care_chat \<Rightarrow> care_chat" where
  "cc_handle_send st =
     (let text = js_trim (cc_newMessage st) in
      case cc_active st of
        None \<Rightarrow> st
      | Some a \<Rightarrow>
          if text = [] then st
          else (if ct_kind a = KAi then cc_ai_send st text else cc_send_to_socket st text)\<lparr>cc_newMessage := []\<rparr>)"

definition cc_filtered_users :: "care_chat \<Rightarrow> contact list" where
  "cc_filtered_users st =
     filter (\<lambda>u. ct_kind u = KUser)
       (filter (\<lambda>u. case ct_name u of None \<Rightarrow> False
                        | Some n \<Rightarrow> js_includes (js_to_lower n) (js_to_lower (cc_search st))) (cc_users st))"

text \<open>A click on a listed user, then the load effect it triggers.\<close>

definition cc_click_user :: "contact \<Rightarrow> care_chat \<Rightarrow> care_chat" where
  "cc_click_user u st =
     cc_load_effect
       (st\<lparr>cc_active := Some (u\<lparr>ct_kind := KUser\<rparr>),
           cc_users := bump_front (\<lambda>p. ct_id p = ct_id u) (\<lambda>p. p\<lparr>ct_hasNewMsg := False\<rparr>) (cc_users st),
           cc_showSidebar := (if cc_mobile st then False else cc_showSidebar st)\<rparr>)"

definition cc_ai_contact :: contact where
  "cc_ai_contact = \<lparr>ct_id = ''ai'', ct_name = Some ''MindMate AI'', ct_email = None, ct_role = None, ct_kind = KAi,
     ct_hasNewMsg = False, ct_lastMessageTime = None\<rparr>"

definition cc_click_ai :: "care_chat \<Rightarrow> care_chat" where
  "cc_click_ai st =
     cc_load_effect (st\<lparr>cc_active := Some cc_ai_contact,
                        cc_showSidebar := (if cc_mobile st then False else cc_showSidebar st)\<rparr>)"

datatype cc_ev =
    CcMount | CcUnmount
  | CcUsersLoaded "contact list"
  | CcReceive chat
  | CcMessagesLoaded nat "chat list" | CcMessagesFailed nat
  | CcType string | CcSearch string
  | CcSubmit
  | CcAiReply "string option" "string option" | CcAiFailed
  | CcClickUser contact | CcClickAi
  | CcBack | CcTick nat

fun cc_step :: "care_chat \<Rightarrow> cc_ev \<Rightarrow> care_chat" where
  "cc_step st CcMount = cc_mount st"
| "cc_step st CcUnmount = cc_unmount st"
| "cc_step st (CcUsersLoaded us) = cc_users_loaded us st"
| "cc_step st (CcReceive c) = (if cc_socket st then cc_on_receive st c else st)"
| "cc_step st (CcMessagesLoaded g cs) = cc_messages_loaded g cs st"
| "cc_step st (CcMessagesFailed g) = cc_messages_failed g st"
| "cc_step st (CcType s) = st\<lparr>cc_newMessage := s\<rparr>"
| "cc_step st (CcSearch s) = st\<lparr>cc_search := s\<rparr>"
| "cc_step st CcSubmit = cc_handle_send st"
| "cc_step st (CcAiReply c r) = cc_ai_reply c r st"
| "cc_step st CcAiFailed = cc_ai_error st"
| "cc_step st (CcClickUser u) = cc_click_user u st"
| "cc_step st CcClickAi = cc_click_ai st"
| "cc_step st CcBack = st\<lparr>cc_showSidebar := True\<rparr>"
| "cc_step st (CcTick t) = st\<lparr>cc_now := t\<rparr>"

definition cc_run :: "care_chat \<Rightarrow> cc_ev list \<Rightarrow> care_chat" where
  "cc_run st evs = foldl cc_step st evs"

text \<open>The message pane: the assistant's messages, a spinner while loading, or
  the conversation with each bubble marked as the caretaker's own or not.\<close>

datatype cc_pane = CcPaneAi "ai_msg list" | CcSpinner | CcPaneMsgs "(cmsg \<times> bool) list" | CcNoChat

definition cc_pane_of :: "care_chat \<Rightarrow> cc_pane" where
  "cc_pane_of st =
     (case cc_active st of
        None \<Rightarrow> CcNoChat
      | Some a \<Rightarrow>
          if ct_kind a = KAi then CcPaneAi (cc_ai st)
          else if cc_loading st then CcSpinner
          else CcPaneMsgs (map (\<lambda>m. (m, js_string (cm_sender m) = js_string (cc_me st))) (cc_messages st)))"

subsection \<open>Facts\<close>

lemmas cc_defs = cc_emit_def cc_mount_def cc_unmount_def cc_users_loaded_def cc_on_receive_def
  cc_messages_loaded_def cc_messages_failed_def cc_handle_send_def cc_send_to_socket_def cc_ai_send_def
  cc_ai_reply_def cc_ai_error_def cc_click_user_def cc_click_ai_def cc_load_effect_def

text \<open>Every event only appends to the outputs.\<close>

lemma cc_step_out: "\<exists>os. cc_out (cc_step st e) = cc_out st @ os"
  by (cases e) (auto simp: cc_defs Let_def split: option.splits)

text \<open>One connection per mount: no event but the unmount disconnects the socket,
  and the socket flag stays set.\<close>

lemma cc_step_keeps_socket:
  "e \<noteq> CcUnmount \<Longrightarrow> cc_socket st \<Longrightarrow>
   cc_socket (cc_step st e) \<and> CcDisconnect \<notin> set (drop (length (cc_out st)) (cc_out (cc_step st e)))"
  by (cases e) (auto simp: cc_defs Let_def split: option.splits)

lemma cc_run_keeps_socket:
  "CcUnmount \<notin> set evs \<Longrightarrow> cc_socket st \<Longrightarrow>
   cc_socket (cc_run st evs) \<and> CcDisconnect \<notin> set (drop (length (cc_out st)) (cc_out (cc_run st evs)))"
proof (induction evs arbitrary: st)
  case Nil then show ?case by (simp add: cc_run_def)
next
  case (Cons e evs)
  let ?st1 = "cc_step st e"
  obtain os where os: "cc_out ?st1 = cc_out st @ os" using cc_step_out by blast
  have h1: "cc_socket ?st1" "CcDisconnect \<notin> set os"
    using cc_step_keeps_socket [of e st] Cons.prems os by auto
  have h2: "cc_socket (cc_run ?st1 evs)" "CcDisconnect \<notin> set (drop (length (cc_out ?st1)) (cc_out (cc_run ?st1 evs)))"
    using Cons.IH [of ?st1] Cons.prems h1 by auto
  obtain rs where rs: "cc_out (cc_run ?st1 evs) = cc_out ?st1 @ rs"
  proof -
    have "\<exists>rs. cc_out (cc_run s es) = cc_out s @ rs" for s es
      by (induction es arbitrary: s) (simp add: cc_run_def, metis append.assoc cc_run_def cc_step_out foldl_Cons)
    then show ?thesis using that by blast
  qed
  show ?case using h1 h2 os rs by (simp add: cc_run_def)
qed

end
