(* ===== verification/Accounts.thy ===== *)
theory Accounts
  imports Gateway
begin

text \<open>
  The account service: the handlers of \<open>controllers/auth.controller.js\<close> over the
  collections of \<open>models/User.model.js\<close> and \<open>models/Otp.model.js\<close>, and the
  counter updates other controllers make to a user's profile. The state is the two
  collections in insertion order, the ObjectId counter, the clock (seconds) and the
  outbox of e-mails sent. Each handler is one function from a request to a reply and
  a new state; the caller's identity is the id the HTTP middleware resolved, and
  for the privacy (OTP) handlers the document it loaded, which may be a caretaker's.

  Password hashing is modelled as ideal: \<open>bcrypt.hash\<close> stores \<open>PwHash p\<close> and
  \<open>bcrypt.compare\<close> compares plain texts; a missing argument makes both throw.
  \<open>generateOtp\<close> draws a random code; the code is an input of the request here.
  An update that sets a field to \<open>undefined\<close> leaves it unchanged (Mongoose
  removes undefined keys from updates).
\<close>

subsection \<open>Schemas\<close>

record activity =
  act_type :: string
  act_title :: string
  act_time :: nat
  act_points :: "int option"

record achievement =
  ach_title :: "string option"
  ach_description :: "string option"
  ach_date :: "string option"
  ach_earned :: "bool option"
  ach_progress :: "int option"
  ach_icon :: "string option"

record skill =
  sk_name :: "string option"
  sk_level :: "int option"
  sk_maxLevel :: "int option"
  sk_progress :: "int option"

record profile =
  pf_achievements :: "achievement list"
  pf_points :: int
  pf_skills :: "skill list"
  pf_activities :: "activity list"
  pf_totalLogins :: int
  pf_gamesPlayed :: int
  pf_chatMessages :: int

record user_settings =
  us_theme :: string
  us_color :: string
  us_font :: string
  us_largeText :: bool
  us_notifyEmail :: bool
  us_notifySms :: bool
  us_notifyPush :: bool

datatype pw = PwHash string

record user =
  u_id :: oid
  u_name :: string
  u_email :: string
  u_password :: "pw option"
  u_level :: int
  u_photo :: "string option"
  u_settings :: user_settings
  u_profile :: profile

definition default_settings :: user_settings where
  "default_settings = \<lparr>us_theme = ''light'', us_color = ''blue'', us_font = ''default'',
     us_largeText = False, us_notifyEmail = True, us_notifySms = False, us_notifyPush = False\<rparr>"

definition default_profile :: profile where
  "default_profile = \<lparr>pf_achievements = [], pf_points = 0, pf_skills = [], pf_activities = [],
     pf_totalLogins = 0, pf_gamesPlayed = 0, pf_chatMessages = 0\<rparr>"

text \<open>\<open>User.create\<close>: the schema's defaults for what the document leaves out.\<close>

definition new_user :: "oid \<Rightarrow> string option \<Rightarrow> string \<Rightarrow> pw option \<Rightarrow> user" where
  "new_user i name email p = \<lparr>u_id = i, u_name = (case name of Some n \<Rightarrow> n | None \<Rightarrow> ''User''),
     u_email = email, u_password = p, u_level = 1, u_photo = None,
     u_settings = default_settings, u_profile = default_profile\<rparr>"

datatype otp_type = OtpPassword | OtpEmailChange

record otp =
  o_user :: oid
  o_type :: otp_type
  o_code :: string
  o_newEmail :: "string option"   \<comment> \<open>\<open>data.newEmail\<close>\<close>
  o_used :: bool
  o_expiresAt :: nat
  o_createdAt :: nat

record mail =
  m_to :: string
  m_subject :: string
  m_text :: string

record accounts =
  acc_users :: "user list"
  acc_otps :: "otp list"
  acc_next :: nat
  acc_now :: nat
  acc_mail :: "mail list"

text \<open>ObjectIds drawn from the counter: 24 hex digits.\<close>

fun hex_digits :: "nat \<Rightarrow> nat \<Rightarrow> string" where
  "hex_digits 0 n = []"
| "hex_digits (Suc k) n = hex_digits k (n div 16) @
     [(if n mod 16 < 10 then char_of (48 + n mod 16) else char_of (87 + n mod 16))]"

definition fresh_oid :: "nat \<Rightarrow> oid" where
  "fresh_oid n = hex_digits 24 n"

datatype reply =
    Reply nat string          \<comment> \<open>status and \<open>message\<close>\<close>
  | RToken nat jwt oid        \<comment> \<open>status, token, the user's id\<close>
  | RSettings user_settings
  | RProfile profile
  | REmail string

subsection \<open>Store operations\<close>

definition find_email :: "string \<Rightarrow> accounts \<Rightarrow> user option" where
  "find_email e st = find (\<lambda>u. u_email u = e) (acc_users st)"

definition find_user :: "oid \<Rightarrow> accounts \<Rightarrow> user option" where
  "find_user i st = find (\<lambda>u. u_id u = i) (acc_users st)"

text \<open>\<open>findByIdAndUpdate\<close>: apply an update to the document with that id.\<close>

definition update_user :: "oid \<Rightarrow> (user \<Rightarrow> user) \<Rightarrow> accounts \<Rightarrow> accounts" where
  "update_user i f st = st\<lparr>acc_users := map (\<lambda>u. if u_id u = i then f u else u) (acc_users st)\<rparr>"

definition add_user :: "string option \<Rightarrow> string \<Rightarrow> pw option \<Rightarrow> accounts \<Rightarrow> user \<times> accounts" where
  "add_user name email p st =
     (let u = new_user (fresh_oid (acc_next st)) name email p in
      (u, st\<lparr>acc_users := acc_users st @ [u], acc_next := Suc (acc_next st)\<rparr>))"

text \<open>\<open>bcrypt.compare(candidate, hash)\<close>: \<open>None\<close> when it throws.\<close>

fun bcrypt_compare :: "string option \<Rightarrow> pw option \<Rightarrow> bool option" where
  "bcrypt_compare (Some p) (Some (PwHash q)) = Some (p = q)"
| "bcrypt_compare _ _ = None"

subsection \<open>Registration and login\<close>

definition register :: "string option \<Rightarrow> string option \<Rightarrow> string option \<Rightarrow> accounts \<Rightarrow> reply \<times> accounts" where
  "register name email password st =
     (if \<not> opt_truthy name \<or> \<not> opt_truthy email \<or> \<not> opt_truthy password
      then (Reply 400 ''Email and password are required'', st)
      else (case (email, password) of
              (Some e, Some p) \<Rightarrow>
                if find_email e st \<noteq> None then (Reply 400 ''User already exists'', st)
                else (Reply 201 ''Registered successfully'', snd (add_user name e (Some (PwHash p)) st))
            | _ \<Rightarrow> (Reply 400 ''Email and password are required'', st)))"

text \<open>\<open>googleRegister\<close>: find the account with that e-mail or create one without a
  password, and sign a seven-day token for it.\<close>

definition googleRegister :: "config \<Rightarrow> string option \<Rightarrow> accounts \<Rightarrow> reply \<times> accounts" where
  "googleRegister cfg email st =
     (case email of
        Some e \<Rightarrow>
          if e = [] then (Reply 400 ''Email is required'', st)
          else (let r = (case find_email e st of Some u \<Rightarrow> (u, st) | None \<Rightarrow> add_user None e None st)
                in (RToken 201 (google_token cfg (u_id (fst r)) (acc_now (snd r))) (u_id (fst r)), snd r))
      | None \<Rightarrow> (Reply 400 ''Email is required'', st))"

definition login_activity :: "nat \<Rightarrow> activity" where
  "login_activity t = \<lparr>act_type = ''login'', act_title = ''Successful login'', act_time = t, act_points = Some 2\<rparr>"

definition record_login :: "nat \<Rightarrow> user \<Rightarrow> user" where
  "record_login t u =
     u\<lparr>u_profile := (u_profile u)\<lparr>pf_totalLogins := pf_totalLogins (u_profile u) + 1,
                                   pf_points := pf_points (u_profile u) + 2,
                                   pf_activities := pf_activities (u_profile u) @ [login_activity t]\<rparr>\<rparr>"

definition login :: "config \<Rightarrow> string option \<Rightarrow> string option \<Rightarrow> accounts \<Rightarrow> reply \<times> accounts" where
  "login cfg email password st =
     (if \<not> opt_truthy email \<or> \<not> opt_truthy password
      then (Reply 400 ''Email and password are required'', st)
      else (case email of None \<Rightarrow> (Reply 400 ''Email and password are required'', st) | Some e \<Rightarrow>
            (case find_email e st of
              None \<Rightarrow> (Reply 400 ''Invalid credentials (user not found)'', st)
            | Some u \<Rightarrow>
                (case bcrypt_compare password (u_password u) of
                   None \<Rightarrow> (Reply 500 ''Server error during login'', st)
                 | Some False \<Rightarrow> (Reply 400 ''Invalid credentials (wrong password)'', st)
                 | Some True \<Rightarrow>
                     (RToken 200 (login_token cfg (u_id u) (acc_now st)) (u_id u),
                      update_user (u_id u) (record_login (acc_now st)) st)))))"

definition changePassword :: "oid \<Rightarrow> string option \<Rightarrow> string option \<Rightarrow> accounts \<Rightarrow> reply \<times> accounts" where
  "changePassword uid cur new st =
     (case find_user uid st of
        None \<Rightarrow> (Reply 404 ''User not found'', st)
      | Some u \<Rightarrow>
          (case bcrypt_compare cur (u_password u) of
             None \<Rightarrow> (Reply 500 ''Failed to change password'', st)
           | Some False \<Rightarrow> (Reply 400 ''Incorrect current password'', st)
           | Some True \<Rightarrow>
               (case new of
                  None \<Rightarrow> (Reply 500 ''Failed to change password'', st)
                | Some p \<Rightarrow> (Reply 200 ''Password changed Successfully'',
                             update_user uid (\<lambda>u. u\<lparr>u_password := Some (PwHash p)\<rparr>) st))))"

subsection \<open>Profile and settings\<close>

definition set_opt :: "'a option \<Rightarrow> 'a \<Rightarrow> 'a" where
  "set_opt v old = (case v of Some x \<Rightarrow> x | None \<Rightarrow> old)"

definition updateBasicProfile :: "oid \<Rightarrow> string option \<Rightarrow> string option \<Rightarrow> accounts \<Rightarrow> reply \<times> accounts" where
  "updateBasicProfile uid name photo st =
     (Reply 200 ''Profile updated'',
      update_user uid (\<lambda>u. u\<lparr>u_name := set_opt name (u_name u),
                               u_photo := (case photo of Some p \<Rightarrow> Some p | None \<Rightarrow> u_photo u)\<rparr>) st)"

definition changeUserName :: "oid \<Rightarrow> string option \<Rightarrow> accounts \<Rightarrow> reply \<times> accounts" where
  "changeUserName uid n st =
     (Reply 200 ''Username changed successfully'', update_user uid (\<lambda>u. u\<lparr>u_name := set_opt n (u_name u)\<rparr>) st)"

definition getSettings :: "oid \<Rightarrow> accounts \<Rightarrow> reply" where
  "getSettings uid st =
     (case find_user uid st of Some u \<Rightarrow> RSettings (u_settings u) | None \<Rightarrow> Reply 500 ''Error fetching settings'')"

definition updateSettings :: "oid \<Rightarrow> user_settings \<Rightarrow> accounts \<Rightarrow> reply \<times> accounts" where
  "updateSettings uid s st =
     (case find_user uid st of
        Some u \<Rightarrow> (RSettings s, update_user uid (\<lambda>u. u\<lparr>u_settings := s\<rparr>) st)
      | None \<Rightarrow> (Reply 500 ''Error updating settings'', st))"

definition getProfile :: "oid \<Rightarrow> accounts \<Rightarrow> reply" where
  "getProfile uid st =
     (case find_user uid st of Some u \<Rightarrow> RProfile (u_profile u) | None \<Rightarrow> Reply 500 ''Error fetching profile'')"

text \<open>\<open>updateProfile\<close> replaces the whole profile with the request body.\<close>

definition updateProfile :: "oid \<Rightarrow> profile \<Rightarrow> accounts \<Rightarrow> reply \<times> accounts" where
  "updateProfile uid p st =
     (case find_user uid st of
        Some u \<Rightarrow> (RProfile p, update_user uid (\<lambda>u. u\<lparr>u_profile := p\<rparr>) st)
      | None \<Rightarrow> (Reply 500 ''Error updating profile'', st))"

text \<open>\<open>POST /api/chat/updateProfile\<close> (\<open>chat.controller.js\<close>), called by the chat
  screen after every send: one point and an activity.\<close>

definition chat_updateProfile :: "oid \<Rightarrow> accounts \<Rightarrow> accounts" where
  "chat_updateProfile uid st =
     update_user uid (\<lambda>u. u\<lparr>u_profile := (u_profile u)\<lparr>pf_points := pf_points (u_profile u) + 1,
        pf_activities := pf_activities (u_profile u) @
          [\<lparr>act_type = ''message_sent'', act_title = ''Message sent'', act_time = acc_now st, act_points = None\<rparr>]\<rparr>\<rparr>) st"

subsection \<open>One-time passwords\<close>

definition otp_ttl :: nat where
  "otp_ttl = 15 * 60"

text \<open>\<open>/^\\S+@\\S+\\.\\S+$/\<close>: no white space, an \<open>@\<close> after at least one character,
  and a dot after at least one more, followed by at least one character.\<close>

definition email_ok :: "string \<Rightarrow> bool" where
  "email_ok s \<longleftrightarrow>
     list_all (\<lambda>c. \<not> js_is_ws c) s \<and>
     list_ex (\<lambda>i. s ! i = CHR ''@'' \<and> 0 < i \<and>
        list_ex (\<lambda>j. s ! j = CHR ''.'' \<and> Suc i < j \<and> Suc j < length s) [0..<length s]) [0..<length s]"

text \<open>\<open>Otp.findOne({user, otp, type, used: false}).sort({createdAt: -1})\<close>: the
  position of the match. Creation times are the clock at insertion, so the latest
  match is the last one inserted (for equal times the model takes the last one).\<close>

definition otp_match :: "oid \<Rightarrow> string \<Rightarrow> otp_type \<Rightarrow> otp \<Rightarrow> bool" where
  "otp_match uid code ty r \<longleftrightarrow> o_user r = uid \<and> o_code r = code \<and> o_type r = ty \<and> \<not> o_used r"

definition latest_otp :: "oid \<Rightarrow> string \<Rightarrow> otp_type \<Rightarrow> accounts \<Rightarrow> nat option" where
  "latest_otp uid code ty st =
     (let is = filter (\<lambda>i. otp_match uid code ty (acc_otps st ! i)) [0..<length (acc_otps st)] in
      if is = [] then None else Some (last is))"

text \<open>\<open>record.used = true; await record.save()\<close>.\<close>

definition mark_used :: "nat \<Rightarrow> accounts \<Rightarrow> accounts" where
  "mark_used i st = st\<lparr>acc_otps := (acc_otps st)[i := (acc_otps st ! i)\<lparr>o_used := True\<rparr>]\<rparr>"

definition add_otp :: "oid \<Rightarrow> otp_type \<Rightarrow> string \<Rightarrow> string option \<Rightarrow> accounts \<Rightarrow> accounts" where
  "add_otp uid ty code ne st =
     st\<lparr>acc_otps := acc_otps st @ [\<lparr>o_user = uid, o_type = ty, o_code = code, o_newEmail = ne,
        o_used = False, o_expiresAt = acc_now st + otp_ttl, o_createdAt = acc_now st\<rparr>]\<rparr>"

definition send_mail :: "string \<Rightarrow> string \<Rightarrow> string \<Rightarrow> accounts \<Rightarrow> accounts" where
  "send_mail to subj txt st = st\<lparr>acc_mail := acc_mail st @ [\<lparr>m_to = to, m_subject = subj, m_text = txt\<rparr>]\<rparr>"

text \<open>\<open>req.user\<close> of the privacy handlers: the document the HTTP middleware
  loaded, the caller's user or, when no user has that id, its caretaker (with the
  password removed). The handlers read only its \<open>_id\<close> and \<open>email\<close>; \<open>None\<close> is
  a request that reached the handler without it.\<close>

record req_user =
  rq_id :: oid
  rq_email :: string

definition user_req :: "user \<Rightarrow> req_user" where
  "user_req u = \<lparr>rq_id = u_id u, rq_email = u_email u\<rparr>"

text \<open>The e-mail helper \<open>sendMail\<close> (\<open>config/emailservice.js\<close>) throws when the
  provider rejects the request; \<open>ok\<close> is its outcome. The OTP is stored before.\<close>

definition requestPasswordOtp :: "req_user option \<Rightarrow> string \<Rightarrow> bool \<Rightarrow> accounts \<Rightarrow> reply \<times> accounts" where
  "requestPasswordOtp ru code ok st =
     (case ru of
        None \<Rightarrow> (Reply 401 ''Unauthorized'', st)
      | Some me \<Rightarrow>
          (let st1 = add_otp (rq_id me) OtpPassword code None st in
           if \<not> ok then (Reply 500 ''Failed to send OTP'', st1)
           else (Reply 200 ''OTP sent to your email.'',
                 send_mail (rq_email me) ''Your password change OTP''
                   (''Your OTP for password change is: '' @ code @
                    ''. It expires in 15 minutes. If you didn't request this, ignore this email.'') st1)))"

definition resetPasswordWithOtp ::
  "req_user option \<Rightarrow> string option \<Rightarrow> string option \<Rightarrow> accounts \<Rightarrow> reply \<times> accounts" where
  "resetPasswordWithOtp ru code newPw st =
     (case ru of
        None \<Rightarrow> (Reply 401 ''Unauthorized'', st)
      | Some me \<Rightarrow>
          (case (code, newPw) of
             (Some c, Some p) \<Rightarrow>
               if c = [] \<or> p = [] then (Reply 400 ''OTP and newPassword required'', st)
               else if length p < 6 then (Reply 400 ''Password must be at least 6 characters'', st)
               else (case latest_otp (rq_id me) c OtpPassword st of
                       None \<Rightarrow> (Reply 400 ''Invalid or expired OTP'', st)
                     | Some i \<Rightarrow>
                         if o_expiresAt (acc_otps st ! i) < acc_now st then (Reply 400 ''OTP has expired'', st)
                         else (Reply 200 ''Password changed successfully.'',
                               mark_used i (update_user (rq_id me) (\<lambda>u. u\<lparr>u_password := Some (PwHash p)\<rparr>) st)))
           | _ \<Rightarrow> (Reply 400 ''OTP and newPassword required'', st)))"

definition requestEmailChangeOtp ::
  "req_user option \<Rightarrow> string option \<Rightarrow> string \<Rightarrow> bool \<Rightarrow> accounts \<Rightarrow> reply \<times> accounts" where
  "requestEmailChangeOtp ru newEmail code ok st =
     (case ru of
        None \<Rightarrow> (Reply 401 ''Unauthorized'', st)
      | Some me \<Rightarrow>
          (case newEmail of
             None \<Rightarrow> (Reply 400 ''Enter a valid new email address.'', st)
           | Some e \<Rightarrow>
               if e = [] \<or> \<not> email_ok e then (Reply 400 ''Enter a valid new email address.'', st)
               else if find_email (js_to_lower e) st \<noteq> None then (Reply 400 ''Email already in use'', st)
               else (let st1 = add_otp (rq_id me) OtpEmailChange code (Some (js_to_lower e)) st in
                     if \<not> ok then (Reply 500 ''Failed to send OTP'', st1)
                     else (Reply 200 ''OTP sent to your current email.'',
                           send_mail (rq_email me) ''Confirm your email change - OTP''
                             (''You requested to change your account email to '' @ e @
                              ''. Use this OTP to confirm the change: '' @ code @ ''. Expires in 15 minutes.'') st1))))"

definition confirmEmailChange :: "req_user option \<Rightarrow> string option \<Rightarrow> accounts \<Rightarrow> reply \<times> accounts" where
  "confirmEmailChange ru code st =
     (case ru of
        None \<Rightarrow> (Reply 401 ''Unauthorized'', st)
      | Some me \<Rightarrow>
          (case code of
             None \<Rightarrow> (Reply 400 ''OTP required'', st)
           | Some c \<Rightarrow>
               if c = [] then (Reply 400 ''OTP required'', st)
               else (case latest_otp (rq_id me) c OtpEmailChange st of
                       None \<Rightarrow> (Reply 400 ''Invalid or expired OTP'', st)
                     | Some i \<Rightarrow>
                         if o_expiresAt (acc_otps st ! i) < acc_now st then (Reply 400 ''OTP has expired'', st)
                         else (case o_newEmail (acc_otps st ! i) of
                                 None \<Rightarrow> (Reply 400 ''No new email attached to OTP'', st)
                               | Some ne \<Rightarrow>
                                   if ne = [] then (Reply 400 ''No new email attached to OTP'', st)
                                   else if find_email ne st \<noteq> None then (Reply 400 ''Email already in use'', st)
                                   else (REmail ne, mark_used i (update_user (rq_id me) (\<lambda>u. u\<lparr>u_email := ne\<rparr>) st))))))"

text \<open>The TTL index on \<open>expiresAt\<close>: the store removes, at a time of its choosing,
  documents whose expiry has passed.\<close>

definition otp_sweep :: "accounts \<Rightarrow> accounts" where
  "otp_sweep st = st\<lparr>acc_otps := filter (\<lambda>r. acc_now st \<le> o_expiresAt r) (acc_otps st)\<rparr>"

subsection \<open>The account service as a transition system\<close>

datatype acc_ev =
    ARegister "string option" "string option" "string option"
  | AGoogle "string option"
  | ALogin "string option" "string option"
  | AChangePassword oid "string option" "string option"
  | AUpdateBasic oid "string option" "string option"
  | AChangeName oid "string option"
  | AUpdateSettings oid user_settings
  | AUpdateProfile oid profile
  | AChatPoint oid
  | ARequestPwOtp "req_user option" string bool
  | AResetPw "req_user option" "string option" "string option"
  | ARequestEmailOtp "req_user option" "string option" string bool
  | AConfirmEmail "req_user option" "string option"
  | ASweep
  | ATick

fun acc_step :: "config \<Rightarrow> accounts \<Rightarrow> acc_ev \<Rightarrow> reply \<times> accounts" where
  "acc_step cfg st (ARegister n e p) = register n e p st"
| "acc_step cfg st (AGoogle e) = googleRegister cfg e st"
| "acc_step cfg st (ALogin e p) = login cfg e p st"
| "acc_step cfg st (AChangePassword u c n) = changePassword u c n st"
| "acc_step cfg st (AUpdateBasic u n ph) = updateBasicProfile u n ph st"
| "acc_step cfg st (AChangeName u n) = changeUserName u n st"
| "acc_step cfg st (AUpdateSettings u s) = updateSettings u s st"
| "acc_step cfg st (AUpdateProfile u p) = updateProfile u p st"
| "acc_step cfg st (AChatPoint u) = (Reply 200 [], chat_updateProfile u st)"
| "acc_step cfg st (ARequestPwOtp u c ok) = requestPasswordOtp u c ok st"
| "acc_step cfg st (AResetPw u c p) = resetPasswordWithOtp u c p st"
| "acc_step cfg st (ARequestEmailOtp u e c ok) = requestEmailChangeOtp u e c ok st"
| "acc_step cfg st (AConfirmEmail u c) = confirmEmailChange u c st"
| "acc_step cfg st ASweep = (Reply 200 [], otp_sweep st)"
| "acc_step cfg st ATick = (Reply 200 [], st\<lparr>acc_now := Suc (acc_now st)\<rparr>)"

definition acc_init :: "nat \<Rightarrow> accounts" where
  "acc_init t = \<lparr>acc_users = [], acc_otps = [], acc_next = 0, acc_now = t, acc_mail = []\<rparr>"

inductive acc_reachable :: "config \<Rightarrow> accounts \<Rightarrow> bool" for cfg where
  init: "acc_reachable cfg (acc_init t)"
| step: "acc_reachable cfg st \<Longrightarrow> acc_reachable cfg (snd (acc_step cfg st e))"

text \<open>What every reachable state satisfies (for fewer than \<open>16^24\<close> ids drawn):
  the users' ids are the ObjectIds drawn from the counter, in order; no two users
  share an e-mail; one-time passwords are listed in creation order, none created
  in the future.\<close>

definition acc_inv :: "accounts \<Rightarrow> bool" where
  "acc_inv st \<longleftrightarrow>
     map u_id (acc_users st) = map fresh_oid [0..<acc_next st] \<and>
     distinct (map u_email (acc_users st)) \<and>
     sorted (map o_createdAt (acc_otps st)) \<and>
     list_all (\<lambda>t. t \<le> acc_now st) (map o_createdAt (acc_otps st))"

subsection \<open>Facts\<close>

lemma length_hex_digits [simp]: "length (hex_digits k n) = k"
  by (induction k arbitrary: n) simp_all

lemma hex_char_of:
  "of_char (if x < 10 then char_of (48 + x) else char_of (87 + x) :: char) =
     (if x < 10 then 48 + x else 87 + x)" if "x < (16::nat)"
  using that by (simp add: of_char_of)

lemma hex_digit_inj:
  assumes "x < (16::nat)" "y < 16"
    and "(if x < 10 then char_of (48 + x) else char_of (87 + x) :: char) =
         (if y < 10 then char_of (48 + y) else char_of (87 + y))"
  shows "x = y"
proof -
  have "of_char (if x < 10 then char_of (48 + x) else char_of (87 + x) :: char) =
        (of_char (if y < 10 then char_of (48 + y) else char_of (87 + y) :: char) :: nat)"
    by (simp only: assms(3))
  then have "(if x < 10 then 48 + x else 87 + x) = (if y < 10 then 48 + y else 87 + (y::nat))"
    by (simp only: hex_char_of [OF assms(1)] hex_char_of [OF assms(2)])
  then show ?thesis by (cases "x < 10"; cases "y < 10") simp_all
qed

lemma hex_digits_inj:
  "n < 16 ^ k \<Longrightarrow> m < 16 ^ k \<Longrightarrow> hex_digits k n = hex_digits k m \<Longrightarrow> n = m"
proof (induction k arbitrary: n m)
  case 0
  then show ?case by simp
next
  case (Suc k)
  have "hex_digits k (n div 16) = hex_digits k (m div 16)"
    and d: "(if n mod 16 < 10 then char_of (48 + n mod 16) else char_of (87 + n mod 16) :: char) =
            (if m mod 16 < 10 then char_of (48 + m mod 16) else char_of (87 + m mod 16))"
    using Suc.prems(3) by simp_all
  moreover have "n div 16 < 16 ^ k" "m div 16 < 16 ^ k"
    using Suc.prems(1,2) by (simp_all add: less_mult_imp_div_less mult.commute)
  ultimately have "n div 16 = m div 16" using Suc.IH by blast
  moreover have "n mod 16 = m mod 16" using hex_digit_inj [OF _ _ d] by simp
  ultimately show ?case by (metis div_mult_mod_eq)
qed

lemma inj_on_fresh_oid: "inj_on fresh_oid {..<16 ^ 24}"
  unfolding inj_on_def fresh_oid_def using hex_digits_inj [of _ 24] by blast

lemma is_hex_digit_hex:
  "x < (16::nat) \<Longrightarrow> is_hex_digit (if x < 10 then char_of (48 + x) else char_of (87 + x))"
  using hex_char_of [of x] by (auto simp: is_hex_digit_def)

lemma is_valid_oid_fresh: "is_valid_oid (fresh_oid n)"
proof -
  have "list_all is_hex_digit (hex_digits k m)" for k m
    by (induction k arbitrary: m) (simp_all add: is_hex_digit_hex)
  then show ?thesis by (simp add: is_valid_oid_def fresh_oid_def)
qed

lemma ascii_lower_hex:
  "x < (16::nat) \<Longrightarrow>
   ascii_lower (if x < 10 then char_of (48 + x) else char_of (87 + x)) = (if x < 10 then char_of (48 + x) else char_of (87 + x))"
  using hex_char_of [of x] by (auto simp: ascii_lower_def Let_def)

lemma oid_canon_fresh [simp]: "oid_canon (fresh_oid n) = fresh_oid n"
proof -
  have "map ascii_lower (hex_digits k m) = hex_digits k m" for k m
    by (induction k arbitrary: m) (simp_all add: ascii_lower_hex)
  then show ?thesis by (simp add: oid_canon_def fresh_oid_def)
qed

lemma update_user_inv:
  assumes "\<And>u. u_id (f u) = u_id u" and "\<And>u. u_email (f u) = u_email u" and "acc_inv st"
  shows "acc_inv (update_user i f st)"
  using assms(3) by (simp add: acc_inv_def update_user_def comp_def if_distrib [of u_id]
      if_distrib [of u_email] assms(1,2) cong: if_cong)

lemma distinct_set_email:
  assumes "distinct (map u_id us)" and "distinct (map u_email us)" and "ne \<notin> set (map u_email us)"
  shows "distinct (map u_email (map (\<lambda>u. if u_id u = i then u\<lparr>u_email := ne\<rparr> else u) us))"
  using assms
proof (induction us)
  case Nil
  then show ?case by simp
next
  case (Cons u us)
  show ?case
  proof (cases "u_id u = i")
    case True
    have "\<forall>x\<in>set us. u_id x \<noteq> i" using Cons.prems(1) True by (auto simp: image_iff)
    then have "map (\<lambda>u. if u_id u = i then u\<lparr>u_email := ne\<rparr> else u) us = us"
      by (intro map_idI) simp
    then show ?thesis using True Cons.prems by simp
  next
    case False
    have "u_email u \<notin> set (map u_email (map (\<lambda>u. if u_id u = i then u\<lparr>u_email := ne\<rparr> else u) us))"
      using Cons.prems(2,3) by (auto simp: image_iff)
    then show ?thesis using False Cons by (simp del: map_map)
  qed
qed

lemma distinct_fresh_ids:
  "n \<le> 16 ^ 24 \<Longrightarrow> distinct (map fresh_oid [0..<n])"
  by (simp add: distinct_map) (rule inj_on_subset [OF inj_on_fresh_oid], auto)

lemma set_email_inv:
  assumes "acc_inv st" and "acc_next st \<le> 16 ^ 24" and "find_email ne st = None"
  shows "acc_inv (update_user uid (\<lambda>u. u\<lparr>u_email := ne\<rparr>) st)"
proof -
  let ?g = "\<lambda>u. if u_id u = uid then u\<lparr>u_email := ne\<rparr> else u"
  have "distinct (map u_id (acc_users st))"
    using assms(1,2) distinct_fresh_ids by (simp add: acc_inv_def)
  moreover have "ne \<notin> set (map u_email (acc_users st))"
    using assms(3) by (auto simp: find_email_def find_None_iff)
  ultimately have d: "distinct (map u_email (map ?g (acc_users st)))"
    using assms(1) by (simp add: acc_inv_def distinct_set_email del: map_map)
  have i: "map u_id (map ?g (acc_users st)) = map u_id (acc_users st)"
    by (simp add: comp_def if_distrib [of u_id] cong: if_cong)
  show ?thesis using assms(1) d i by (simp add: acc_inv_def update_user_def del: map_map)
qed

lemma add_user_inv:
  assumes "acc_inv st" and "find_email e st = None"
  shows "acc_inv (snd (add_user n e p st))"
  using assms by (auto simp: acc_inv_def add_user_def new_user_def find_email_def find_None_iff Let_def)

lemma add_otp_inv: "acc_inv st \<Longrightarrow> acc_inv (add_otp uid ty c ne st)"
  by (auto simp: acc_inv_def add_otp_def list_all_iff sorted_append)

lemma send_mail_inv: "acc_inv st \<Longrightarrow> acc_inv (send_mail to s t st)"
  by (simp add: acc_inv_def send_mail_def)

lemma map_createdAt_mark: "map o_createdAt ((xs :: otp list)[i := (xs ! i)\<lparr>o_used := True\<rparr>]) = map o_createdAt xs"
  by (induction xs arbitrary: i) (auto split: nat.split)

lemma mark_used_inv: "acc_inv st \<Longrightarrow> acc_inv (mark_used i st)"
  by (simp add: acc_inv_def mark_used_def map_createdAt_mark)

lemma acc_next_simps [simp]:
  "acc_next (update_user i f st) = acc_next st" "acc_next (add_otp uid ty c ne st) = acc_next st"
  "acc_next (send_mail to sb tx st) = acc_next st" "acc_next (mark_used j st) = acc_next st"
  "acc_next (snd (add_user n e p st)) = Suc (acc_next st)"
  by (simp_all add: update_user_def add_otp_def send_mail_def mark_used_def add_user_def Let_def)

lemma acc_step_next_mono: "acc_next st \<le> acc_next (snd (acc_step cfg st e))"
  by (cases e) (auto simp: register_def googleRegister_def login_def changePassword_def
      updateBasicProfile_def changeUserName_def updateSettings_def updateProfile_def
      chat_updateProfile_def requestPasswordOtp_def resetPasswordWithOtp_def
      requestEmailChangeOtp_def confirmEmailChange_def otp_sweep_def Let_def
      split: option.split prod.split bool.split)

lemma register_inv: "acc_inv st \<Longrightarrow> acc_inv (snd (register n e p st))"
  by (cases e; cases p) (auto simp: register_def add_user_inv)

lemma googleRegister_inv: "acc_inv st \<Longrightarrow> acc_inv (snd (googleRegister cfg e st))"
  by (auto simp: googleRegister_def add_user_inv Let_def split: option.split prod.split)

lemma login_inv: "acc_inv st \<Longrightarrow> acc_inv (snd (login cfg e p st))"
  by (auto simp: login_def record_login_def update_user_inv split: option.split bool.split)

lemma changePassword_inv: "acc_inv st \<Longrightarrow> acc_inv (snd (changePassword uid c n st))"
  by (auto simp: changePassword_def update_user_inv split: option.split bool.split)

lemma requestPasswordOtp_inv: "acc_inv st \<Longrightarrow> acc_inv (snd (requestPasswordOtp uid c ok st))"
  by (auto simp: requestPasswordOtp_def send_mail_inv add_otp_inv Let_def split: option.split)

lemma resetPasswordWithOtp_inv: "acc_inv st \<Longrightarrow> acc_inv (snd (resetPasswordWithOtp uid c p st))"
  by (auto simp: resetPasswordWithOtp_def mark_used_inv update_user_inv split: option.split)

lemma requestEmailChangeOtp_inv: "acc_inv st \<Longrightarrow> acc_inv (snd (requestEmailChangeOtp uid e c ok st))"
  by (auto simp: requestEmailChangeOtp_def send_mail_inv add_otp_inv Let_def split: option.split)

lemma confirmEmailChange_inv:
  "acc_inv st \<Longrightarrow> acc_next st \<le> 16 ^ 24 \<Longrightarrow> acc_inv (snd (confirmEmailChange uid c st))"
  by (auto simp: confirmEmailChange_def mark_used_inv set_email_inv split: option.split)

lemma otp_sweep_inv: "acc_inv st \<Longrightarrow> acc_inv (otp_sweep st)"
  by (auto simp: acc_inv_def otp_sweep_def sorted_filter list_all_iff)

lemma tick_inv: "acc_inv st \<Longrightarrow> acc_inv (st\<lparr>acc_now := Suc (acc_now st)\<rparr>)"
  by (auto simp: acc_inv_def list_all_iff)

lemma confirmEmailChange_next [simp]: "acc_next (snd (confirmEmailChange uid c st)) = acc_next st"
  by (auto simp: confirmEmailChange_def split: option.split)

lemma acc_step_inv:
  assumes "acc_inv st" and "acc_next (snd (acc_step cfg st e)) \<le> 16 ^ 24"
  shows "acc_inv (snd (acc_step cfg st e))"
proof (cases e)
  case (AConfirmEmail u c)
  then show ?thesis using assms by (simp add: confirmEmailChange_inv)
qed (use assms in \<open>auto simp: register_inv googleRegister_inv login_inv changePassword_inv
  requestPasswordOtp_inv resetPasswordWithOtp_inv requestEmailChangeOtp_inv otp_sweep_inv
  tick_inv update_user_inv updateBasicProfile_def changeUserName_def updateSettings_def updateProfile_def
  chat_updateProfile_def split: option.split\<close>)

lemma acc_reachable_inv:
  "acc_reachable cfg st \<Longrightarrow> acc_next st \<le> 16 ^ 24 \<Longrightarrow> acc_inv st"
proof (induction rule: acc_reachable.induct)
  case (init t)
  then show ?case by (simp add: acc_inv_def acc_init_def)
next
  case (step st e)
  then show ?case using acc_step_inv acc_step_next_mono [of st cfg e] by simp
qed

lemma latest_otp_add_otp:
  "latest_otp uid c ty (add_otp uid' ty' c' ne st) =
     (if otp_match uid c ty \<lparr>o_user = uid', o_type = ty', o_code = c', o_newEmail = ne, o_used = False,
            o_expiresAt = acc_now st + otp_ttl, o_createdAt = acc_now st\<rparr>
      then Some (length (acc_otps st)) else latest_otp uid c ty st)"
proof -
  let ?r = "\<lparr>o_user = uid', o_type = ty', o_code = c', o_newEmail = ne, o_used = False,
            o_expiresAt = acc_now st + otp_ttl, o_createdAt = acc_now st\<rparr>"
  have f: "filter (\<lambda>i. otp_match uid c ty ((acc_otps st @ [?r]) ! i)) [0..<length (acc_otps st)] =
           filter (\<lambda>i. otp_match uid c ty (acc_otps st ! i)) [0..<length (acc_otps st)]"
    by (rule filter_cong) (simp_all add: nth_append)
  show ?thesis by (simp add: latest_otp_def add_otp_def Let_def f)
qed

lemma latest_otp_send_mail [simp]: "latest_otp uid c ty (send_mail to sb tx st) = latest_otp uid c ty st"
  by (simp add: latest_otp_def send_mail_def)

lemma acc_otps_send_mail [simp]: "acc_otps (send_mail to sb tx st) = acc_otps st"
  by (simp add: send_mail_def)

lemma latest_otp_Some:
  assumes "latest_otp uid c ty st = Some i"
  shows "i < length (acc_otps st) \<and> otp_match uid c ty (acc_otps st ! i)"
proof -
  let ?is = "filter (\<lambda>i. otp_match uid c ty (acc_otps st ! i)) [0..<length (acc_otps st)]"
  have "?is \<noteq> []" and "i = last ?is" using assms by (simp_all add: latest_otp_def Let_def split: if_splits)
  then have "i \<in> set ?is" by (metis last_in_set)
  then show ?thesis by (simp only: set_filter set_upt) simp
qed

lemma resetPasswordWithOtp_ok_iff:
  assumes "c \<noteq> []" and "6 \<le> length p"
  shows "fst (resetPasswordWithOtp (Some me) (Some c) (Some p) st) = Reply 200 ''Password changed successfully.'' \<longleftrightarrow>
         (\<exists>i. latest_otp (rq_id me) c OtpPassword st = Some i \<and> acc_now st \<le> o_expiresAt (acc_otps st ! i))"
  using assms by (auto simp: resetPasswordWithOtp_def not_less split: option.split)

text \<open>The state after a reset request: the password set and the OTP marked used on
  success, nothing changed otherwise.\<close>

lemma resetPasswordWithOtp_state:
  assumes "c \<noteq> []" and "6 \<le> length p"
  shows "snd (resetPasswordWithOtp (Some me) (Some c) (Some p) st) =
    (case latest_otp (rq_id me) c OtpPassword st of
       None \<Rightarrow> st
     | Some i \<Rightarrow> if acc_now st \<le> o_expiresAt (acc_otps st ! i)
                 then mark_used i (update_user (rq_id me) (\<lambda>u. u\<lparr>u_password := Some (PwHash p)\<rparr>) st)
                 else st)"
  using assms by (auto simp: resetPasswordWithOtp_def not_less split: option.split)

text \<open>A caller that is a caretaker (no user has its id) is answered with success,
  the OTP is marked used, and no account changes: \<open>User.findByIdAndUpdate\<close>
  matches nothing.\<close>

lemma caretaker_reset_noop:
  assumes "find_user (rq_id me) st = None"
  shows "acc_users (snd (resetPasswordWithOtp (Some me) c p st)) = acc_users st"
proof -
  have "update_user (rq_id me) f st = st" for f
    using assms by (simp add: update_user_def find_user_def find_None_iff map_idI)
  then show ?thesis by (auto simp: resetPasswordWithOtp_def mark_used_def split: option.split prod.split)
qed

lemma fresh_oid_ne [simp]: "fresh_oid n \<noteq> []"
  by (metis fresh_oid_def length_hex_digits list.size(3) zero_neq_numeral)

lemma find_email_add_user:
  "find_email e st = None \<Longrightarrow> find_email e (snd (add_user n e p st)) = Some (new_user (fresh_oid (acc_next st)) n e p)"
  by (simp add: find_email_def add_user_def Let_def find_append_None new_user_def)

lemma find_id_map:
  assumes "\<And>v. u_id (f v) = u_id v"
  shows "find (\<lambda>v. u_id v = i) (map (\<lambda>u. if u_id u = i then f u else u) us) =
         map_option f (find (\<lambda>v. u_id v = i) us)"
  using assms by (induction us) auto

lemma find_user_update_user:
  "(\<And>v. u_id (f v) = u_id v) \<Longrightarrow> find_user i (update_user i f st) = map_option f (find_user i st)"
  by (simp add: find_user_def update_user_def find_id_map)

lemma acc_simps [simp]:
  "find_user i (mark_used j st) = find_user i st" "find_user i (add_otp uid ty c ne st) = find_user i st"
  "find_user i (send_mail to sb tx st) = find_user i st"
  "acc_now (mark_used j st) = acc_now st" "acc_now (add_otp uid ty c ne st) = acc_now st"
  "acc_now (send_mail to sb tx st) = acc_now st" "acc_now (update_user i f st) = acc_now st"
  "acc_otps (update_user i f st) = acc_otps st"
  "acc_otps (add_otp uid ty c ne st) = acc_otps st @ [\<lparr>o_user = uid, o_type = ty, o_code = c,
     o_newEmail = ne, o_used = False, o_expiresAt = acc_now st + otp_ttl, o_createdAt = acc_now st\<rparr>]"
  "acc_otps (mark_used j st) = (acc_otps st)[j := (acc_otps st ! j)\<lparr>o_used := True\<rparr>]"
  by (simp_all add: find_user_def mark_used_def add_otp_def send_mail_def update_user_def)

end
