(* ===== verification/Routing.thy ===== *)
theory Routing
  imports Prelude
begin

text \<open>
  The client's session and navigation: the three \<open>localStorage\<close> keys the pages
  write (\<open>token\<close>, \<open>user\<close>, \<open>userType\<close>), the route guards
  \<open>Component/ProtectedRoute.jsx\<close> and \<open>Component/PublicRoute.jsx\<close>, the route
  table of \<open>App.jsx\<close>, the mount-time redirects of the login pages, and the login
  handlers that write the session. \<open>app_route\<close> gives what the router shows for a
  path: a page, or a \<open><Navigate>\<close> to another path. \<open>settle\<close> follows
  navigations with a fuel bound: \<open>None\<close> means the fuel ran out, which for a
  redirect cycle is every fuel.

  Paths are matched as written (lower case, no trailing slash), which is how every
  link of the application writes them.
\<close>

record storage =
  ls_token :: "string option"
  ls_user :: "string option"       \<comment> \<open>the JSON of the account, opaque here\<close>
  ls_userType :: "string option"

datatype page =
    PHome | PLogin | PRegister | PGames | PChat | PCall | PContact | PSettings | PProfile
  | PGamePlay string
  | PCaretakerLogin | PCareHome | PCareChat | PCareContact | PCareProfile | PCareSettings
  | PCareTrack
  | PNotFound

datatype outcome = Render page | NavigateTo string

text \<open>\<open>ProtectedRoute\<close>.\<close>

definition protected_route :: "string \<Rightarrow> storage \<Rightarrow> page \<Rightarrow> outcome" where
  "protected_route ty ls pg =
     (if \<not> opt_truthy (ls_token ls)
      then NavigateTo (if ty = ''caretaker'' then ''/caretaker-login'' else ''/login'')
      else if ls_userType ls \<noteq> Some ty
      then NavigateTo (if ls_userType ls = Some ''caretaker'' then ''/caretaker/home'' else ''/home'')
      else Render pg)"

text \<open>\<open>PublicRoute\<close> (its \<open>type\<close> argument is not used).\<close>

definition public_route :: "storage \<Rightarrow> page \<Rightarrow> outcome" where
  "public_route ls pg =
     (if opt_truthy (ls_token ls) \<and> opt_truthy (ls_userType ls) then
        (if ls_userType ls = Some ''caretaker'' then NavigateTo ''/caretaker/home''
         else if ls_userType ls = Some ''user'' then NavigateTo ''/home''
         else Render pg)
      else Render pg)"

definition user_pages :: "(string \<times> page) list" where
  "user_pages = [(''/home'', PHome), (''/games'', PGames), (''/chat'', PChat), (''/call'', PCall),
     (''/contact'', PContact), (''/settings'', PSettings), (''/profile'', PProfile)]"

definition caretaker_pages :: "(string \<times> page) list" where
  "caretaker_pages = [(''/caretaker/home'', PCareHome), (''/caretaker/chat'', PCareChat),
     (''/caretaker/contact'', PCareContact), (''/caretaker/profile'', PCareProfile),
     (''/caretaker/settings'', PCareSettings), (''/caretaker/trackprogress'', PCareTrack)]"

text \<open>The \<open>/play/:gameId\<close> pattern: one non-empty segment after \<open>/play/\<close>.\<close>

definition play_param :: "string \<Rightarrow> string option" where
  "play_param p =
     (if take 6 p = ''/play/'' \<and> drop 6 p \<noteq> [] \<and> CHR ''/'' \<notin> set (drop 6 p) then Some (drop 6 p) else None)"

definition app_route :: "storage \<Rightarrow> string \<Rightarrow> outcome" where
  "app_route ls p =
     (if p = ''/'' then public_route ls PHome
      else if p = ''/login'' then public_route ls PLogin
      else if p = ''/register'' then public_route ls PRegister
      else if p = ''/caretaker-login'' then public_route ls PCaretakerLogin
      else case map_of user_pages p of
             Some pg \<Rightarrow> protected_route ''user'' ls pg
           | None \<Rightarrow>
               (case play_param p of
                  Some g \<Rightarrow> protected_route ''user'' ls (PGamePlay g)
                | None \<Rightarrow>
                    (case map_of caretaker_pages p of
                       Some pg \<Rightarrow> protected_route ''caretaker'' ls pg
                     | None \<Rightarrow> Render PNotFound)))"

text \<open>The mount effects of the login pages: \<open>Login\<close> and \<open>Register\<close> go to
  \<open>/home\<close> when a token is stored, \<open>CaretakerLogin\<close> to \<open>/caretaker/home\<close> when a
  caretaker token is stored.\<close>

definition mount_redirect :: "storage \<Rightarrow> page \<Rightarrow> string option" where
  "mount_redirect ls pg =
     (if (pg = PLogin \<or> pg = PRegister) \<and> opt_truthy (ls_token ls) then Some ''/home''
      else if pg = PCaretakerLogin \<and> opt_truthy (ls_token ls) \<and> ls_userType ls = Some ''caretaker''
      then Some ''/caretaker/home''
      else None)"

fun settle :: "nat \<Rightarrow> storage \<Rightarrow> string \<Rightarrow> page option" where
  "settle 0 ls p = None"
| "settle (Suc n) ls p =
     (case app_route ls p of
        NavigateTo q \<Rightarrow> settle n ls q
      | Render pg \<Rightarrow> (case mount_redirect ls pg of None \<Rightarrow> Some pg | Some q \<Rightarrow> settle n ls q))"

subsection \<open>Session writers\<close>

text \<open>\<open>handleLogin\<close> and the Google button of \<open>Login.jsx\<close>.\<close>

definition login_store :: "string \<Rightarrow> string \<Rightarrow> storage \<Rightarrow> storage" where
  "login_store tok u ls = ls\<lparr>ls_token := Some tok, ls_user := Some u, ls_userType := Some ''user''\<rparr>"

text \<open>The Google button of \<open>Register.jsx\<close>: it does not write \<open>userType\<close>.\<close>

definition register_google_store :: "string \<Rightarrow> string \<Rightarrow> storage \<Rightarrow> storage" where
  "register_google_store tok u ls = ls\<lparr>ls_token := Some tok, ls_user := Some u\<rparr>"

text \<open>\<open>handleLogin\<close> of \<open>CaretakerLogin.jsx\<close>.\<close>

definition caretaker_login_store :: "string \<Rightarrow> string \<Rightarrow> storage \<Rightarrow> storage" where
  "caretaker_login_store tok c ls =
     \<lparr>ls_token = Some tok, ls_user = Some c, ls_userType = Some ''caretaker''\<rparr>"

text \<open>The response interceptor of \<open>api.js\<close> on 401 or 403: the token and the user
  are removed (not \<open>userType\<close>) and the browser goes to \<open>/login\<close>.\<close>

definition unauthorized_store :: "storage \<Rightarrow> storage" where
  "unauthorized_store ls = ls\<lparr>ls_token := None, ls_user := None\<rparr>"

text \<open>The request interceptor of \<open>api.js\<close>: the \<open>Authorization\<close> header sent with
  a request.\<close>

definition auth_header :: "string \<Rightarrow> string \<Rightarrow> storage \<Rightarrow> string option" where
  "auth_header method url ls =
     (if js_to_lower method = ''get'' \<and> (url = ''/games/all'' \<or> take 7 url = ''/games/'') then None
      else case ls_token ls of
             Some t \<Rightarrow> if t = [] then None else Some (''Bearer '' @ t)
           | None \<Rightarrow> None)"

definition consistent_session :: "storage \<Rightarrow> bool" where
  "consistent_session ls \<longleftrightarrow>
     \<not> opt_truthy (ls_token ls) \<or> ls_userType ls = Some ''user'' \<or> ls_userType ls = Some ''caretaker''"

subsection \<open>Facts\<close>

lemma app_route_home: "app_route ls ''/home'' = protected_route ''user'' ls PHome"
  by (simp add: app_route_def user_pages_def)

lemma targets_settle:
  assumes "consistent_session ls"
  shows "\<exists>pg. settle 2 ls ''/home'' = Some pg" "\<exists>pg. settle 2 ls ''/caretaker/home'' = Some pg"
    "\<exists>pg. settle 2 ls ''/login'' = Some pg" "\<exists>pg. settle 2 ls ''/caretaker-login'' = Some pg"
  using assms
  by (auto simp: consistent_session_def app_route_def user_pages_def caretaker_pages_def play_param_def
      protected_route_def public_route_def mount_redirect_def numeral_2_eq_2)

lemma app_route_nav:
  "app_route ls p = NavigateTo q \<Longrightarrow> q \<in> {''/home'', ''/caretaker/home'', ''/login'', ''/caretaker-login''}"
  by (auto simp: app_route_def protected_route_def public_route_def split: if_splits option.splits)

lemma mount_redirect_targets:
  "mount_redirect ls pg = Some q \<Longrightarrow> q \<in> {''/home'', ''/caretaker/home''}"
  by (auto simp: mount_redirect_def split: if_splits)

end
