(* ===== verification/Games.thy ===== *)
theory Games
  imports Accounts Complex_Main
begin

text \<open>
  Games and game-play points: the game catalogue (\<open>models/games.model.js\<close>), the
  handlers of \<open>controllers/games.controller.js\<close> (\<open>getAllGames\<close>,
  \<open>getGameById\<close>, \<open>playGame\<close>), the play page \<open>Pages/GamePlay.jsx\<close> that
  reports a play, and the catalogue filter of \<open>Pages/Games.jsx\<close>.

  JavaScript numbers in request bodies are modelled as rationals (the client sends
  decimal numbers; binary rounding is not modelled); \<open>Math.floor\<close>,
  \<open>Math.ceil\<close> and \<open>Math.round\<close> (\<open>floor (x + 1/2)\<close>) map to the floor and ceiling
  of \<open>rat\<close>. A string id is cast to the schema's \<open>Number\<close> when it is written with
  decimal digits only; any other non-empty string is a cast error (other numeric
  notations, such as \<open>1e3\<close> or \<open>0x10\<close>, are not modelled).
\<close>

record game =
  g_oid :: oid
  g_id :: int
  g_title :: string
  g_rating :: rat
  g_description :: string
  g_link :: string
  g_category :: string
  g_duration :: string
  g_difficulty :: string
  g_imageUrl :: string
  g_howTo :: "string option"

text \<open>The schema's defaults for \<open>duration\<close> and \<open>difficulty\<close>.\<close>

definition game_defaults :: "game \<Rightarrow> bool" where
  "game_defaults g \<longleftrightarrow> g_duration g = ''10-15 mins'' \<and> g_difficulty g = ''Medium,''"

subsection \<open>Numbers in strings\<close>

definition is_digit :: "char \<Rightarrow> bool" where
  "is_digit c \<longleftrightarrow> 48 \<le> (of_char c :: nat) \<and> (of_char c :: nat) \<le> 57"

definition digit_val :: "char \<Rightarrow> nat" where
  "digit_val c = of_char c - 48"

definition digits_nat :: "string \<Rightarrow> nat" where
  "digits_nat ds = foldl (\<lambda>n c. 10 * n + digit_val c) 0 ds"

text \<open>\<open>s.match(/(\\d+(\\.\\d+)?)/)\<close> and \<open>Number(m[1])\<close>: the leftmost run of digits,
  with a fraction when a dot and at least one digit follow.\<close>

definition first_number :: "string \<Rightarrow> rat option" where
  "first_number s =
     (let r = dropWhile (\<lambda>c. \<not> is_digit c) s in
      if r = [] then None
      else (let ds = takeWhile is_digit r; rest = dropWhile is_digit r in
            case rest of
              c # r2 \<Rightarrow>
                if c = CHR ''.'' \<and> takeWhile is_digit r2 \<noteq> []
                then Some (of_nat (digits_nat ds) +
                           of_nat (digits_nat (takeWhile is_digit r2)) / 10 ^ length (takeWhile is_digit r2))
                else Some (of_nat (digits_nat ds))
            | [] \<Rightarrow> Some (of_nat (digits_nat ds))))"

text \<open>Casting a route parameter to the \<open>Number\<close> path \<open>id\<close>: \<open>Inl ()\<close> is the cast
  error; the empty string casts to \<open>null\<close>, which no game has.\<close>

definition cast_num :: "string \<Rightarrow> unit + int option" where
  "cast_num s =
     (if s = [] then Inr None
      else if list_all is_digit s then Inr (Some (int (digits_nat s)))
      else Inl ())"

subsection \<open>The controller\<close>

definition find_game_oid :: "game list \<Rightarrow> string \<Rightarrow> game option" where
  "find_game_oid gs s = find (\<lambda>g. g_oid g = oid_canon s) gs"

text \<open>\<open>Games.findOne({ id })\<close>, the cast included.\<close>

definition find_game_num :: "game list \<Rightarrow> string \<Rightarrow> unit + game option" where
  "find_game_num gs s =
     (case cast_num s of
        Inl u \<Rightarrow> Inl u
      | Inr None \<Rightarrow> Inr None
      | Inr (Some n) \<Rightarrow> Inr (find (\<lambda>g. g_id g = n) gs))"

datatype game_reply =
    GReply nat string                 \<comment> \<open>status and message\<close>
  | GGames "game list"
  | GGame game
  | GPlayed profile int               \<comment> \<open>the new profile and the points awarded\<close>

definition getAllGames :: "game list \<Rightarrow> game_reply" where
  "getAllGames gs = GGames gs"

text \<open>\<open>getGameById\<close>: by ObjectId when the parameter is one, otherwise (or when
  nothing is found) by the numeric \<open>id\<close>.\<close>

definition getGameById :: "game list \<Rightarrow> string \<Rightarrow> game_reply" where
  "getGameById gs s =
     (case (if is_valid_oid s then find_game_oid gs s else None) of
        Some g \<Rightarrow> GGame g
      | None \<Rightarrow>
          (case find_game_num gs s of
             Inl _ \<Rightarrow> GReply 500 ''Server error fetching game by ID''
           | Inr None \<Rightarrow> GReply 404 ''Game not found''
           | Inr (Some g) \<Rightarrow> GGame g))"

record play_body =
  pb_minutes :: "rat option"
  pb_difficulty :: "rat option"
  pb_title :: "string option"

definition clamp_difficulty :: "rat \<Rightarrow> rat" where
  "clamp_difficulty d = max 0 (min 1000 d)"

text \<open>The difficulty used when the body has none: the game's \<open>difficulty\<close>
  string, parsed, or 1. \<open>Inl ()\<close> is the cast error of the lookup.\<close>

definition stored_difficulty :: "game list \<Rightarrow> string \<Rightarrow> unit + rat" where
  "stored_difficulty gs s =
     (case (if is_valid_oid s then Inr (find_game_oid gs s) else find_game_num gs s) of
        Inl u \<Rightarrow> Inl u
      | Inr None \<Rightarrow> Inr 1
      | Inr (Some g) \<Rightarrow> Inr (case first_number (g_difficulty g) of Some d \<Rightarrow> d | None \<Rightarrow> 1))"

definition play_points :: "rat \<Rightarrow> rat \<Rightarrow> int" where
  "play_points d m = floor (clamp_difficulty d * of_int (max 0 (floor m)) + 1 / 2)"

definition play_activity :: "string \<Rightarrow> play_body \<Rightarrow> nat \<Rightarrow> int \<Rightarrow> activity" where
  "play_activity gid b t pts =
     \<lparr>act_type = ''game'',
      act_title = (case pb_title b of Some x \<Rightarrow> if x = [] then ''Played game '' @ gid else x
                                    | None \<Rightarrow> ''Played game '' @ gid),
      act_time = t, act_points = Some pts\<rparr>"

definition record_play :: "int \<Rightarrow> activity \<Rightarrow> user \<Rightarrow> user" where
  "record_play pts a u =
     u\<lparr>u_profile := (u_profile u)\<lparr>pf_gamesPlayed := pf_gamesPlayed (u_profile u) + 1,
                                   pf_points := pf_points (u_profile u) + pts,
                                   pf_activities := pf_activities (u_profile u) @ [a]\<rparr>\<rparr>"

text \<open>\<open>playGame\<close> (\<open>POST /api/games/:id/play\<close>, behind the HTTP middleware).\<close>

definition playGame ::
  "game list \<Rightarrow> oid \<Rightarrow> string \<Rightarrow> play_body \<Rightarrow> accounts \<Rightarrow> game_reply \<times> accounts" where
  "playGame gs uid gid b st =
     (let m = (case pb_minutes b of Some x \<Rightarrow> x | None \<Rightarrow> 0);
          dif = (case pb_difficulty b of Some d \<Rightarrow> Inr d | None \<Rightarrow> stored_difficulty gs gid)
      in case dif of
           Inl _ \<Rightarrow> (GReply 500 ''Server error recording play'', st)
         | Inr d \<Rightarrow>
             (let pts = play_points d m;
                  a = play_activity gid b (acc_now st) pts
              in case find_user uid st of
                   None \<Rightarrow> (GReply 404 ''User not found'', st)
                 | Some u \<Rightarrow> (GPlayed (u_profile (record_play pts a u)) pts,
                              update_user uid (record_play pts a) st)))"

text \<open>The route \<open>POST /:id/play\<close> of \<open>routes/games.route.js\<close>: the HTTP
  middleware, then \<open>playGame\<close> with the resolved identity.\<close>

definition play_request ::
  "config \<Rightarrow> jwt_codec \<Rightarrow> nat \<Rightarrow> directory \<Rightarrow> game list \<Rightarrow> string option \<Rightarrow> string \<Rightarrow> play_body \<Rightarrow>
   accounts \<Rightarrow> game_reply \<times> accounts" where
  "play_request cfg dec now dir gs hdr gid b st =
     (case rest_auth cfg dec now dir hdr of
        Inl RestNoToken \<Rightarrow> (GReply 401 ''No token provided'', st)
      | Inl RestNotFound \<Rightarrow> (GReply 401 ''User or Caretaker not found'', st)
      | Inl RestInvalid \<Rightarrow> (GReply 401 ''Invalid or expired token'', st)
      | Inr me \<Rightarrow> playGame gs (principal_id me) gid b st)"

subsection \<open>The play page\<close>

text \<open>What the catalogue passes to the play page in the navigation state.\<close>

record game_info =
  gi_title :: "string option"
  gi_difficulty :: "string option"
  gi_link :: string
  gi_startTime :: nat        \<comment> \<open>milliseconds\<close>

text \<open>\<open>parseDifficulty\<close> of the page, for the catalogue's string difficulty.\<close>

definition parse_difficulty :: "string option \<Rightarrow> rat" where
  "parse_difficulty d = (case d of None \<Rightarrow> 1 | Some s \<Rightarrow> (case first_number s of Some x \<Rightarrow> x | None \<Rightarrow> 1))"

datatype play_out =
    PostPlay string play_body               \<comment> \<open>\<open>API.post(`/games/${gameId}/play`, payload)\<close>\<close>
  | Beacon string play_body "string option" \<comment> \<open>\<open>navigator.sendBeacon\<close>: path, payload, \<open>_token\<close>\<close>
  | GoBack                                  \<comment> \<open>\<open>navigate(-1)\<close>\<close>

record gameplay =
  gp_gameId :: "string option"
  gp_info :: "game_info option"
  gp_start :: nat
  gp_sent :: bool                 \<comment> \<open>\<open>didSendRef.current\<close>\<close>
  gp_token :: "string option"     \<comment> \<open>\<open>localStorage.token\<close>\<close>
  gp_out :: "play_out list"

definition gameplay_mount :: "string option \<Rightarrow> game_info option \<Rightarrow> string option \<Rightarrow> nat \<Rightarrow> gameplay" where
  "gameplay_mount param info tok now =
     \<lparr>gp_gameId = param, gp_info = info,
      gp_start = (case info of Some i \<Rightarrow> gi_startTime i | None \<Rightarrow> now),
      gp_sent = False, gp_token = tok, gp_out = []\<rparr>"

text \<open>Whole minutes since the start, at least one:
  \<open>Math.max(1, Math.ceil(ms / 60000))\<close>.\<close>

definition played_minutes :: "gameplay \<Rightarrow> nat \<Rightarrow> rat" where
  "played_minutes gp now = of_int (max 1 (ceiling (of_nat (now - gp_start gp) / (60000 :: rat))))"

definition play_payload :: "gameplay \<Rightarrow> string \<Rightarrow> rat \<Rightarrow> play_body" where
  "play_payload gp gid mins =
     \<lparr>pb_minutes = Some (of_int (max 0 (floor mins))),
      pb_difficulty = Some (parse_difficulty (case gp_info gp of Some i \<Rightarrow> gi_difficulty i | None \<Rightarrow> None)),
      pb_title = Some (case gp_info gp of
                         Some i \<Rightarrow> (case gi_title i of Some t \<Rightarrow> if t = [] then ''Played '' @ gid else t
                                                    | None \<Rightarrow> ''Played '' @ gid)
                       | None \<Rightarrow> ''Played '' @ gid)\<rparr>"

text \<open>\<open>sendPlay\<close>: at most once per mount.\<close>

definition send_play :: "gameplay \<Rightarrow> rat \<Rightarrow> gameplay" where
  "send_play gp mins =
     (case gp_gameId gp of
        None \<Rightarrow> gp
      | Some gid \<Rightarrow>
          if gid = [] \<or> gp_sent gp then gp
          else gp\<lparr>gp_sent := True, gp_out := gp_out gp @ [PostPlay gid (play_payload gp gid mins)]\<rparr>)"

definition handle_go_back :: "gameplay \<Rightarrow> nat \<Rightarrow> gameplay" where
  "handle_go_back gp now = (let gp1 = send_play gp (played_minutes gp now) in gp1\<lparr>gp_out := gp_out gp1 @ [GoBack]\<rparr>)"

text \<open>The effect's cleanup, run when the page unmounts.\<close>

definition gameplay_unmount :: "gameplay \<Rightarrow> nat \<Rightarrow> gameplay" where
  "gameplay_unmount gp now = send_play gp (played_minutes gp now)"

text \<open>The \<open>beforeunload\<close> listener: a beacon, which carries no request headers.\<close>

definition before_unload :: "gameplay \<Rightarrow> nat \<Rightarrow> gameplay" where
  "before_unload gp now =
     (let gid = (case gp_gameId gp of Some g \<Rightarrow> g | None \<Rightarrow> ''undefined'') in
      gp\<lparr>gp_out := gp_out gp @ [Beacon (''/games/'' @ gid @ ''/play'')
                                       (play_payload gp gid (played_minutes gp now)) (gp_token gp)]\<rparr>)"

subsection \<open>The catalogue page\<close>

definition categories :: "game list \<Rightarrow> string list" where
  "categories gs = ''All'' # dedup_first (filter (\<lambda>c. c \<noteq> []) (map g_category gs))"

definition filtered_games :: "game list \<Rightarrow> string \<Rightarrow> string \<Rightarrow> game list" where
  "filtered_games gs search cat =
     filter (\<lambda>g. (let term = js_to_lower (js_trim search) in
                  term = [] \<or> (g_title g \<noteq> [] \<and> js_includes (js_to_lower (g_title g)) term) \<or>
                  (g_description g \<noteq> [] \<and> js_includes (js_to_lower (g_description g)) term))
                 \<and> (cat = ''All'' \<or> g_category g = cat)) gs"

text \<open>\<open>parseSteps\<close> of the how-to text.\<close>

definition parse_steps :: "string option \<Rightarrow> string list" where
  "parse_steps t = (case t of None \<Rightarrow> [] | Some x \<Rightarrow> filter (\<lambda>s. s \<noteq> []) (map js_trim (js_split CHR ''.'' x)))"

subsection \<open>Facts\<close>

lemma clamp_difficulty_bounds: "0 \<le> clamp_difficulty d \<and> clamp_difficulty d \<le> 1000"
  by (simp add: clamp_difficulty_def)

lemma play_points_bounds:
  "0 \<le> play_points d m \<and> play_points d m \<le> 1000 * max 0 \<lfloor>m\<rfloor>"
proof -
  let ?k = "max 0 \<lfloor>m\<rfloor>" and ?c = "clamp_difficulty d"
  have k: "0 \<le> ?k" by simp
  have x0: "0 \<le> ?c * of_int ?k" using clamp_difficulty_bounds [of d] k by simp
  have x1: "?c * of_int ?k \<le> 1000 * of_int ?k"
    using clamp_difficulty_bounds [of d] k by (simp add: mult_right_mono)
  have "play_points d m \<le> \<lfloor>of_int (1000 * ?k) + 1 / 2 :: rat\<rfloor>"
    unfolding play_points_def by (rule floor_mono) (use x1 in simp)
  also have "\<dots> = \<lfloor>(1 / 2 :: rat) + of_int (1000 * ?k)\<rfloor>" by (simp add: add.commute)
  also have "\<dots> = \<lfloor>1 / 2 :: rat\<rfloor> + 1000 * ?k" by (simp only: floor_add_int)
  also have "\<dots> = 1000 * ?k" by (simp add: floor_eq_iff)
  finally show ?thesis using x0 by (simp add: play_points_def)
qed

lemma playGame_ok:
  assumes "find_user uid st = Some u" and "pb_difficulty b = Some d"
  shows "playGame gs uid gid b st =
    (let m = (case pb_minutes b of Some x \<Rightarrow> x | None \<Rightarrow> 0);
         a = play_activity gid b (acc_now st) (play_points d m)
     in (GPlayed (u_profile (record_play (play_points d m) a u)) (play_points d m),
         update_user uid (record_play (play_points d m) a) st))"
  using assms by (simp add: playGame_def Let_def)

end
