(* ===== verification/Caretakers.thy ===== *)
theory Caretakers
  imports Accounts Store Complex_Main
begin

text \<open>
  Caretakers on the server: the document of \<open>models/Caretaker.model.js\<close> (its
  password check and its save hook), the handlers of
  \<open>controllers/caretaker.controller.js\<close> and the router
  \<open>routes/caretaker.route.js\<close>, where every route but \<open>/login\<close> passes the HTTP
  middleware.

  The caretaker collection is a list of documents; the users it refers to are the
  account store of \<open>Accounts\<close>. A document's \<open>password\<close> is optional because the
  handlers answer with copies from which it has been removed; a stored document
  always has one. bcrypt is ideal: the hash of \<open>p\<close> is the version tag
  \<open>$2a$10$\<close> followed by \<open>p\<close> (salt and digest abstracted), so a hash is recognised
  by its prefix and matches exactly the password it was made from. The
  \<open>timestamps\<close> of the schema are not modelled.
\<close>

record care_activity =
  ca_type :: string
  ca_time :: nat
  ca_title :: string

record care_profile =
  cp_totalLogins :: int
  cp_totalUsers :: int
  cp_totalSessions :: int
  cp_chatMessages :: int
  cp_activities :: "care_activity list"

text \<open>The \<open>settings\<close> of the schema have the shape and the defaults of a user's
  (\<open>Accounts.default_settings\<close>).\<close>

record caretaker =
  cr_id :: oid
  cr_num :: int                     \<comment> \<open>the \<open>id\<close> path, a \<open>Number\<close>\<close>
  cr_name :: string
  cr_role :: "string option"
  cr_status :: string
  cr_phone :: string
  cr_specialties :: "string list"
  cr_initials :: "string option"
  cr_rating :: rat
  cr_experience :: "string option"
  cr_patients :: "oid list"         \<comment> \<open>references to User documents\<close>
  cr_email :: string
  cr_photo :: "string option"
  cr_password :: "string option"
  cr_profile :: care_profile
  cr_settings :: user_settings

definition default_care_profile :: care_profile where
  "default_care_profile = \<lparr>cp_totalLogins = 0, cp_totalUsers = 0, cp_totalSessions = 0,
     cp_chatMessages = 0, cp_activities = []\<rparr>"

subsection \<open>The model's methods\<close>

definition bcrypt_hash :: "string \<Rightarrow> string" where
  "bcrypt_hash p = ''$2a$10$'' @ p"

text \<open>The \<open>pre("save")\<close> hook: the password is hashed when it was modified.\<close>

definition caretaker_save :: "bool \<Rightarrow> caretaker \<Rightarrow> caretaker" where
  "caretaker_save modified c =
     (if modified then c\<lparr>cr_password := map_option bcrypt_hash (cr_password c)\<rparr> else c)"

text \<open>\<open>comparePassword\<close>: a stored value that does not start with \<open>$2a$\<close> is
  compared as plain text with \<open>===\<close>; otherwise \<open>bcrypt.compare\<close>, which throws
  (\<open>None\<close>) on a missing candidate. A document without a password throws at
  \<open>startsWith\<close>.\<close>

definition comparePassword :: "string option \<Rightarrow> caretaker \<Rightarrow> bool option" where
  "comparePassword cand c =
     (case cr_password c of
        None \<Rightarrow> None
      | Some s \<Rightarrow>
          if take 4 s \<noteq> ''$2a$'' then Some (cand = Some s)
          else (case cand of None \<Rightarrow> None | Some p \<Rightarrow> Some (s = bcrypt_hash p)))"

subsection \<open>Replies\<close>

text \<open>\<open>populate("patients", "name email photo")\<close>: the referenced users that
  exist, in the order of the array.\<close>

record patient_view =
  pv_id :: oid
  pv_name :: string
  pv_email :: string
  pv_photo :: "string option"

definition populate :: "user list \<Rightarrow> oid list \<Rightarrow> patient_view list" where
  "populate us ids =
     List.map_filter (\<lambda>i. map_option (\<lambda>u. \<lparr>pv_id = u_id u, pv_name = u_name u, pv_email = u_email u,
                                            pv_photo = u_photo u\<rparr>)
                                     (find (\<lambda>u. u_id u = i) us)) ids"

definition without_password :: "caretaker \<Rightarrow> caretaker" where
  "without_password c = c\<lparr>cr_password := None\<rparr>"

datatype care_reply =
    CReply nat string
  | CCaretakers "(caretaker \<times> patient_view list) list"
  | CUsers "user list"
  | CPatients "patient_view list"
  | CLoggedIn jwt caretaker
  | CProfile caretaker "patient_view list"
  | CSettings user_settings
  | CNull                                   \<comment> \<open>\<open>res.json(null)\<close>\<close>
  | CUpdated caretaker

subsection \<open>The controller\<close>

definition find_caretaker :: "oid \<Rightarrow> caretaker list \<Rightarrow> caretaker option" where
  "find_caretaker i cts = find (\<lambda>c. cr_id c = i) cts"

definition update_caretaker :: "oid \<Rightarrow> (caretaker \<Rightarrow> caretaker) \<Rightarrow> caretaker list \<Rightarrow> caretaker list" where
  "update_caretaker i f cts = map (\<lambda>c. if cr_id c = i then f c else c) cts"

text \<open>\<open>Caretaker.findById(s)\<close> with a string from the request: a cast error on a
  string that is not an ObjectId, nothing for \<open>undefined\<close>.\<close>

definition find_caretaker_str :: "string option \<Rightarrow> caretaker list \<Rightarrow> unit + caretaker option" where
  "find_caretaker_str s cts =
     (case s of
        None \<Rightarrow> Inr None
      | Some x \<Rightarrow> if is_valid_oid x then Inr (find_caretaker (oid_canon x) cts) else Inl ())"

text \<open>\<open>getCaretakers\<close>: every document, password included.\<close>

definition getCaretakers :: "user list \<Rightarrow> caretaker list \<Rightarrow> care_reply" where
  "getCaretakers us cts = CCaretakers (map (\<lambda>c. (c, populate us (cr_patients c))) cts)"

definition care_getUsers :: "user list \<Rightarrow> principal \<Rightarrow> care_reply" where
  "care_getUsers us me =
     CUsers (map (\<lambda>u. u\<lparr>u_password := None\<rparr>) (filter (\<lambda>u. u_id u \<noteq> principal_id me) us))"

definition getPatients :: "user list \<Rightarrow> caretaker list \<Rightarrow> string \<Rightarrow> care_reply" where
  "getPatients us cts s =
     (case find_caretaker_str (Some s) cts of
        Inl _ \<Rightarrow> CReply 500 ''Error fetching patients''
      | Inr None \<Rightarrow> CReply 404 ''Caretaker not found''
      | Inr (Some c) \<Rightarrow> CPatients (populate us (cr_patients c)))"

text \<open>\<open>assignPatient\<close>: \<open>patients.includes(patientId)\<close> compares the string with
  the stored ids' hexadecimal form; \<open>push\<close> casts it, which fails on a string that
  is not an ObjectId. The save does not modify the password.\<close>

definition assignPatient ::
  "caretaker list \<Rightarrow> string option \<Rightarrow> string \<Rightarrow> care_reply \<times> caretaker list" where
  "assignPatient cts cid pid =
     (case find_caretaker_str cid cts of
        Inl _ \<Rightarrow> (CReply 500 ''Error assigning patient'', cts)
      | Inr None \<Rightarrow> (CReply 404 ''Caretaker not found'', cts)
      | Inr (Some c) \<Rightarrow>
          if pid \<in> set (cr_patients c) then (CReply 200 ''Patient assigned successfully'', cts)
          else if \<not> is_valid_oid pid then (CReply 500 ''Error assigning patient'', cts)
          else (CReply 200 ''Patient assigned successfully'',
                update_caretaker (cr_id c)
                  (\<lambda>d. caretaker_save False (d\<lparr>cr_patients := cr_patients d @ [oid_canon pid]\<rparr>)) cts))"

definition care_login_activity :: "nat \<Rightarrow> care_activity" where
  "care_login_activity now = \<lparr>ca_type = ''login'', ca_time = now, ca_title = ''Successful login''\<rparr>"

definition record_care_login :: "nat \<Rightarrow> caretaker \<Rightarrow> caretaker" where
  "record_care_login now c =
     c\<lparr>cr_profile := (cr_profile c)\<lparr>cp_totalLogins := cp_totalLogins (cr_profile c) + 1,
         cp_activities := cp_activities (cr_profile c) @ [care_login_activity now]\<rparr>\<rparr>"

text \<open>\<open>caretakerLogin\<close>: the e-mail is matched as given (\<open>undefined\<close> is sent to the
  database as \<open>null\<close>, which no caretaker's required e-mail equals); the reply
  carries the document read before the update.\<close>

definition caretakerLogin ::
  "config \<Rightarrow> nat \<Rightarrow> string option \<Rightarrow> string option \<Rightarrow> caretaker list \<Rightarrow> care_reply \<times> caretaker list" where
  "caretakerLogin cfg now email pw cts =
     (case email of
        None \<Rightarrow> (CReply 401 ''Invalid email or password'', cts)
      | Some e \<Rightarrow>
          (case find (\<lambda>c. cr_email c = e) cts of
             None \<Rightarrow> (CReply 401 ''Invalid email or password'', cts)
           | Some c \<Rightarrow>
               (case comparePassword pw c of
                  None \<Rightarrow> (CReply 500 ''Error during login'', cts)
                | Some False \<Rightarrow> (CReply 401 ''Invalid email or password'', cts)
                | Some True \<Rightarrow>
                    (CLoggedIn (caretaker_token cfg (cr_id c) now) (without_password c),
                     update_caretaker (cr_id c) (record_care_login now) cts))))"

definition getCaretakerProfile :: "user list \<Rightarrow> caretaker list \<Rightarrow> principal \<Rightarrow> care_reply" where
  "getCaretakerProfile us cts me =
     (case find_caretaker (principal_id me) cts of
        None \<Rightarrow> CReply 404 ''Caretaker not found''
      | Some c \<Rightarrow> CProfile (without_password c) (populate us (cr_patients c)))"

definition getCaretakerSettings :: "caretaker list \<Rightarrow> principal \<Rightarrow> care_reply" where
  "getCaretakerSettings cts me =
     (case find_caretaker (principal_id me) cts of
        None \<Rightarrow> CReply 404 ''Caretaker not found''
      | Some c \<Rightarrow> CSettings (cr_settings c))"

text \<open>The \<open>settings\<close> object of a request body: the fields it has.\<close>

record settings_body =
  sb_theme :: "string option"
  sb_color :: "string option"
  sb_font :: "string option"
  sb_largeText :: "bool option"
  sb_notifyEmail :: "bool option"
  sb_notifySms :: "bool option"
  sb_notifyPush :: "bool option"

text \<open>\<open>$set: { settings: { ...settings } }\<close> replaces the whole subdocument; a
  field the body leaves out is absent from the stored document and reads back as
  the schema's default.\<close>

definition settings_of_body :: "settings_body \<Rightarrow> user_settings" where
  "settings_of_body b =
     \<lparr>us_theme = set_opt (sb_theme b) (us_theme default_settings),
      us_color = set_opt (sb_color b) (us_color default_settings),
      us_font = set_opt (sb_font b) (us_font default_settings),
      us_largeText = set_opt (sb_largeText b) (us_largeText default_settings),
      us_notifyEmail = set_opt (sb_notifyEmail b) (us_notifyEmail default_settings),
      us_notifySms = set_opt (sb_notifySms b) (us_notifySms default_settings),
      us_notifyPush = set_opt (sb_notifyPush b) (us_notifyPush default_settings)\<rparr>"

definition putCaretakerSettings ::
  "caretaker list \<Rightarrow> principal \<Rightarrow> settings_body option \<Rightarrow> care_reply \<times> caretaker list" where
  "putCaretakerSettings cts me b =
     (case b of
        None \<Rightarrow> (CReply 400 ''Settings missing in body'', cts)
      | Some s \<Rightarrow>
          (case find_caretaker (principal_id me) cts of
             None \<Rightarrow> (CReply 404 ''Caretaker not found'', cts)
           | Some c \<Rightarrow> (CSettings (settings_of_body s),
                        update_caretaker (cr_id c) (\<lambda>d. d\<lparr>cr_settings := settings_of_body s\<rparr>) cts)))"

definition care_chat_activity :: "nat \<Rightarrow> care_activity" where
  "care_chat_activity now = \<lparr>ca_type = ''chat'', ca_time = now, ca_title = ''Chat message sent''\<rparr>"

text \<open>\<open>updateProfile\<close>: for an identity that is not a caretaker the update finds
  nothing and the reply is \<open>null\<close> with status 200.\<close>

definition care_updateProfile :: "nat \<Rightarrow> caretaker list \<Rightarrow> principal \<Rightarrow> care_reply \<times> caretaker list" where
  "care_updateProfile now cts me =
     (let f = (\<lambda>c. c\<lparr>cr_profile := (cr_profile c)\<lparr>cp_chatMessages := cp_chatMessages (cr_profile c) + 1,
                       cp_activities := cp_activities (cr_profile c) @ [care_chat_activity now]\<rparr>\<rparr>)
      in case find_caretaker (principal_id me) cts of
           None \<Rightarrow> (CNull, cts)
         | Some c \<Rightarrow> (CUpdated (f c), update_caretaker (principal_id me) f cts))"

subsection \<open>The router\<close>

datatype care_req =
    GetCaretakers
  | GetPatients string
  | AssignPatient "string option" string
  | CaretakerLoginReq "string option" "string option"
  | GetCareProfile
  | GetCareSettings
  | PutCareSettings "settings_body option"
  | CareUpdateProfile

text \<open>The directory the middleware consults, read from the two collections.\<close>

definition care_dir :: "user list \<Rightarrow> caretaker list \<Rightarrow> directory" where
  "care_dir us cts = \<lparr>dir_users = map u_id us, dir_caretakers = map cr_id cts\<rparr>"

definition care_route ::
  "config \<Rightarrow> jwt_codec \<Rightarrow> nat \<Rightarrow> user list \<Rightarrow> string option \<Rightarrow> care_req \<Rightarrow> caretaker list \<Rightarrow>
   care_reply \<times> caretaker list" where
  "care_route cfg dec now us hdr r cts =
     (case r of
        CaretakerLoginReq e p \<Rightarrow> caretakerLogin cfg now e p cts
      | _ \<Rightarrow>
          (case rest_auth cfg dec now (care_dir us cts) hdr of
             Inl RestNoToken \<Rightarrow> (CReply 401 ''No token provided'', cts)
           | Inl RestNotFound \<Rightarrow> (CReply 401 ''User or Caretaker not found'', cts)
           | Inl RestInvalid \<Rightarrow> (CReply 401 ''Invalid or expired token'', cts)
           | Inr me \<Rightarrow>
               (case r of
                  GetCaretakers \<Rightarrow> (getCaretakers us cts, cts)
                | GetPatients s \<Rightarrow> (getPatients us cts s, cts)
                | AssignPatient c p \<Rightarrow> assignPatient cts c p
                | GetCareProfile \<Rightarrow> (getCaretakerProfile us cts me, cts)
                | GetCareSettings \<Rightarrow> (getCaretakerSettings cts me, cts)
                | PutCareSettings b \<Rightarrow> putCaretakerSettings cts me b
                | CareUpdateProfile \<Rightarrow> care_updateProfile now cts me
                | CaretakerLoginReq e p \<Rightarrow> caretakerLogin cfg now e p cts)))"

text \<open>The patient references of the collection as a relation, the abstract
  state of the assignment operation.\<close>

definition assignments :: "caretaker list \<Rightarrow> (oid \<times> oid) set" where
  "assignments cts = set (concat (map (\<lambda>c. map (\<lambda>p. (cr_id c, p)) (cr_patients c)) cts))"

text \<open>Well-formed collection: every patient reference is a canonical ObjectId.\<close>

definition care_wf :: "caretaker list \<Rightarrow> bool" where
  "care_wf cts \<longleftrightarrow> (\<forall>c\<in>set cts. \<forall>p\<in>set (cr_patients c). is_valid_oid p \<and> oid_canon p = p)"

text \<open>The collection's typing by the schema: well-formed references, unique
  \<open>_id\<close>s and e-mails (\<open>unique: true\<close>), and a password on every document
  (\<open>required: true\<close>).\<close>

definition care_typed :: "caretaker list \<Rightarrow> bool" where
  "care_typed cts \<longleftrightarrow>
     care_wf cts \<and> distinct (map cr_id cts) \<and> distinct (map cr_email cts) \<and>
     list_all (\<lambda>c. cr_password c \<noteq> None) cts"

subsection \<open>Facts\<close>

lemma find_caretaker_Some: "find_caretaker i cts = Some c \<Longrightarrow> c \<in> set cts \<and> cr_id c = i"
  by (auto simp: find_caretaker_def find_Some_iff intro: nth_mem)

lemma map_cr_id_update:
  "(\<And>c. cr_id (f c) = cr_id c) \<Longrightarrow> map cr_id (update_caretaker i f cts) = map cr_id cts"
  by (induction cts) (simp_all add: update_caretaker_def)

lemma care_dir_update:
  "(\<And>c. cr_id (f c) = cr_id c) \<Longrightarrow> care_dir us (update_caretaker i f cts) = care_dir us cts"
  by (simp add: care_dir_def map_cr_id_update)

lemma assignments_append_patient:
  "assignments (update_caretaker i (\<lambda>d. d\<lparr>cr_patients := cr_patients d @ [p]\<rparr>) cts) =
     (if i \<in> cr_id ` set cts then insert (i, p) (assignments cts) else assignments cts)"
  by (induction cts) (auto simp: assignments_def update_caretaker_def)

lemma care_wf_append_patient:
  "care_wf cts \<Longrightarrow> is_valid_oid p \<Longrightarrow> oid_canon p = p \<Longrightarrow>
   care_wf (update_caretaker i (\<lambda>d. d\<lparr>cr_patients := cr_patients d @ [p]\<rparr>) cts)"
  by (auto simp: care_wf_def update_caretaker_def)

lemma care_wf_update_keep:
  "(\<And>c. cr_patients (f c) = cr_patients c) \<Longrightarrow> care_wf cts \<Longrightarrow> care_wf (update_caretaker i f cts)"
  by (auto simp: care_wf_def update_caretaker_def)

lemma canon_patient:
  "care_wf cts \<Longrightarrow> c \<in> set cts \<Longrightarrow> p \<in> set (cr_patients c) \<Longrightarrow> is_valid_oid p \<and> oid_canon p = p"
  by (simp add: care_wf_def)

lemma assignments_mem: "c \<in> set cts \<Longrightarrow> p \<in> set (cr_patients c) \<Longrightarrow> (cr_id c, p) \<in> assignments cts"
  by (auto simp: assignments_def)

lemma assignPatient_wf: "care_wf cts \<Longrightarrow> care_wf (snd (assignPatient cts cid pid))"
  by (auto simp: assignPatient_def caretaker_save_def find_caretaker_str_def is_valid_oid_canon
      intro: care_wf_append_patient split: option.splits sum.splits)

lemma bearer_token_append: "CHR '' '' \<notin> set s \<Longrightarrow> bearer_token (''Bearer '' @ s) = s"
  by (auto simp: bearer_token_def takeWhile_eq_all_conv)

lemma caretakerLogin_plain:
  assumes "c \<in> set cts" "distinct (map cr_email cts)" "cr_password c = Some p" "take 4 p \<noteq> ''$2a$''"
  shows "caretakerLogin cfg now (Some (cr_email c)) (Some p) cts =
           (CLoggedIn (caretaker_token cfg (cr_id c) now) (without_password c),
            update_caretaker (cr_id c) (record_care_login now) cts)"
  using assms by (simp add: caretakerLogin_def find_key_distinct comparePassword_def)

lemma care_typed_update:
  assumes "care_typed cts"
    and "\<And>c. cr_id (f c) = cr_id c" "\<And>c. cr_email (f c) = cr_email c"
    and "\<And>c. cr_password (f c) = cr_password c" "\<And>c. cr_patients (f c) = cr_patients c"
  shows "care_typed (update_caretaker i f cts)"
proof -
  have "map cr_id (update_caretaker i f cts) = map cr_id cts"
       "map cr_email (update_caretaker i f cts) = map cr_email cts"
    using assms(2,3) by (simp_all add: update_caretaker_def comp_def if_distrib cong: if_cong)
  moreover have "care_wf (update_caretaker i f cts)"
    using assms(1,5) by (simp add: care_typed_def care_wf_update_keep)
  moreover have "list_all (\<lambda>c. cr_password c \<noteq> None) (update_caretaker i f cts)"
    using assms(1,4) by (auto simp: care_typed_def update_caretaker_def list_all_iff)
  ultimately show ?thesis using assms(1) by (simp add: care_typed_def)
qed

lemma assignPatient_typed: "care_typed cts \<Longrightarrow> care_typed (snd (assignPatient cts cid pid))"
proof -
  assume t: "care_typed cts"
  have "care_typed (update_caretaker i (\<lambda>d. caretaker_save False (d\<lparr>cr_patients := cr_patients d @ [p]\<rparr>)) cts)"
    if "is_valid_oid p" "oid_canon p = p" for i p
  proof -
    have "care_wf (update_caretaker i (\<lambda>d. d\<lparr>cr_patients := cr_patients d @ [p]\<rparr>) cts)"
      using t that by (simp add: care_typed_def care_wf_append_patient)
    moreover have "map cr_id (update_caretaker i (\<lambda>d. d\<lparr>cr_patients := cr_patients d @ [p]\<rparr>) cts) = map cr_id cts"
         "map cr_email (update_caretaker i (\<lambda>d. d\<lparr>cr_patients := cr_patients d @ [p]\<rparr>) cts) = map cr_email cts"
      by (simp_all add: update_caretaker_def comp_def if_distrib cong: if_cong)
    moreover have "list_all (\<lambda>c. cr_password c \<noteq> None) (update_caretaker i (\<lambda>d. d\<lparr>cr_patients := cr_patients d @ [p]\<rparr>) cts)"
      using t by (auto simp: care_typed_def update_caretaker_def list_all_iff)
    ultimately show ?thesis using t by (simp add: care_typed_def caretaker_save_def)
  qed
  then show ?thesis using t
    by (auto simp: assignPatient_def find_caretaker_str_def is_valid_oid_canon split: option.splits sum.splits)
qed

lemma putCaretakerSettings_typed: "care_typed cts \<Longrightarrow> care_typed (snd (putCaretakerSettings cts me b))"
  by (auto simp: putCaretakerSettings_def intro!: care_typed_update split: option.splits)

lemma care_updateProfile_typed: "care_typed cts \<Longrightarrow> care_typed (snd (care_updateProfile now cts me))"
  by (auto simp: care_updateProfile_def Let_def intro!: care_typed_update split: option.splits)

end
