(* ===== verification/CaretakerPages.thy ===== *)
theory CaretakerPages
  imports Caretakers History "HOL-Library.Multiset"
begin

text \<open>
  The caretaker dashboard pages of the client: \<open>Adminpages/CaretakerTrackprogress.jsx\<close>
  (the users' leaderboard, the level chart and today's progress) and
  \<open>Adminpages/CaretakerProfile.jsx\<close> (the statistics, today's counts, the
  completed and pending sessions, the paged activity list, the badge and the
  initials). Each page is the function from the server replies it reads to what
  it shows.

  Times are seconds; two times are on the same day when they fall in the same
  86400-second day (\<open>toDateString\<close> in the browser's time zone, which is not
  modelled, is UTC here, as in \<open>History.day_start\<close>).
\<close>

definition same_day :: "nat \<Rightarrow> nat \<Rightarrow> bool" where
  "same_day t now \<longleftrightarrow> t div 86400 = now div 86400"

subsection \<open>Track progress\<close>

text \<open>\<open>a.points || 0\<close>.\<close>

definition act_pts :: "activity \<Rightarrow> int" where
  "act_pts a = (case act_points a of Some p \<Rightarrow> p | None \<Rightarrow> 0)"

definition today_points :: "nat \<Rightarrow> user \<Rightarrow> int" where
  "today_points now u = sum_list (map act_pts (filter (\<lambda>a. same_day (act_time a) now) (pf_activities (u_profile u))))"

text \<open>A row of the \<open>todayProgress\<close> chart: \<open>{ name, points: todayPoints, ...user.profile }\<close>.
  The fields of the object literal come first; the spread then writes every key of
  the profile, \<open>points\<close> included.\<close>

record progress_row =
  pr_name :: string
  pr_points :: int
  pr_gamesPlayed :: "int option"
  pr_chatMessages :: "int option"
  pr_totalLogins :: "int option"

definition spread_profile :: "profile \<Rightarrow> progress_row \<Rightarrow> progress_row" where
  "spread_profile p r =
     r\<lparr>pr_points := pf_points p, pr_gamesPlayed := Some (pf_gamesPlayed p),
       pr_chatMessages := Some (pf_chatMessages p), pr_totalLogins := Some (pf_totalLogins p)\<rparr>"

definition today_row :: "nat \<Rightarrow> user \<Rightarrow> progress_row" where
  "today_row now u =
     spread_profile (u_profile u)
       \<lparr>pr_name = u_name u, pr_points = today_points now u,
        pr_gamesPlayed = None, pr_chatMessages = None, pr_totalLogins = None\<rparr>"

definition today_progress :: "nat \<Rightarrow> user list \<Rightarrow> progress_row list" where
  "today_progress now us = map (today_row now) us"

text \<open>\<open>allUsers.sort((a, b) => pointsB - pointsA)\<close>, a stable sort.\<close>

definition sort_by_points :: "user list \<Rightarrow> user list" where
  "sort_by_points us = sort_key (\<lambda>u. - pf_points (u_profile u)) us"

datatype level = Gold | Silver | Bronze | Newbie

text \<open>The level badge of a table row.\<close>

definition level_of :: "int \<Rightarrow> level" where
  "level_of pts =
     (if 3000 \<le> pts then Gold else if 2000 \<le> pts then Silver else if 1000 \<le> pts then Bronze else Newbie)"

text \<open>The bucket tests of the level chart.\<close>

fun level_pred :: "level \<Rightarrow> int \<Rightarrow> bool" where
  "level_pred Gold pts = (3000 \<le> pts)"
| "level_pred Silver pts = (2000 \<le> pts \<and> pts < 3000)"
| "level_pred Bronze pts = (1000 \<le> pts \<and> pts < 2000)"
| "level_pred Newbie pts = (pts < 1000)"

definition level_data :: "user list \<Rightarrow> (level \<times> nat) list" where
  "level_data us =
     map (\<lambda>l. (l, length (filter (\<lambda>u. level_pred l (pf_points (u_profile u))) us))) [Gold, Silver, Bronze, Newbie]"

definition track_filtered_users :: "string \<Rightarrow> user list \<Rightarrow> user list" where
  "track_filtered_users search us = filter (\<lambda>u. js_includes (js_to_lower (u_name u)) (js_to_lower search)) us"

definition leaderboard :: "string \<Rightarrow> user list \<Rightarrow> (user \<times> level) list" where
  "leaderboard search us =
     map (\<lambda>u. (u, level_of (pf_points (u_profile u)))) (take 10 (track_filtered_users search (sort_by_points us)))"

definition active_today :: "progress_row list \<Rightarrow> nat" where
  "active_today rows = length (filter (\<lambda>r. 0 < pr_points r) rows)"

definition total_points :: "user list \<Rightarrow> int" where
  "total_points us = sum_list (map (\<lambda>u. pf_points (u_profile u)) us)"

subsection \<open>The caretaker's profile page\<close>

text \<open>\<open>stats\<close> after the three requests: the profile reply merged in, the
  activities of \<open>profile\<close> followed by the top-level \<open>activities\<close> (a caretaker
  document has none), and the distinct-partner count of \<open>/interactions\<close>.\<close>

record care_stats =
  cs_activities :: "care_activity list"
  cs_patients :: "patient_view list"
  cs_totalSessions :: int
  cs_chatMessages :: int
  cs_initials :: "string option"
  cs_uniqueChats :: nat

definition load_stats :: "care_reply \<Rightarrow> nat \<Rightarrow> care_stats option" where
  "load_stats r n =
     (case r of
        CProfile c pats \<Rightarrow>
          Some \<lparr>cs_activities = cp_activities (cr_profile c) @ [], cs_patients = pats,
                cs_totalSessions = cp_totalSessions (cr_profile c),
                cs_chatMessages = cp_chatMessages (cr_profile c),
                cs_initials = cr_initials c, cs_uniqueChats = n\<rparr>
      | _ \<Rightarrow> None)"

text \<open>The effect on \<open>stats.activities\<close>: a chat activity of today counts as a
  chat, any other as a session, whose \<open>points\<close> (which caretaker activities do not
  have) add 0.\<close>

definition today_counts :: "nat \<Rightarrow> care_activity list \<Rightarrow> nat \<times> int \<times> nat" where
  "today_counts now acts =
     (let td = filter (\<lambda>a. same_day (ca_time a) now) acts in
      (length (filter (\<lambda>a. ca_type a \<noteq> ''chat'') td), 0, length (filter (\<lambda>a. ca_type a = ''chat'') td)))"

definition completed_count :: "patient_view list \<Rightarrow> oid list \<Rightarrow> nat" where
  "completed_count pats ids = length (filter (\<lambda>p. pv_id p \<in> set ids) pats)"

definition pending_count :: "patient_view list \<Rightarrow> oid list \<Rightarrow> int" where
  "pending_count pats ids = int (length pats) - int (completed_count pats ids)"

definition page_size :: nat where "page_size = 5"

text \<open>\<open>Math.max(1, Math.ceil(n / PAGE_SIZE))\<close>.\<close>

definition total_pages :: "nat \<Rightarrow> nat" where
  "total_pages n = max 1 ((n + page_size - 1) div page_size)"

text \<open>The activities newest first (a stable sort on \<open>b.time - a.time\<close>).\<close>

definition newest_first :: "care_activity list \<Rightarrow> care_activity list" where
  "newest_first acts = sort_key (\<lambda>a. - int (ca_time a)) acts"

definition paged_overall :: "care_activity list \<Rightarrow> nat \<Rightarrow> care_activity list" where
  "paged_overall acts p = take page_size (drop ((p - 1) * page_size) (newest_first acts))"

text \<open>The pager's buttons.\<close>

definition page_prev :: "nat \<Rightarrow> nat" where "page_prev p = max 1 (p - 1)"

definition page_next :: "nat \<Rightarrow> nat \<Rightarrow> nat" where "page_next tot p = min tot (p + 1)"

datatype badge = SessionPro | ActiveTherapist

definition achievement :: "int \<Rightarrow> badge option" where
  "achievement ts = (if 100 \<le> ts then Some SessionPro else if 20 \<le> ts then Some ActiveTherapist else None)"

definition ascii_upper :: "char \<Rightarrow> char" where
  "ascii_upper c =
     (let n = (of_char c :: nat) in if 97 \<le> n \<and> n \<le> 122 then char_of (n - 32) else c)"

text \<open>\<open>profileName.split(" ").map((n) => n[0]).join("")\<close>: \<open>n[0]\<close> of an empty
  word is \<open>undefined\<close>, which \<open>join\<close> writes as nothing.\<close>

definition name_initials :: "string \<Rightarrow> string" where
  "name_initials name = concat (map (take 1) (js_split CHR '' '' name))"

definition display_initials :: "string option \<Rightarrow> string option \<Rightarrow> string" where
  "display_initials ini name =
     (let n = (case name of Some x \<Rightarrow> if x = [] then ''Unnamed Caretaker'' else x | None \<Rightarrow> ''Unnamed Caretaker'');
          d = (case ini of Some i \<Rightarrow> if i = [] then name_initials n else i | None \<Rightarrow> name_initials n);
          s = map ascii_upper (take 2 d)
      in if s = [] then ''?'' else s)"

subsection \<open>Facts\<close>

lemma level_pred_iff: "level_pred l pts \<longleftrightarrow> level_of pts = l"
  by (cases l) (auto simp: level_of_def)

lemma sum_level_counts:
  "(\<Sum>l\<leftarrow>[Gold, Silver, Bronze, Newbie]. length (filter (\<lambda>u. level_of (f u) = l) us)) = length us"
proof (induction us)
  case Nil then show ?case by simp
next
  case (Cons u us) then show ?case by (cases "level_of (f u)") simp_all
qed

lemma concat_pages:
  "concat (map (\<lambda>p. take k (drop (p * k) xs)) [0..<n]) = take (n * k) xs"
proof (induction n)
  case 0 then show ?case by simp
next
  case (Suc n)
  have "take (Suc n * k) xs = take (n * k + k) xs" by (simp add: add.commute)
  also have "\<dots> = take (n * k) xs @ take k (drop (n * k) xs)" by (rule take_add)
  finally show ?case using Suc by simp
qed

lemma length_le_total_pages: "n \<le> total_pages n * page_size"
  by (simp add: total_pages_def page_size_def)

end
