(* ===== verification/CaretakerSettingsPage.thy ===== *)
theory CaretakerSettingsPage
  imports Caretakers Routing
begin

text \<open>
  The caretaker's settings page \<open>Adminpages/CaretakerSettings.jsx\<close>: its state, the
  token check and the load on mount, and the handlers of its buttons and forms.
  Every handler is split at its \<open>await\<close>: the first half changes the state and
  emits the request, a response event carries the outcome (\<open>True\<close> for a 2xx
  reply) and runs the rest. The requests go to the user endpoints of
  \<open>routes/auth.route.js\<close> (\<open>/auth/update-basic\<close>, \<open>/auth/settings\<close>,
  \<open>/auth/privacy/...\<close>), none to \<open>/api/caretaker/settings\<close>.

  The \<open>user\<close> entry of \<open>localStorage\<close> is kept parsed (\<open>local_user\<close>); the
  FileReader that turns a chosen photo into a data URL is represented by the URL it
  produces; \<open>alert\<close> is an output.
\<close>

record local_user =
  lu_name :: "string option"
  lu_email :: "string option"
  lu_photo :: "string option"

datatype sp_out =
    SpGetSettings                        \<comment> \<open>\<open>GET /auth/settings\<close>\<close>
  | SpUpdateBasic string string          \<comment> \<open>\<open>PUT /auth/update-basic {name, photo}\<close>\<close>
  | SpPutProfile string string           \<comment> \<open>\<open>PUT /auth/profile {name, photo}\<close>\<close>
  | SpPutSettings user_settings          \<comment> \<open>\<open>PUT /auth/settings\<close>\<close>
  | SpRequestOtp                         \<comment> \<open>\<open>POST /auth/privacy/request-otp\<close>\<close>
  | SpReset string string                \<comment> \<open>\<open>POST /auth/privacy/reset {otp, newPassword}\<close>\<close>
  | SpRequestEmailChange string          \<comment> \<open>\<open>POST /auth/privacy/request-email-change\<close>\<close>
  | SpConfirmEmail string                \<comment> \<open>\<open>POST /auth/privacy/confirm-email\<close>\<close>
  | SpAlert string
  | SpGoto string                        \<comment> \<open>\<open>window.location.href\<close> or \<open>navigate\<close>\<close>

record settings_page =
  sp_token :: "string option"            \<comment> \<open>\<open>localStorage.token\<close>\<close>
  sp_user :: "local_user option"         \<comment> \<open>\<open>localStorage.user\<close>\<close>
  sp_name :: string                      \<comment> \<open>\<open>profile.name\<close>\<close>
  sp_email :: string
  sp_photo :: string
  sp_settings :: user_settings
  sp_nameValue :: string
  sp_photoValue :: string
  sp_otpSent :: bool
  sp_otpStatus :: string
  sp_otpValue :: string
  sp_newPassword :: string
  sp_confirmPassword :: string
  sp_emailChangeSent :: bool
  sp_emailStatus :: string
  sp_newEmailValue :: string
  sp_emailOtpValue :: string
  sp_privacyView :: "string option"
  sp_loading :: bool
  sp_out :: "sp_out list"

definition sp_emit :: "sp_out list \<Rightarrow> settings_page \<Rightarrow> settings_page" where
  "sp_emit os s = s\<lparr>sp_out := sp_out s @ os\<rparr>"

definition opt_str :: "string option \<Rightarrow> string" where
  "opt_str v = (case v of Some x \<Rightarrow> x | None \<Rightarrow> [])"

text \<open>\<open>checkTokenExpiry\<close>: \<open>jwtDecode\<close> reads the token without verifying it;
  \<open>exp * 1000 < Date.now()\<close> is \<open>exp < now\<close> in seconds. An expired token removes
  \<open>token\<close> and \<open>user\<close>, an undecodable one only \<open>token\<close>; both go to \<open>/login\<close>.\<close>

definition check_token_expiry :: "jwt_codec \<Rightarrow> nat \<Rightarrow> settings_page \<Rightarrow> settings_page" where
  "check_token_expiry dec now s =
     (case sp_token s of
        None \<Rightarrow> s
      | Some t \<Rightarrow>
          (case dec t of
             None \<Rightarrow> sp_emit [SpGoto ''/login''] (s\<lparr>sp_token := None\<rparr>)
           | Some j \<Rightarrow> if jwt_exp j < now
                       then sp_emit [SpGoto ''/login''] (s\<lparr>sp_token := None, sp_user := None\<rparr>)
                       else s))"

definition sp_initial :: "string option \<Rightarrow> local_user option \<Rightarrow> settings_page" where
  "sp_initial tok lu =
     \<lparr>sp_token = tok, sp_user = lu, sp_name = [], sp_email = [], sp_photo = [],
      sp_settings = default_settings, sp_nameValue = [], sp_photoValue = [],
      sp_otpSent = False, sp_otpStatus = [], sp_otpValue = [], sp_newPassword = [],
      sp_confirmPassword = [], sp_emailChangeSent = False, sp_emailStatus = [],
      sp_newEmailValue = [], sp_emailOtpValue = [], sp_privacyView = None, sp_loading = True,
      sp_out = []\<rparr>"

text \<open>The two mount effects, in their order: the token check, then \<open>load\<close>, which
  copies the local user into the form and requests the settings.\<close>

definition sp_mount :: "jwt_codec \<Rightarrow> nat \<Rightarrow> settings_page \<Rightarrow> settings_page" where
  "sp_mount dec now s =
     (let s1 = check_token_expiry dec now s;
          s2 = (case sp_user s1 of
                  None \<Rightarrow> s1
                | Some u \<Rightarrow> s1\<lparr>sp_name := opt_str (lu_name u), sp_email := opt_str (lu_email u),
                                sp_photo := opt_str (lu_photo u), sp_nameValue := opt_str (lu_name u),
                                sp_photoValue := opt_str (lu_photo u)\<rparr>)
      in sp_emit [SpGetSettings] s2)"

text \<open>The reply to \<open>GET /auth/settings\<close>: a failure is ignored.\<close>

definition sp_settings_loaded :: "user_settings option \<Rightarrow> settings_page \<Rightarrow> settings_page" where
  "sp_settings_loaded r s =
     (case r of None \<Rightarrow> s\<lparr>sp_loading := False\<rparr> | Some x \<Rightarrow> s\<lparr>sp_settings := x, sp_loading := False\<rparr>)"

definition sp_photo_selected :: "string \<Rightarrow> settings_page \<Rightarrow> settings_page" where
  "sp_photo_selected url s =
     s\<lparr>sp_photoValue := url, sp_photo := url,
       sp_user := Some ((case sp_user s of Some u \<Rightarrow> u
                         | None \<Rightarrow> \<lparr>lu_name = None, lu_email = None, lu_photo = None\<rparr>)\<lparr>lu_photo := Some url\<rparr>)\<rparr>"

definition sp_store_profile :: "settings_page \<Rightarrow> settings_page" where
  "sp_store_profile s =
     s\<lparr>sp_user := Some ((case sp_user s of Some u \<Rightarrow> u
                         | None \<Rightarrow> \<lparr>lu_name = None, lu_email = None, lu_photo = None\<rparr>)
                        \<lparr>lu_name := Some (sp_nameValue s), lu_photo := Some (sp_photoValue s)\<rparr>),
       sp_name := sp_nameValue s, sp_photo := sp_photoValue s\<rparr>"

text \<open>\<open>handleSaveProfile\<close>: \<open>/auth/update-basic\<close>, and on failure \<open>/auth/profile\<close>.\<close>

definition sp_save_profile :: "settings_page \<Rightarrow> settings_page" where
  "sp_save_profile s = sp_emit [SpUpdateBasic (sp_nameValue s) (sp_photoValue s)] (s\<lparr>sp_loading := True\<rparr>)"

definition sp_update_basic_done :: "bool \<Rightarrow> settings_page \<Rightarrow> settings_page" where
  "sp_update_basic_done ok s =
     (if ok then sp_emit [SpAlert ''Profile updated successfully''] ((sp_store_profile s)\<lparr>sp_loading := False\<rparr>)
      else sp_emit [SpPutProfile (sp_nameValue s) (sp_photoValue s)] s)"

definition sp_put_profile_done :: "bool \<Rightarrow> settings_page \<Rightarrow> settings_page" where
  "sp_put_profile_done ok s =
     (if ok then sp_emit [SpAlert ''Profile updated (via fallback endpoint).''] ((sp_store_profile s)\<lparr>sp_loading := False\<rparr>)
      else sp_emit [SpAlert ''Failed to update profile. Make sure backend route /auth/update-basic or /auth/profile exists.'']
             (s\<lparr>sp_loading := False\<rparr>))"

text \<open>\<open>handleSaveSettings\<close>: the appearance of the theme context and the page's
  notification switches.\<close>

definition sp_save_settings :: "user_settings \<Rightarrow> settings_page \<Rightarrow> settings_page" where
  "sp_save_settings ctx s =
     sp_emit [SpPutSettings (ctx\<lparr>us_notifyEmail := us_notifyEmail (sp_settings s),
                                us_notifySms := us_notifySms (sp_settings s),
                                us_notifyPush := us_notifyPush (sp_settings s)\<rparr>)] s"

definition sp_save_settings_done :: "bool \<Rightarrow> settings_page \<Rightarrow> settings_page" where
  "sp_save_settings_done ok s = sp_emit [SpAlert (if ok then ''Settings saved!'' else ''Failed to save settings'')] s"

definition sp_request_otp :: "settings_page \<Rightarrow> settings_page" where
  "sp_request_otp s = sp_emit [SpRequestOtp] (s\<lparr>sp_otpStatus := []\<rparr>)"

definition sp_request_otp_done :: "string option \<Rightarrow> settings_page \<Rightarrow> settings_page" where
  "sp_request_otp_done err s =
     (case err of
        None \<Rightarrow> s\<lparr>sp_otpSent := True, sp_otpStatus := ''OTP sent to your email.''\<rparr>
      | Some m \<Rightarrow> s\<lparr>sp_otpStatus := (if m = [] then ''Failed to send OTP. Try again.'' else m)\<rparr>)"

text \<open>\<open>handleResetWithOtp\<close>: the form's checks, then the request.\<close>

definition sp_reset :: "settings_page \<Rightarrow> settings_page" where
  "sp_reset s =
     (if sp_otpValue s = [] then s\<lparr>sp_otpStatus := ''Please enter the OTP.''\<rparr>
      else if length (sp_newPassword s) < 6 then s\<lparr>sp_otpStatus := ''Password must be at least 6 characters.''\<rparr>
      else if sp_newPassword s \<noteq> sp_confirmPassword s then s\<lparr>sp_otpStatus := ''Passwords do not match.''\<rparr>
      else sp_emit [SpReset (sp_otpValue s) (sp_newPassword s)] (s\<lparr>sp_otpStatus := []\<rparr>))"

definition sp_reset_done :: "string + string \<Rightarrow> settings_page \<Rightarrow> settings_page" where
  "sp_reset_done r s =
     (case r of
        Inr m \<Rightarrow> s\<lparr>sp_otpStatus := (if m = [] then ''Password changed successfully.'' else m),
                   sp_otpValue := [], sp_newPassword := [], sp_confirmPassword := [], sp_otpSent := False,
                   sp_privacyView := None\<rparr>
      | Inl m \<Rightarrow> s\<lparr>sp_otpStatus := (if m = [] then ''Failed to reset password. Try again.'' else m)\<rparr>)"

definition sp_request_email_change :: "settings_page \<Rightarrow> settings_page" where
  "sp_request_email_change s =
     (if sp_newEmailValue s = [] \<or> \<not> email_ok (sp_newEmailValue s)
      then s\<lparr>sp_emailStatus := ''Enter a valid new email address.''\<rparr>
      else sp_emit [SpRequestEmailChange (sp_newEmailValue s)] (s\<lparr>sp_emailStatus := []\<rparr>))"

definition sp_request_email_done :: "string + string \<Rightarrow> settings_page \<Rightarrow> settings_page" where
  "sp_request_email_done r s =
     (case r of
        Inr m \<Rightarrow> s\<lparr>sp_emailChangeSent := True,
                   sp_emailStatus := (if m = [] then ''OTP sent to your current email.'' else m)\<rparr>
      | Inl m \<Rightarrow> s\<lparr>sp_emailStatus := (if m = [] then ''Failed to send OTP. Try again.'' else m)\<rparr>)"

definition sp_confirm_email :: "settings_page \<Rightarrow> settings_page" where
  "sp_confirm_email s =
     (if sp_emailOtpValue s = [] then s\<lparr>sp_emailStatus := ''Please enter the OTP sent to your email.''\<rparr>
      else sp_emit [SpConfirmEmail (sp_emailOtpValue s)] s)"

text \<open>The reply of \<open>confirm-email\<close>: an error message, or the success message
  and the \<open>email\<close> the reply may carry.\<close>

definition sp_confirm_email_done :: "string + (string \<times> string option) \<Rightarrow> settings_page \<Rightarrow> settings_page" where
  "sp_confirm_email_done r s =
     (case r of
        Inl m \<Rightarrow> s\<lparr>sp_emailStatus := (if m = [] then ''Failed to confirm email change'' else m)\<rparr>
      | Inr (m, e) \<Rightarrow>
     (let ne = (case e of Some x \<Rightarrow> if x = [] then sp_newEmailValue s else x | None \<Rightarrow> sp_newEmailValue s)
      in s\<lparr>sp_emailStatus := (if m = [] then ''Email changed successfully.'' else m), sp_email := ne,
           sp_user := Some ((case sp_user s of Some u \<Rightarrow> u
                             | None \<Rightarrow> \<lparr>lu_name = None, lu_email = None, lu_photo = None\<rparr>)\<lparr>lu_email := Some ne\<rparr>),
           sp_newEmailValue := [], sp_emailOtpValue := [], sp_emailChangeSent := False,
           sp_privacyView := None\<rparr>))"

text \<open>\<open>handleLogout\<close>: \<open>userType\<close> stays, and the page goes to the users' login.\<close>

definition sp_logout :: "settings_page \<Rightarrow> settings_page" where
  "sp_logout s = sp_emit [SpGoto ''/login''] (s\<lparr>sp_token := None, sp_user := None\<rparr>)"

subsection \<open>Facts\<close>

lemma update_user_absent:
  assumes "i \<notin> u_id ` set (acc_users st)"
  shows "update_user i f st = st"
proof -
  have "map (\<lambda>u. if u_id u = i then f u else u) (acc_users st) = acc_users st"
    using assms by (intro map_idI) force
  then show ?thesis by (simp add: update_user_def)
qed

lemma find_by_id_SomeD: "find_by_id ids x = Inr (Some c) \<Longrightarrow> \<exists>s. x = Some s \<and> c = oid_canon s \<and> c \<in> set ids"
  by (cases x) (auto split: if_splits)

lemma find_by_id_NoneD: "find_by_id ids (Some s) = Inr None \<Longrightarrow> oid_canon s \<notin> set ids"
  by (auto split: if_splits)

text \<open>The middleware resolves a token to a caretaker only for an id that no user
  document has.\<close>

lemma rest_auth_caretaker:
  "rest_auth cfg dec now dir hdr = Inr (PCaretaker c) \<Longrightarrow>
   c \<notin> set (dir_users dir) \<and> c \<in> set (dir_caretakers dir)"
  by (auto simp: rest_auth_def dest!: find_by_id_SomeD dest: find_by_id_NoneD
      split: option.splits sum.splits if_splits)

end
