(* ===== verification/Services.thy ===== *)
theory Services
  imports ClientChat Accounts
begin

text \<open>
  The services \<open>server.js\<close> defines itself: the Brevo mail helper and the contact
  form route, the daily reminder job, and the AI endpoint \<open>POST /api/chat\<close>, which
  Express reaches only after the \<open>/api/chat\<close> mount (the HTTP middleware, then the
  chat router, which has no \<open>POST /\<close> route and passes the request on).

  The external services are represented by their outcomes: a mail is delivered or
  not (\<open>ok\<close>), the generative model answers a request with a text or fails
  (\<open>gen\<close>). The one property of the Gemini API the model relies on is its
  documented restriction of message roles to \<open>user\<close> and \<open>model\<close>; a request with
  any other role is rejected, which the endpoint's \<open>catch\<close> turns into its
  fallback answer. The emoji of the mail subjects are left out (characters beyond
  Latin-1 are not modelled).
\<close>

subsection \<open>E-mail and the contact form\<close>

record brevo_mail =
  bm_to :: string
  bm_subject :: string
  bm_html :: string

text \<open>\<open>sendBrevoEmail\<close>: the mail is posted to Brevo; a failure is logged and
  swallowed, so the caller cannot tell the two outcomes apart.\<close>

definition send_brevo_email :: "bool \<Rightarrow> string \<Rightarrow> string \<Rightarrow> string \<Rightarrow> brevo_mail list \<Rightarrow> brevo_mail list" where
  "send_brevo_email ok to subj html box =
     (if ok then box @ [\<lparr>bm_to = to, bm_subject = subj, bm_html = html\<rparr>] else box)"

definition admin_address :: string where
  "admin_address = ''care.mindmate@gmail.com''"

definition contact_route ::
  "(string \<Rightarrow> bool) \<Rightarrow> string option \<Rightarrow> string option \<Rightarrow> string option \<Rightarrow> brevo_mail list \<Rightarrow>
   (nat \<times> string) \<times> brevo_mail list" where
  "contact_route ok name email msg box =
     (if \<not> opt_truthy name \<or> \<not> opt_truthy email \<or> \<not> opt_truthy msg
      then ((400, ''All fields required''), box)
      else
        (let n = the name; e = the email; m = the msg;
             box1 = send_brevo_email (ok admin_address) admin_address (''New Contact Message from '' @ n)
                      (''<p><strong>Name:</strong> '' @ n @ ''</p><p><strong>Email:</strong> '' @ e @
                       ''</p><p><strong>Message:</strong> '' @ m @ ''</p>'') box;
             box2 = send_brevo_email (ok e) e ''Thanks for contacting MindMate''
                      (''<p>Hi '' @ n @ '',</p>'') box1
         in ((200, ''Contact message sent successfully!''), box2)))"

subsection \<open>The daily reminder job\<close>

datatype reminder = REmail string string | RPush string string

text \<open>\<open>user.pushToken\<close>: the User schema has no such path, so a document read
  through the model never has one.\<close>

definition user_pushToken :: "user \<Rightarrow> string option" where
  "user_pushToken u = None"

definition reminder_recipients :: "user list \<Rightarrow> user list" where
  "reminder_recipients us = filter (\<lambda>u. us_notifyEmail (u_settings u) \<or> us_notifyPush (u_settings u)) us"

definition reminder_text :: "user \<Rightarrow> string" where
  "reminder_text u =
     ''Hello '' @ (if u_name u = [] then ''MindMate User'' else u_name u) @ ''! Don't forget to log in to MindMate today!''"

text \<open>The body of \<open>cron.schedule("0 9 * * *", ...)\<close>, for one run.\<close>

definition daily_reminders :: "user list \<Rightarrow> reminder list" where
  "daily_reminders us =
     concat (map (\<lambda>u. (if us_notifyEmail (u_settings u) then [REmail (u_email u) (reminder_text u)] else []) @
                     (if us_notifyPush (u_settings u) \<and> opt_truthy (user_pushToken u)
                      then [RPush (the (user_pushToken u)) (reminder_text u)] else []))
                 (reminder_recipients us))"

subsection \<open>The AI endpoint\<close>

definition gemini_role_ok :: "string \<Rightarrow> bool" where
  "gemini_role_ok r \<longleftrightarrow> r = ''user'' \<or> r = ''model''"

datatype ai_http =
    AiStatus nat string          \<comment> \<open>an error status and message\<close>
  | AiMessage string             \<comment> \<open>\<open>{ message: { role: "assistant", content } }\<close> with status 200\<close>

definition ai_fallback :: string where
  "ai_fallback = ''I'm currently unable to process your request. Please try again later.''"

text \<open>The start-up configuration: the model exists when \<open>GEMINI_API_KEY\<close> is set
  and its construction does not throw (\<open>init_ok\<close>, the library's outcome).\<close>

definition gemini_available :: "string option \<Rightarrow> bool \<Rightarrow> bool" where
  "gemini_available key init_ok \<longleftrightarrow> opt_truthy key \<and> init_ok"

text \<open>The handler: 501 without a configured model; otherwise the (role, content)
  pairs are passed on as they are. A missing \<open>messages\<close> makes \<open>messages.map\<close>
  throw, a role Gemini rejects or a failure of the model makes
  \<open>generateContent\<close> throw; every throw is answered 200 with the fallback.\<close>

definition ai_endpoint ::
  "bool \<Rightarrow> ((string \<times> string) list \<Rightarrow> string option) \<Rightarrow> (string \<times> string) list option \<Rightarrow> ai_http" where
  "ai_endpoint avail gen msgs =
     (if \<not> avail then AiStatus 501 ''Gemini AI not available''
      else case msgs of
             None \<Rightarrow> AiMessage ai_fallback
           | Some ms \<Rightarrow>
               if list_all (\<lambda>(r, _). gemini_role_ok r) ms
               then (case gen ms of Some t \<Rightarrow> AiMessage t | None \<Rightarrow> AiMessage ai_fallback)
               else AiMessage ai_fallback)"

text \<open>\<open>POST /api/chat\<close> through the application: the \<open>/api/chat\<close> mount's
  middleware first, then (the chat router matching nothing) the endpoint.\<close>

definition ai_route ::
  "config \<Rightarrow> jwt_codec \<Rightarrow> nat \<Rightarrow> directory \<Rightarrow> string option \<Rightarrow> bool \<Rightarrow>
   ((string \<times> string) list \<Rightarrow> string option) \<Rightarrow> (string \<times> string) list option \<Rightarrow> ai_http" where
  "ai_route cfg dec now dir hdr avail gen msgs =
     (case rest_auth cfg dec now dir hdr of
        Inl RestNoToken \<Rightarrow> AiStatus 401 ''No token provided''
      | Inl RestNotFound \<Rightarrow> AiStatus 401 ''User or Caretaker not found''
      | Inl RestInvalid \<Rightarrow> AiStatus 401 ''Invalid or expired token''
      | Inr _ \<Rightarrow> ai_endpoint avail gen msgs)"

text \<open>How the chat screen takes the answer (\<open>handleAiSend\<close> after its \<open>await\<close>):
  a 2xx reply is read as \<open>message.content\<close>, an error status lands in the
  \<open>catch\<close>.\<close>

definition ai_deliver :: "ai_http \<Rightarrow> chat_client \<Rightarrow> chat_client" where
  "ai_deliver r st = (case r of AiMessage t \<Rightarrow> ai_reply st (Some t) None | AiStatus _ _ \<Rightarrow> ai_error st)"

subsection \<open>Facts\<close>

text \<open>The contact form answers 200 for every complete form, whichever mails were
  delivered.\<close>

lemma contact_route_reply:
  "opt_truthy name \<Longrightarrow> opt_truthy email \<Longrightarrow> opt_truthy msg \<Longrightarrow>
   fst (contact_route ok name email msg box) = (200, ''Contact message sent successfully!'')"
  by (simp add: contact_route_def Let_def)

text \<open>No push reminder is ever sent.\<close>

lemma daily_reminders_no_push: "RPush t m \<notin> set (daily_reminders us)"
  by (auto simp: daily_reminders_def user_pushToken_def)

text \<open>Without a key every request to the assistant is answered 501.\<close>

lemma no_key_501: "\<not> opt_truthy key \<Longrightarrow> ai_endpoint (gemini_available key ok) gen msgs = AiStatus 501 ''Gemini AI not available''"
  by (simp add: gemini_available_def ai_endpoint_def)

end
