(* ===== verification/UserPages.thy ===== *)
theory UserPages
  imports CaretakerPages CaretakerSettingsPage Services
begin

text \<open>
  Two pages of the user's client: the profile page \<open>Pages/Profile.jsx\<close> (the
  profile and interaction counts it loads, today's counts, the paged activity
  list, the badge and the progress bar) and the contact page \<open>Pages/Contact.jsx\<close>
  (its form and its submit, which goes to \<open>POST /api/contact\<close> of \<open>Services\<close>).

  The profile page reads the activities the account handlers of \<open>Accounts\<close>
  record; \<open>Math.round\<close> is \<open>floor (x + 1/2)\<close> on rationals; a day is as in
  \<open>CaretakerPages.same_day\<close>.
\<close>

subsection \<open>The profile page\<close>

record profile_page =
  pp_user :: "local_user option"      \<comment> \<open>\<open>localStorage.user\<close>, parsed\<close>
  pp_profile :: profile
  pp_total :: int                     \<comment> \<open>\<open>interactionStats.total\<close>\<close>
  pp_today :: int                     \<comment> \<open>\<open>interactionStats.today\<close>\<close>
  pp_page :: nat                      \<comment> \<open>\<open>currentPage\<close>\<close>

definition profile_page_size :: nat where "profile_page_size = 10"

text \<open>The initial state: the profile's initial value has the schema's defaults.\<close>

definition profile_initial :: "local_user option \<Rightarrow> profile_page" where
  "profile_initial lu = \<lparr>pp_user = lu, pp_profile = default_profile, pp_total = 0, pp_today = 0, pp_page = 1\<rparr>"

text \<open>\<open>fetchProfile\<close>: the reply of \<open>GET /auth/profile\<close> is spread over the
  current profile; a reply of the handler has every field, so it replaces it. An
  error leaves the page as it was.\<close>

definition profile_loaded :: "reply \<Rightarrow> profile_page \<Rightarrow> profile_page" where
  "profile_loaded r pg = (case r of RProfile p \<Rightarrow> pg\<lparr>pp_profile := p\<rparr> | _ \<Rightarrow> pg)"

text \<open>\<open>fetchInteractions\<close>: \<open>totalInteractions || 0\<close> and \<open>todayInteractions || 0\<close>.\<close>

definition interactions_loaded :: "nat \<Rightarrow> nat \<Rightarrow> profile_page \<Rightarrow> profile_page" where
  "interactions_loaded tot td pg = pg\<lparr>pp_total := int tot, pp_today := int td\<rparr>"

text \<open>\<open>computeTodayCounts\<close>: the activities of today by type, and their points.\<close>

definition profile_today_counts :: "nat \<Rightarrow> activity list \<Rightarrow> nat \<times> nat \<times> nat \<times> int" where
  "profile_today_counts now acts =
     (let td = filter (\<lambda>a. same_day (act_time a) now) acts in
      (length (filter (\<lambda>a. act_type a = ''login'') td), length (filter (\<lambda>a. act_type a = ''game'') td),
       length (filter (\<lambda>a. act_type a = ''chat'') td), sum_list (map act_pts td)))"

definition profile_total_pages :: "nat \<Rightarrow> nat" where
  "profile_total_pages n = max 1 ((n + profile_page_size - 1) div profile_page_size)"

text \<open>The effect that sends the pager back to page 1 when the page is past the end.\<close>

definition profile_fix_page :: "profile_page \<Rightarrow> profile_page" where
  "profile_fix_page pg =
     (if profile_total_pages (length (pf_activities (pp_profile pg))) < pp_page pg then pg\<lparr>pp_page := 1\<rparr> else pg)"

text \<open>\<open>overallActivities.slice().reverse().slice(...)\<close>: the latest recorded first.\<close>

definition profile_paged :: "activity list \<Rightarrow> nat \<Rightarrow> activity list" where
  "profile_paged acts p = take profile_page_size (drop ((p - 1) * profile_page_size) (rev acts))"

datatype pbadge = BronzeBadge | SilverBadge | GoldBadge

definition get_badge :: "int \<Rightarrow> pbadge option" where
  "get_badge pts =
     (if 3000 \<le> pts then Some GoldBadge else if 2000 \<le> pts then Some SilverBadge
      else if 1000 \<le> pts then Some BronzeBadge else None)"

fun badge_level :: "pbadge \<Rightarrow> int" where
  "badge_level BronzeBadge = 2"
| "badge_level SilverBadge = 3"
| "badge_level GoldBadge = 4"

definition next_level_points :: "int \<Rightarrow> int" where
  "next_level_points pts =
     (case get_badge pts of
        None \<Rightarrow> 1000
      | Some b \<Rightarrow> if badge_level b = 2 then 2000 else if badge_level b = 3 then 3000 else 3000)"

definition js_round :: "rat \<Rightarrow> int" where
  "js_round x = \<lfloor>x + 1 / 2\<rfloor>"

text \<open>The progress bar. Where a badge is shown the points are at least 1000, so
  JavaScript's \<open>%\<close> agrees with \<open>mod\<close> there.\<close>

definition level_progress :: "int \<Rightarrow> int" where
  "level_progress pts =
     (case get_badge pts of
        Some b \<Rightarrow> if badge_level b = 4 then 100
                  else min (js_round (of_int (pts mod next_level_points pts) / of_int (next_level_points pts) * 100)) 100
      | None \<Rightarrow> min (js_round (of_int pts / 1000 * 100)) 100)"

text \<open>The level shown beside the name, and the level the progress bar leads to.\<close>

definition shown_level :: "int \<Rightarrow> int" where
  "shown_level pts = (case get_badge pts of Some b \<Rightarrow> badge_level b | None \<Rightarrow> 1)"

definition progress_target :: "int \<Rightarrow> int" where
  "progress_target pts = (case get_badge pts of Some b \<Rightarrow> badge_level b + 1 | None \<Rightarrow> 2)"

text \<open>The \<open>Today\<close> tab: today's activities, the latest recorded first.\<close>

definition today_list :: "nat \<Rightarrow> activity list \<Rightarrow> activity list" where
  "today_list now acts = rev (filter (\<lambda>a. same_day (act_time a) now) acts)"

text \<open>The avatar's letter: \<open>user.name ? user.name[0] : "?"\<close>.\<close>

definition avatar_initial :: "local_user option \<Rightarrow> string" where
  "avatar_initial lu =
     (case lu of Some u \<Rightarrow> (case lu_name u of Some (c # _) \<Rightarrow> [c] | _ \<Rightarrow> ''?'') | None \<Rightarrow> ''?'')"

subsection \<open>The contact page\<close>

record contact_form =
  cf_name :: string
  cf_message :: string
  cf_email :: string                 \<comment> \<open>\<open>userEmail\<close>\<close>
  cf_status :: string
  cf_sent :: "(string \<times> string \<times> string) list"   \<comment> \<open>requests: name, e-mail, message\<close>

definition contact_mount :: "local_user option \<Rightarrow> contact_form" where
  "contact_mount lu =
     (case lu of
        None \<Rightarrow> \<lparr>cf_name = [], cf_message = [], cf_email = [], cf_status = [], cf_sent = []\<rparr>
      | Some u \<Rightarrow> \<lparr>cf_name = opt_str (lu_name u), cf_message = [], cf_email = opt_str (lu_email u),
                   cf_status = [], cf_sent = []\<rparr>)"

text \<open>\<open>handleChange\<close>: the two editable inputs, by their \<open>name\<close>.\<close>

definition contact_change :: "string \<Rightarrow> string \<Rightarrow> contact_form \<Rightarrow> contact_form" where
  "contact_change fld v f =
     (if fld = ''name'' then f\<lparr>cf_name := v\<rparr> else if fld = ''message'' then f\<lparr>cf_message := v\<rparr> else f)"

text \<open>\<open>handleSubmit\<close> up to its \<open>await\<close>: the form and the stored e-mail are
  posted (the header carries the token, which the route ignores).\<close>

definition contact_submit :: "contact_form \<Rightarrow> contact_form" where
  "contact_submit f =
     f\<lparr>cf_status := ''Sending...'', cf_sent := cf_sent f @ [(cf_name f, cf_email f, cf_message f)]\<rparr>"

text \<open>The reply: a 2xx status with its \<open>message\<close>, or an error with its
  \<open>message\<close> (empty when it has none).\<close>

definition contact_reply :: "nat \<times> string \<Rightarrow> contact_form \<Rightarrow> contact_form" where
  "contact_reply r f =
     (if 200 \<le> fst r \<and> fst r < 300
      then f\<lparr>cf_status := (if snd r = [] then ''Message sent'' else snd r), cf_message := []\<rparr>
      else f\<lparr>cf_status := (if snd r = [] then ''Failed to send message. Please try again later.'' else snd r)\<rparr>)"

text \<open>The page and the route together: the request the submit makes, answered by
  \<open>contact_route\<close> with the mail outcomes \<open>ok\<close>.\<close>

definition contact_roundtrip ::
  "(string \<Rightarrow> bool) \<Rightarrow> contact_form \<Rightarrow> brevo_mail list \<Rightarrow> contact_form \<times> brevo_mail list" where
  "contact_roundtrip ok f box =
     (let f1 = contact_submit f;
          (r, box1) = contact_route ok (Some (cf_name f)) (Some (cf_email f)) (Some (cf_message f)) box
      in (contact_reply r f1, box1))"

subsection \<open>Facts\<close>

text \<open>How one recorded activity moves today's counts.\<close>

lemma today_counts_login [simp]:
  "profile_today_counts now (acts @ [login_activity now]) =
   (case profile_today_counts now acts of (l, g, c, p) \<Rightarrow> (Suc l, g, c, p + 2))"
  by (simp add: profile_today_counts_def login_activity_def same_day_def act_pts_def Let_def)

lemma today_counts_uncounted:
  assumes "act_type a \<notin> {''login'', ''game'', ''chat''}" and "act_points a = None"
  shows "profile_today_counts now (acts @ [a]) = profile_today_counts now acts"
  using assms by (simp add: profile_today_counts_def act_pts_def Let_def)

text \<open>The page loaded from \<open>getProfile\<close> shows the stored profile.\<close>

lemma loaded_getProfile:
  "find_user uid st = Some u \<Longrightarrow> pp_profile (profile_loaded (getProfile uid st) pg) = u_profile u"
  by (simp add: profile_loaded_def getProfile_def)

lemma profile_paged_length: "length (profile_paged acts p) \<le> profile_page_size"
  by (simp add: profile_paged_def)

lemma profile_fix_page_bound:
  "1 \<le> pp_page pg \<Longrightarrow>
   1 \<le> pp_page (profile_fix_page pg) \<and>
   pp_page (profile_fix_page pg) \<le> profile_total_pages (length (pf_activities (pp_profile pg)))"
  by (simp add: profile_fix_page_def profile_total_pages_def)

end
