(* ===== verification/GamesPage.thy ===== *)
theory GamesPage
  imports Games Routing
begin

text \<open>
  The catalogue page \<open>Pages/Games.jsx\<close> beyond its filter (which is in
  \<open>Games\<close>): the state, the load of \<open>GET /api/games/all\<close>, what the page shows,
  the details panel, and the \<open>Play Now\<close> link, which writes the game's numeric
  \<open>id\<close> into the path \<open>/play/:gameId\<close> and the game into the navigation state.
  The id is printed in decimal, as a template literal prints an integral
  \<open>Number\<close>; \<open>nat_str\<close> and \<open>int_str\<close> are that printing, and the facts below show
  that the server's cast of the printed id gives the id back.
\<close>

subsection \<open>Printing numbers\<close>

definition decimal_digits :: string where "decimal_digits = ''0123456789''"

fun nat_str :: "nat \<Rightarrow> string" where
  "nat_str n =
     (if n < 10 then [decimal_digits ! n] else nat_str (n div 10) @ [decimal_digits ! (n mod 10)])"

definition int_str :: "int \<Rightarrow> string" where
  "int_str i = (if i < 0 then CHR ''-'' # nat_str (nat (- i)) else nat_str (nat i))"

subsection \<open>The page\<close>

record games_page =
  gpg_games :: "game list"
  gpg_loading :: bool
  gpg_error :: "string option"
  gpg_search :: string
  gpg_category :: string
  gpg_showDetails :: bool
  gpg_active :: "game option"      \<comment> \<open>\<open>activeGame\<close>\<close>
  gpg_showHowTo :: bool

text \<open>The initial state, which is also the state while the mount effect's request
  is in flight (\<open>setLoading(true)\<close>, \<open>setError(null)\<close>).\<close>

definition games_page_init :: games_page where
  "games_page_init =
     \<lparr>gpg_games = [], gpg_loading = True, gpg_error = None, gpg_search = [], gpg_category = ''All'',
      gpg_showDetails = False, gpg_active = None, gpg_showHowTo = False\<rparr>"

text \<open>\<open>fetchGames\<close> after its \<open>await\<close>: a 2xx reply whose data is an array is
  the catalogue, any other 2xx data gives the empty catalogue, an error status
  throws into the \<open>catch\<close>; \<open>finally\<close> clears the spinner.\<close>

definition games_loaded :: "game_reply \<Rightarrow> games_page \<Rightarrow> games_page" where
  "games_loaded r pg =
     (case r of
        GGames gs \<Rightarrow> pg\<lparr>gpg_games := gs, gpg_loading := False\<rparr>
      | GReply n _ \<Rightarrow>
          if 200 \<le> n \<and> n < 300 then pg\<lparr>gpg_games := [], gpg_loading := False\<rparr>
          else pg\<lparr>gpg_error := Some ''Unable to load games from server.'', gpg_games := [], gpg_loading := False\<rparr>
      | _ \<Rightarrow> pg\<lparr>gpg_games := [], gpg_loading := False\<rparr>)"

definition handle_show :: "game \<Rightarrow> games_page \<Rightarrow> games_page" where
  "handle_show g pg = pg\<lparr>gpg_active := Some g, gpg_showHowTo := False, gpg_showDetails := True\<rparr>"

definition handle_close :: "games_page \<Rightarrow> games_page" where
  "handle_close pg = pg\<lparr>gpg_showDetails := False\<rparr>"

definition toggle_howto :: "games_page \<Rightarrow> games_page" where
  "toggle_howto pg = pg\<lparr>gpg_showHowTo := \<not> gpg_showHowTo pg\<rparr>"

datatype games_view =
    GVLoading
  | GVError string
  | GVEmpty
  | GVCards "game list"

text \<open>The body of the page: spinner, error, the empty message or the cards.\<close>

definition games_view :: "games_page \<Rightarrow> games_view" where
  "games_view pg =
     (if gpg_loading pg then GVLoading
      else case gpg_error pg of
             Some e \<Rightarrow> GVError e
           | None \<Rightarrow> (let fs = filtered_games (gpg_games pg) (gpg_search pg) (gpg_category pg) in
                      if fs = [] then GVEmpty else GVCards fs))"

text \<open>The \<open>Play Now\<close> link: its path (\<open>activeGame.id\<close>, which the schema
  requires, so \<open>?? _id\<close> is never used) and the \<open>gameInfo\<close> of its state, with
  the current time as \<open>startTime\<close>.\<close>

definition play_link :: "game \<Rightarrow> string" where
  "play_link g = ''/play/'' @ int_str (g_id g)"

definition play_info :: "game \<Rightarrow> nat \<Rightarrow> game_info" where
  "play_info g now =
     \<lparr>gi_title = Some (g_title g), gi_difficulty = Some (g_difficulty g), gi_link = g_link g,
      gi_startTime = now\<rparr>"

text \<open>Following the link: the play page mounts with the route's parameter and the
  navigation state.\<close>

definition open_play :: "games_page \<Rightarrow> string option \<Rightarrow> nat \<Rightarrow> gameplay option" where
  "open_play pg tok now =
     (case gpg_active pg of
        None \<Rightarrow> None
      | Some g \<Rightarrow> Some (gameplay_mount (play_param (play_link g)) (Some (play_info g now)) tok now))"

text \<open>What the play page shows: without a \<open>gameInfo\<close> in the navigation state
  (a reload, a bookmark) only "Game info not found." and a back button; otherwise
  the game's frame under a bar with \<open>title || name || "Untitled Game"\<close> (the
  game schema has no \<open>name\<close>).\<close>

datatype play_view = PlayNoInfo | PlayFrame string string

definition or_title :: "string option \<Rightarrow> string" where
  "or_title t = (case t of Some x \<Rightarrow> if x = [] then ''Untitled Game'' else x | None \<Rightarrow> ''Untitled Game'')"

definition gameplay_view :: "gameplay \<Rightarrow> play_view" where
  "gameplay_view gp =
     (case gp_info gp of
        None \<Rightarrow> PlayNoInfo
      | Some i \<Rightarrow> PlayFrame (gi_link i) (or_title (gi_title i)))"

text \<open>The back button of the not-found view: \<open>navigate(-1)\<close>, which unmounts the
  page, whose cleanup then reports the play.\<close>

definition no_info_go_back :: "gameplay \<Rightarrow> nat \<Rightarrow> gameplay" where
  "no_info_go_back gp now = gameplay_unmount (gp\<lparr>gp_out := gp_out gp @ [GoBack]\<rparr>) now"

subsection \<open>Facts\<close>

declare nat_str.simps [simp del]

lemma digit_char_of:
  assumes "d < 10"
  shows "is_digit (decimal_digits ! d) \<and> digit_val (decimal_digits ! d) = d"
proof -
  have "d \<in> {0, 1, 2, 3, 4, 5, 6, 7, 8, 9}" using assms by auto
  then show ?thesis by (elim insertE emptyE) (simp_all add: decimal_digits_def is_digit_def digit_val_def)
qed

lemma nat_str_digits: "list_all is_digit (nat_str n) \<and> nat_str n \<noteq> []"
proof (induction n rule: nat_str.induct)
  case (1 n)
  then show ?case by (cases "n < 10") (simp_all add: nat_str.simps [of n] digit_char_of)
qed

lemma digits_nat_snoc: "digits_nat (xs @ [c]) = 10 * digits_nat xs + digit_val c"
  by (simp add: digits_nat_def)

lemma digits_nat_nat_str: "digits_nat (nat_str n) = n"
proof (induction n rule: nat_str.induct)
  case (1 n)
  show ?case
  proof (cases "n < 10")
    case True
    then show ?thesis by (subst nat_str.simps) (simp add: digits_nat_def digit_char_of)
  next
    case False
    then show ?thesis using 1 by (subst nat_str.simps) (simp add: digits_nat_snoc digit_char_of)
  qed
qed

lemma length_nat_str: "n < 10 ^ Suc k \<Longrightarrow> length (nat_str n) \<le> Suc k"
proof (induction n arbitrary: k rule: nat_str.induct)
  case (1 n)
  show ?case
  proof (cases "n < 10")
    case True
    then show ?thesis by (subst nat_str.simps) simp
  next
    case False
    then obtain j where k: "k = Suc j" using "1.prems" by (cases k) auto
    have "n div 10 < 10 ^ Suc j" using "1.prems" k by (simp add: div_less_iff_less_mult mult.commute)
    then have "length (nat_str (n div 10)) \<le> Suc j" using "1.IH" False by blast
    then show ?thesis using False k by (subst nat_str.simps) simp
  qed
qed

lemma not_oid_nat_str: "n < 10 ^ 23 \<Longrightarrow> \<not> is_valid_oid (nat_str n)"
  using length_nat_str [of n 22] by (auto simp: is_valid_oid_def)

text \<open>The server's cast of a printed id gives the id back.\<close>

lemma cast_num_int_str: "0 \<le> i \<Longrightarrow> cast_num (int_str i) = Inr (Some i)"
  using nat_str_digits [of "nat i"] by (simp add: cast_num_def int_str_def digits_nat_nat_str)

lemma play_param_link: "0 \<le> g_id g \<Longrightarrow> play_param (play_link g) = Some (int_str (g_id g))"
  using nat_str_digits [of "nat (g_id g)"]
  by (auto simp: play_param_def play_link_def int_str_def list_all_iff is_digit_def)

text \<open>The printed id of a catalogue game leads the server to that game, and to
  the difficulty the play page parses from it.\<close>

lemma printed_id_lookup:
  assumes "g \<in> set gs" and "distinct (map g_id gs)" and "0 \<le> g_id g" and "g_id g < 10 ^ 23"
  shows "getGameById gs (int_str (g_id g)) = GGame g \<and>
         stored_difficulty gs (int_str (g_id g)) = Inr (parse_difficulty (Some (g_difficulty g)))"
proof -
  have "nat (g_id g) < 10 ^ 23" using assms(4) by (simp add: nat_less_iff)
  then have o: "\<not> is_valid_oid (int_str (g_id g))"
    using assms(3) by (simp add: int_str_def not_oid_nat_str)
  have f: "find_game_num gs (int_str (g_id g)) = Inr (Some g)"
    using assms(1-3) by (simp add: find_game_num_def cast_num_int_str find_key_distinct)
  show ?thesis using o f by (simp add: getGameById_def stored_difficulty_def parse_difficulty_def)
qed

text \<open>The not-found view still reports a play when it is left: at least one minute,
  with the default difficulty 1.\<close>

lemma no_info_reports_play:
  assumes "gid \<noteq> []"
  shows "gameplay_view (gameplay_mount (Some gid) None tok now) = PlayNoInfo \<and>
         gp_out (no_info_go_back (gameplay_mount (Some gid) None tok now) t) =
           [GoBack, PostPlay gid \<lparr>pb_minutes = Some (of_int (max 0 \<lfloor>played_minutes (gameplay_mount (Some gid) None tok now) t\<rfloor>)),
                                 pb_difficulty = Some 1, pb_title = Some (''Played '' @ gid)\<rparr>]"
  using assms by (simp add: gameplay_view_def no_info_go_back_def gameplay_unmount_def send_play_def
      gameplay_mount_def play_payload_def parse_difficulty_def played_minutes_def)

lemma play_points_default:
  assumes "1 \<le> m"
  shows "1 \<le> play_points 1 (of_int (max 0 \<lfloor>m\<rfloor>))"
proof -
  have "1 \<le> \<lfloor>m\<rfloor>" using assms by (simp add: one_le_floor)
  moreover have "\<lfloor>1 / 2 :: rat\<rfloor> = 0" by (simp add: floor_eq_iff)
  ultimately show ?thesis by (simp add: play_points_def clamp_difficulty_def)
qed

lemma played_minutes_ge_1: "1 \<le> played_minutes gp t"
  by (simp add: played_minutes_def)

end
