(* ===== verification/AuthRoutes.thy ===== *)
theory AuthRoutes
  imports Caretakers
begin

text \<open>
  The account router \<open>routes/auth.route.js\<close>, mounted at \<open>/api/auth\<close>: each route
  either calls its handler of \<open>auth.controller.js\<close> directly or first runs the
  HTTP middleware (\<open>middleware/auth.js\<close>, \<open>Gateway.rest_auth\<close>) and passes the
  resolved identity's id as \<open>req.user._id\<close>, and to the privacy handlers the
  document itself (\<open>req_doc\<close>: the user, else the caretaker). The routed handlers are the events
  of \<open>Accounts.acc_step\<close>, so the router is a function to those events. The
  controller's \<open>logout\<close> is exported but not routed: Express answers 404. The
  settings routes name a \<open>verifyToken\<close> middleware that is not in the
  repository; they are modelled behind \<open>rest_auth\<close>, like the others.
\<close>

text \<open>\<open>POST /auth/logout\<close> of the controller: no state is touched.\<close>

definition logout :: "accounts \<Rightarrow> reply \<times> accounts" where
  "logout st = (Reply 200 ''Logged out successfully'', st)"

datatype auth_req =
    AuthRegister "string option" "string option" "string option"
  | AuthLogin "string option" "string option"
  | AuthGoogle "string option"
  | AuthChangeUserName "string option"
  | AuthChangePassword "string option" "string option"
  | AuthGetSettings
  | AuthPutSettings user_settings
  | AuthGetProfile
  | AuthPutProfile profile
  | AuthRequestOtp string bool                       \<comment> \<open>the drawn code, the mail outcome\<close>
  | AuthReset "string option" "string option"
  | AuthRequestEmailChange "string option" string bool
  | AuthConfirmEmail "string option"
  | AuthUpdateBasic "string option" "string option"
  | AuthLogout

text \<open>The replies of the middleware when it stops a request.\<close>

fun auth_error_reply :: "rest_auth_error \<Rightarrow> reply" where
  "auth_error_reply RestNoToken = Reply 401 ''No token provided''"
| "auth_error_reply RestNotFound = Reply 401 ''User or Caretaker not found''"
| "auth_error_reply RestInvalid = Reply 401 ''Invalid or expired token''"

text \<open>\<open>req.user\<close>: the middleware's \<open>User.findById\<close>, else
  \<open>Caretaker.findById\<close>, for the identity it resolved.\<close>

fun req_doc :: "accounts \<Rightarrow> caretaker list \<Rightarrow> principal \<Rightarrow> req_user option" where
  "req_doc st cts (PUser u) = map_option user_req (find_user u st)"
| "req_doc st cts (PCaretaker c) =
     map_option (\<lambda>k. \<lparr>rq_id = cr_id k, rq_email = cr_email k\<rparr>) (find (\<lambda>k. cr_id k = c) cts)"

text \<open>The event of a protected route for the caller's id and \<open>req.user\<close>.\<close>

fun auth_event :: "auth_req \<Rightarrow> oid \<Rightarrow> req_user option \<Rightarrow> acc_ev option" where
  "auth_event (AuthChangeUserName n) i d = Some (AChangeName i n)"
| "auth_event (AuthChangePassword c n) i d = Some (AChangePassword i c n)"
| "auth_event (AuthPutSettings s) i d = Some (AUpdateSettings i s)"
| "auth_event (AuthPutProfile p) i d = Some (AUpdateProfile i p)"
| "auth_event (AuthRequestOtp c ok) i d = Some (ARequestPwOtp d c ok)"
| "auth_event (AuthReset c p) i d = Some (AResetPw d c p)"
| "auth_event (AuthRequestEmailChange e c ok) i d = Some (ARequestEmailOtp d e c ok)"
| "auth_event (AuthConfirmEmail c) i d = Some (AConfirmEmail d c)"
| "auth_event (AuthUpdateBasic n ph) i d = Some (AUpdateBasic i n ph)"
| "auth_event _ i d = None"

text \<open>The router. The directory the middleware reads is the users of the state and
  the caretaker collection.\<close>

definition auth_route ::
  "config \<Rightarrow> jwt_codec \<Rightarrow> nat \<Rightarrow> caretaker list \<Rightarrow> string option \<Rightarrow> auth_req \<Rightarrow> accounts \<Rightarrow>
   reply \<times> accounts" where
  "auth_route cfg dec now cts hdr r st =
     (case r of
        AuthRegister n e p \<Rightarrow> acc_step cfg st (ARegister n e p)
      | AuthLogin e p \<Rightarrow> acc_step cfg st (ALogin e p)
      | AuthGoogle e \<Rightarrow> acc_step cfg st (AGoogle e)
      | AuthLogout \<Rightarrow> (Reply 404 ''Cannot POST /api/auth/logout'', st)
      | _ \<Rightarrow>
          (case rest_auth cfg dec now (care_dir (acc_users st) cts) hdr of
             Inl err \<Rightarrow> (auth_error_reply err, st)
           | Inr me \<Rightarrow>
               (case r of
                  AuthGetSettings \<Rightarrow> (getSettings (principal_id me) st, st)
                | AuthGetProfile \<Rightarrow> (getProfile (principal_id me) st, st)
                | _ \<Rightarrow> (case auth_event r (principal_id me) (req_doc st cts me) of
                         Some e \<Rightarrow> acc_step cfg st e
                       | None \<Rightarrow> (Reply 404 [], st)))))"

subsection \<open>Facts\<close>

text \<open>Every request leaves the state as it was or takes one step of the account
  service.\<close>

lemma auth_route_step:
  "snd (auth_route cfg dec now cts hdr r st) = st \<or>
   (\<exists>e. snd (auth_route cfg dec now cts hdr r st) = snd (acc_step cfg st e))"
  by (cases r) (auto simp: auth_route_def simp del: acc_step.simps split: sum.splits option.splits)

lemma auth_route_reachable:
  "acc_reachable cfg st \<Longrightarrow> acc_reachable cfg (snd (auth_route cfg dec now cts hdr r st))"
  using auth_route_step [of cfg dec now cts hdr r st] by (auto intro: acc_reachable.step)

lemma auth_route_next_mono: "acc_next st \<le> acc_next (snd (auth_route cfg dec now cts hdr r st))"
  using auth_route_step [of cfg dec now cts hdr r st] acc_step_next_mono by fastforce

text \<open>A request draws at most one new id.\<close>

lemma acc_step_next_le: "acc_next (snd (acc_step cfg st e)) \<le> Suc (acc_next st)"
  by (cases e) (auto simp: register_def googleRegister_def login_def changePassword_def
      updateBasicProfile_def changeUserName_def updateSettings_def updateProfile_def
      chat_updateProfile_def requestPasswordOtp_def resetPasswordWithOtp_def
      requestEmailChangeOtp_def confirmEmailChange_def otp_sweep_def Let_def
      split: option.split prod.split bool.split)

lemma auth_route_next_le: "acc_next (snd (auth_route cfg dec now cts hdr r st)) \<le> Suc (acc_next st)"
  using auth_route_step [of cfg dec now cts hdr r st] acc_step_next_le by fastforce

text \<open>In reachable states the user ids only grow: they are the first ids drawn.\<close>

lemma user_ids_grow:
  assumes "acc_reachable cfg st" and "acc_reachable cfg st'" and "acc_next st \<le> acc_next st'"
    and "acc_next st' \<le> 16 ^ 24"
  shows "set (map u_id (acc_users st)) \<subseteq> set (map u_id (acc_users st'))"
proof -
  have "map u_id (acc_users st) = map fresh_oid [0..<acc_next st]"
    using acc_reachable_inv [OF assms(1)] assms(3,4) by (simp add: acc_inv_def)
  moreover have "map u_id (acc_users st') = map fresh_oid [0..<acc_next st']"
    using acc_reachable_inv [OF assms(2) assms(4)] by (simp add: acc_inv_def)
  ultimately show ?thesis using assms(3) by auto
qed

text \<open>The middleware's answer for a user is kept when the user ids grow.\<close>

lemma rest_auth_user_mono:
  assumes "rest_auth cfg dec t \<lparr>dir_users = us, dir_caretakers = cs\<rparr> hdr = Inr (PUser u)"
    and "set us \<subseteq> set us'"
  shows "rest_auth cfg dec t \<lparr>dir_users = us', dir_caretakers = cs\<rparr> hdr = Inr (PUser u)"
  using assms
  by (auto simp: rest_auth_def split: option.splits if_splits sum.splits
      elim!: find_by_id.elims)

end
