(* ===== verification/AuthPages.thy ===== *)
theory AuthPages
  imports AuthRoutes Routing
begin

text \<open>
  The sign-in pages of the client: \<open>Pages/Login.jsx\<close>, \<open>Pages/Register.jsx\<close> and
  \<open>Adminpages/CaretakerLogin.jsx\<close>, with the response interceptor of \<open>api.js\<close>
  they all go through. A page is its form, its spinner flag, the toasts it shows,
  the navigations it makes and the browser's storage; each handler is split at
  its \<open>await\<close> into the submit and the function of the server's reply.

  The token a reply carries is written to storage as a string: \<open>enc\<close> is the
  library's encoding of a signed token, \<open>uj\<close> and \<open>cj\<close> the JSON the page stores
  for the account's or the caretaker's document (both opaque here).
\<close>

datatype toast = ToastOk string | ToastErr string

record auth_page =
  ap_name :: string
  ap_email :: string
  ap_password :: string
  ap_loading :: bool           \<comment> \<open>\<open>isLoading\<close>\<close>
  ap_showPassword :: bool
  ap_toasts :: "toast list"
  ap_nav :: "string list"      \<comment> \<open>the navigations made, in order\<close>
  ap_ls :: storage

definition auth_page_mount :: "storage \<Rightarrow> page \<Rightarrow> auth_page" where
  "auth_page_mount ls pg =
     \<lparr>ap_name = [], ap_email = [], ap_password = [], ap_loading = False, ap_showPassword = False,
      ap_toasts = [], ap_nav = (case mount_redirect ls pg of Some q \<Rightarrow> [q] | None \<Rightarrow> []), ap_ls = ls\<rparr>"

definition toggle_password :: "auth_page \<Rightarrow> auth_page" where
  "toggle_password pg = pg\<lparr>ap_showPassword := \<not> ap_showPassword pg\<rparr>"

text \<open>The response interceptor of \<open>api.js\<close> for an error status: on 401 or 403
  the token and the user are removed and the browser goes to \<open>/login\<close>.\<close>

definition api_fail :: "nat \<Rightarrow> auth_page \<Rightarrow> auth_page" where
  "api_fail n pg =
     (if n = 401 \<or> n = 403 then pg\<lparr>ap_ls := unauthorized_store (ap_ls pg), ap_nav := ap_nav pg @ [''/login'']\<rparr>
      else pg)"

definition is_2xx :: "nat \<Rightarrow> bool" where
  "is_2xx n \<longleftrightarrow> 200 \<le> n \<and> n < 300"

definition auth_submit :: "auth_page \<Rightarrow> auth_page" where
  "auth_submit pg = pg\<lparr>ap_loading := True\<rparr>"

subsection \<open>The user's login page\<close>

text \<open>\<open>handleLogin\<close> after its \<open>await\<close>: a token is stored with the account and
  \<open>userType\<close>, then \<open>/home\<close>; an error status goes through the interceptor to the
  toast; \<open>finally\<close> clears the spinner.\<close>

definition login_reply :: "(jwt \<Rightarrow> string) \<Rightarrow> (oid \<Rightarrow> string) \<Rightarrow> reply \<Rightarrow> auth_page \<Rightarrow> auth_page" where
  "login_reply enc uj r pg =
     (let pg1 =
        (case r of
           RToken n j i \<Rightarrow>
             if is_2xx n \<and> enc j \<noteq> []
             then pg\<lparr>ap_ls := login_store (enc j) (uj i) (ap_ls pg), ap_nav := ap_nav pg @ [''/home'']\<rparr>
             else pg
         | Reply n _ \<Rightarrow>
             if is_2xx n then pg
             else (api_fail n pg)\<lparr>ap_toasts := ap_toasts pg @ [ToastErr ''Invalid credentials. Please try again!'']\<rparr>
         | _ \<Rightarrow> pg)
      in pg1\<lparr>ap_loading := False\<rparr>)"

text \<open>The login form posted to \<open>POST /api/auth/login\<close> (the name it also sends is
  not read by the handler).\<close>

definition login_flow ::
  "config \<Rightarrow> jwt_codec \<Rightarrow> nat \<Rightarrow> caretaker list \<Rightarrow> (jwt \<Rightarrow> string) \<Rightarrow> (oid \<Rightarrow> string) \<Rightarrow>
   auth_page \<Rightarrow> accounts \<Rightarrow> auth_page \<times> accounts" where
  "login_flow cfg dec now cts enc uj pg st =
     (let pg1 = auth_submit pg;
          (r, st1) = auth_route cfg dec now cts (auth_header ''post'' ''/auth/login'' (ap_ls pg1))
                       (AuthLogin (Some (ap_email pg1)) (Some (ap_password pg1))) st
      in (login_reply enc uj r pg1, st1))"

text \<open>The Google buttons: \<open>Login.jsx\<close> stores \<open>userType\<close>, \<open>Register.jsx\<close> does not.\<close>

definition google_reply :: "bool \<Rightarrow> (jwt \<Rightarrow> string) \<Rightarrow> (oid \<Rightarrow> string) \<Rightarrow> reply \<Rightarrow> auth_page \<Rightarrow> auth_page" where
  "google_reply on_login enc uj r pg =
     (case r of
        RToken n j i \<Rightarrow>
          if is_2xx n
          then pg\<lparr>ap_ls := (if on_login then login_store else register_google_store) (enc j) (uj i) (ap_ls pg),
                  ap_nav := ap_nav pg @ [''/home'']\<rparr>
          else pg
      | Reply n _ \<Rightarrow>
          if is_2xx n then pg
          else (api_fail n pg)\<lparr>ap_toasts := ap_toasts pg @ [ToastErr ''Google Login failed'']\<rparr>
      | _ \<Rightarrow> pg)"

subsection \<open>The registration page\<close>

definition register_reply :: "reply \<Rightarrow> auth_page \<Rightarrow> auth_page" where
  "register_reply r pg =
     (let pg1 =
        (case r of
           Reply n _ \<Rightarrow>
             if n = 201
             then pg\<lparr>ap_toasts := ap_toasts pg @ [ToastOk ''Registered successfully! Please login.''],
                     ap_nav := ap_nav pg @ [''/login'']\<rparr>
             else if is_2xx n then pg
             else (api_fail n pg)\<lparr>ap_toasts := ap_toasts pg @ [ToastErr ''Registration failed. Try again!'']\<rparr>
         | _ \<Rightarrow> pg)
      in pg1\<lparr>ap_loading := False\<rparr>)"

definition register_flow ::
  "config \<Rightarrow> jwt_codec \<Rightarrow> nat \<Rightarrow> caretaker list \<Rightarrow> auth_page \<Rightarrow> accounts \<Rightarrow> auth_page \<times> accounts" where
  "register_flow cfg dec now cts pg st =
     (let pg1 = auth_submit pg;
          (r, st1) = auth_route cfg dec now cts (auth_header ''post'' ''/auth/register'' (ap_ls pg1))
                       (AuthRegister (Some (ap_name pg1)) (Some (ap_email pg1)) (Some (ap_password pg1))) st
      in (register_reply r pg1, st1))"

subsection \<open>The caretaker's login page\<close>

text \<open>\<open>handleLogin\<close> of \<open>CaretakerLogin.jsx\<close> after its \<open>await\<close>: with a token
  and a caretaker in the reply the storage is replaced by the caretaker's session
  and the page goes to \<open>/caretaker/home\<close>; an error status goes through the
  interceptor to the toast.\<close>

definition caretaker_login_reply ::
  "(jwt \<Rightarrow> string) \<Rightarrow> (caretaker \<Rightarrow> string) \<Rightarrow> care_reply \<Rightarrow> auth_page \<Rightarrow> auth_page" where
  "caretaker_login_reply enc cj r pg =
     (let pg1 =
        (case r of
           CLoggedIn j c \<Rightarrow>
             if enc j \<noteq> []
             then pg\<lparr>ap_ls := caretaker_login_store (enc j) (cj c) (ap_ls pg),
                     ap_toasts := ap_toasts pg @ [ToastOk ''Caretaker login successful!''],
                     ap_nav := ap_nav pg @ [''/caretaker/home'']\<rparr>
             else pg\<lparr>ap_toasts := ap_toasts pg @ [ToastErr ''Invalid caretaker credentials!'']\<rparr>
         | CReply n _ \<Rightarrow>
             if is_2xx n then pg\<lparr>ap_toasts := ap_toasts pg @ [ToastErr ''Invalid caretaker credentials!'']\<rparr>
             else (api_fail n pg)\<lparr>ap_toasts := ap_toasts pg @
                     [ToastErr ''Invalid caretaker credentials. Please try again!'']\<rparr>
         | _ \<Rightarrow> pg\<lparr>ap_toasts := ap_toasts pg @ [ToastErr ''Invalid caretaker credentials!'']\<rparr>)
      in pg1\<lparr>ap_loading := False\<rparr>)"

definition caretaker_login_flow ::
  "config \<Rightarrow> jwt_codec \<Rightarrow> nat \<Rightarrow> user list \<Rightarrow> (jwt \<Rightarrow> string) \<Rightarrow> (caretaker \<Rightarrow> string) \<Rightarrow>
   auth_page \<Rightarrow> caretaker list \<Rightarrow> auth_page \<times> caretaker list" where
  "caretaker_login_flow cfg dec now us enc cj pg cts =
     (let pg1 = auth_submit pg;
          (r, cts1) = care_route cfg dec now us (auth_header ''post'' ''/caretaker/login'' (ap_ls pg1))
                        (CaretakerLoginReq (Some (ap_email pg1)) (Some (ap_password pg1))) cts
      in (caretaker_login_reply enc cj r pg1, cts1))"

subsection \<open>Facts\<close>

lemma api_fail_401:
  "api_fail 401 pg = pg\<lparr>ap_ls := unauthorized_store (ap_ls pg), ap_nav := ap_nav pg @ [''/login'']\<rparr>"
  by (simp add: api_fail_def)

lemma care_route_login:
  "care_route cfg dec now us hdr (CaretakerLoginReq e p) cts = caretakerLogin cfg now e p cts"
  by (simp add: care_route_def)

text \<open>A wrong caretaker e-mail or password is answered 401.\<close>

lemma caretakerLogin_rejects:
  assumes "find (\<lambda>c. cr_email c = e) cts = None \<or>
           (\<exists>c. find (\<lambda>c. cr_email c = e) cts = Some c \<and> comparePassword (Some p) c = Some False)"
  shows "caretakerLogin cfg now (Some e) (Some p) cts = (CReply 401 ''Invalid email or password'', cts)"
  using assms by (auto simp: caretakerLogin_def)

end
