(* ===== verification/CallPage.thy ===== *)
theory CallPage
  imports ClientChat CaretakerPages
begin

text \<open>
  The user's page \<open>Pages/Callcaretaker.jsx\<close>: it lists the caretakers of
  \<open>GET /api/caretaker\<close>, tells from a caretaker's \<open>status\<close> whether the voice
  call button is enabled, dials and logs a call, dials the emergency number, and
  opens the chat screen on a caretaker through the navigation state, which the
  chat screen's list effect reads (\<open>ClientChat.lists_loaded\<close>). The call log is
  posted to \<open>/api/stats/call\<close>, a path no router of \<open>server.js\<close> serves.
\<close>

datatype call_out =
    Dial string                  \<comment> \<open>\<open>window.location.href = `tel:...`\<close>\<close>
  | PostCallLog oid              \<comment> \<open>\<open>API.post("/stats/call", { caretakerId })\<close>\<close>
  | NavChat oid string           \<comment> \<open>\<open>navigate("/chat", { state: { caretakerId, caretakerName } })\<close>\<close>

record call_page =
  call_caretakers :: "caretaker list"
  call_out :: "call_out list"

definition call_mount :: call_page where
  "call_mount = \<lparr>call_caretakers = [], call_out = []\<rparr>"

text \<open>The list request's \<open>then\<close>; the promise has no \<open>catch\<close>, so an error
  leaves the empty list.\<close>

definition call_loaded :: "care_reply \<Rightarrow> call_page \<Rightarrow> call_page" where
  "call_loaded r pg = (case r of CCaretakers ps \<Rightarrow> pg\<lparr>call_caretakers := map fst ps\<rparr> | _ \<Rightarrow> pg)"

text \<open>\<open>isAvailable\<close>: the schema has neither \<open>available\<close> nor \<open>isActive\<close> nor
  \<open>state\<close>, so the lower-cased \<open>status\<close> decides.\<close>

definition is_available :: "caretaker \<Rightarrow> bool" where
  "is_available c =
     (let s = js_to_lower (cr_status c) in s = ''available'' \<or> s = ''online'' \<or> s = ''active'')"

definition handle_voice_call :: "caretaker \<Rightarrow> call_page \<Rightarrow> call_page" where
  "handle_voice_call c pg =
     (if \<not> is_available c then pg
      else pg\<lparr>call_out := call_out pg @ [Dial (''tel:'' @ cr_phone c), PostCallLog (cr_id c)]\<rparr>)"

definition emergency_call :: "call_page \<Rightarrow> call_page" where
  "emergency_call pg = pg\<lparr>call_out := call_out pg @ [Dial ''tel:9842578618'']\<rparr>"

definition message_caretaker :: "caretaker \<Rightarrow> call_page \<Rightarrow> call_page" where
  "message_caretaker c pg = pg\<lparr>call_out := call_out pg @ [NavChat (cr_id c) (cr_name c)]\<rparr>"

text \<open>The avatar: \<open>initials || name?.charAt(0)?.toUpperCase() || "?"\<close> (ASCII
  letters upper-cased).\<close>

definition call_initial :: "caretaker \<Rightarrow> string" where
  "call_initial c =
     (case cr_initials c of
        Some i \<Rightarrow> if i \<noteq> [] then i else (case cr_name c of [] \<Rightarrow> ''?'' | x # _ \<Rightarrow> [ascii_upper x])
      | None \<Rightarrow> (case cr_name c of [] \<Rightarrow> ''?'' | x # _ \<Rightarrow> [ascii_upper x]))"

text \<open>\<open>POST /api/stats/call\<close>: no mount of \<open>server.js\<close> matches, Express answers
  its default 404.\<close>

definition stats_call_route :: "oid \<Rightarrow> nat \<times> string" where
  "stats_call_route cid = (404, ''Cannot POST /api/stats/call'')"

text \<open>A caretaker document as the chat screen's contact entry (the fields the
  screen reads).\<close>

definition caretaker_contact :: "caretaker \<Rightarrow> contact" where
  "caretaker_contact c =
     \<lparr>ct_id = cr_id c, ct_name = Some (cr_name c), ct_email = Some (cr_email c), ct_role = cr_role c,
      ct_kind = KCaretaker, ct_hasNewMsg = False, ct_lastMessageTime = None\<rparr>"

text \<open>A caretaker's card: avatar letter, name, role, experience, rating, phone,
  specialties, and whether the voice call button is enabled (the card is dimmed
  otherwise).\<close>

record call_card =
  ck_initial :: string
  ck_name :: string
  ck_role :: "string option"
  ck_experience :: "string option"
  ck_rating :: rat
  ck_phone :: string
  ck_specialties :: "string list"
  ck_call_enabled :: bool

definition call_card :: "caretaker \<Rightarrow> call_card" where
  "call_card c =
     \<lparr>ck_initial = call_initial c, ck_name = cr_name c, ck_role = cr_role c, ck_experience = cr_experience c,
      ck_rating = cr_rating c, ck_phone = cr_phone c, ck_specialties = cr_specialties c,
      ck_call_enabled = is_available c\<rparr>"

definition call_cards :: "call_page \<Rightarrow> call_card list" where
  "call_cards pg = map call_card (call_caretakers pg)"

text \<open>The voice call button: \<open>isAvailable(caretaker) && handleVoiceCall(caretaker)\<close>,
  on a button that is also disabled when the caretaker is not available.\<close>

definition voice_click :: "caretaker \<Rightarrow> call_page \<Rightarrow> call_page" where
  "voice_click c pg = (if is_available c then handle_voice_call c pg else pg)"

subsection \<open>Facts\<close>

lemma find_caretaker_contact:
  assumes "c \<in> set cts" and "distinct (map cr_id cts)"
  shows "find (\<lambda>x. ct_id x = cr_id c) (map (\<lambda>x. x\<lparr>ct_kind := KCaretaker\<rparr>) (map caretaker_contact cts)) =
         Some (caretaker_contact c)"
proof -
  have k: "map (\<lambda>x. x\<lparr>ct_kind := KCaretaker\<rparr>) (map caretaker_contact cts) = map caretaker_contact cts"
    by (simp add: caretaker_contact_def)
  have "find (\<lambda>x. cr_id x = cr_id c) cts = Some c" using find_key_distinct [OF assms] .
  then show ?thesis unfolding k by (simp add: find_map_eq caretaker_contact_def)
qed

text \<open>The \<open>Message\<close> button opens the chat screen with the caretaker's id in
  the navigation state; once the lists arrive the screen opens that caretaker's
  conversation and requests its history.\<close>

lemma message_opens_conversation:
  assumes "c \<in> set cts" and "distinct (map cr_id cts)" and "cr_id c \<noteq> []"
  shows "cl_active (client_step (chat_mount me tok (Some (cr_id c)) mob now)
                      (CListsLoaded us (map caretaker_contact cts))) = Some (caretaker_contact c) \<and>
         OGetMessages (cr_id c) ''caretaker'' \<in>
           set (cl_out (client_step (chat_mount me tok (Some (cr_id c)) mob now)
                         (CListsLoaded us (map caretaker_contact cts))))"
proof -
  have m: "cl_pre (chat_mount me tok (Some (cr_id c)) mob now) = Some (cr_id c)"
          "cl_active (chat_mount me tok (Some (cr_id c)) mob now) = None"
    by (simp_all add: chat_mount_def socket_effect_def load_effect_def Let_def split: option.splits)
  have f: "find (\<lambda>x. ct_id x = cr_id c) (map (\<lambda>x. x\<lparr>ct_kind := KCaretaker\<rparr>) (map caretaker_contact cts)) =
           Some (caretaker_contact c)"
    using find_caretaker_contact [OF assms(1,2)] .
  have k: "(caretaker_contact c)\<lparr>ct_kind := KCaretaker\<rparr> = caretaker_contact c"
    by (simp add: caretaker_contact_def)
  show ?thesis
    using m f k assms(3)
    by (simp add: lists_loaded_def commit_def set_active_def set_caretakers_def socket_effect_def
        load_effect_def Let_def caretaker_contact_def split: option.splits)
qed

lemma voice_call_unavailable: "\<not> is_available c \<Longrightarrow> handle_voice_call c pg = pg"
  by (simp add: handle_voice_call_def)

text \<open>The button's guard repeats the handler's: a click dials and logs exactly
  when the card shows the button enabled.\<close>

lemma voice_click_card:
  "voice_click c pg = handle_voice_call c pg \<and>
   (call_out (voice_click c pg) \<noteq> call_out pg \<longleftrightarrow> ck_call_enabled (call_card c))"
  by (simp add: voice_click_def handle_voice_call_def call_card_def)

end
