(* ===== verification/ThemeSettings.thy ===== *)
theory ThemeSettings
  imports CaretakerSettingsPage
begin

text \<open>
  The appearance preferences: the theme context \<open>Context/ThemeContext.jsx\<close>
  (theme, accent colour, font and accessibility, read from \<open>localStorage\<close> on
  start, written back and applied as classes of the document body by its effect)
  and the appearance controls of \<open>Adminpages/CaretakerSettings.jsx\<close>, which set
  both the page's \<open>settings\<close> and the context, and whose save sends the context's
  values (\<open>CaretakerSettingsPage.sp_save_settings\<close>).

  The stored accessibility object is modelled by its two flags; \<open>JSON.parse\<close> of
  what \<open>JSON.stringify\<close> wrote gives them back.
\<close>

record theme_ctx =
  tc_theme :: string
  tc_color :: string
  tc_font :: string
  tc_highContrast :: bool
  tc_largeText :: bool

text \<open>The four \<open>localStorage\<close> keys of the context.\<close>

record prefs_store =
  ps_theme :: "string option"
  ps_color :: "string option"
  ps_font :: "string option"
  ps_access :: "(bool \<times> bool) option"     \<comment> \<open>\<open>highContrast\<close>, \<open>largeText\<close>\<close>

definition theme_options :: "string list" where "theme_options = [''light'', ''dark'']"
definition color_options :: "string list" where
  "color_options = [''blue'', ''purple'', ''green'', ''yellow'', ''red'', ''orange'']"
definition font_options :: "string list" where "font_options = [''default'', ''serif'', ''sans-serif'']"

text \<open>\<open>localStorage.getItem(k) || default\<close>.\<close>

definition or_default :: "string option \<Rightarrow> string \<Rightarrow> string" where
  "or_default v d = (case v of Some s \<Rightarrow> if s = [] then d else s | None \<Rightarrow> d)"

definition theme_init :: "prefs_store \<Rightarrow> theme_ctx" where
  "theme_init ps =
     (let (hc, lt) = (case ps_access ps of Some a \<Rightarrow> a | None \<Rightarrow> (False, False)) in
      \<lparr>tc_theme = or_default (ps_theme ps) ''light'', tc_color = or_default (ps_color ps) ''blue'',
       tc_font = or_default (ps_font ps) ''default'', tc_highContrast = hc, tc_largeText = lt\<rparr>)"

text \<open>The classes the effect removes, and the ones it adds.\<close>

definition known_classes :: "string list" where
  "known_classes =
     theme_options @ map (\<lambda>c. ''color-'' @ c) color_options @ map (\<lambda>f. ''font-'' @ f) font_options @
     [''high-contrast'', ''large-text'']"

definition ctx_classes :: "theme_ctx \<Rightarrow> string list" where
  "ctx_classes tc =
     [tc_theme tc, ''color-'' @ tc_color tc, ''font-'' @ tc_font tc] @
     (if tc_highContrast tc then [''high-contrast''] else []) @ (if tc_largeText tc then [''large-text''] else [])"

text \<open>The effect: the body's class list (a set, kept as a list without
  duplicates) and the saved preferences.\<close>

definition theme_effect :: "theme_ctx \<Rightarrow> string list \<Rightarrow> string list \<times> prefs_store" where
  "theme_effect tc body =
     (remdups (filter (\<lambda>c. c \<notin> set known_classes) body @ ctx_classes tc),
      \<lparr>ps_theme = Some (tc_theme tc), ps_color = Some (tc_color tc), ps_font = Some (tc_font tc),
       ps_access = Some (tc_highContrast tc, tc_largeText tc)\<rparr>)"

subsection \<open>The appearance controls of the settings page\<close>

definition select_theme :: "string \<Rightarrow> settings_page \<times> theme_ctx \<Rightarrow> settings_page \<times> theme_ctx" where
  "select_theme v = (\<lambda>(s, tc). (s\<lparr>sp_settings := (sp_settings s)\<lparr>us_theme := v\<rparr>\<rparr>, tc\<lparr>tc_theme := v\<rparr>))"

definition select_color :: "string \<Rightarrow> settings_page \<times> theme_ctx \<Rightarrow> settings_page \<times> theme_ctx" where
  "select_color v = (\<lambda>(s, tc). (s\<lparr>sp_settings := (sp_settings s)\<lparr>us_color := v\<rparr>\<rparr>, tc\<lparr>tc_color := v\<rparr>))"

definition select_font :: "string \<Rightarrow> settings_page \<times> theme_ctx \<Rightarrow> settings_page \<times> theme_ctx" where
  "select_font v = (\<lambda>(s, tc). (s\<lparr>sp_settings := (sp_settings s)\<lparr>us_font := v\<rparr>\<rparr>, tc\<lparr>tc_font := v\<rparr>))"

text \<open>The larger-text switch: the context receives the page's accessibility
  object, which has no \<open>highContrast\<close>, so that flag is cleared.\<close>

definition toggle_large_text :: "bool \<Rightarrow> settings_page \<times> theme_ctx \<Rightarrow> settings_page \<times> theme_ctx" where
  "toggle_large_text b =
     (\<lambda>(s, tc). (s\<lparr>sp_settings := (sp_settings s)\<lparr>us_largeText := b\<rparr>\<rparr>,
                tc\<lparr>tc_largeText := b, tc_highContrast := False\<rparr>))"

definition toggle_email_notify :: "bool \<Rightarrow> settings_page \<Rightarrow> settings_page" where
  "toggle_email_notify b s = s\<lparr>sp_settings := (sp_settings s)\<lparr>us_notifyEmail := b\<rparr>\<rparr>"

text \<open>The server's settings applied to the context on load: each of theme,
  colour and font when truthy; the accessibility object always.\<close>

definition ctx_settings_loaded :: "user_settings \<Rightarrow> theme_ctx \<Rightarrow> theme_ctx" where
  "ctx_settings_loaded x tc =
     tc\<lparr>tc_theme := or_default (Some (us_theme x)) (tc_theme tc),
        tc_color := or_default (Some (us_color x)) (tc_color tc),
        tc_font := or_default (Some (us_font x)) (tc_font tc),
        tc_largeText := us_largeText x, tc_highContrast := False\<rparr>"

text \<open>The context's values as the settings sent by \<open>handleSaveSettings\<close>.\<close>

definition ctx_settings :: "theme_ctx \<Rightarrow> user_settings" where
  "ctx_settings tc =
     \<lparr>us_theme = tc_theme tc, us_color = tc_color tc, us_font = tc_font tc, us_largeText = tc_largeText tc,
      us_notifyEmail = False, us_notifySms = False, us_notifyPush = False\<rparr>"

text \<open>The privacy panel's two toggles.\<close>

definition toggle_privacy_view :: "string \<Rightarrow> settings_page \<Rightarrow> settings_page" where
  "toggle_privacy_view v s =
     s\<lparr>sp_privacyView := (if sp_privacyView s = Some v then None else Some v), sp_otpStatus := [],
       sp_emailStatus := []\<rparr>"

subsection \<open>Facts\<close>

text \<open>What the effect saves is read back on the next start.\<close>

lemma theme_init_effect:
  assumes "tc_theme tc \<noteq> []" and "tc_color tc \<noteq> []" and "tc_font tc \<noteq> []"
  shows "theme_init (snd (theme_effect tc body)) = tc"
  using assms by (simp add: theme_init_def theme_effect_def or_default_def)

text \<open>For values the controls offer, the body carries exactly the context's classes
  among the known ones.\<close>

lemma theme_effect_classes:
  assumes "tc_theme tc \<in> set theme_options" and "tc_color tc \<in> set color_options"
    and "tc_font tc \<in> set font_options"
  shows "set (fst (theme_effect tc body)) \<inter> set known_classes = set (ctx_classes tc)"
  using assms by (auto simp: theme_effect_def known_classes_def ctx_classes_def)

end
