(* ===== verification/ChatViews.thy ===== *)
theory ChatViews
  imports CareChat
begin

text \<open>
  The sidebars of the two chat screens as functions of their state: the entries
  \<open>Pages/Chat.jsx\<close> lists under "Users" and "Caretakers" and
  \<open>Adminpages/CaretakerChat.jsx\<close> under its search box, each with its avatar
  name, its two lines, its highlight and its "New" badge, the assistant's entry,
  the caretaker screen's conversation header, the message bubbles of both
  screens and the caretaker screen's input bar. The avatar is the
  \<open>ui-avatars\<close> URL of the name (the URL encoding is left out).
\<close>

record side_item =
  si_id :: oid
  si_avatar :: string              \<comment> \<open>\<open>name || "User"\<close> or \<open>name || "Caretaker"\<close>\<close>
  si_title :: "string option"      \<comment> \<open>\<open>{u.name}\<close>\<close>
  si_sub :: string                 \<comment> \<open>the second line\<close>
  si_active :: bool                \<comment> \<open>the highlight\<close>
  si_new :: bool                   \<comment> \<open>the "New" badge\<close>

text \<open>\<open>activeUser?._id === u._id && activeUser?.type === kind\<close>.\<close>

definition is_active_entry :: "contact option \<Rightarrow> peer_kind \<Rightarrow> contact \<Rightarrow> bool" where
  "is_active_entry a k u = (case a of Some x \<Rightarrow> ct_id x = ct_id u \<and> ct_kind x = k | None \<Rightarrow> False)"

definition user_item :: "contact option \<Rightarrow> contact \<Rightarrow> side_item" where
  "user_item a u =
     \<lparr>si_id = ct_id u, si_avatar = js_or_default (ct_name u) ''User'', si_title = ct_name u,
      si_sub = js_or_default (ct_email u) [], si_active = is_active_entry a KUser u, si_new = ct_hasNewMsg u\<rparr>"

definition caretaker_item :: "contact option \<Rightarrow> contact \<Rightarrow> side_item" where
  "caretaker_item a c =
     \<lparr>si_id = ct_id c, si_avatar = js_or_default (ct_name c) ''Caretaker'', si_title = ct_name c,
      si_sub = js_or_default (ct_role c) ''Caretaker'', si_active = is_active_entry a KCaretaker c,
      si_new = ct_hasNewMsg c\<rparr>"

subsection \<open>The user's chat screen\<close>

definition sidebar_users :: "chat_client \<Rightarrow> side_item list" where
  "sidebar_users st = map (user_item (cl_active st)) (filter (\<lambda>u. ct_kind u = KUser) (filtered_users st))"

definition sidebar_caretakers :: "chat_client \<Rightarrow> side_item list" where
  "sidebar_caretakers st =
     map (caretaker_item (cl_active st)) (filter (\<lambda>c. ct_kind c = KCaretaker) (filtered_users st))"

text \<open>The assistant's entry: its \<open>active\<close> prop is \<open>false\<close>, the highlight
  is the style \<open>sidebarItemStyle(activeUser?.type === "ai")\<close>.\<close>

definition ai_item :: "contact option \<Rightarrow> side_item" where
  "ai_item a =
     \<lparr>si_id = ''ai'', si_avatar = ''MindMate AI'', si_title = Some ''MindMate AI'', si_sub = ''Virtual assistant'',
      si_active = (case a of Some x \<Rightarrow> ct_kind x = KAi | None \<Rightarrow> False), si_new = False\<rparr>"

text \<open>\<open>sidebarItemStyle\<close>: background and text colour of an entry.\<close>

definition chat_item_style :: "bool \<Rightarrow> bool \<Rightarrow> string \<times> string" where
  "chat_item_style isDark isActive =
     ((if isActive then (if isDark then ''#1e293b'' else ''#e9ecef'') else if isDark then ''#0b1220'' else ''#fff''),
      (if isActive then (if isDark then ''#fff'' else ''#000'') else if isDark then ''#ddd'' else ''#000''))"

subsection \<open>The caretaker's chat screen\<close>

definition cc_sidebar_users :: "care_chat \<Rightarrow> side_item list" where
  "cc_sidebar_users st = map (user_item (cc_active st)) (filter (\<lambda>u. ct_kind u = KUser) (cc_filtered_users st))"

text \<open>Here the entry's style fills it with the accent colour.\<close>

definition cc_item_style :: "string \<Rightarrow> bool \<Rightarrow> bool \<Rightarrow> string \<times> string" where
  "cc_item_style chosenColor isDark isActive =
     ((if isActive then chosenColor else if isDark then ''#0b1220'' else ''#fff''),
      (if isActive then ''#fff'' else if isDark then ''#ddd'' else ''#000''))"

text \<open>The chat area: the welcome card without a conversation, otherwise the header
  with the avatar name, \<open>activeUser.name\<close>, and "Virtual Assistant" for the
  assistant, the e-mail otherwise.\<close>

datatype chat_header = NoConversation | Header string "string option" string

definition cc_header :: "care_chat \<Rightarrow> chat_header" where
  "cc_header st =
     (case cc_active st of
        None \<Rightarrow> NoConversation
      | Some a \<Rightarrow> Header (js_or_default (ct_name a) ''User'') (ct_name a)
                        (if ct_kind a = KAi then ''Virtual Assistant'' else js_or_default (ct_email a) []))"

subsection \<open>Message bubbles and the input bar\<close>

datatype bubble_side = SideRight | SideLeft

text \<open>\<open>MessageBubble\<close> of both screens: own messages on the right in the accent
  colour with white text, others on the left in grey; the text is
  \<open>msg.message || msg.content || ""\<close>.\<close>

definition bubble :: "string \<Rightarrow> bool \<Rightarrow> string option \<Rightarrow> string option \<Rightarrow> bubble_side \<times> string \<times> string \<times> string" where
  "bubble chosenColor isMe message content =
     ((if isMe then SideRight else SideLeft), (if isMe then chosenColor else ''#e9ecef''),
      (if isMe then ''#fff'' else ''#000''), js_or_default message (js_or_default content []))"

text \<open>The bubbles of the caretaker screen's pane.\<close>

definition cc_bubbles :: "string \<Rightarrow> care_chat \<Rightarrow> (bubble_side \<times> string \<times> string \<times> string) list" where
  "cc_bubbles c st =
     (case cc_pane_of st of
        CcPaneMsgs ms \<Rightarrow> map (\<lambda>(m, me). bubble c me (Some (cm_message m)) None) ms
      | CcPaneAi ms \<Rightarrow> map (\<lambda>m. bubble c (am_role m = ''user'') (Some (am_message m)) None) ms
      | _ \<Rightarrow> [])"

text \<open>The accent of the caretaker screen: \<open>colorMap[color] || "#3b82f6"\<close>.\<close>

definition cc_chosen_color :: "string \<Rightarrow> string" where
  "cc_chosen_color c =
     (case map_of [(''blue'', ''#3b82f6''), (''purple'', ''#8b5cf6''), (''green'', ''#22c55e''),
                   (''yellow'', ''#eab308''), (''red'', ''#ef4444''), (''orange'', ''#f97316'')] c of
        Some h \<Rightarrow> h | None \<Rightarrow> ''#3b82f6'')"

text \<open>The input bar: the placeholder \<open>`Message ${activeUser.name}`\<close> (a missing
  name prints as \<open>undefined\<close>) and the send button, disabled while the trimmed
  input is empty.\<close>

definition cc_placeholder :: "contact \<Rightarrow> string" where
  "cc_placeholder a = ''Message '' @ (case ct_name a of Some n \<Rightarrow> n | None \<Rightarrow> ''undefined'')"

definition cc_send_disabled :: "care_chat \<Rightarrow> bool" where
  "cc_send_disabled st \<longleftrightarrow> js_trim (cc_newMessage st) = []"

text \<open>The sidebar column is hidden on a phone while the conversation is shown;
  its Back button (on a phone, with a conversation open) shows the
  conversation.\<close>

definition cc_sidebar_visible :: "care_chat \<Rightarrow> bool" where
  "cc_sidebar_visible st \<longleftrightarrow> \<not> cc_mobile st \<or> cc_showSidebar st"

definition cc_back :: "care_chat \<Rightarrow> care_chat" where
  "cc_back st = (if cc_mobile st \<and> cc_active st \<noteq> None then st\<lparr>cc_showSidebar := False\<rparr> else st)"

subsection \<open>Facts\<close>

lemma side_items_ids [simp]:
  "map si_id (map (user_item a) us) = map ct_id us"
  "map si_id (map (caretaker_item a) us) = map ct_id us"
  by (simp_all add: user_item_def caretaker_item_def comp_def)

text \<open>With distinct ids, at most one entry of a list is highlighted.\<close>

lemma one_highlight:
  assumes "distinct (map ct_id us)"
  shows "length (filter si_active (map (user_item a) us)) \<le> 1"
    and "length (filter si_active (map (caretaker_item a) us)) \<le> 1"
proof -
  have gen: "length (filter (\<lambda>u. is_active_entry a k u) us) \<le> 1" for k
  proof (cases a)
    case (Some x)
    have "length (filter (\<lambda>u. ct_id x = ct_id u \<and> ct_kind x = k) us) \<le> length (filter (\<lambda>u. ct_id u = ct_id x) us)"
      by (induction us) auto
    also have "\<dots> \<le> 1" using assms
    proof (induction us)
      case (Cons u us)
      show ?case
      proof (cases "ct_id u = ct_id x")
        case True
        then have "filter (\<lambda>v. ct_id v = ct_id x) us = []"
          using Cons.prems by (auto simp: filter_empty_conv image_iff)
        then show ?thesis using True by simp
      next
        case False
        then show ?thesis using Cons by simp
      qed
    qed simp
    finally show ?thesis using Some by (simp add: is_active_entry_def)
  qed (simp add: is_active_entry_def)
  show "length (filter si_active (map (user_item a) us)) \<le> 1"
    using gen [of KUser] by (simp add: filter_map comp_def user_item_def)
  show "length (filter si_active (map (caretaker_item a) us)) \<le> 1"
    using gen [of KCaretaker] by (simp add: filter_map comp_def caretaker_item_def)
qed

text \<open>The badges shown are those of the listed contacts marked new.\<close>

lemma badges_shown:
  "length (filter si_new (sidebar_users st)) =
   length (filter (\<lambda>u. ct_kind u = KUser \<and> ct_hasNewMsg u) (filtered_users st))"
  by (simp add: sidebar_users_def filter_map comp_def user_item_def filter_filter conj_commute)

text \<open>A click on a listed user of the caretaker's screen moves its entry to the
  top with the badge cleared and highlights it; the other entries keep their
  order and are not highlighted.\<close>

lemma cc_click_sidebar:
  assumes "u \<in> set (cc_filtered_users st)" and "distinct (map ct_id (cc_users st))"
  shows "cc_sidebar_users (cc_click_user u st) =
           user_item (Some u) (u\<lparr>ct_hasNewMsg := False\<rparr>) #
           map (user_item (Some u)) (filter (\<lambda>p. ct_id p \<noteq> ct_id u) (cc_filtered_users st))"
proof -
  have k: "ct_kind u = KUser" and n: "u \<in> set (cc_users st)"
    using assms(1) by (auto simp: cc_filtered_users_def)
  have b: "bump_front (\<lambda>p. ct_id p = ct_id u) (\<lambda>p. p\<lparr>ct_hasNewMsg := False\<rparr>) (cc_users st) =
           u\<lparr>ct_hasNewMsg := False\<rparr> # filter (\<lambda>p. ct_id p \<noteq> ct_id u) (cc_users st)"
    using bump_front_key [OF n assms(2)] .
  have s: "cc_search (cc_click_user u st) = cc_search st"
    by (simp add: cc_click_user_def cc_load_effect_def cc_emit_def split: option.splits)
  have us: "cc_users (cc_click_user u st) = u\<lparr>ct_hasNewMsg := False\<rparr> # filter (\<lambda>p. ct_id p \<noteq> ct_id u) (cc_users st)"
    using k b by (simp add: cc_click_user_def cc_load_effect_def cc_emit_def)
  have m: "cc_filtered_users (cc_click_user u st) =
           u\<lparr>ct_hasNewMsg := False\<rparr> # filter (\<lambda>p. ct_id p \<noteq> ct_id u) (cc_filtered_users st)"
    using assms(1) k unfolding cc_filtered_users_def s us by (auto simp: filter_filter conj_ac)
  have a: "cc_active (cc_click_user u st) = Some u"
    using k by (simp add: cc_click_user_def cc_load_effect_def cc_emit_def)
  have f: "\<forall>x\<in>set (cc_filtered_users st). ct_kind x = KUser"
    by (simp add: cc_filtered_users_def)
  show ?thesis
    using m a k f by (simp add: cc_sidebar_users_def filter_filter cong: filter_cong)
qed

lemma cc_click_highlight:
  assumes "u \<in> set (cc_filtered_users st)" and "distinct (map ct_id (cc_users st))"
  shows "filter si_active (cc_sidebar_users (cc_click_user u st)) = [user_item (Some u) (u\<lparr>ct_hasNewMsg := False\<rparr>)] \<and>
         \<not> si_new (hd (cc_sidebar_users (cc_click_user u st)))"
proof -
  have "ct_kind u = KUser" using assms(1) by (simp add: cc_filtered_users_def)
  then show ?thesis
    unfolding cc_click_sidebar [OF assms]
    by (auto simp: filter_map comp_def user_item_def is_active_entry_def filter_empty_conv)
qed

text \<open>The disabled send button and the handler's guard agree: a submit while the
  button is disabled changes nothing.\<close>

lemma cc_disabled_send_noop: "cc_send_disabled st \<Longrightarrow> cc_handle_send st = st"
  by (simp add: cc_send_disabled_def cc_handle_send_def split: option.splits)

text \<open>Each bubble of a conversation with a user shows the stored text, on the
  right exactly for the caretaker's own messages.\<close>

lemma cc_bubbles_msgs:
  assumes "cc_active st = Some a" and "ct_kind a \<noteq> KAi" and "\<not> cc_loading st"
  shows "map (\<lambda>(s, _, _, t). (s = SideRight, t)) (cc_bubbles c st) =
         map (\<lambda>m. (js_string (cm_sender m) = js_string (cc_me st), cm_message m)) (cc_messages st)"
  using assms by (simp add: cc_bubbles_def cc_pane_of_def bubble_def js_or_default_def comp_def)

end
