(* ===== verification/CaretakerProfilePage.thy ===== *)
theory CaretakerProfilePage
  imports CaretakerPages GamesPage ClientChat
begin

text \<open>
  The rest of the caretaker's profile page \<open>Adminpages/CaretakerProfile.jsx\<close>
  beyond the counters of \<open>CaretakerPages\<close>: the request for the ids of the
  users the caretaker chatted with today and the route that answers it
  (\<open>GET /api/caretaker/chat/interactions/today/users\<close>), the patient list with
  its "Session Completed" and "Session Pending" badges, the four statistics cards,
  the header card, the today tab of the activity feed and the pager's window.
  The facts compose the page with the route: a patient is marked completed
  exactly when the caretaker exchanged a message with them since midnight.
\<close>

subsection \<open>The ids chatted today\<close>

text \<open>The reply of the route: \<open>{ userIds }\<close> (the field may be missing in a
  reply the page cannot rule out), or an error status.\<close>

datatype ids_reply = IdsOk "oid list option" | IdsError nat

text \<open>\<open>GET /interactions/today/users\<close> (\<open>routes/caretaker.chatRoutes.js\<close>):
  the partners of the caller among the messages since midnight, grouped.\<close>

definition today_users_route :: "chat list \<Rightarrow> nat \<Rightarrow> principal \<Rightarrow> ids_reply" where
  "today_users_route chats now me = IdsOk (Some (caretaker_today_users chats now me))"

text \<open>The page's effect: \<open>res.data.userIds || []\<close>, and \<open>[]\<close> in the \<open>catch\<close>.\<close>

definition today_ids_loaded :: "ids_reply \<Rightarrow> oid list" where
  "today_ids_loaded r = (case r of IdsOk (Some ids) \<Rightarrow> ids | IdsOk None \<Rightarrow> [] | IdsError _ \<Rightarrow> [])"

subsection \<open>The overview tab\<close>

text \<open>A row of the patient list: \<open>patient.name || `Patient ID: ${patient._id}`\<close>
  and whether \<open>chattedTodayIds.includes(patient._id)\<close>. The populated patients
  carry no \<open>status\<close>, so their status badge is always "Active".\<close>

definition patient_row :: "oid list \<Rightarrow> patient_view \<Rightarrow> string \<times> bool" where
  "patient_row ids p =
     ((if pv_name p = [] then ''Patient ID: '' @ pv_id p else pv_name p), pv_id p \<in> set ids)"

definition patient_rows :: "patient_view list \<Rightarrow> oid list \<Rightarrow> (string \<times> bool) list" where
  "patient_rows pats ids = map (patient_row ids) pats"

text \<open>The four cards: label and \<open>value || 0\<close>.\<close>

definition stat_cards :: "care_stats \<Rightarrow> oid list \<Rightarrow> (string \<times> int) list" where
  "stat_cards st ids =
     (let c = completed_count (cs_patients st) ids; n = length (cs_patients st);
          p = pending_count (cs_patients st) ids in
      [(''Interactions'', cs_chatMessages st),
       (''Completed Sessions ('' @ nat_str c @ ''/'' @ nat_str n @ '')'', int c),
       (''Pending Sessions ('' @ int_str p @ '')'', p),
       (''Assigned Patients'', int n)])"

subsection \<open>The header card\<close>

record care_header =
  ch_name :: string
  ch_email :: string
  ch_role :: string
  ch_phone :: string
  ch_experience :: string
  ch_status :: string
  ch_available :: bool                \<comment> \<open>the green status badge\<close>
  ch_specialties :: "string list option"   \<comment> \<open>\<open>None\<close>: "N/A"\<close>

text \<open>The header from the caretaker stored at login (\<open>caretaker\<close>, \<open>{}\<close> when
  nothing is stored) and the profile document of a completed load (\<open>stats\<close>,
  whose \<open>phone\<close> and \<open>experience\<close> start as \<open>""\<close>). The rating, printed with
  \<open>toFixed\<close>, is left out with binary floating point.\<close>

definition care_header :: "caretaker option \<Rightarrow> caretaker option \<Rightarrow> care_header" where
  "care_header stored prof =
     (let phone = (case prof of Some c \<Rightarrow> cr_phone c | None \<Rightarrow> []);
          exp = (case prof of Some c \<Rightarrow> js_or_default (cr_experience c) [] | None \<Rightarrow> []);
          specs = (case prof of Some c \<Rightarrow> cr_specialties c | None \<Rightarrow> []) in
      \<lparr>ch_name = js_or_default (map_option cr_name stored) ''Unnamed Caretaker'',
       ch_email = (case stored of Some c \<Rightarrow> cr_email c | None \<Rightarrow> []),
       ch_role = js_or_default (Option.bind stored cr_role) ''Caretaker'',
       ch_phone = (if phone = [] then ''N/A'' else phone),
       ch_experience = (if exp = [] then ''N/A'' else exp),
       ch_status = js_or_default (map_option cr_status stored) ''Active'',
       ch_available = (map_option cr_status stored = Some ''Available''),
       ch_specialties = (if specs = [] then None else Some specs)\<rparr>)"

subsection \<open>The activity feed\<close>

text \<open>An entry's title: \<open>a.title || (a.type === "chat" ? "Chat Message" : "Session")\<close>.\<close>

definition feed_title :: "care_activity \<Rightarrow> string" where
  "feed_title a = (if ca_title a \<noteq> [] then ca_title a else if ca_type a = ''chat'' then ''Chat Message'' else ''Session'')"

text \<open>The today tab: today's activities, last first.\<close>

definition today_feed :: "nat \<Rightarrow> care_activity list \<Rightarrow> string list" where
  "today_feed now acts = map feed_title (rev (filter (\<lambda>a. same_day (ca_time a) now) acts))"

definition overall_feed :: "care_activity list \<Rightarrow> nat \<Rightarrow> string list" where
  "overall_feed acts p = map feed_title (paged_overall acts p)"

text \<open>The numbered buttons: the pages within two of the current one.\<close>

definition page_window :: "nat \<Rightarrow> nat \<Rightarrow> nat list" where
  "page_window tot cur = filter (\<lambda>p. cur - 2 \<le> p \<and> p \<le> cur + 2) [1..<tot + 1]"

text \<open>The tabs (\<open>k || "overview"\<close>) and the pager's other buttons: first, a
  numbered page, last.\<close>

definition cp_select_tab :: "string option \<Rightarrow> string" where
  "cp_select_tab k = (case k of Some x \<Rightarrow> if x = [] then ''overview'' else x | None \<Rightarrow> ''overview'')"

definition page_first :: "nat" where "page_first = 1"

definition page_goto :: "nat \<Rightarrow> nat" where "page_goto p = p"

definition page_last :: "nat \<Rightarrow> nat" where "page_last tot = tot"

subsection \<open>Facts\<close>

lemma today_ids_route:
  "today_ids_loaded (today_users_route chats now me) = caretaker_today_users chats now me"
  by (simp add: today_ids_loaded_def today_users_route_def)

lemma set_today_users:
  "set (caretaker_today_users chats now me) =
     {y. \<exists>c\<in>set chats. day_start now \<le> chat_createdAt c \<and> between (principal_id me) y c}"
  by (auto simp: caretaker_today_users_def set_partners today_chats_def)

lemma pending_nonneg: "0 \<le> pending_count pats ids"
  by (simp add: pending_count_def completed_count_def)

lemma completed_rows: "completed_count pats ids = length (filter snd (patient_rows pats ids))"
  by (simp add: completed_count_def patient_rows_def filter_map comp_def patient_row_def)

lemma page_window_current:
  assumes "1 \<le> cur" and "cur \<le> tot"
  shows "cur \<in> set (page_window tot cur) \<and> length (page_window tot cur) \<le> 5"
proof -
  have "set (page_window tot cur) \<subseteq> {cur - 2 .. cur + 2}"
    by (auto simp: page_window_def)
  moreover have "distinct (page_window tot cur)" by (simp add: page_window_def)
  ultimately have "length (page_window tot cur) \<le> card {cur - 2 .. cur + 2}"
    by (metis card_mono distinct_card finite_atLeastAtMost)
  then show ?thesis using assms by (auto simp: page_window_def)
qed

text \<open>Composed with the route, a patient's row is marked completed exactly when
  the caretaker and the patient exchanged a message since midnight, and the
  completed card counts those patients.\<close>

lemma patient_completed_iff:
  "map snd (patient_rows pats (today_ids_loaded (today_users_route chats now me))) =
   map (\<lambda>p. \<exists>c\<in>set chats. day_start now \<le> chat_createdAt c \<and> between (principal_id me) (pv_id p) c) pats"
  by (simp add: patient_rows_def patient_row_def today_ids_route set_today_users)

lemma completed_count_route:
  "completed_count pats (today_ids_loaded (today_users_route chats now me)) =
   length (filter (\<lambda>p. \<exists>c\<in>set chats. day_start now \<le> chat_createdAt c \<and> between (principal_id me) (pv_id p) c) pats)"
  by (simp add: completed_count_def today_ids_route set_today_users)

text \<open>When the request fails, every patient is shown pending.\<close>

lemma ids_error_all_pending:
  "map snd (patient_rows pats (today_ids_loaded (IdsError n))) = map (\<lambda>_. False) pats \<and>
   pending_count pats (today_ids_loaded (IdsError n)) = int (length pats)"
  by (simp add: patient_rows_def patient_row_def today_ids_loaded_def pending_count_def completed_count_def)

text \<open>Every button of the pager keeps the page between 1 and the number of
  pages.\<close>

lemma pager_in_range:
  assumes "1 \<le> cur" and "cur \<le> total_pages n"
  shows "1 \<le> page_prev cur \<and> page_prev cur \<le> total_pages n \<and>
         1 \<le> page_next (total_pages n) cur \<and> page_next (total_pages n) cur \<le> total_pages n \<and>
         page_first \<le> total_pages n \<and> 1 \<le> page_last (total_pages n) \<and>
         (\<forall>p\<in>set (page_window (total_pages n) cur). 1 \<le> page_goto p \<and> page_goto p \<le> total_pages n)"
  using assms by (auto simp: page_prev_def page_next_def page_first_def page_last_def page_goto_def
      page_window_def total_pages_def)

end
