(* ===== verification/GameCards.thy ===== *)
theory GameCards
  imports GamesPage UserPages
begin

text \<open>
  What the catalogue page \<open>Pages/Games.jsx\<close> draws for each game: the category
  buttons, the accent colour, the cards (image, category badge, shortened
  description, stars) and the details panel. A game reaches the page as the JSON
  of its document, so a field is read by its key; \<open>game_field\<close> is that
  lookup. The page reads the key \<open>imageurl\<close>, while the schema's field is
  \<open>imageUrl\<close>: the facts show that no game's image is ever drawn.
\<close>

subsection \<open>The JSON of a game\<close>

text \<open>The string-valued keys of a game's JSON (\<open>models/games.model.js\<close>); the
  optional \<open>howTo\<close> only when the document has it.\<close>

definition game_field :: "game \<Rightarrow> string \<Rightarrow> string option" where
  "game_field g k =
     map_of ([(''_id'', g_oid g), (''title'', g_title g), (''description'', g_description g),
              (''link'', g_link g), (''category'', g_category g), (''duration'', g_duration g),
              (''difficulty'', g_difficulty g), (''imageUrl'', g_imageUrl g)] @
             (case g_howTo g of Some h \<Rightarrow> [(''howTo'', h)] | None \<Rightarrow> [])) k"

text \<open>\<open>x || d\<close> on a field that may be missing.\<close>

definition field_or :: "game \<Rightarrow> string \<Rightarrow> string \<Rightarrow> string" where
  "field_or g k d = (case game_field g k of Some v \<Rightarrow> if v = [] then d else v | None \<Rightarrow> d)"

subsection \<open>The accent colour and the category buttons\<close>

definition games_color_map :: "(string \<times> string) list" where
  "games_color_map =
     [(''blue'', ''#3b82f6''), (''purple'', ''#8b5cf6''), (''green'', ''#22c55e''), (''yellow'', ''#eab308''),
      (''red'', ''#ef4444''), (''orange'', ''#f97316''), (''pink'', ''#ec4899''), (''cyan'', ''#06b6d4'')]"

text \<open>\<open>colorMap[color] || color || "#3b82f6"\<close>.\<close>

definition chosen_color :: "string \<Rightarrow> string" where
  "chosen_color c =
     (case map_of games_color_map c of Some h \<Rightarrow> h | None \<Rightarrow> if c = [] then ''#3b82f6'' else c)"

text \<open>A category button and whether it is filled (\<open>selectedCategory === cat\<close>).\<close>

definition category_buttons :: "game list \<Rightarrow> string \<Rightarrow> (string \<times> bool) list" where
  "category_buttons gs sel = map (\<lambda>c. (c, sel = c)) (categories gs)"

subsection \<open>The cards\<close>

datatype card_image = CardImg string | CardEmoji

text \<open>\<open>game.imageurl ? <img src={game.imageurl}/> : "\<dots>"\<close>.\<close>

definition card_image :: "game \<Rightarrow> card_image" where
  "card_image g = (case game_field g ''imageurl'' of Some u \<Rightarrow> if u = [] then CardEmoji else CardImg u | None \<Rightarrow> CardEmoji)"

text \<open>A star \<open>i\<close> of five is filled when \<open>i < Math.round(game.rating || 0)\<close>
  (\<open>UserPages.js_round\<close>).\<close>

definition filled_stars :: "game \<Rightarrow> nat" where
  "filled_stars g = length (filter (\<lambda>i. int i < js_round (g_rating g)) [0..<5])"

text \<open>\<open>game.description ? `${game.description.substring(0, 80)}...` : ""\<close>.\<close>

definition card_desc :: "game \<Rightarrow> string" where
  "card_desc g = (if g_description g = [] then [] else take 80 (g_description g) @ ''...'')"

record game_card =
  gc_image :: card_image
  gc_title :: string
  gc_category :: string
  gc_desc :: string
  gc_stars :: nat

definition game_card :: "game \<Rightarrow> game_card" where
  "game_card g =
     \<lparr>gc_image = card_image g, gc_title = g_title g, gc_category = field_or g ''category'' ''General'',
      gc_desc = card_desc g, gc_stars = filled_stars g\<rparr>"

definition games_cards :: "games_page \<Rightarrow> game_card list option" where
  "games_cards pg = (case games_view pg of GVCards gs \<Rightarrow> Some (map game_card gs) | _ \<Rightarrow> None)"

subsection \<open>The details panel\<close>

record game_details =
  gd_image :: card_image
  gd_description :: string
  gd_category :: string
  gd_difficulty :: string
  gd_duration :: string
  gd_stars :: nat
  gd_steps :: "string list"        \<comment> \<open>the how-to list, shown when expanded\<close>

definition game_details :: "games_page \<Rightarrow> game_details option" where
  "game_details pg =
     (if \<not> gpg_showDetails pg then None
      else case gpg_active pg of
        None \<Rightarrow> None
      | Some g \<Rightarrow> Some \<lparr>gd_image = card_image g, gd_description = g_description g,
                       gd_category = field_or g ''category'' ''General'',
                       gd_difficulty = field_or g ''difficulty'' ''N/A'',
                       gd_duration = field_or g ''duration'' ''N/A'', gd_stars = filled_stars g,
                       gd_steps = parse_steps (game_field g ''howTo'')\<rparr>)"

subsection \<open>Facts\<close>

lemma game_field_imageurl: "game_field g ''imageurl'' = None"
  by (simp add: game_field_def split: option.splits)

lemma game_field_imageUrl: "game_field g ''imageUrl'' = Some (g_imageUrl g)"
  by (simp add: game_field_def split: option.splits)

lemma game_field_howTo: "game_field g ''howTo'' = g_howTo g"
  by (simp add: game_field_def split: option.splits)

lemma filter_int_less_upt: "filter (\<lambda>i. int i < r) [0..<n] = [0..<min n (nat r)]"
proof (induction n)
  case (Suc n)
  show ?case
  proof (cases "int n < r")
    case True
    then have "min (Suc n) (nat r) = Suc n" and "min n (nat r) = n" by auto
    then show ?thesis using Suc True by simp
  next
    case False
    then have "min (Suc n) (nat r) = nat r" and "min n (nat r) = nat r" by auto
    then show ?thesis using Suc False by simp
  qed
qed simp

lemma filled_stars_round: "filled_stars g = min 5 (nat (js_round (g_rating g)))"
  by (simp add: filled_stars_def filter_int_less_upt)

text \<open>A rating between 0 and 5 fills its rounded number of stars.\<close>

lemma filled_stars_rating:
  assumes "0 \<le> g_rating g" and "g_rating g \<le> 5"
  shows "int (filled_stars g) = js_round (g_rating g)"
proof -
  have "0 \<le> js_round (g_rating g)" using assms(1) by (simp add: js_round_def)
  moreover have "js_round (g_rating g) \<le> 5"
    using assms(2) by (simp add: js_round_def floor_le_iff)
  ultimately show ?thesis by (simp add: filled_stars_round)
qed

text \<open>The card and the panel read \<open>imageurl\<close>, which a game's JSON never has: every
  card and every panel shows the placeholder although each game has an image
  under \<open>imageUrl\<close>.\<close>

lemma card_image_placeholder:
  "card_image g = CardEmoji \<and> game_field g ''imageUrl'' = Some (g_imageUrl g)"
  by (simp add: card_image_def game_field_imageurl game_field_imageUrl)

lemma cards_never_images:
  "games_cards pg = Some cs \<Longrightarrow> \<forall>c\<in>set cs. gc_image c = CardEmoji"
  by (auto simp: games_cards_def game_card_def card_image_placeholder split: games_view.splits)

lemma details_never_image:
  "game_details pg = Some d \<Longrightarrow> gd_image d = CardEmoji"
  by (auto simp: game_details_def card_image_placeholder split: if_splits option.splits)

text \<open>When no game's category is "All", the buttons are distinct and the selected
  category is the one filled button.\<close>

lemma one_category_filled:
  assumes "''All'' \<notin> set (map g_category gs)" and "sel \<in> set (categories gs)"
  shows "filter snd (category_buttons gs sel) = [(sel, True)]"
proof -
  have d: "distinct (categories gs)"
    using assms(1) by (auto simp: categories_def dedup_first_def)
  then have "filter (\<lambda>c. sel = c) (categories gs) = [sel]"
    using assms(2) by (rule filter_eq_distinct)
  then show ?thesis
    by (simp add: category_buttons_def filter_map comp_def)
qed

end
