(* ===== verification/ProfileView.thy ===== *)
theory ProfileView
  imports UserPages CaretakerProfilePage
begin

text \<open>
  What the user's profile page \<open>Pages/Profile.jsx\<close> draws from its state
  (\<open>UserPages.profile_page\<close>): the four counters of the header card, the
  progress row, the overview cards, the rows of the two activity tabs and the
  pager's numbered buttons. The pager of this page picks its buttons with
  \<open>slice\<close>, the caretaker's profile page with \<open>filter\<close>
  (\<open>CaretakerProfilePage.page_window\<close>); the facts show both give the same buttons.
\<close>

text \<open>The header card's counters: today's logins, games and points of the
  activities, and the interactions of today.\<close>

definition profile_cards :: "nat \<Rightarrow> profile_page \<Rightarrow> (string \<times> int) list" where
  "profile_cards now pg =
     (case profile_today_counts now (pf_activities (pp_profile pg)) of (l, g, c, p) \<Rightarrow>
        [(''Connections'', int l), (''Games Played'', int g), (''Interactions'', pp_today pg),
         (''Points Today'', p)])"

text \<open>The progress row: the top level's message, or the next level with
  \<open>totalPoints/nextLevelPoints\<close> and the bar.\<close>

datatype progress_view = TopLevel | Progress int int int int   \<comment> \<open>target level, points, goal, percent\<close>

definition profile_progress :: "profile_page \<Rightarrow> progress_view" where
  "profile_progress pg =
     (let pts = pf_points (pp_profile pg) in
      if get_badge pts = Some GoldBadge then TopLevel
      else Progress (progress_target pts) pts (next_level_points pts) (level_progress pts))"

text \<open>The overview tab: the badge card (the badge and the points, or none) and
  the interactions card (the total).\<close>

definition overview_cards :: "profile_page \<Rightarrow> (pbadge \<times> int) option \<times> int" where
  "overview_cards pg =
     (let pts = pf_points (pp_profile pg) in
      (map_option (\<lambda>b. (b, pts)) (get_badge pts), pp_total pg))"

text \<open>A row of the activity tabs: its icon (by \<open>type\<close>), its title and the points
  badge when \<open>a.points > 0\<close>.\<close>

datatype act_icon = IconGame | IconChat | IconKey

definition act_row :: "activity \<Rightarrow> act_icon \<times> string \<times> int option" where
  "act_row a =
     ((if act_type a = ''game'' then IconGame else if act_type a = ''chat'' then IconChat else IconKey),
      act_title a, (case act_points a of Some p \<Rightarrow> if 0 < p then Some p else None | None \<Rightarrow> None))"

definition profile_today_rows :: "nat \<Rightarrow> profile_page \<Rightarrow> (act_icon \<times> string \<times> int option) list" where
  "profile_today_rows now pg = map act_row (today_list now (pf_activities (pp_profile pg)))"

definition profile_overall_rows :: "profile_page \<Rightarrow> (act_icon \<times> string \<times> int option) list" where
  "profile_overall_rows pg = map act_row (profile_paged (pf_activities (pp_profile pg)) (pp_page pg))"

text \<open>The numbered buttons:
  \<open>[1..totalPages].slice(Math.max(0, currentPage - 3), Math.min(totalPages, currentPage + 2))\<close>.\<close>

definition profile_page_window :: "nat \<Rightarrow> nat \<Rightarrow> nat list" where
  "profile_page_window tot cur =
     (let a = cur - 3; b = min tot (cur + 2) in take (b - a) (drop a [1..<tot + 1]))"

text \<open>The tabs: \<open>onSelect={(k) => setActiveTab(k || "overview")}\<close>
  (\<open>CaretakerProfilePage.cp_select_tab\<close>), and the content each key shows.\<close>

datatype profile_tab =
    TabOverview "(pbadge \<times> int) option \<times> int"
  | TabActivity "(act_icon \<times> string \<times> int option) list" "(act_icon \<times> string \<times> int option) list"
  | TabNone

definition profile_tab_view :: "string \<Rightarrow> nat \<Rightarrow> profile_page \<Rightarrow> profile_tab" where
  "profile_tab_view tab now pg =
     (if tab = ''overview'' then TabOverview (overview_cards pg)
      else if tab = ''activity'' then TabActivity (profile_today_rows now pg) (profile_overall_rows pg)
      else TabNone)"

text \<open>The pager's buttons as events on the page: first, previous, a numbered
  page, next, last.\<close>

datatype pager_btn = PFirst | PPrev | PGoto nat | PNext | PLast

definition profile_pager :: "pager_btn \<Rightarrow> profile_page \<Rightarrow> profile_page" where
  "profile_pager b pg =
     (let tot = profile_total_pages (length (pf_activities (pp_profile pg))) in
      pg\<lparr>pp_page := (case b of PFirst \<Rightarrow> 1 | PPrev \<Rightarrow> page_prev (pp_page pg) | PGoto p \<Rightarrow> p
                      | PNext \<Rightarrow> page_next tot (pp_page pg) | PLast \<Rightarrow> tot)\<rparr>)"

subsection \<open>Facts\<close>

text \<open>The two pagers show the same buttons, for every page count and current page.\<close>

lemma page_windows_agree: "profile_page_window tot cur = page_window tot cur"
proof -
  have l: "profile_page_window tot cur =
           [Suc (cur - 3)..<Suc (min tot (cur - 3 + (min tot (cur + 2) - (cur - 3))))]"
    by (simp add: profile_page_window_def drop_upt take_upt_min Let_def del: upt_Suc)
  have r: "page_window tot cur = [max 1 (cur - 2)..<min (Suc tot) (Suc (cur + 2))]"
    by (simp add: page_window_def filter_upt_interval del: upt_Suc)
  show ?thesis
  proof (cases "Suc tot \<le> max 1 (cur - 2)")
    case True
    then show ?thesis unfolding l r by (simp del: upt_Suc)
  next
    case False
    then have "Suc (cur - 3) = max 1 (cur - 2)"
      and "Suc (min tot (cur - 3 + (min tot (cur + 2) - (cur - 3)))) = min (Suc tot) (Suc (cur + 2))"
      by auto
    then show ?thesis unfolding l r by (simp del: upt_Suc)
  qed
qed

text \<open>The points of the today tab's badges add up to the "Points Today" counter
  when no activity has negative points.\<close>

lemma today_points_badges:
  assumes "\<forall>a\<in>set (pf_activities (pp_profile pg)). \<forall>p. act_points a = Some p \<longrightarrow> 0 \<le> p"
  shows "sum_list (map (\<lambda>r. case snd (snd r) of Some p \<Rightarrow> p | None \<Rightarrow> 0) (profile_today_rows now pg)) =
         snd (profile_cards now pg ! 3)"
proof -
  let ?td = "filter (\<lambda>a. same_day (act_time a) now) (pf_activities (pp_profile pg))"
  have "\<forall>a\<in>set ?td. (case snd (snd (act_row a)) of Some p \<Rightarrow> p | None \<Rightarrow> 0) = act_pts a"
    using assms by (auto simp: act_row_def act_pts_def split: option.splits)
  then have "sum_list (map (\<lambda>a. case snd (snd (act_row a)) of Some p \<Rightarrow> p | None \<Rightarrow> 0) ?td) =
             sum_list (map act_pts ?td)"
    by (metis (mono_tags, lifting) map_eq_conv)
  then show ?thesis
    by (simp add: profile_today_rows_def profile_cards_def profile_today_counts_def today_list_def
        comp_def rev_map [symmetric] sum_list_rev Let_def)
qed

text \<open>Pressing any button that is drawn keeps the page between 1 and the number
  of pages.\<close>

lemma profile_pager_in_range:
  assumes "1 \<le> pp_page pg" and "pp_page pg \<le> profile_total_pages (length (pf_activities (pp_profile pg)))"
    and "\<forall>p. b = PGoto p \<longrightarrow>
           p \<in> set (profile_page_window (profile_total_pages (length (pf_activities (pp_profile pg)))) (pp_page pg))"
  shows "1 \<le> pp_page (profile_pager b pg) \<and>
         pp_page (profile_pager b pg) \<le> profile_total_pages (length (pf_activities (pp_profile pg)))"
proof -
  let ?tot = "profile_total_pages (length (pf_activities (pp_profile pg)))"
  have w: "p \<in> set (profile_page_window ?tot (pp_page pg)) \<Longrightarrow> 1 \<le> p \<and> p \<le> ?tot" for p
    by (auto simp: page_windows_agree page_window_def)
  have t: "1 \<le> ?tot" by (simp add: profile_total_pages_def)
  show ?thesis
    using assms w t by (cases b) (auto simp: profile_pager_def page_prev_def page_next_def Let_def)
qed

lemma profile_tab_select: "profile_tab_view (cp_select_tab None) now pg = TabOverview (overview_cards pg)"
  by (simp add: profile_tab_view_def cp_select_tab_def)

end
