(* ===== verification/SettingsPanels.thy ===== *)
theory SettingsPanels
  imports ThemeSettings
begin

text \<open>
  The navigation and the panels of the settings page
  \<open>Adminpages/CaretakerSettings.jsx\<close> beyond its handlers
  (\<open>CaretakerSettingsPage\<close>): the five tabs with the desktop sidebar and the
  mobile menu, the profile panel (avatar, name field, the Revert button), and the
  privacy panel, which shows one of four forms. A photo picked in the profile
  panel is written to the stored user at once, and Revert restores from the
  stored user: the facts show that Revert undoes a name change but never a photo
  change.
\<close>

subsection \<open>The tabs\<close>

definition settings_tabs :: "string list" where
  "settings_tabs = [''profile'', ''notifications'', ''accessibility'', ''appearance'', ''privacy'']"

record settings_nav =
  sn_activeKey :: string
  sn_showSidebarMobile :: bool

text \<open>\<open>onSelect={(k) => setActiveKey(k || "profile")}\<close> of the tab container.\<close>

definition nav_select :: "string option \<Rightarrow> settings_nav \<Rightarrow> settings_nav" where
  "nav_select k n = n\<lparr>sn_activeKey := (case k of Some x \<Rightarrow> if x = [] then ''profile'' else x | None \<Rightarrow> ''profile'')\<rparr>"

text \<open>A link of the mobile menu: the tab, and the menu closes.\<close>

definition nav_mobile_pick :: "string \<Rightarrow> settings_nav \<Rightarrow> settings_nav" where
  "nav_mobile_pick k n = n\<lparr>sn_activeKey := k, sn_showSidebarMobile := False\<rparr>"

text \<open>The menu button of the mobile top bar opens the menu; its close button
  (\<open>onHide\<close>) closes it. The "Profile" button of the mobile bottom bar is
  \<open>nav_select (Some ''profile'')\<close>.\<close>

definition nav_open_mobile :: "settings_nav \<Rightarrow> settings_nav" where
  "nav_open_mobile n = n\<lparr>sn_showSidebarMobile := True\<rparr>"

definition nav_hide_mobile :: "settings_nav \<Rightarrow> settings_nav" where
  "nav_hide_mobile n = n\<lparr>sn_showSidebarMobile := False\<rparr>"

text \<open>The links of either sidebar and whether each is filled with the accent.\<close>

definition nav_links :: "settings_nav \<Rightarrow> (string \<times> bool) list" where
  "nav_links n = map (\<lambda>k. (k, sn_activeKey n = k)) settings_tabs"

text \<open>The accent: \<open>{...}[color] || "#3b82f6"\<close>.\<close>

definition settings_color :: "string \<Rightarrow> string" where
  "settings_color c =
     (case map_of [(''blue'', ''#3b82f6''), (''purple'', ''#8b5cf6''), (''green'', ''#22c55e''),
                   (''yellow'', ''#eab308''), (''red'', ''#ef4444''), (''orange'', ''#f97316'')] c of
        Some h \<Rightarrow> h | None \<Rightarrow> ''#3b82f6'')"

subsection \<open>The profile panel\<close>

datatype avatar = AvatarImg string | AvatarLetter string

text \<open>\<open>profile.photo ? <img/> : (profile.name ? profile.name[0] : "?")\<close>.\<close>

definition settings_avatar :: "settings_page \<Rightarrow> avatar" where
  "settings_avatar s =
     (if sp_photo s \<noteq> [] then AvatarImg (sp_photo s)
      else case sp_name s of [] \<Rightarrow> AvatarLetter ''?'' | c # _ \<Rightarrow> AvatarLetter [c])"

text \<open>The name field's change handler.\<close>

definition sp_change_name :: "string \<Rightarrow> settings_page \<Rightarrow> settings_page" where
  "sp_change_name v s = s\<lparr>sp_nameValue := v\<rparr>"

text \<open>Revert: \<open>local = JSON.parse(localStorage.user || "{}")\<close>, then
  \<open>local.name || profile.name\<close> and \<open>local.photo || profile.photo\<close> for the
  profile and for the two fields.\<close>

definition sp_revert :: "settings_page \<Rightarrow> settings_page" where
  "sp_revert s =
     (let ln = (case sp_user s of Some u \<Rightarrow> lu_name u | None \<Rightarrow> None);
          lp = (case sp_user s of Some u \<Rightarrow> lu_photo u | None \<Rightarrow> None);
          n = or_default ln (sp_name s); p = or_default lp (sp_photo s) in
      s\<lparr>sp_name := n, sp_photo := p, sp_nameValue := n, sp_photoValue := p\<rparr>)"

subsection \<open>The privacy panel\<close>

datatype privacy_form =
    NoForm
  | SendOtpForm string          \<comment> \<open>the account e-mail and "Send OTP to email"\<close>
  | ResetForm                   \<comment> \<open>OTP, new password, confirmation\<close>
  | NewEmailForm                \<comment> \<open>the new address and "Send OTP to current email"\<close>
  | EmailOtpForm                \<comment> \<open>the OTP sent to the current address\<close>

definition privacy_form :: "settings_page \<Rightarrow> privacy_form" where
  "privacy_form s =
     (if sp_privacyView s = Some ''password'' then (if sp_otpSent s then ResetForm else SendOtpForm (sp_email s))
      else if sp_privacyView s = Some ''email'' then (if sp_emailChangeSent s then EmailOtpForm else NewEmailForm)
      else NoForm)"

text \<open>The inputs of the privacy forms, and the "Clear" button of the new-address
  form.\<close>

datatype priv_field = FOtp | FNewPassword | FConfirmPassword | FNewEmail | FEmailOtp

definition sp_priv_change :: "priv_field \<Rightarrow> string \<Rightarrow> settings_page \<Rightarrow> settings_page" where
  "sp_priv_change f v s =
     (case f of FOtp \<Rightarrow> s\<lparr>sp_otpValue := v\<rparr> | FNewPassword \<Rightarrow> s\<lparr>sp_newPassword := v\<rparr>
      | FConfirmPassword \<Rightarrow> s\<lparr>sp_confirmPassword := v\<rparr> | FNewEmail \<Rightarrow> s\<lparr>sp_newEmailValue := v\<rparr>
      | FEmailOtp \<Rightarrow> s\<lparr>sp_emailOtpValue := v\<rparr>)"

definition clear_new_email :: "settings_page \<Rightarrow> settings_page" where
  "clear_new_email s = s\<lparr>sp_newEmailValue := []\<rparr>"

text \<open>The Cancel buttons of the two second steps.\<close>

definition cancel_reset :: "settings_page \<Rightarrow> settings_page" where
  "cancel_reset s =
     s\<lparr>sp_otpSent := False, sp_otpValue := [], sp_newPassword := [], sp_confirmPassword := [],
       sp_privacyView := None\<rparr>"

definition cancel_email :: "settings_page \<Rightarrow> settings_page" where
  "cancel_email s = s\<lparr>sp_emailChangeSent := False, sp_emailOtpValue := [], sp_newEmailValue := [], sp_privacyView := None\<rparr>"

subsection \<open>Facts\<close>

text \<open>Exactly one link is filled when the active key is one of the tabs.\<close>

lemma one_link_filled: "sn_activeKey n \<in> set settings_tabs \<Longrightarrow> filter snd (nav_links n) = [(sn_activeKey n, True)]"
  by (auto simp: nav_links_def settings_tabs_def)

text \<open>Revert restores a name typed since the last save, but a photo picked since
  then stays: picking wrote it to the stored user.\<close>

lemma revert_restores_name:
  assumes "sp_user s = Some u" and "lu_name u = Some n" and "n \<noteq> []"
  shows "sp_nameValue (sp_revert (sp_change_name v s)) = n"
  using assms by (simp add: sp_revert_def sp_change_name_def or_default_def Let_def)

lemma revert_keeps_picked_photo:
  assumes "url \<noteq> []"
  shows "sp_photo (sp_revert (sp_photo_selected url s)) = url \<and>
         sp_photoValue (sp_revert (sp_photo_selected url s)) = url"
  using assms by (simp add: sp_revert_def sp_photo_selected_def or_default_def split: option.splits)

lemma cancel_reset_form: "privacy_form (cancel_reset s) = NoForm"
  by (simp add: privacy_form_def cancel_reset_def)

lemma cancel_email_form: "privacy_form (cancel_email s) = NoForm"
  by (simp add: privacy_form_def cancel_email_def)

text \<open>Opening a privacy view starts at its first step only when no OTP was sent
  before: the toggle does not reset \<open>otpSent\<close>.\<close>

lemma toggle_password_form:
  "sp_privacyView s \<noteq> Some ''password'' \<Longrightarrow>
   privacy_form (toggle_privacy_view ''password'' s) = (if sp_otpSent s then ResetForm else SendOtpForm (sp_email s))"
  by (simp add: privacy_form_def toggle_privacy_view_def)

text \<open>Typing in a privacy form never changes which form is shown.\<close>

lemma priv_change_form: "privacy_form (sp_priv_change f v s) = privacy_form s"
  by (cases f) (simp_all add: privacy_form_def sp_priv_change_def)

end
