(* ===== verification/TrackPage.thy ===== *)
theory TrackPage
  imports CaretakerPages GamesPage
begin

text \<open>
  The track-progress page \<open>Adminpages/CaretakerTrackprogress.jsx\<close> as a whole:
  its state, the load of \<open>GET /api/chat\<close> (the users with their profiles),
  the leaderboard table with its rank column, the summary card, and the colours
  of the level chart, over the rows, levels and counters of \<open>CaretakerPages\<close>.
  The load sorts the reply in place (\<open>allUsers.sort\<close>) before it builds today's
  rows from the same array, so the bar chart lists the users in the table's
  order.
\<close>

record track_page =
  tp_users :: "user list"
  tp_today :: "progress_row list"
  tp_loading :: bool
  tp_search :: string

definition track_init :: track_page where
  "track_init = \<lparr>tp_users = [], tp_today = [], tp_loading = True, tp_search = []\<rparr>"

text \<open>\<open>fetchProgressData\<close> after its \<open>await\<close>: a reply is sorted in place, the
  sorted array is the table and the source of today's rows; an error leaves both
  empty; \<open>finally\<close> ends the spinner.\<close>

definition track_loaded :: "nat \<Rightarrow> user list option \<Rightarrow> track_page \<Rightarrow> track_page" where
  "track_loaded now r tp =
     (case r of
        Some us \<Rightarrow> (let sorted = sort_by_points us in
                    tp\<lparr>tp_users := sorted, tp_today := today_progress now sorted, tp_loading := False\<rparr>)
      | None \<Rightarrow> tp\<lparr>tp_loading := False\<rparr>)"

definition track_search :: "string \<Rightarrow> track_page \<Rightarrow> track_page" where
  "track_search s tp = tp\<lparr>tp_search := s\<rparr>"

text \<open>The rank column: a trophy for the first three rows, \<open>#n\<close> after.\<close>

datatype rank = Trophy | RankNo string

definition rank_label :: "nat \<Rightarrow> rank" where
  "rank_label idx = (if idx < 3 then Trophy else RankNo (''#'' @ nat_str (idx + 1)))"

text \<open>A row of the table: rank, name, points, level, games and chats
  (\<open>gamesPlayed || 0\<close>, \<open>chatMessages || 0\<close>).\<close>

definition track_table :: "track_page \<Rightarrow> (rank \<times> string \<times> int \<times> level \<times> int \<times> int) list" where
  "track_table tp =
     map (\<lambda>(i, (u, l)). (rank_label i, u_name u, pf_points (u_profile u), l,
                        pf_gamesPlayed (u_profile u), pf_chatMessages (u_profile u)))
       (enumerate 0 (leaderboard (tp_search tp) (tp_users tp)))"

text \<open>The summary card: users, active today, and the three totals.\<close>

definition track_summary :: "track_page \<Rightarrow> nat \<times> nat \<times> int \<times> int \<times> int" where
  "track_summary tp =
     (length (tp_users tp), active_today (tp_today tp), total_points (tp_users tp),
      sum_list (map (\<lambda>u. pf_gamesPlayed (u_profile u)) (tp_users tp)),
      sum_list (map (\<lambda>u. pf_chatMessages (u_profile u)) (tp_users tp)))"

fun level_color :: "level \<Rightarrow> string" where
  "level_color Gold = ''#FFD700''"
| "level_color Silver = ''#C0C0C0''"
| "level_color Bronze = ''#CD7F32''"
| "level_color Newbie = ''#A9A9A9''"

subsection \<open>Facts\<close>

text \<open>After a load, the bar chart's rows name the users in the table's order,
  highest total first.\<close>

lemma track_today_order:
  "map pr_name (tp_today (track_loaded now (Some us) tp)) = map u_name (sort_by_points us) \<and>
   sorted (map (\<lambda>u. - pf_points (u_profile u)) (tp_users (track_loaded now (Some us) tp)))"
  by (simp add: track_loaded_def today_progress_def today_row_def spread_profile_def comp_def
      sort_by_points_def Let_def)

text \<open>The table has at most ten rows, trophies exactly on the first three.\<close>

lemma track_table_ranks:
  "length (track_table tp) \<le> 10 \<and>
   (\<forall>i<length (track_table tp). (fst (track_table tp ! i) = Trophy) = (i < 3))"
  by (simp add: track_table_def leaderboard_def rank_label_def nth_enumerate_eq)

text \<open>A failed load shows the empty table and an empty chart.\<close>

lemma track_load_error:
  "track_table (track_loaded now None track_init) = [] \<and> tp_today (track_loaded now None track_init) = []"
  by (simp add: track_loaded_def track_init_def track_table_def leaderboard_def sort_by_points_def
      track_filtered_users_def)

end
