(* ===== verification/AuthForms.thy ===== *)
theory AuthForms
  imports AuthPages
begin

text \<open>
  The forms of the sign-in pages around their submit handlers (which are in
  \<open>AuthPages\<close>): the field handlers, the spinner that replaces the page while
  a request is in flight, the password field with its show/hide button, the
  Google button's error, and the links between the pages. The user login page's
  "Login Here" button for caretakers removes \<open>caretakerToken\<close> and
  \<open>caretaker\<close>, keys that no page writes, so a user's session survives it.
\<close>

datatype auth_field = FName | FEmail | FPassword

text \<open>\<open>onChange={(e) => setX(e.target.value)}\<close> of the three inputs.\<close>

definition auth_change :: "auth_field \<Rightarrow> string \<Rightarrow> auth_page \<Rightarrow> auth_page" where
  "auth_change f v pg =
     (case f of FName \<Rightarrow> pg\<lparr>ap_name := v\<rparr> | FEmail \<Rightarrow> pg\<lparr>ap_email := v\<rparr> | FPassword \<Rightarrow> pg\<lparr>ap_password := v\<rparr>)"

datatype auth_view = AuthSpinner | AuthForm string string   \<comment> \<open>the password input's type and the button's label\<close>

text \<open>\<open>if (isLoading) return <Mosaic .../>\<close>, else the form, whose password
  input is of type \<open>text\<close> while shown.\<close>

definition auth_view :: "auth_page \<Rightarrow> auth_view" where
  "auth_view pg =
     (if ap_loading pg then AuthSpinner
      else AuthForm (if ap_showPassword pg then ''text'' else ''password'')
                    (if ap_showPassword pg then ''Hide password'' else ''Show password''))"

text \<open>\<open>onError={() => toast.error("Google Login Failed")}\<close>.\<close>

definition google_error :: "auth_page \<Rightarrow> auth_page" where
  "google_error pg = pg\<lparr>ap_toasts := ap_toasts pg @ [ToastErr ''Google Login Failed'']\<rparr>"

text \<open>The links: "Sign Up" (\<open>/register\<close>) and "Login Here"
  (\<open>/caretaker-login\<close>, after removing two keys the storage model does not have).\<close>

definition signup_link :: "auth_page \<Rightarrow> auth_page" where
  "signup_link pg = pg\<lparr>ap_nav := ap_nav pg @ [''/register'']\<rparr>"

definition caretaker_link :: "auth_page \<Rightarrow> auth_page" where
  "caretaker_link pg = pg\<lparr>ap_nav := ap_nav pg @ [''/caretaker-login'']\<rparr>"

subsection \<open>Facts\<close>

text \<open>The spinner is shown from the submit until the reply is handled, whatever
  the reply.\<close>

lemma spinner_while_pending:
  "auth_view (auth_submit pg) = AuthSpinner \<and>
   auth_view (login_reply enc uj r pg) \<noteq> AuthSpinner \<and>
   auth_view (register_reply r pg) \<noteq> AuthSpinner \<and>
   auth_view (caretaker_login_reply enc cj q pg) \<noteq> AuthSpinner"
  by (simp add: auth_view_def auth_submit_def login_reply_def register_reply_def caretaker_login_reply_def
      Let_def split: reply.splits care_reply.splits)

lemma toggle_password_view:
  "\<not> ap_loading pg \<Longrightarrow>
   auth_view (toggle_password pg) =
     (if ap_showPassword pg then AuthForm ''password'' ''Show password'' else AuthForm ''text'' ''Hide password'')"
  by (simp add: auth_view_def toggle_password_def)

text \<open>A user who follows "Login Here" keeps the session, and the caretaker login
  page, which redirects only a caretaker's session, shows its form.\<close>

lemma caretaker_link_keeps_session:
  assumes "ls_userType (ap_ls pg) = Some ''user''"
  shows "ap_ls (caretaker_link pg) = ap_ls pg \<and> mount_redirect (ap_ls (caretaker_link pg)) PCaretakerLogin = None"
  using assms by (simp add: caretaker_link_def mount_redirect_def)

end
