(* ===== verification/SmtpMail.thy ===== *)
theory SmtpMail
  imports Games
begin

text \<open>
  The SMTP mailer \<open>routes/utils/emailService.js\<close>: a transport is created only
  when the four \<open>SMTP_*\<close> variables are set, secure exactly on port 465; without
  it \<open>sendMail\<close> only logs the mail and reports \<open>{ fallback: true }\<close>. No module
  of the server imports this file (the account controller mails through
  \<open>config/emailservice.js\<close>, \<open>Services.send_mail\<close>), so it is modelled on its own.
  \<open>Number(s)\<close> of the port is read for strings of digits; any other string is
  \<open>NaN\<close>, which is not 465.
\<close>

record smtp_env =
  se_host :: "string option"
  se_port :: "string option"
  se_user :: "string option"
  se_pass :: "string option"
  se_from :: "string option"

definition port_number :: "string \<Rightarrow> int option" where
  "port_number s = (if s \<noteq> [] \<and> list_all is_digit s then Some (int (digits_nat s)) else None)"

record transport =
  tr_host :: string
  tr_port :: "int option"          \<comment> \<open>\<open>None\<close>: \<open>NaN\<close>\<close>
  tr_secure :: bool
  tr_user :: string
  tr_pass :: string

definition smtp_transport :: "smtp_env \<Rightarrow> transport option" where
  "smtp_transport e =
     (if opt_truthy (se_host e) \<and> opt_truthy (se_port e) \<and> opt_truthy (se_user e) \<and> opt_truthy (se_pass e)
      then Some \<lparr>tr_host = the (se_host e), tr_port = port_number (the (se_port e)),
                 tr_secure = (port_number (the (se_port e)) = Some 465),
                 tr_user = the (se_user e), tr_pass = the (se_pass e)\<rparr>
      else None)"

definition from_email :: "smtp_env \<Rightarrow> string" where
  "from_email e = (case se_from e of Some f \<Rightarrow> if f = [] then ''no-reply@example.com'' else f
                   | None \<Rightarrow> ''no-reply@example.com'')"

datatype smtp_result = SmtpSent transport string string   \<comment> \<open>transport, from, to\<close>
  | SmtpFallback                                        \<comment> \<open>logged to the console\<close>

definition smtp_sendMail :: "smtp_env \<Rightarrow> string \<Rightarrow> smtp_result" where
  "smtp_sendMail e to = (case smtp_transport e of Some t \<Rightarrow> SmtpSent t (from_email e) to | None \<Rightarrow> SmtpFallback)"

subsection \<open>Facts\<close>

lemma smtp_fallback_iff:
  "smtp_sendMail e to = SmtpFallback \<longleftrightarrow>
   \<not> (opt_truthy (se_host e) \<and> opt_truthy (se_port e) \<and> opt_truthy (se_user e) \<and> opt_truthy (se_pass e))"
  by (simp add: smtp_sendMail_def smtp_transport_def split: option.splits)

text \<open>Port \<open>"465"\<close> gives a secure transport; a port that is not a number
  gives an insecure one.\<close>

lemma smtp_secure_465:
  assumes "smtp_transport e = Some t"
  shows "(se_port e = Some ''465'' \<longrightarrow> tr_secure t) \<and> (tr_port t = None \<longrightarrow> \<not> tr_secure t)"
  using assms by (auto simp: smtp_transport_def port_number_def is_digit_def digits_nat_def digit_val_def
      split: if_splits)

end
