(* ===== verification/LayoutNav.thy ===== *)
theory LayoutNav
  imports Routing
begin

text \<open>
  The user's frame \<open>Component/Layout.jsx\<close>, which \<open>App.jsx\<close> renders around
  every protected user page: the links of its top bar (the brand and six links)
  and of its bottom bar on phones. Composed with the router
  (\<open>Routing.app_route\<close>), every link of a user's session shows its page at once.
\<close>

definition layout_links :: "string list" where
  "layout_links = [''/home'', ''/games'', ''/chat'', ''/call'', ''/contact'', ''/settings'', ''/profile'']"

definition mobile_links :: "string list" where
  "mobile_links = [''/home'', ''/games'', ''/chat'', ''/call'', ''/profile'']"

definition user_session :: "storage \<Rightarrow> bool" where
  "user_session ls \<longleftrightarrow> opt_truthy (ls_token ls) \<and> ls_userType ls = Some ''user''"

subsection \<open>Facts\<close>

lemma mobile_links_sub: "set mobile_links \<subseteq> set layout_links"
  by (simp add: mobile_links_def layout_links_def)

lemma layout_links_render:
  assumes "user_session ls" and "l \<in> set layout_links"
  shows "\<exists>pg. map_of user_pages l = Some pg \<and> settle 1 ls l = Some pg"
  using assms
  by (auto simp: user_session_def layout_links_def user_pages_def app_route_def protected_route_def
      mount_redirect_def play_param_def)

text \<open>Without a session every link leads to the user login page.\<close>

lemma layout_links_logged_out:
  assumes "\<not> opt_truthy (ls_token ls)" and "l \<in> set layout_links"
  shows "app_route ls l = NavigateTo ''/login''"
  using assms by (auto simp: layout_links_def user_pages_def app_route_def protected_route_def)

end
