(* ===== verification/Spec2Isabelle.thy ===== *)
theory Spec2Isabelle
  imports RelayInv ClientChat CareChat Accounts Routing Games CaretakerPages CaretakerSettingsPage Services UserPages GamesPage AuthRoutes AuthPages CallPage ThemeSettings ChatViews CaretakerProfilePage GameCards ProfileView SettingsPanels TrackPage AuthForms SmtpMail LayoutNav
begin

text \<open>
  \<^bold>\<open>MindMate: the chat relay, accounts, caretakers, games and the client.\<close>

  MindMate is a web application (an Express/Socket.IO backend under
  \<open>src/Backend\<close>, a React client under \<open>src/Frontend\<close>). Its one subsystem with
  concurrency and ordering concerns is the chat relay: a browser connects a
  Socket.IO socket carrying a session token; the gateway (\<open>io.use\<close> in
  \<open>server.js\<close>) verifies the token and the connection handler joins the socket to
  the room named by the user's id; a \<open>send_message\<close> event is checked, written to
  the MongoDB store (\<open>Chat.create\<close>, \<open>models/Chat.model.js\<close>) and re-emitted
  as \<open>receive_message\<close> to the receiver's room and to the sender's room; the REST
  routes (\<open>controllers/chat.controller.js\<close>, \<open>routes/chat.route.js\<close>,
  \<open>routes/caretaker.chatRoutes.js\<close>, guarded by \<open>middleware/auth.js\<close>) list
  contacts, return a conversation's history and count interactions. Around it are
  the account service (\<open>auth.controller.js\<close>), the caretaker service
  (\<open>caretaker.controller.js\<close>), the games service (\<open>games.controller.js\<close>) and
  the client's pages, which talk to them through \<open>api.js\<close> and the socket.

  \<^bold>\<open>Theories.\<close>
  \<^item> \<open>Prelude\<close>: identities and rooms as strings; executable models of the
    JavaScript primitives the code relies on (\<open>trim\<close>, \<open>toLowerCase\<close> on Latin-1,
    truthiness, \<open>findIndex\<close>, \<open>includes\<close>, \<open>split\<close>, \<open>new Set\<close>, the
    move-to-front idiom of the chat pages) and of \<open>ObjectId.isValid\<close> (24
    hexadecimal digits) with its canonical lower-case form (the ASCII map, which is
    all \<open>toHexString\<close> needs).
  \<^item> \<open>Tokens\<close>: \<open>jwt.sign\<close>/\<open>jwt.verify\<close> of the \<open>jsonwebtoken\<close> library
    (not in the repository, modelled from its documented behaviour, the string
    encoding left as the parameter \<open>dec\<close>); the tokens issued by \<open>login\<close>,
    \<open>googleRegister\<close> (\<open>auth.controller.js\<close>) and \<open>generateAuthToken\<close>
    (\<open>Caretaker.model.js\<close>), with the secret as seen at module load
    (\<open>env_load\<close>) and at request time (\<open>env_run\<close>).
  \<^item> \<open>Gateway\<close>: \<open>io_auth\<close> (the \<open>io.use\<close> middleware), \<open>io_handshake\<close> (with
    the connection handler's \<open>socket.join\<close>), \<open>rest_auth\<close> (\<open>middleware/auth.js\<close>).
  \<^item> \<open>Store\<close>: the chat record and \<open>chat_create\<close>, Mongoose's casting and
    validation of a chat document.
  \<^item> \<open>History\<close>: \<open>getUsers\<close>, \<open>getMessages\<close>, \<open>rest_sendMessage\<close> and the
    interaction counters of both route files.
  \<^item> \<open>Relay\<close>: the relay state (sockets, store, writes in flight, continuations
    waiting, the log of emitted events) and \<open>relay_step\<close>, one function per event:
    a connection, a disconnection, the synchronous part of \<open>send_message\<close>
    (\<open>on_send_message\<close>), the store's acknowledgement or failure of a write
    (\<open>db_persist\<close>, \<open>db_fail\<close>), the continuation after \<open>await\<close>
    (\<open>deliver\<close>, the two \<open>io.to(...).emit\<close>), a REST send and a clock tick.
    \<open>reachable\<close> is the set of states of all runs: the interleaving of the three
    steps of concurrent sends is explicit, the scheduler choosing which pending
    write completes. \<open>relay_run\<close> executes a list of events.
  \<^item> \<open>RelayInv\<close>: the invariant \<open>relay_inv\<close> (socket ids distinct, each socket
    in exactly its own room, every record in the store or in flight well formed,
    unique, created no later than now, nothing delivered or awaiting delivery that
    is not stored) and its preservation by every event; admission of connected
    sockets; that a delivered message is never delivered again; the composition of
    one whole send.
  \<^item> \<open>ClientChat\<close>: the user's chat screen \<open>Pages/Chat.jsx\<close> as a state
    record (\<open>chat_client\<close>) and one function per handler: the
    \<open>receive_message\<close> handler (\<open>on_receive\<close>), the list and history loads, the
    optimistic send (\<open>send_to_socket\<close>, \<open>handle_send\<close>), the AI assistant turn,
    the sidebar clicks and the pane rendering (\<open>pane_of\<close>). React's effects are
    modelled by identity counters of their dependencies: \<open>commit\<close> runs the
    socket effect when the caretaker list was replaced and the history effect when
    the open conversation was; requests and socket operations are the output list
    \<open>cl_out\<close>. \<open>client_step\<close> dispatches the events.
  \<^item> \<open>CareChat\<close>: the caretaker's chat screen \<open>Adminpages/CaretakerChat.jsx\<close>
    in the same style (\<open>care_chat\<close>, \<open>cc_step\<close>); its socket effect has no
    dependencies, and \<open>cc_run_keeps_socket\<close> shows that no event but the unmount
    closes the connection.
  \<^item> \<open>Accounts\<close>: the handlers of \<open>auth.controller.js\<close> over the User and Otp
    collections (\<open>models/User.model.js\<close>, \<open>models/Otp.model.js\<close>): registration,
    Google sign-up, login with its counters, password change, profile and settings
    updates, the OTP flows for password reset and e-mail change, the TTL sweep, and
    the chat points update of \<open>chat.controller.js\<close>. The privacy handlers take
    \<open>req.user\<close> (\<open>req_user\<close>: id and e-mail of the document the middleware
    loaded, a user's or a caretaker's), which \<open>AuthRoutes.req_doc\<close> looks up as
    \<open>middleware/auth.js\<close> does; \<open>acc_step\<close> and
    \<open>acc_reachable\<close> make it a transition system with the invariant \<open>acc_inv\<close>.
  \<^item> \<open>Routing\<close>: the client's session keys in \<open>localStorage\<close>, the route
    guards (\<open>ProtectedRoute\<close>, \<open>PublicRoute\<close>), the route table of \<open>App.jsx\<close>,
    the login pages' redirects and session writers, and \<open>settle\<close>, which follows
    navigations with fuel.
  \<^item> \<open>Games\<close>: the game document, \<open>getAllGames\<close>, \<open>getGameById\<close> and
    \<open>playGame\<close> with its points arithmetic (numbers as rationals), the play route
    behind the middleware, the play page \<open>Pages/GamePlay.jsx\<close> (send once, go
    back, unmount, beacon) and the catalogue filter of \<open>Pages/Games.jsx\<close>.
  \<^item> \<open>Caretakers\<close>: the Caretaker document, \<open>comparePassword\<close> and the save hook
    of \<open>models/Caretaker.model.js\<close>, every handler of \<open>caretaker.controller.js\<close>
    and \<open>care_route\<close>, the router of \<open>caretaker.route.js\<close>; \<open>assignments\<close> is
    the abstract (caretaker, patient) relation and \<open>care_wf\<close> the well-formedness
    of the references; \<open>care_typed\<close> is the schema's typing of the
    collection (well-formed references, unique ids and e-mails, a password on
    every document), preserved by every state-changing handler.
  \<^item> \<open>CaretakerPages\<close>: \<open>Adminpages/CaretakerTrackprogress.jsx\<close> (leaderboard,
    level chart, today's progress) and \<open>Adminpages/CaretakerProfile.jsx\<close>
    (statistics, today's counts, completed and pending sessions, pager, badge,
    initials) as functions of the replies they read.
  \<^item> \<open>CaretakerSettingsPage\<close>: \<open>Adminpages/CaretakerSettings.jsx\<close>, its state,
    token check, load, and the handlers split at their \<open>await\<close>.
  \<^item> \<open>Services\<close>: what \<open>server.js\<close> defines itself: the Brevo mail helper and
    the contact route, the daily reminder job, and the Gemini endpoint
    \<open>POST /api/chat\<close> behind the \<open>/api/chat\<close> mount (\<open>ai_route\<close>), with the
    external services as outcomes.
  \<^item> \<open>AuthRoutes\<close>: the account router \<open>routes/auth.route.js\<close>
    (\<open>auth_route\<close>), which maps each route to an event of \<open>acc_step\<close> behind
    the HTTP middleware; the controller's \<open>logout\<close>, which no route reaches.
  \<^item> \<open>AuthPages\<close>: the sign-in pages \<open>Pages/Login.jsx\<close>,
    \<open>Pages/Register.jsx\<close> and \<open>Adminpages/CaretakerLogin.jsx\<close> (form, spinner,
    toasts, navigations, storage) with the response interceptor of \<open>api.js\<close>,
    each submit composed with its server route (\<open>login_flow\<close>,
    \<open>register_flow\<close>, \<open>caretaker_login_flow\<close>).
  \<^item> \<open>CallPage\<close>: \<open>Pages/Callcaretaker.jsx\<close>: the caretaker list, the
    availability test, the voice and emergency calls with the call log (posted to
    a path no router serves), and the \<open>Message\<close> button, composed with the chat
    screen's preselection (\<open>message_opens_conversation\<close>), and the
    caretaker cards with their voice call button.
  \<^item> \<open>ThemeSettings\<close>: the theme context \<open>Context/ThemeContext.jsx\<close>
    (preferences read from and saved to \<open>localStorage\<close>, body classes) and the
    appearance and privacy controls of the settings page that drive it.
  \<^item> \<open>GamesPage\<close>: the rest of \<open>Pages/Games.jsx\<close>: its state, the catalogue
    load, what the page shows, the details panel and the \<open>Play Now\<close> link,
    with the decimal printing of the numeric id (\<open>nat_str\<close>, \<open>int_str\<close>) and
    its round trip through the server's cast.
  \<^item> \<open>UserPages\<close>: the user's profile page \<open>Pages/Profile.jsx\<close> (loaded
    profile and interaction counts, today's counts, page reset and paging, badge,
    level and progress bar, avatar letter) and the contact page
    \<open>Pages/Contact.jsx\<close> (mount, change, submit and reply, and
    \<open>contact_roundtrip\<close>, the submit answered by the contact route).
  \<^item> \<open>ChatViews\<close>: the sidebars of \<open>Pages/Chat.jsx\<close> and
    \<open>Adminpages/CaretakerChat.jsx\<close> (each entry's avatar name, lines,
    highlight and "New" badge, the assistant's entry, the item styles) and the
    caretaker screen's conversation header, message bubbles and input bar, as
    functions of the screens' state (the send button is disabled exactly when a
    submit would do nothing, \<open>cc_disabled_send_noop\<close>);
    with the click handlers, a click on a listed user puts its entry on top with
    the badge cleared and highlights exactly that entry (\<open>cc_click_highlight\<close>).
  \<^item> \<open>CaretakerProfilePage\<close>: the rest of
    \<open>Adminpages/CaretakerProfile.jsx\<close>: the request for the ids chatted today
    composed with its route in \<open>routes/caretaker.chatRoutes.js\<close>
    (\<open>patient_completed_iff\<close>: a patient is marked completed exactly when a
    message was exchanged with them since midnight; a failed request marks all
    pending), the statistics cards, the header card, the activity tabs and the
    pager's window.
  \<^item> \<open>GameCards\<close>: what \<open>Pages/Games.jsx\<close> draws: category buttons, accent
    colour, cards (image, category, shortened description, stars) and the
    details panel, with a game's JSON read by key (\<open>game_field\<close>); the page
    reads \<open>imageurl\<close> where the schema has \<open>imageUrl\<close>, so no image is ever
    drawn (\<open>card_image_placeholder\<close>).
  \<^item> \<open>ProfileView\<close>: what \<open>Pages/Profile.jsx\<close> draws: the header's counters,
    the progress row, the overview cards, the activity rows and the pager's
    buttons, whose \<open>slice\<close> formula agrees with the caretaker page's \<open>filter\<close>
    (\<open>page_windows_agree\<close>); every pager button keeps the page in range
    (\<open>profile_pager_in_range\<close>).
  \<^item> \<open>SettingsPanels\<close>: the tabs, sidebars and panels of
    \<open>Adminpages/CaretakerSettings.jsx\<close>: the profile panel's avatar and Revert
    button (which cannot undo a picked photo, \<open>revert_keeps_picked_photo\<close>)
    and the four forms of the privacy panel, with the remaining input handlers.
  \<^item> \<open>TrackPage\<close>: \<open>Adminpages/CaretakerTrackprogress.jsx\<close> as a whole: its
    state, the load (sorted in place, so the chart follows the table's order,
    \<open>track_today_order\<close>), the table's rank column and the summary card.
  \<^item> \<open>AuthForms\<close>: the forms of the sign-in pages around their submits: field
    handlers, the spinner shown exactly while a request is pending
    (\<open>spinner_while_pending\<close>), the password toggle, the Google error and the
    links (a user's session survives the caretaker link).
  \<^item> \<open>SmtpMail\<close>: the SMTP mailer \<open>routes/utils/emailService.js\<close>, which no
    module imports: the transport exists only with the four \<open>SMTP_*\<close>
    variables, otherwise mail is only logged.
  \<^item> \<open>LayoutNav\<close>: the links of the user's frame \<open>Component/Layout.jsx\<close>,
    each of which shows its page at once in a user's session
    (\<open>layout_links_render\<close>).
  \<^item> this theory: the properties of the program, stated over the components,
    with the example states their witnesses run on.

  \<^bold>\<open>What the properties show.\<close> C1 to C9 are about the relay: every reachable
  state satisfies the invariant's user-facing part; a connected socket was admitted
  by a successful handshake; an empty or white-space body is dropped without any
  effect; a valid send is stored with the sender's identity, the canonical receiver,
  the lower-cased type and the verbatim body, then emitted to every socket of both
  rooms; every connection of the recipient receives it; a message to oneself is
  delivered twice to each of the sender's connections; a receiver written in upper
  case is stored for the recipient but never delivered to them; from any reachable
  state, two sends on one socket are stored in the order the store acknowledges
  them, which the scheduler picks (\<open>EPersist\<close> names the write that completes),
  so the later message can be stored first (C8); and a delivered message
  is never delivered later (no mailbox). C10 to C12 are about tokens: with the
  secret only in \<open>.env\<close>, login tokens are signed with the fallback key and
  rejected; a login token is valid for exactly one day; without the secret every
  request is rejected. C13, C15 and C16 are about the history service and its readers: a
  conversation fetch returns exactly the conversation in store order; the generic
  interaction counter counts messages rather than counterparts, and agrees with the
  partner count exactly when no counterpart has two messages; the loaded
  track-progress page shows total points as today's (C16). C17: a failed caretaker login is taken
  by the client's interceptor for an expired session and lands on the user's login
  page. C18: no request of the account router revokes a session;
  \<open>logout\<close> is not routed, and a password change or reset leaves
  earlier tokens valid. C19 joins the relay and the history: a message sent on a
  socket is in the receiver's history. C20, C22, C23 and C25 are about the chat
  screens: a received message is appended to the open conversation whoever sent
  it; a message from a caretaker closes and reopens the socket; the caretaker's
  settings page saves the profile through a user endpoint that changes nothing
  while reporting success (C23); a submit sends, or without a socket silently
  drops the input. C21 shows that every caretaker route keeps the caretaker
  collection typed as its schema says. C26 joins the account handlers and the
  profile page: a login shows as one more login and two points today, a chat
  message as nothing, because the server records it as \<open>message_sent\<close>
  while the page counts \<open>chat\<close>. C14 shows that the play page, opened
  without the catalogue's state, shows no game but still reports a play that the
  server rewards. C24 follows a play from the catalogue's link to the server: the
  printed id is cast back to the same game, and the difficulty the play page sends
  is the one the server would derive. C27 to C31 are about accounts:
  \<open>googleRegister\<close> hands out a token for any existing e-mail; e-mails stay
  unique; an OTP reset succeeds exactly with the latest unexpired unused code,
  consumes it and sets the caller's password, and changes nothing when it fails
  (for a caretaker's \<open>req.user\<close> the success changes no account,
  \<open>Accounts.caretaker_reset_noop\<close>); earlier codes stay valid after a new one is sent; a Google account's
  password login fails with 500; and, crossing the chat screen, the server and
  Gemini, the assistant fails from its second turn on because the screen's
  \<open>assistant\<close> role is forwarded to a model that accepts only \<open>user\<close> and
  \<open>model\<close> (C32). C33 and C34 are
  about navigation: after Google sign-up on the registration page \<open>/home\<close>
  redirects to itself forever, while a consistent session settles within three
  navigations. C35 and C36 are about games: the points of a play and their bounds,
  and the play page reporting a play once (its tab-close beacon is always
  rejected). C37 to C40 are about caretakers: the caretaker list discloses stored
  passwords that log in as the caretaker; \<open>assignPatient\<close> refines insertion into
  the assignment relation; the level chart agrees with the leaderboard's badges;
  the profile page's pager covers every activity exactly once.

  \<^bold>\<open>Bounds and time.\<close> Every operation is a total function and the relay's
  non-termination (it runs forever) is modelled by runs of any length. The one
  loop that need not end is the router following redirects: \<open>settle\<close> takes fuel
  and returns \<open>None\<close> when it runs out; three steps are enough for a consistent
  session (C34), since a redirect only leads to a login or home page, and no fuel
  is enough for the loop of C33. Time is a natural number of seconds;
  \<open>jwt.verify\<close> rejects a token once the clock reaches its \<open>exp\<close>; an OTP expires
  900 seconds after it is issued; a day is 86400 seconds (UTC). Account ids are the
  counter written as 24 hexadecimal digits; they are distinct while fewer than
  \<open>16^24\<close> accounts are created, the bound of C28. JavaScript numbers in game
  requests are rationals, with \<open>Math.round\<close> as \<open>floor (x + 1/2)\<close>.

  \<^bold>\<open>Not modelled.\<close> Socket.IO's automatic per-socket room (named by the random
  socket id, which no valid receiver can equal); payload values that are not
  strings; characters beyond Latin-1 (a character is a UTF-16 code unit below 256,
  on which \<open>toLowerCase\<close> is exact);
  binary floating point; the browser's time zone; the AI model, e-mail delivery and
  push notifications (external services, represented by their outcomes; the
  scheduling of the daily job is not modelled, one run of it is); bcrypt (an ideal
  hash); the interleaving inside
  one account or caretaker handler (each is atomic here); the module
  \<open>middleware/verifyToken.js\<close>, which \<open>auth.route.js\<close> imports but the repository
  does not contain, and the three modules \<open>App.jsx\<close> imports that are missing
  (\<open>Pages/Settings\<close>, \<open>Component/CaretakerLayout\<close>,
  \<open>Adminpages/CaretakerContact\<close>); the React rendering beyond the panes,
  sidebars, cards, charts, forms and counters named above (styling, layout and
  static text); the presentational pages (home, hero sections, animation and
  not-found pages), which hold no data of the program; the HTML
  \<open>required\<close> check of the contact form (the browser's, not the page's);
  \<open>ObjectId.isValid\<close> on 12-character strings, which some versions of the
  \<open>bson\<close> library also accept (the repository pins no version); the whole-document
  validation of \<open>caretaker.save()\<close> in \<open>assignPatient\<close>, which the typed
  caretaker records of the model always pass.
\<close>

subsection \<open>Fixtures for the witnesses\<close>

definition cfg0 :: config where
  "cfg0 = \<lparr>env_load = Some ''s3cret'', env_run = Some ''s3cret''\<rparr>"

definition u1 :: oid where "u1 = ''aaaaaaaaaaaaaaaaaaaaaaa1''"
definition u2 :: oid where "u2 = ''aaaaaaaaaaaaaaaaaaaaaaa2''"

definition dec0 :: jwt_codec where
  "dec0 = [''t1'' \<mapsto> login_token cfg0 u1 0, ''t2'' \<mapsto> login_token cfg0 u2 0]"

definition dir0 :: directory where
  "dir0 = \<lparr>dir_users = [u1, u2], dir_caretakers = []\<rparr>"

definition msg_to :: "oid \<Rightarrow> string \<Rightarrow> send_payload" where
  "msg_to r m = \<lparr>p_receiver = Some r, p_receiverType = Some ''User'', p_message = Some m\<rparr>"

text \<open>Two connections of \<open>u2\<close> and one of \<open>u1\<close>; \<open>u1\<close> sends ''hello''.\<close>

definition conn3 :: "event list" where
  "conn3 = [EConnect 1 (Some ''t1''), EConnect 2 (Some ''t2''), EConnect 3 (Some ''t2'')]"

definition run1 :: "event list" where
  "run1 = conn3 @ [ESend 1 (msg_to u2 ''hello''), EPersist 0]"

definition st0 :: relay where
  "st0 = relay_run cfg0 dec0 dir0 (relay_init 5) conn3"

definition stp :: relay where
  "stp = relay_run cfg0 dec0 dir0 (relay_init 5) run1"

definition chat0 :: chat where
  "chat0 = \<lparr>chat_id = 0, chat_sender = u1, chat_receiver = u2, chat_receiverType = ''user'',
     chat_message = ''hello'', chat_createdAt = 5\<rparr>"

text \<open>\<open>u1\<close> sends a note to itself.\<close>

definition st_self :: relay where
  "st_self = relay_run cfg0 dec0 dir0 (relay_init 5)
     [EConnect 1 (Some ''t1''), ESend 1 (msg_to u1 ''note''), EPersist 0]"

text \<open>The secret comes from a \<open>.env\<close> file only: unset when auth.controller.js
  is evaluated, set at request time.\<close>

definition cfg_dotenv :: config where
  "cfg_dotenv = \<lparr>env_load = None, env_run = Some ''prod-secret''\<rparr>"

definition dec_dotenv :: jwt_codec where
  "dec_dotenv = [''tk'' \<mapsto> login_token cfg_dotenv u1 0]"

definition cfg_unset :: config where
  "cfg_unset = \<lparr>env_load = None, env_run = None\<rparr>"

definition st1 :: relay where
  "st1 = relay_run cfg0 dec0 dir0 (relay_init 5) (run1 @ [EAck 0])"

definition u2_upper :: string where "u2_upper = ''AAAAAAAAAAAAAAAAAAAAAAA2''"

definition run_order :: "event list" where
  "run_order = [EConnect 1 (Some ''t1''), ESend 1 (msg_to u2 ''first''), ESend 1 (msg_to u2 ''second''),
                EPersist 1, EPersist 0]"

definition u3 :: oid where "u3 = ''aaaaaaaaaaaaaaaaaaaaaaa3''"

definition hist :: "chat list" where
  "hist = [chat0,
     \<lparr>chat_id = 1, chat_sender = u2, chat_receiver = u1, chat_receiverType = ''user'',
      chat_message = ''hi back'', chat_createdAt = 90000\<rparr>,
     \<lparr>chat_id = 2, chat_sender = u1, chat_receiver = u3, chat_receiverType = ''user'',
      chat_message = ''other'', chat_createdAt = 90001\<rparr>,
     \<lparr>chat_id = 3, chat_sender = u1, chat_receiver = u2, chat_receiverType = ''user'',
      chat_message = ''again'', chat_createdAt = 90002\<rparr>]"

definition ctU2 :: contact where
  "ctU2 = \<lparr>ct_id = u2, ct_name = Some ''Bob'', ct_email = Some ''bob@mail.io'', ct_role = None,
     ct_kind = KUser, ct_hasNewMsg = False, ct_lastMessageTime = None\<rparr>"

definition ctC3 :: contact where
  "ctC3 = \<lparr>ct_id = u3, ct_name = Some ''Carol'', ct_email = Some ''carol@mail.io'', ct_role = Some ''Nurse'',
     ct_kind = KCaretaker, ct_hasNewMsg = False, ct_lastMessageTime = None\<rparr>"

text \<open>The chat screen of \<open>u1\<close>: mounted with a token, lists loaded, the
  conversation with \<open>u2\<close> opened and its history (\<open>chat0\<close>) loaded.\<close>

definition clA :: chat_client where
  "clA = client_step (chat_mount (Some u1) (Some ''t1'') None False 100) (CListsLoaded [ctU2] [ctC3])"

definition clC :: chat_client where
  "clC = client_step (client_step clA (CClickUser u2)) (CMessagesLoaded 2 [chat0])"

definition c3msg :: chat where
  "c3msg = \<lparr>chat_id = 9, chat_sender = u3, chat_receiver = u1, chat_receiverType = ''user'',
      chat_message = ''from carol'', chat_createdAt = 120\<rparr>"

text \<open>The same screen without a stored token.\<close>

definition clN :: chat_client where
  "clN = client_run (chat_mount (Some u1) None None False 100)
     [CListsLoaded [ctU2] [ctC3], CClickUser u2, CMessagesLoaded 2 [chat0], CType ''hi'']"

lemmas client_fixture_defs = ctU2_def ctC3_def clA_def clC_def c3msg_def clN_def client_run_def
  chat_mount_def socket_effect_def load_effect_def client_defs filtered_users_def
  sidebar_visible_def chat_area_visible_def js_includes_def chat_view_def pane_of_def
  clear_new_def mark_new_def

text \<open>The account store: Bob registered with a password at time 1000; then a
  password OTP requested; a token codec that knows a Google token for Bob.\<close>

definition accA :: accounts where
  "accA = snd (register (Some ''Bob'') (Some ''bob@mail.io'') (Some ''hunter22'') (acc_init 1000))"

text \<open>Bob's \<open>req.user\<close>: his id and e-mail.\<close>

definition meB :: req_user where
  "meB = \<lparr>rq_id = fresh_oid 0, rq_email = ''bob@mail.io''\<rparr>"

definition accB :: accounts where
  "accB = snd (requestPasswordOtp (Some meB) ''111111'' True accA)"

definition decG :: jwt_codec where
  "decG = [''tg'' \<mapsto> google_token cfg0 (fresh_oid 0) 1000]"

lemmas acc_fixture_defs = accA_def accB_def meB_def decG_def register_def add_user_def new_user_def
  find_email_def find_user_def acc_init_def requestPasswordOtp_def add_otp_def
  send_mail_def latest_otp_def otp_match_def otp_ttl_def

text \<open>Browser storage: empty, and a caretaker's session.\<close>

definition ls0 :: storage where
  "ls0 = \<lparr>ls_token = None, ls_user = None, ls_userType = None\<rparr>"

definition lsC :: storage where
  "lsC = caretaker_login_store ''ct'' ''{}'' ls0"

text \<open>A play request body and the play page of game 7 opened at time 0.\<close>

definition pb1 :: play_body where
  "pb1 = \<lparr>pb_minutes = Some 3, pb_difficulty = Some (5 / 2), pb_title = None\<rparr>"

definition gp0 :: gameplay where
  "gp0 = gameplay_mount (Some ''7'')
     (Some \<lparr>gi_title = Some ''Memory'', gi_difficulty = Some ''6/10'', gi_link = ''https://g.io'',
            gi_startTime = 0\<rparr>) (Some ''tk'') 0"

text \<open>A catalogue game with the numeric id 7.\<close>

definition game7 :: game where
  "game7 = \<lparr>g_oid = ''bbbbbbbbbbbbbbbbbbbbbbb7'', g_id = 7, g_title = ''Memory'', g_rating = 4,
             g_description = ''Match the cards'', g_link = ''https://g.io'', g_category = ''Memory'',
             g_duration = ''10-15 mins'', g_difficulty = ''6/10'', g_imageUrl = [], g_howTo = None\<rparr>"

text \<open>A caretaker with a plain-text password, and a codec that knows a login
  token of Bob and a caretaker token.\<close>

definition cid1 :: oid where "cid1 = ''cccccccccccccccccccccccc''"

definition ct1 :: caretaker where
  "ct1 = \<lparr>cr_id = cid1, cr_num = 1, cr_name = ''Ann'', cr_role = None, cr_status = ''Available'',
          cr_phone = ''555'', cr_specialties = [], cr_initials = None, cr_rating = 0, cr_experience = None,
          cr_patients = [], cr_email = ''ann@care.io'', cr_photo = None, cr_password = Some ''ann-pass'',
          cr_profile = default_care_profile, cr_settings = default_settings\<rparr>"

definition decU :: jwt_codec where
  "decU = [''tu'' \<mapsto> login_token cfg0 (fresh_oid 0) 1000, ''tc'' \<mapsto> caretaker_token cfg0 cid1 1000]"

lemmas fixture_defs = cfg0_def u1_def u2_def dec0_def dir0_def msg_to_def run1_def conn3_def
  u3_def hist_def u2_upper_def run_order_def st0_def stp_def chat0_def st_self_def cfg_dotenv_def dec_dotenv_def cfg_unset_def
  relay_init_def io_handshake_def io_auth_def jwt_verify_def token_defs js_or_opt_def
  on_send_message_def send_guard_def chat_create_def chat_errors_def receiver_type_enum_def
  db_persist_def deliver_def remove_at_def io_emit_def js_simps char_of_def bit_simps

subsection \<open>The relay\<close>

text \<open>C1. In every reachable state, every \<open>receive_message\<close> event that was
  emitted carries a message that is in the store, and every stored message is well
  formed (canonical sender and receiver ids, a \<open>receiverType\<close> of the schema's
  enum, a non-empty body) and was created no later than now.\<close>

theorem delivered_only_if_persisted:
  assumes "reachable cfg dec dir st"
  shows "(\<forall>e\<in>set (r_log st). snd e \<in> set (r_chats st)) \<and>
         (\<forall>c\<in>set (r_chats st). chat_wf c \<and> chat_createdAt c \<le> r_now st)"
  using reachable_inv [OF assms] by (auto simp: relay_inv_def chats_ok_def all_chats_def)

theorem delivered_only_if_persisted_witness:
  "reachable cfg0 dec0 dir0 st1 \<and> length (r_log st1) = 3 \<and>
   set (map snd (r_log st1)) \<subseteq> set (r_chats st1) \<and>
   list_all (\<lambda>c. chat_wf c \<and> chat_createdAt c \<le> r_now st1) (r_chats st1)"
proof -
  have r: "reachable cfg0 dec0 dir0 st1" unfolding st1_def by (rule reachable_run)
  have l: "length (r_log st1) = 3" by (simp add: st1_def fixture_defs)
  show ?thesis using delivered_only_if_persisted [OF r] r l by (auto simp: list_all_iff)
qed

text \<open>C2. Every socket in a reachable state was admitted: at some time no later than
  now, the gateway's middleware accepted a token for it and set \<open>socket.userId\<close>
  to the socket's identity. A connection with a missing, invalid or expired token
  never subscribes to any room.\<close>

theorem connections_admitted:
  assumes "reachable cfg dec dir st" and "sk \<in> set (r_socks st)"
  shows "\<exists>t tok. t \<le> r_now st \<and> io_auth cfg dec t tok = Inr (sock_user sk)"
proof -
  from assms(1) have "socks_admitted cfg dec st"
  proof (induction rule: reachable.induct)
    case (init t)
    then show ?case by (simp add: socks_admitted_def relay_init_def)
  next
    case (step st e)
    from step.IH show ?case by (rule relay_step_admitted)
  qed
  with assms(2) show ?thesis by (auto simp: socks_admitted_def)
qed

theorem connections_admitted_witness:
  "reachable cfg0 dec0 dir0 st0 \<and>
   \<lparr>sock_id = 3, sock_user = Some u2, sock_rooms = [u2]\<rparr> \<in> set (r_socks st0) \<and>
   (\<exists>t tok. t \<le> r_now st0 \<and> io_auth cfg0 dec0 t tok = Inr (Some u2))"
proof -
  have r: "reachable cfg0 dec0 dir0 st0" unfolding st0_def by (rule reachable_run)
  have m: "\<lparr>sock_id = 3, sock_user = Some u2, sock_rooms = [u2]\<rparr> \<in> set (r_socks st0)"
    by (simp add: fixture_defs)
  show ?thesis using connections_admitted [OF r m] r m by simp
qed

text \<open>C3. A \<open>send_message\<close> event whose body is empty or white space only, or
  that has no receiver, is dropped: the state is unchanged, nothing is stored and
  nothing is emitted.\<close>

theorem blank_send_dropped:
  assumes "\<forall>ch\<in>set m. js_is_ws ch"
  shows "relay_step cfg dec dir st (ESend sid \<lparr>p_receiver = r, p_receiverType = t, p_message = Some m\<rparr>) = st \<and>
         relay_step cfg dec dir st (ESend sid \<lparr>p_receiver = None, p_receiverType = t, p_message = mo\<rparr>) = st"
proof -
  have "js_trim m = []" using assms by (simp add: js_trim_Nil_iff)
  then show ?thesis
    by (auto simp: on_send_message_def send_guard_def split: option.splits)
qed

theorem blank_send_dropped_witness:
  "list_all js_is_ws ''  '' \<and>
   relay_step cfg0 dec0 dir0 st0 (ESend 1 \<lparr>p_receiver = Some u2, p_receiverType = Some ''user'', p_message = Some ''  ''\<rparr>) = st0 \<and>
   relay_step cfg0 dec0 dir0 st0 (ESend 1 \<lparr>p_receiver = None, p_receiverType = Some ''user'', p_message = Some ''hi''\<rparr>) = st0"
proof -
  have w: "\<forall>ch\<in>set ''  ''. js_is_ws ch" by (simp add: js_is_ws_def)
  show ?thesis using blank_send_dropped [OF w, of cfg0 dec0 dir0 st0 1 "Some u2" "Some ''user''" "Some ''hi''"] w
    by (simp add: list_all_iff)
qed

text \<open>C4. A valid send from a connected socket (a receiver that is an ObjectId, a
  body that is not blank, a known \<open>receiverType\<close> in any case), once the store
  acknowledges it and the handler resumes, leaves exactly one new record in the
  store: the next id, the sender's canonical id, the receiver's canonical id, the
  lower-cased type, the body as sent and the current time; and emits it to every
  socket in the receiver's room and then to every socket in the sender's room.\<close>

theorem valid_send_stored_and_delivered:
  assumes "reachable cfg dec dir st" and "sk \<in> set (r_socks st)"
    and "r_inflight st = []" and "r_acked st = []"
    and "sock_user sk = Some u" and "is_valid_oid u" and "is_valid_oid r"
    and "js_trim m \<noteq> []" and "js_to_lower t \<in> set receiver_type_enum"
  shows "relay_run cfg dec dir st
      [ESend (sock_id sk) \<lparr>p_receiver = Some r, p_receiverType = Some t, p_message = Some m\<rparr>,
       EPersist 0, EAck 0] =
    (let c = \<lparr>chat_id = r_next st, chat_sender = oid_canon u, chat_receiver = oid_canon r,
               chat_receiverType = js_to_lower t, chat_message = m, chat_createdAt = r_now st\<rparr>
     in st\<lparr>r_next := Suc (r_next st), r_chats := r_chats st @ [c],
           r_log := r_log st @ io_emit (r_socks st) r c @ io_emit (r_socks st) u c\<rparr>)"
  using send_persist_ack_explicit [OF reachable_inv [OF assms(1)] assms(2-9)] .

theorem valid_send_stored_and_delivered_witness:
  "reachable cfg0 dec0 dir0 st0 \<and>
   r_log (relay_run cfg0 dec0 dir0 st0
     [ESend 1 \<lparr>p_receiver = Some u2, p_receiverType = Some ''User'', p_message = Some ''hello''\<rparr>,
      EPersist 0, EAck 0]) = [(2, chat0), (3, chat0), (1, chat0)]"
proof -
  have r: "reachable cfg0 dec0 dir0 st0" unfolding st0_def by (rule reachable_run)
  have sk: "\<lparr>sock_id = 1, sock_user = Some u1, sock_rooms = [u1]\<rparr> \<in> set (r_socks st0)"
    and i: "r_inflight st0 = []" "r_acked st0 = []"
    and v: "is_valid_oid u1" "is_valid_oid u2" "js_trim ''hello'' \<noteq> []"
      "js_to_lower ''User'' \<in> set receiver_type_enum"
    by (simp_all add: fixture_defs)
  have n: "r_next st0 = 0" "r_now st0 = 5" "r_log st0 = []" by (simp_all add: fixture_defs)
  have e: "io_emit (r_socks st0) u2 chat0 = [(2, chat0), (3, chat0)]"
    "io_emit (r_socks st0) u1 chat0 = [(1, chat0)]"
    by (simp_all add: fixture_defs)
  have c: "oid_canon u1 = u1" "oid_canon u2 = u2" "js_to_lower ''User'' = ''user''"
    by (simp_all add: fixture_defs)
  have u: "sock_user \<lparr>sock_id = 1, sock_user = Some u1, sock_rooms = [u1]\<rparr> = Some u1" by simp
  show ?thesis
    using valid_send_stored_and_delivered [OF r sk i u v] r n e c
    by (simp add: Let_def chat0_def)
qed

text \<open>C5. Fan-out: when the handler of a pending send resumes, every socket whose
  room is the receiver's room receives the event, however many connections that
  identity has open.\<close>

theorem every_connection_receives:
  assumes "reachable cfg dec dir st" and "i < length (r_acked st)"
    and "sk \<in> set (r_socks st)" and "js_string (sock_user sk) = pd_room (r_acked st ! i)"
  shows "(sock_id sk, pd_chat (r_acked st ! i)) \<in> set (r_log (deliver st i))"
proof -
  from reachable_inv [OF assms(1)] assms(3)
  have "sock_rooms sk = [js_string (sock_user sk)]" by (auto simp: relay_inv_def socks_ok_def)
  with assms(3,4) show ?thesis by (auto simp: deliver_def Let_def io_emit_mem)
qed

theorem every_connection_receives_witness:
  "reachable cfg0 dec0 dir0 stp \<and> r_acked stp \<noteq> [] \<and>
   (2, chat0) \<in> set (r_log (deliver stp 0)) \<and> (3, chat0) \<in> set (r_log (deliver stp 0))"
proof -
  have r: "reachable cfg0 dec0 dir0 stp" unfolding stp_def by (rule reachable_run)
  have i: "0 < length (r_acked stp)" by (simp add: fixture_defs)
  have s2: "\<lparr>sock_id = 2, sock_user = Some u2, sock_rooms = [u2]\<rparr> \<in> set (r_socks stp)"
    and s3: "\<lparr>sock_id = 3, sock_user = Some u2, sock_rooms = [u2]\<rparr> \<in> set (r_socks stp)"
    by (simp_all add: fixture_defs)
  have p: "pd_room (r_acked stp ! 0) = u2" "pd_chat (r_acked stp ! 0) = chat0"
    by (simp_all add: fixture_defs)
  show ?thesis
    using every_connection_receives [OF r i s2] every_connection_receives [OF r i s3] r i p
    by auto
qed

text \<open>C6. A message to oneself is delivered twice to each of the sender's
  connections: the receiver's room and the sender's room are the same room, and the
  handler emits to both.\<close>

theorem self_message_delivered_twice:
  assumes "reachable cfg dec dir st" and "i < length (r_acked st)"
    and "sk \<in> set (r_socks st)"
    and "pd_room (r_acked st ! i) = js_string (pd_user (r_acked st ! i))"
    and "sock_user sk = pd_user (r_acked st ! i)"
  shows "count_list (r_log (deliver st i)) (sock_id sk, pd_chat (r_acked st ! i)) =
         count_list (r_log st) (sock_id sk, pd_chat (r_acked st ! i)) + 2"
proof -
  from reachable_inv [OF assms(1)]
  have d: "distinct (map sock_id (r_socks st))"
    and rm: "sock_rooms sk = [js_string (sock_user sk)]"
    using assms(3) by (auto simp: relay_inv_def socks_ok_def)
  have "js_string (sock_user sk) \<in> set (sock_rooms sk)" using rm by simp
  with d assms(3) have
    "count_list (io_emit (r_socks st) (js_string (sock_user sk)) (pd_chat (r_acked st ! i)))
       (sock_id sk, pd_chat (r_acked st ! i)) = 1"
    by (rule count_io_emit)
  with assms(4,5) show ?thesis by (simp add: deliver_def Let_def)
qed

theorem self_message_delivered_twice_witness:
  "reachable cfg0 dec0 dir0 st_self \<and>
   count_list (r_log (deliver st_self 0)) (1, pd_chat (r_acked st_self ! 0)) = 2"
proof -
  have r: "reachable cfg0 dec0 dir0 st_self" unfolding st_self_def by (rule reachable_run)
  have i: "0 < length (r_acked st_self)" by (simp add: fixture_defs)
  have s: "\<lparr>sock_id = 1, sock_user = Some u1, sock_rooms = [u1]\<rparr> \<in> set (r_socks st_self)"
    by (simp add: fixture_defs)
  have p: "pd_room (r_acked st_self ! 0) = js_string (pd_user (r_acked st_self ! 0))"
    "Some u1 = pd_user (r_acked st_self ! 0)" by (simp_all add: fixture_defs)
  have l: "r_log st_self = []" by (simp add: fixture_defs)
  show ?thesis using self_message_delivered_twice [OF r i s] r p l by simp
qed

text \<open>C7. The receiver's room is \<open>String(receiver)\<close> as the client sent it, while
  the store keeps the canonical (lower-case) ObjectId. A receiver written with
  upper-case hexadecimal digits is therefore stored as a message to the recipient,
  and visible in their history, but no connection of the recipient receives it.\<close>

theorem upper_case_receiver_not_delivered:
  assumes "reachable cfg dec dir st" and "sk \<in> set (r_socks st)" and "sk2 \<in> set (r_socks st)"
    and "r_inflight st = []" and "r_acked st = []"
    and "sock_user sk = Some u" and "is_valid_oid u" and "is_valid_oid r"
    and "js_trim m \<noteq> []" and "js_to_lower t \<in> set receiver_type_enum"
    and "sock_user sk2 = Some (oid_canon r)" and "oid_canon r \<noteq> r" and "oid_canon r \<noteq> u"
  shows "(let st' = relay_run cfg dec dir st
              [ESend (sock_id sk) \<lparr>p_receiver = Some r, p_receiverType = Some t, p_message = Some m\<rparr>,
               EPersist 0, EAck 0]
          in (\<exists>c\<in>set (r_chats st'). chat_receiver c = oid_canon r \<and> chat_message c = m) \<and>
             filter (\<lambda>e. fst e = sock_id sk2) (r_log st') = filter (\<lambda>e. fst e = sock_id sk2) (r_log st))"
proof -
  have inv: "relay_inv st" using assms(1) by (rule reachable_inv)
  then have so: "socks_ok (r_socks st)" by (simp add: relay_inv_def)
  with assms(3,11) have rooms: "sock_rooms sk2 = [oid_canon r]" by (simp add: socks_ok_def)
  have f1: "\<And>c. filter (\<lambda>e. fst e = sock_id sk2) (io_emit (r_socks st) r c) = []"
    using filter_io_emit_other [OF so assms(3)] rooms assms(12) by simp
  have f2: "\<And>c. filter (\<lambda>e. fst e = sock_id sk2) (io_emit (r_socks st) u c) = []"
    using filter_io_emit_other [OF so assms(3)] rooms assms(13) by simp
  show ?thesis
    using send_persist_ack_explicit [OF inv assms(2,4,5,6,7,8,9,10)] f1 f2 by (simp add: Let_def)
qed

theorem upper_case_receiver_not_delivered_witness:
  "reachable cfg0 dec0 dir0 st0 \<and>
   filter (\<lambda>e. fst e = 2) (r_log (relay_run cfg0 dec0 dir0 st0
     [ESend 1 \<lparr>p_receiver = Some u2_upper, p_receiverType = Some ''user'', p_message = Some ''hi''\<rparr>,
      EPersist 0, EAck 0])) = [] \<and>
   (\<exists>c\<in>set (r_chats (relay_run cfg0 dec0 dir0 st0
     [ESend 1 \<lparr>p_receiver = Some u2_upper, p_receiverType = Some ''user'', p_message = Some ''hi''\<rparr>,
      EPersist 0, EAck 0])). chat_receiver c = u2 \<and> chat_message c = ''hi'')"
proof -
  have r: "reachable cfg0 dec0 dir0 st0" unfolding st0_def by (rule reachable_run)
  have sk: "\<lparr>sock_id = 1, sock_user = Some u1, sock_rooms = [u1]\<rparr> \<in> set (r_socks st0)"
    and sk2: "\<lparr>sock_id = 2, sock_user = Some u2, sock_rooms = [u2]\<rparr> \<in> set (r_socks st0)"
    and i: "r_inflight st0 = []" "r_acked st0 = []"
    and v: "is_valid_oid u1" "is_valid_oid u2_upper" "js_trim ''hi'' \<noteq> []"
      "js_to_lower ''user'' \<in> set receiver_type_enum"
    and c: "oid_canon u2_upper = u2" "u2 \<noteq> u2_upper" "u2 \<noteq> u1" "r_log st0 = []"
    by (simp_all add: fixture_defs)
  have u: "sock_user \<lparr>sock_id = 1, sock_user = Some u1, sock_rooms = [u1]\<rparr> = Some u1" by simp
  have u2: "sock_user \<lparr>sock_id = 2, sock_user = Some u2, sock_rooms = [u2]\<rparr> = Some (oid_canon u2_upper)"
    using c by simp
  show ?thesis
    using upper_case_receiver_not_delivered [OF r sk sk2 i u v u2] r c by (simp add: Let_def)
qed

text \<open>C8. The store's order is the order in which writes are acknowledged, not the
  order in which one connection sent them. From any reachable state, two valid
  sends in turn on one socket put two writes in flight; the relay may acknowledge
  the later write first, and then the store holds the second message before the
  first (the first keeps the smaller id), while acknowledging them in turn stores
  them in send order. History reads return store order.\<close>

theorem store_order_not_send_order:
  assumes "reachable cfg dec dir st" and "sk \<in> set (r_socks st)"
    and "sock_user sk = Some u" and "is_valid_oid u" and "is_valid_oid r"
    and "js_trim m1 \<noteq> []" and "js_trim m2 \<noteq> []" and "js_to_lower t \<in> set receiver_type_enum"
  shows "(let n = length (r_inflight st);
              send = (\<lambda>m. ESend (sock_id sk) \<lparr>p_receiver = Some r, p_receiverType = Some t, p_message = Some m\<rparr>);
              c = (\<lambda>i m. \<lparr>chat_id = i, chat_sender = oid_canon u, chat_receiver = oid_canon r,
                         chat_receiverType = js_to_lower t, chat_message = m, chat_createdAt = r_now st\<rparr>)
          in r_chats (relay_run cfg dec dir st [send m1, send m2, EPersist (Suc n), EPersist n]) =
               r_chats st @ [c (Suc (r_next st)) m2, c (r_next st) m1] \<and>
             r_chats (relay_run cfg dec dir st [send m1, send m2, EPersist n, EPersist n]) =
               r_chats st @ [c (r_next st) m1, c (Suc (r_next st)) m2])"
proof -
  let ?p = "\<lambda>m. \<lparr>p_receiver = Some r, p_receiverType = Some t, p_message = Some m\<rparr>"
  let ?c = "\<lambda>i m. \<lparr>chat_id = i, chat_sender = oid_canon u, chat_receiver = oid_canon r,
                 chat_receiverType = js_to_lower t, chat_message = m, chat_createdAt = r_now st\<rparr>"
  let ?d = "\<lambda>i m. \<lparr>pd_sock = sock_id sk, pd_user = Some u, pd_room = r, pd_chat = ?c i m\<rparr>"
  let ?n = "length (r_inflight st)"
  define st2 where "st2 = relay_run cfg dec dir st [ESend (sock_id sk) (?p m1), ESend (sock_id sk) (?p m2)]"
  have f: "find (\<lambda>x. sock_id x = sock_id sk) (r_socks st) = Some sk"
    using reachable_inv [OF assms(1)] assms(2) by (simp add: relay_inv_def socks_ok_def find_sock)
  have e2: "st2 = st\<lparr>r_next := Suc (Suc (r_next st)),
                      r_inflight := r_inflight st @ [?d (r_next st) m1, ?d (Suc (r_next st)) m2]\<rparr>"
    using f unfolding st2_def
    by (simp del: relay_step.simps add: valid_send_inflight [OF _ assms(3,4,5,6,8)]
        valid_send_inflight [OF _ assms(3,4,5,7,8)])
  have "r_chats (relay_run cfg dec dir st2 [EPersist (Suc ?n), EPersist ?n]) =
          r_chats st @ [?c (Suc (r_next st)) m2, ?c (r_next st) m1]"
    by (simp add: e2 db_persist_def remove_at_def nth_append)
  moreover have "r_chats (relay_run cfg dec dir st2 [EPersist ?n, EPersist ?n]) =
          r_chats st @ [?c (r_next st) m1, ?c (Suc (r_next st)) m2]"
    by (simp add: e2 db_persist_def remove_at_def nth_append)
  ultimately show ?thesis
    unfolding st2_def Let_def relay_run_def by (simp only: fold_Cons fold_Nil o_apply id_apply)
qed

theorem store_order_not_send_order_witness:
  "reachable cfg0 dec0 dir0 st0 \<and>
   map chat_message (r_chats (relay_run cfg0 dec0 dir0 st0
     [ESend 1 (msg_to u2 ''first''), ESend 1 (msg_to u2 ''second''), EPersist 1, EPersist 0])) =
     [''second'', ''first''] \<and>
   map chat_message (r_chats (relay_run cfg0 dec0 dir0 st0
     [ESend 1 (msg_to u2 ''first''), ESend 1 (msg_to u2 ''second''), EPersist 0, EPersist 0])) =
     [''first'', ''second'']"
proof -
  have r: "reachable cfg0 dec0 dir0 st0" unfolding st0_def by (rule reachable_run)
  have sk: "\<lparr>sock_id = 1, sock_user = Some u1, sock_rooms = [u1]\<rparr> \<in> set (r_socks st0)"
    and i: "r_inflight st0 = []" "r_chats st0 = []"
    and v: "is_valid_oid u1" "is_valid_oid u2" "js_trim ''first'' \<noteq> []" "js_trim ''second'' \<noteq> []"
      "js_to_lower ''User'' \<in> set receiver_type_enum"
    by (simp_all add: fixture_defs)
  have u: "sock_user \<lparr>sock_id = 1, sock_user = Some u1, sock_rooms = [u1]\<rparr> = Some u1" by simp
  show ?thesis unfolding One_nat_def
    using store_order_not_send_order [OF r sk u v] r i by (simp add: msg_to_def Let_def del: relay_run_Cons)
qed

text \<open>C9. There is no mailbox: once a stored message's handler has emitted it, no
  later event emits it again, to any socket; a connection opened afterwards never
  receives it and must read the history instead.\<close>

theorem delivered_never_redelivered:
  assumes "reachable cfg dec dir st" and "c \<in> set (r_chats st)" and "c \<notin> pd_chat ` set (r_acked st)"
  shows "filter (\<lambda>x. snd x = c) (r_log (relay_run cfg dec dir st es)) = filter (\<lambda>x. snd x = c) (r_log st)"
proof -
  have "relay_inv st \<and> c \<in> set (r_chats st) \<and> c \<notin> pd_chat ` set (r_acked st) \<Longrightarrow>
        filter (\<lambda>x. snd x = c) (r_log (relay_run cfg dec dir st es)) = filter (\<lambda>x. snd x = c) (r_log st)"
  proof (induction es arbitrary: st)
    case Nil
    then show ?case by simp
  next
    case (Cons e es)
    let ?st' = "relay_step cfg dec dir st e"
    from Cons.prems have inv: "relay_inv st" and c: "c \<in> set (r_chats st)" "c \<notin> pd_chat ` set (r_acked st)"
      by auto
    have step:
      "filter (\<lambda>x. snd x = c) (r_log ?st') = filter (\<lambda>x. snd x = c) (r_log st) \<and>
       c \<in> set (r_chats ?st') \<and> c \<notin> pd_chat ` set (r_acked ?st')"
      by (rule relay_step_no_redelivery [OF inv c])
    moreover have "relay_inv ?st'" by (rule relay_step_inv [OF inv])
    ultimately show ?case using Cons.IH [of ?st'] by simp
  qed
  with reachable_inv [OF assms(1)] assms(2,3) show ?thesis by blast
qed

theorem delivered_never_redelivered_witness:
  "reachable cfg0 dec0 dir0 st1 \<and> chat0 \<in> set (r_chats st1) \<and> r_acked st1 = [] \<and>
   filter (\<lambda>x. snd x = chat0)
     (r_log (relay_run cfg0 dec0 dir0 st1 [EConnect 4 (Some ''t2''), EAck 0, ETick]))
   = [(2, chat0), (3, chat0), (1, chat0)]"
proof -
  have r: "reachable cfg0 dec0 dir0 st1" unfolding st1_def by (rule reachable_run)
  have c: "chat0 \<in> set (r_chats st1)" "r_acked st1 = []"
    and l: "filter (\<lambda>x. snd x = chat0) (r_log st1) = [(2, chat0), (3, chat0), (1, chat0)]"
    by (simp_all add: st1_def fixture_defs)
  have n: "chat0 \<notin> pd_chat ` set (r_acked st1)" using c by simp
  have e: "filter (\<lambda>x. snd x = chat0)
      (r_log (relay_run cfg0 dec0 dir0 st1 [EConnect 4 (Some ''t2''), EAck 0, ETick])) =
    filter (\<lambda>x. snd x = chat0) (r_log st1)"
    by (rule delivered_never_redelivered [OF r c(1) n])
  show ?thesis using r c by (simp only: e l)
qed

subsection \<open>Tokens\<close>

text \<open>C10. \<open>auth.controller.js\<close> reads \<open>JWT_SECRET\<close> when the module is
  evaluated, which, with ES-module imports, is before \<open>dotenv.config()\<close> in
  \<open>server.js\<close> runs. When the secret is set only in the \<open>.env\<close> file, user
  tokens are signed with the fallback ''mysecretdevkey'' but verified with the real
  secret, and both the socket gateway and the HTTP middleware reject every token
  that \<open>login\<close> issues.\<close>

theorem dotenv_secret_rejects_login_tokens:
  assumes "env_load cfg = None" and "env_run cfg = Some k" and "k \<noteq> ''mysecretdevkey''"
    and "dec s = Some (login_token cfg u t)" and "s \<noteq> []" and "CHR '' '' \<notin> set s"
  shows "io_auth cfg dec now (Some s) = Inl InvalidToken \<and>
         rest_auth cfg dec now dir (Some (''Bearer '' @ s)) = Inl RestInvalid"
proof -
  have key: "jwt_key (login_token cfg u t) = ''mysecretdevkey''"
    using assms(1) by (simp add: login_token_def jwt_sign_def user_sign_key_def js_or_str_def)
  have v: "\<exists>e. jwt_verify dec (env_run cfg) now s = Inl e"
    using assms(2-5) key by (auto simp: jwt_verify_def)
  have b: "bearer_token (''Bearer '' @ s) = s"
    using assms(6) by (auto simp: bearer_token_def)
  show ?thesis using v assms(5) b by (auto simp: io_auth_def rest_auth_def)
qed

theorem dotenv_secret_rejects_login_tokens_witness:
  "io_auth cfg_dotenv dec_dotenv 10 (Some ''tk'') = Inl InvalidToken \<and>
   rest_auth cfg_dotenv dec_dotenv 10 dir0 (Some ''Bearer tk'') = Inl RestInvalid"
proof -
  have h: "env_load cfg_dotenv = None" "env_run cfg_dotenv = Some ''prod-secret''"
    "''prod-secret'' \<noteq> ''mysecretdevkey''" "dec_dotenv ''tk'' = Some (login_token cfg_dotenv u1 0)"
    "''tk'' \<noteq> []" "CHR '' '' \<notin> set ''tk''"
    by (simp_all add: cfg_dotenv_def dec_dotenv_def)
  show ?thesis using dotenv_secret_rejects_login_tokens
    [where cfg = cfg_dotenv and dec = dec_dotenv and s = "''tk''" and u = u1 and t = 0, OF h, of 10 dir0] by simp
qed

text \<open>C11. When the secret is configured, a token issued by \<open>login\<close> for user \<open>u\<close>
  at time \<open>t\<close> admits a socket as \<open>u\<close> exactly until one day has passed.\<close>

theorem login_token_valid_one_day:
  assumes "env_load cfg = Some k" and "env_run cfg = Some k" and "k \<noteq> []"
    and "dec s = Some (login_token cfg u t)" and "s \<noteq> []" and "u \<noteq> []"
  shows "io_auth cfg dec now (Some s) = (if now < t + 86400 then Inr (Some u) else Inl InvalidToken)"
  using assms by (simp add: io_auth_def jwt_verify_def token_defs js_or_opt_def)

theorem login_token_valid_one_day_witness:
  "io_auth cfg0 dec0 86399 (Some ''t1'') = Inr (Some u1) \<and>
   io_auth cfg0 dec0 86400 (Some ''t1'') = Inl InvalidToken"
proof -
  have h: "env_load cfg0 = Some ''s3cret''" "env_run cfg0 = Some ''s3cret''" "''s3cret'' \<noteq> []"
    "dec0 ''t1'' = Some (login_token cfg0 u1 0)" "''t1'' \<noteq> []" "u1 \<noteq> []"
    by (simp_all add: cfg0_def dec0_def u1_def)
  show ?thesis using login_token_valid_one_day
      [where cfg = cfg0 and dec = dec0 and s = "''t1''" and u = u1 and t = 0, OF h, of 86399]
    login_token_valid_one_day
      [where cfg = cfg0 and dec = dec0 and s = "''t1''" and u = u1 and t = 0, OF h, of 86400]
    by simp
qed

text \<open>C12. Without a secret at request time the gateway does not stop at start-up
  (the specification calls this a fatal start-up condition); instead every
  handshake and every authenticated request is rejected.\<close>

theorem missing_secret_rejects_all:
  assumes "\<not> opt_truthy (env_run cfg)"
  shows "(\<exists>e. io_auth cfg dec now tok = Inl e) \<and> (\<exists>e. rest_auth cfg dec now dir hdr = Inl e)"
  using jwt_verify_no_secret_Inr [OF assms]
  by (auto simp: io_auth_def rest_auth_def split: option.splits sum.splits)

theorem missing_secret_rejects_all_witness:
  "dec0 ''t1'' = Some (login_token cfg0 u1 0) \<and>
   (\<exists>e. io_auth cfg_unset dec0 5 (Some ''t1'') = Inl e) \<and>
   (\<exists>e. rest_auth cfg_unset dec0 5 dir0 (Some ''Bearer t1'') = Inl e)"
proof -
  have h: "\<not> opt_truthy (env_run cfg_unset)" by (simp add: cfg_unset_def)
  have d: "dec0 ''t1'' = Some (login_token cfg0 u1 0)" by (simp add: dec0_def)
  show ?thesis using missing_secret_rejects_all [OF h] d by blast
qed

subsection \<open>The history service\<close>

text \<open>C13. \<open>getMessages\<close> fails with a server error exactly when the counterpart
  id is not an ObjectId; otherwise it returns exactly the stored messages whose
  \<open>{sender, receiver}\<close> is \<open>{caller, counterpart}\<close> (the counterpart compared in
  canonical form), in store order.\<close>

theorem getMessages_exact:
  "(getMessages chats me r = Inl ServerError \<longleftrightarrow> \<not> is_valid_oid r) \<and>
   (getMessages chats me r = Inr ms \<longrightarrow>
      set ms = {c \<in> set chats. {chat_sender c, chat_receiver c} = {principal_id me, oid_canon r}} \<and>
      subseq ms chats)"
  by (auto simp: getMessages_def between_doubleton)

theorem getMessages_exact_witness:
  "getMessages hist (PUser u1) u2_upper = Inr [hist ! 0, hist ! 1, hist ! 3] \<and>
   set [hist ! 0, hist ! 1, hist ! 3] =
     {c \<in> set hist. {chat_sender c, chat_receiver c} = {u1, oid_canon u2_upper}} \<and>
   getMessages hist (PUser u1) ''nope'' = Inl ServerError"
proof -
  have g: "getMessages hist (PUser u1) u2_upper = Inr [hist ! 0, hist ! 1, hist ! 3]"
    by (simp add: getMessages_def between_def fixture_defs)
  have v: "\<not> is_valid_oid ''nope''" by (simp add: js_simps)
  show ?thesis
    using getMessages_exact [of hist "PUser u1" u2_upper "[hist ! 0, hist ! 1, hist ! 3]"]
      getMessages_exact [of hist "PUser u1" "''nope''"] g v by simp
qed

text \<open>The caretaker interaction counter is the number of distinct identities
  \<open>y\<close> such that some stored message has \<open>{sender, receiver} = {caller, y}\<close>.\<close>

theorem caretaker_interactions_distinct_partners:
  "caretaker_interactions chats me =
     card {y. \<exists>c\<in>set chats. {chat_sender c, chat_receiver c} = {principal_id me, y}}"
  by (simp add: caretaker_interactions_def length_partners set_partners between_doubleton)

text \<open>C15. The user's \<open>/interactions\<close> route counts messages, not counterparts: it
  is never below the distinct-partner count of the caretaker route, and equals it
  exactly when no two of the caller's messages have the same counterpart, so it
  exceeds it as soon as one counterpart has two messages.\<close>

theorem interactions_total_counts_messages:
  "caretaker_interactions chats me \<le> interactions_total chats me \<and>
   (caretaker_interactions chats me = interactions_total chats me \<longleftrightarrow>
    distinct (map (partner (principal_id me)) (filter (involves (principal_id me)) chats)))"
proof -
  let ?xs = "map (partner (principal_id me)) (filter (involves (principal_id me)) chats)"
  have "caretaker_interactions chats me = length (remdups ?xs)"
    by (simp add: caretaker_interactions_def partners_def)
  moreover have "interactions_total chats me = length ?xs"
    by (simp add: interactions_total_def)
  moreover have "length (remdups ?xs) = length ?xs \<longleftrightarrow> distinct ?xs"
    by (metis distinct_remdups distinct_remdups_id length_remdups_card_conv card_distinct)
  ultimately show ?thesis using length_remdups_leq [of ?xs] by simp
qed

text \<open>Today's counterparts are among all counterparts, their number is at most
  the total, and each has a message with the caller created since the start of the
  current day.\<close>

theorem today_partners_subset:
  "set (caretaker_today_users chats now me) \<subseteq> set (partners (principal_id me) chats) \<and>
   caretaker_interactions_today chats now me \<le> caretaker_interactions chats me \<and>
   (\<forall>y\<in>set (caretaker_today_users chats now me).
      \<exists>c\<in>set chats. between (principal_id me) y c \<and> day_start now \<le> chat_createdAt c)"
proof -
  have sub: "set (caretaker_today_users chats now me) \<subseteq> set (partners (principal_id me) chats)"
    by (simp add: caretaker_today_users_def partners_today_subset)
  then have "card (set (caretaker_today_users chats now me)) \<le> card (set (partners (principal_id me) chats))"
    by (simp add: card_mono)
  then have "caretaker_interactions_today chats now me \<le> caretaker_interactions chats me"
    by (simp add: caretaker_interactions_today_def caretaker_interactions_def
        caretaker_today_users_def length_partners)
  moreover have "\<forall>y\<in>set (caretaker_today_users chats now me).
      \<exists>c\<in>set chats. between (principal_id me) y c \<and> day_start now \<le> chat_createdAt c"
    by (auto simp: caretaker_today_users_def set_partners today_chats_def)
  ultimately show ?thesis using sub by blast
qed


theorem today_partners_subset_witness:
  "caretaker_today_users hist 90005 (PCaretaker u1) = [u3, u2] \<and>
   partners u1 hist = [u3, u2] \<and>
   caretaker_interactions_today hist 90005 (PCaretaker u1) \<le> caretaker_interactions hist (PCaretaker u1)"
proof -
  have t: "caretaker_today_users hist 90005 (PCaretaker u1) = [u3, u2]"
    and p: "partners u1 hist = [u3, u2]"
    by (simp_all add: caretaker_today_users_def partners_def today_chats_def day_start_def
        partner_def involves_def fixture_defs)
  show ?thesis using today_partners_subset [of hist 90005 "PCaretaker u1"] t p by simp
qed

text \<open>The REST send path checks only truthiness: a body of white space only is
  stored, and \<open>receiverType\<close> is stored as given, not lower-cased (the socket
  path rejects the first and normalises the second).\<close>

theorem rest_send_accepts_blank_body:
  assumes "m \<noteq> []" and "\<forall>ch\<in>set m. js_is_ws ch" and "is_valid_oid r"
    and "t \<in> set receiver_type_enum" and "is_valid_oid (principal_id me)"
  shows "rest_sendMessage cid now me \<lparr>b_receiverId = Some r, b_message = Some m, b_receiverType = Some t\<rparr> =
    Inr \<lparr>chat_id = cid, chat_sender = oid_canon (principal_id me), chat_receiver = oid_canon r,
         chat_receiverType = t, chat_message = m, chat_createdAt = now\<rparr>"
proof -
  have "t \<noteq> []" using assms(4) by (auto simp: receiver_type_enum_def)
  moreover have "r \<noteq> []" using assms(3) by (auto simp: is_valid_oid_def)
  moreover have "chat_create cid now (Some (principal_id me)) (Some r) (Some t) (Some m) =
      Inr \<lparr>chat_id = cid, chat_sender = oid_canon (principal_id me), chat_receiver = oid_canon r,
         chat_receiverType = t, chat_message = m, chat_createdAt = now\<rparr>"
    using assms by (simp add: chat_create_ok_iff)
  ultimately show ?thesis using assms(1) by (simp add: rest_sendMessage_def)
qed


theorem rest_send_accepts_blank_body_witness:
  "rest_sendMessage 7 100 (PUser u1) \<lparr>b_receiverId = Some u2, b_message = Some ''   '', b_receiverType = Some ''User''\<rparr> =
    Inr \<lparr>chat_id = 7, chat_sender = u1, chat_receiver = u2, chat_receiverType = ''User'',
         chat_message = ''   '', chat_createdAt = 100\<rparr>"
proof -
  have h: "''   '' \<noteq> []" "\<forall>ch\<in>set ''   ''. js_is_ws ch" "is_valid_oid u2"
    "''User'' \<in> set receiver_type_enum" "is_valid_oid (principal_id (PUser u1))"
    by (simp_all add: js_is_ws_def receiver_type_enum_def fixture_defs)
  have c: "oid_canon u1 = u1" "oid_canon u2 = u2" by (simp_all add: fixture_defs)
  show ?thesis using rest_send_accepts_blank_body [OF h, of 7 100] c by simp
qed

text \<open>A REST send whose receiver is not an ObjectId fails with a server error
  (status 500), not with the validation failure (400) the specification names; a
  missing field is the 400 case.\<close>

theorem rest_send_bad_receiver_is_server_error:
  assumes "r \<noteq> []" and "\<not> is_valid_oid r" and "m \<noteq> []" and "t \<noteq> []"
  shows "rest_sendMessage cid now me \<lparr>b_receiverId = Some r, b_message = Some m, b_receiverType = Some t\<rparr> =
           Inl ServerError \<and>
         rest_sendMessage cid now me \<lparr>b_receiverId = Some r, b_message = None, b_receiverType = Some t\<rparr> =
           Inl (BadRequest ''receiverId, message, and receiverType are required'')"
proof -
  have "chat_errors (Some (principal_id me)) (Some r) (Some t) (Some m) \<noteq> []"
    using assms(2) by (simp add: chat_errors_def)
  then have "chat_create cid now (Some (principal_id me)) (Some r) (Some t) (Some m) =
      Inl (ValidationError (chat_errors (Some (principal_id me)) (Some r) (Some t) (Some m)))"
    by (rule chat_create_error)
  with assms show ?thesis by (simp add: rest_sendMessage_def)
qed

theorem rest_send_bad_receiver_is_server_error_witness:
  "rest_sendMessage 0 0 (PUser u1) \<lparr>b_receiverId = Some ''42'', b_message = Some ''hi'', b_receiverType = Some ''user''\<rparr> =
     Inl ServerError"
proof -
  have h: "''42'' \<noteq> []" "\<not> is_valid_oid ''42''" "''hi'' \<noteq> []" "''user'' \<noteq> []"
    by (simp_all add: js_simps)
  show ?thesis using rest_send_bad_receiver_is_server_error [OF h] by simp
qed

subsection \<open>Across the relay and the history service\<close>

text \<open>C19. A valid message sent on a socket is returned by a later history fetch of
  the receiver for the conversation with the sender, with the sender's identity and
  the body as sent.\<close>

theorem sent_message_in_history:
  assumes "reachable cfg dec dir st" and "sk \<in> set (r_socks st)"
    and "r_inflight st = []" and "r_acked st = []"
    and "sock_user sk = Some u" and "is_valid_oid u" and "is_valid_oid r"
    and "js_trim m \<noteq> []" and "js_to_lower t \<in> set receiver_type_enum"
  shows "\<exists>ms. getMessages (r_chats (relay_run cfg dec dir st
             [ESend (sock_id sk) \<lparr>p_receiver = Some r, p_receiverType = Some t, p_message = Some m\<rparr>,
              EPersist 0, EAck 0])) (PUser (oid_canon r)) u = Inr ms \<and>
           (\<exists>c\<in>set ms. chat_sender c = oid_canon u \<and> chat_message c = m)"
  using send_persist_ack_explicit [OF reachable_inv [OF assms(1)] assms(2-9)] assms(6)
  by (auto simp: getMessages_def between_def Let_def)

theorem sent_message_in_history_witness:
  "\<exists>ms. getMessages (r_chats (relay_run cfg0 dec0 dir0 st0
      [ESend 1 \<lparr>p_receiver = Some u2, p_receiverType = Some ''user'', p_message = Some ''hello''\<rparr>,
       EPersist 0, EAck 0])) (PUser u2) u1 = Inr ms \<and>
    (\<exists>c\<in>set ms. chat_sender c = u1 \<and> chat_message c = ''hello'')"
proof -
  have r: "reachable cfg0 dec0 dir0 st0" unfolding st0_def by (rule reachable_run)
  have sk: "\<lparr>sock_id = 1, sock_user = Some u1, sock_rooms = [u1]\<rparr> \<in> set (r_socks st0)"
    and i: "r_inflight st0 = []" "r_acked st0 = []"
    and v: "is_valid_oid u1" "is_valid_oid u2" "js_trim ''hello'' \<noteq> []"
      "js_to_lower ''user'' \<in> set receiver_type_enum"
    and c: "oid_canon u1 = u1" "oid_canon u2 = u2"
    by (simp_all add: fixture_defs)
  have u: "sock_user \<lparr>sock_id = 1, sock_user = Some u1, sock_rooms = [u1]\<rparr> = Some u1" by simp
  show ?thesis using sent_message_in_history [OF r sk i u v] c by simp
qed

subsection \<open>The client relay adapter\<close>

text \<open>C20. The receive handler of the chat screen appends every message from
  another identity to the open conversation, whoever that conversation is with: the
  pane of the conversation with \<open>a\<close> shows, as not-mine, a message whose sender is
  not \<open>a\<close>.\<close>

theorem client_pane_shows_any_sender:
  assumes "cl_socket st" and "cl_active st = Some a" and "ct_kind a \<noteq> KAi" and "\<not> cl_loading st"
    and "chat_sender c \<noteq> []" and "chat_sender c \<noteq> js_string (cl_me st)"
  shows "\<exists>bs. pane_of st = PaneBubbles bs \<and>
           pane_of (client_step st (CReceive c)) = PaneBubbles (bs @ [(False, chat_message c)])"
  using client_receive_messages [OF assms(1,5,6)] assms(2-4,6)
  by (simp add: pane_of_def chat_view_def)

theorem client_pane_shows_any_sender_witness:
  "cl_active clC = Some ctU2 \<and> chat_sender c3msg \<noteq> ct_id ctU2 \<and>
   pane_of clC = PaneBubbles [(True, ''hello'')] \<and>
   pane_of (client_step clC (CReceive c3msg)) = PaneBubbles [(True, ''hello''), (False, ''from carol'')]"
proof -
  have h: "cl_socket clC" "cl_active clC = Some ctU2" "ct_kind ctU2 \<noteq> KAi" "\<not> cl_loading clC"
    "chat_sender c3msg \<noteq> []" "chat_sender c3msg \<noteq> js_string (cl_me clC)"
    and p: "pane_of clC = PaneBubbles [(True, ''hello'')]" and d: "chat_sender c3msg \<noteq> ct_id ctU2"
    by (simp_all add: client_fixture_defs fixture_defs Let_def)
  obtain bs where "pane_of clC = PaneBubbles bs"
    and "pane_of (client_step clC (CReceive c3msg)) = PaneBubbles (bs @ [(False, chat_message c3msg)])"
    using client_pane_shows_any_sender [OF h] by blast
  then show ?thesis using p h(2) d by (simp add: c3msg_def)
qed

text \<open>A message from a listed counterpart marks that counterpart's entry as
  having a new message and moves it to the front of the contact list; the list keeps
  the same entries.\<close>

theorem client_receive_moves_sender_first:
  assumes "cl_socket st" and "chat_sender c \<noteq> []" and "chat_sender c \<noteq> js_string (cl_me st)"
    and "\<exists>u\<in>set (cl_users st). ct_id u = chat_sender c"
  shows "ct_id (hd (cl_users (client_step st (CReceive c)))) = chat_sender c \<and>
         ct_hasNewMsg (hd (cl_users (client_step st (CReceive c)))) \<and>
         mset (map ct_id (cl_users (client_step st (CReceive c)))) = mset (map ct_id (cl_users st))"
proof -
  have u: "cl_users (client_step st (CReceive c)) =
      bump_front (\<lambda>u. ct_id u = chat_sender c) (mark_new (chat_createdAt c)) (cl_users st)"
    by (rule client_receive_users [OF assms(1-3)])
  obtain i where "i < length (cl_users st)" "ct_id (cl_users st ! i) = chat_sender c"
    "hd (bump_front (\<lambda>u. ct_id u = chat_sender c) (mark_new (chat_createdAt c)) (cl_users st)) =
       mark_new (chat_createdAt c) (cl_users st ! i)"
    using hd_bump_front [OF assms(4)] by blast
  moreover have "mset (map ct_id (bump_front (\<lambda>u. ct_id u = chat_sender c) (mark_new (chat_createdAt c))
      (cl_users st))) = mset (map ct_id (cl_users st))"
    by (rule mset_map_bump_front) (simp add: mark_new_def)
  ultimately show ?thesis using u by (simp add: mark_new_def)
qed

theorem client_receive_moves_sender_first_witness:
  "map ct_id (cl_users clC) = [u2, u3] \<and>
   ct_id (hd (cl_users (client_step clC (CReceive c3msg)))) = u3 \<and>
   ct_hasNewMsg (hd (cl_users (client_step clC (CReceive c3msg)))) \<and>
   mset (map ct_id (cl_users (client_step clC (CReceive c3msg)))) = mset [u2, u3]"
proof -
  have h: "cl_socket clC" "chat_sender c3msg \<noteq> []" "chat_sender c3msg \<noteq> js_string (cl_me clC)"
    "\<exists>u\<in>set (cl_users clC). ct_id u = chat_sender c3msg"
    and l: "map ct_id (cl_users clC) = [u2, u3]"
    by (simp_all add: client_fixture_defs fixture_defs Let_def)
  show ?thesis using client_receive_moves_sender_first [OF h] l by (simp add: c3msg_def)
qed

text \<open>C22. The socket effect depends on the caretaker list, which the receive
  handler replaces when the sender is a caretaker: a message from a caretaker closes
  the screen's connection and opens a new one.\<close>

theorem caretaker_message_reconnects:
  assumes "cl_socket st" and "chat_sender c \<noteq> []" and "chat_sender c \<noteq> js_string (cl_me st)"
    and "\<exists>ct\<in>set (cl_caretakers st). ct_id ct = chat_sender c"
    and "cl_token st = Some tok" and "tok \<noteq> []"
  shows "cl_out (client_step st (CReceive c)) = cl_out st @ [ODisconnect, OConnect tok] \<and>
         cl_socket (client_step st (CReceive c))"
proof -
  have r: "on_receive st c = set_caretakers (bump_front (\<lambda>ct. ct_id ct = chat_sender c)
       (mark_new (chat_createdAt c)) (cl_caretakers st))
       (st\<lparr>cl_messages := cl_messages st @ [chat_view c],
           cl_users := bump_front (\<lambda>u. ct_id u = chat_sender c) (mark_new (chat_createdAt c)) (cl_users st)\<rparr>)"
    using assms(2-4) by (simp add: on_receive_def Let_def)
  show ?thesis using assms(1,5,6)
    by (simp add: r commit_def set_caretakers_def socket_effect_reconnect)
qed

theorem caretaker_message_reconnects_witness:
  "cl_out (client_step clC (CReceive c3msg)) = cl_out clC @ [ODisconnect, OConnect ''t1'']"
proof -
  have h: "cl_socket clC" "chat_sender c3msg \<noteq> []" "chat_sender c3msg \<noteq> js_string (cl_me clC)"
    "\<exists>ct\<in>set (cl_caretakers clC). ct_id ct = chat_sender c3msg"
    "cl_token clC = Some ''t1''" "''t1'' \<noteq> []"
    by (simp_all add: client_fixture_defs fixture_defs Let_def)
  show ?thesis using caretaker_message_reconnects [OF h] by simp
qed

text \<open>Opening a conversation with a listed caretaker also replaces the caretaker
  list: the screen disconnects, reconnects, and then requests the history.\<close>

theorem open_caretaker_reconnects:
  assumes "sidebar_visible st" and "cl_socket st" and "cl_token st = Some tok" and "tok \<noteq> []"
    and "find (\<lambda>u. ct_id u = x \<and> ct_kind u = KCaretaker) (filtered_users st) = Some c"
    and "\<exists>p\<in>set (cl_caretakers st). ct_id p = x"
  shows "cl_out (client_step st (CClickCaretaker x)) =
           cl_out st @ [ODisconnect, OConnect tok, OGetMessages x ''caretaker'']"
proof -
  have x: "ct_id c = x" using assms(5) by (simp add: find_Some_iff) (metis nth_mem)
  show ?thesis using assms x
    by (simp add: commit_def click_caretaker_def set_active_def set_caretakers_def
        load_effect_def socket_effect_def Let_def)
qed

theorem open_caretaker_reconnects_witness:
  "cl_out (client_step clC (CClickCaretaker u3)) =
     cl_out clC @ [ODisconnect, OConnect ''t1'', OGetMessages u3 ''caretaker'']"
proof -
  have h: "sidebar_visible clC" "cl_socket clC" "cl_token clC = Some ''t1''" "''t1'' \<noteq> []"
    "find (\<lambda>u. ct_id u = u3 \<and> ct_kind u = KCaretaker) (filtered_users clC) = Some ctC3"
    "\<exists>p\<in>set (cl_caretakers clC). ct_id p = u3"
    by (simp_all add: client_fixture_defs fixture_defs Let_def)
  show ?thesis using open_caretaker_reconnects [OF h] .
qed

text \<open>The screen ignores every message whose sender is its own identity, so the
  relay's echo to the sender's room (C4) never reaches the view of a second screen
  of the same identity.\<close>

theorem own_echo_ignored:
  assumes "chat_sender c = js_string (cl_me st)"
  shows "client_step st (CReceive c) = st"
  using assms by (simp add: on_receive_self commit_def)

theorem own_echo_ignored_witness:
  "client_step clC (CReceive chat0) = clC"
proof -
  have "chat_sender chat0 = js_string (cl_me clC)" by (simp add: client_fixture_defs fixture_defs Let_def)
  then show ?thesis by (rule own_echo_ignored)
qed

text \<open>C25. Submitting a non-blank input in a conversation with a user or caretaker
  emits the trimmed text to the relay, posts the profile update, appends the
  optimistic copy and clears the input; without a socket the input is cleared and
  nothing is sent or shown.\<close>

theorem submit_sent_or_dropped:
  assumes "chat_area_visible st" and "cl_active st = Some a" and "ct_kind a \<noteq> KAi"
    and "js_trim (cl_newMessage st) = text" and "text \<noteq> []"
  shows "(cl_socket st \<longrightarrow>
           cl_out (client_step st CSubmit) = cl_out st @
             [OEmit \<lparr>p_receiver = Some (ct_id a), p_receiverType = Some (kind_str (ct_kind a)),
                     p_message = Some text\<rparr>, OUpdateProfile (ct_id a) text] \<and>
           cl_messages (client_step st CSubmit) = cl_messages st @
             [\<lparr>cm_id = LocalId (cl_now st), cm_sender = cl_me st, cm_receiver = ct_id a,
               cm_message = text, cm_createdAt = cl_now st\<rparr>]) \<and>
         (\<not> cl_socket st \<longrightarrow>
           cl_out (client_step st CSubmit) = cl_out st \<and> cl_messages (client_step st CSubmit) = cl_messages st) \<and>
         cl_newMessage (client_step st CSubmit) = []"
  using client_submit [OF assms(1-3)] assms(2,4,5) by (simp add: send_to_socket_def Let_def)

theorem submit_sent_or_dropped_witness:
  "cl_out (client_step (client_step clC (CType '' hi '')) CSubmit) = cl_out clC @
     [OEmit \<lparr>p_receiver = Some u2, p_receiverType = Some ''user'', p_message = Some ''hi''\<rparr>,
      OUpdateProfile u2 ''hi''] \<and>
   cl_out (client_step clN CSubmit) = cl_out clN \<and>
   cl_messages (client_step clN CSubmit) = cl_messages clN \<and> cl_newMessage (client_step clN CSubmit) = []"
proof -
  let ?d = "client_step clC (CType '' hi '')"
  have h: "chat_area_visible ?d" "cl_active ?d = Some ctU2" "ct_kind ctU2 \<noteq> KAi"
      "js_trim (cl_newMessage ?d) = ''hi''" "''hi'' \<noteq> []"
    and s: "cl_socket ?d" and o: "cl_out ?d = cl_out clC" and k: "ct_id ctU2 = u2" "ct_kind ctU2 = KUser"
    by (simp_all add: client_fixture_defs fixture_defs js_simps Let_def)
  have n: "chat_area_visible clN" "cl_active clN = Some ctU2" "ct_kind ctU2 \<noteq> KAi"
      "js_trim (cl_newMessage clN) = ''hi''" "''hi'' \<noteq> []" and ns: "\<not> cl_socket clN"
    by (simp_all add: client_fixture_defs fixture_defs js_simps Let_def)
  show ?thesis
    using submit_sent_or_dropped [OF h] submit_sent_or_dropped [OF n] s ns o k by simp
qed

text \<open>Opening a conversation with a listed user clears its marker and moves it
  to the front, empties the message list, shows the spinner and requests the
  history; the response to that request replaces the list, and a response to an
  earlier, cancelled request changes nothing.\<close>

theorem open_conversation_replaces_list:
  assumes "sidebar_visible st"
    and "find (\<lambda>u. ct_id u = x \<and> ct_kind u = KUser) (filtered_users st) = Some u"
    and "st' = client_step st (CClickUser x)"
  shows "cl_active st' = Some (u\<lparr>ct_kind := KUser\<rparr>) \<and> cl_messages st' = [] \<and> cl_loading st' \<and>
         cl_users st' = bump_front (\<lambda>p. ct_id p = x) clear_new (cl_users st) \<and>
         cl_out st' = cl_out st @ [OGetMessages x ''user''] \<and>
         cl_messages (client_step st' (CMessagesLoaded (cl_load st') cs)) = map chat_view cs \<and>
         \<not> cl_loading (client_step st' (CMessagesLoaded (cl_load st') cs)) \<and>
         (g \<noteq> cl_load st' \<longrightarrow> client_step st' (CMessagesLoaded g cs) = st')"
proof -
  have x: "ct_id u = x" using assms(2) by (simp add: find_Some_iff) (metis nth_mem)
  have "cl_active st' = Some (u\<lparr>ct_kind := KUser\<rparr>) \<and> cl_messages st' = [] \<and> cl_loading st' \<and>
        cl_users st' = bump_front (\<lambda>p. ct_id p = x) clear_new (cl_users st) \<and>
        cl_out st' = cl_out st @ [OGetMessages x ''user'']"
    using assms x by (simp add: commit_def click_user_def set_active_def load_effect_def Let_def)
  then show ?thesis by (simp add: messages_loaded_def)
qed

theorem open_conversation_replaces_list_witness:
  "cl_messages (client_step clA (CClickUser u2)) = [] \<and>
   cl_messages (client_step (client_step clA (CClickUser u2)) (CMessagesLoaded 2 [chat0])) = [chat_view chat0] \<and>
   client_step (client_step clA (CClickUser u2)) (CMessagesLoaded 1 [c3msg]) = client_step clA (CClickUser u2)"
proof -
  have h: "sidebar_visible clA" "find (\<lambda>u. ct_id u = u2 \<and> ct_kind u = KUser) (filtered_users clA) = Some ctU2"
    and g: "cl_load (client_step clA (CClickUser u2)) = 2"
    by (simp_all add: client_fixture_defs fixture_defs Let_def)
  show ?thesis using open_conversation_replaces_list [OF h refl, of "[chat0]" 1]
    open_conversation_replaces_list [OF h refl, of "[c3msg]" 1] g by simp
qed

subsection \<open>Accounts and one-time passwords\<close>

text \<open>C27. \<open>googleRegister\<close> asks for nothing but an e-mail: for the e-mail of an
  existing account it returns, without changing the store, a seven-day token for that
  account, which the socket gateway accepts as that account.\<close>

theorem google_register_issues_token:
  assumes "find_email e st = Some u" and "e \<noteq> []" and "u_id u \<noteq> []"
    and "env_load cfg = Some k" and "env_run cfg = Some k" and "k \<noteq> []"
    and "dec s = Some (google_token cfg (u_id u) (acc_now st))" and "s \<noteq> []"
  shows "googleRegister cfg (Some e) st = (RToken 201 (google_token cfg (u_id u) (acc_now st)) (u_id u), st) \<and>
         io_auth cfg dec now (Some s) =
           (if now < acc_now st + 7 * 86400 then Inr (Some (u_id u)) else Inl InvalidToken)"
  using assms by (simp add: googleRegister_def io_auth_def jwt_verify_def token_defs js_or_opt_def)

theorem google_register_issues_token_witness:
  "googleRegister cfg0 (Some ''bob@mail.io'') accA =
     (RToken 201 (google_token cfg0 (fresh_oid 0) 1000) (fresh_oid 0), accA) \<and>
   io_auth cfg0 decG 5000 (Some ''tg'') = Inr (Some (fresh_oid 0))"
proof -
  have f: "find_email ''bob@mail.io'' accA = Some (new_user (fresh_oid 0) (Some ''Bob'') ''bob@mail.io'' (Some (PwHash ''hunter22'')))"
    by (simp add: acc_fixture_defs Let_def)
  have h: "''bob@mail.io'' \<noteq> []" "u_id (new_user (fresh_oid 0) (Some ''Bob'') ''bob@mail.io'' (Some (PwHash ''hunter22''))) \<noteq> []"
    "env_load cfg0 = Some ''s3cret''" "env_run cfg0 = Some ''s3cret''" "''s3cret'' \<noteq> []"
    "decG ''tg'' = Some (google_token cfg0 (u_id (new_user (fresh_oid 0) (Some ''Bob'') ''bob@mail.io'' (Some (PwHash ''hunter22'')))) (acc_now accA))"
    "''tg'' \<noteq> []"
    by (simp_all add: acc_fixture_defs cfg0_def new_user_def Let_def)
  show ?thesis using google_register_issues_token
      [where dec = decG and s = "''tg''" and cfg = cfg0 and k = "''s3cret''", OF f h, of 5000]
    by (simp add: new_user_def acc_fixture_defs Let_def)
qed

text \<open>C28. In every reachable state of the account service (fewer than \<open>16^24\<close>
  accounts created) no two accounts share an e-mail, and the account ids are distinct
  ObjectIds.\<close>

theorem account_emails_unique:
  assumes "acc_reachable cfg st" and "acc_next st \<le> 16 ^ 24"
  shows "distinct (map u_email (acc_users st)) \<and> distinct (map u_id (acc_users st)) \<and>
         list_all is_valid_oid (map u_id (acc_users st))"
  using acc_reachable_inv [OF assms] distinct_fresh_ids [OF assms(2)]
  by (simp add: acc_inv_def list_all_iff is_valid_oid_fresh)

theorem account_emails_unique_witness:
  "acc_reachable cfg0 accA \<and> map u_email (acc_users accA) = [''bob@mail.io''] \<and>
   distinct (map u_email (acc_users accA))"
proof -
  have r: "acc_reachable cfg0 accA"
    using acc_reachable.step [OF acc_reachable.init, of cfg0 1000
        "ARegister (Some ''Bob'') (Some ''bob@mail.io'') (Some ''hunter22'')"]
    by (simp add: accA_def)
  have n: "acc_next accA \<le> 16 ^ 24" and m: "map u_email (acc_users accA) = [''bob@mail.io'']"
    by (simp_all add: acc_fixture_defs Let_def)
  show ?thesis using account_emails_unique [OF r n] r m by simp
qed

text \<open>C29. A password reset with an OTP (a code and a new password of at least six
  characters) succeeds exactly when the latest unused password OTP of the caller
  with that code has not expired. On success it sets the password of the caller's
  account and marks that OTP used; on every other answer the state is unchanged.\<close>

theorem reset_password_with_otp:
  assumes "c \<noteq> []" and "6 \<le> length p"
  shows "(fst (resetPasswordWithOtp (Some me) (Some c) (Some p) st) = Reply 200 ''Password changed successfully.'' \<longleftrightarrow>
          (\<exists>i. latest_otp (rq_id me) c OtpPassword st = Some i \<and> acc_now st \<le> o_expiresAt (acc_otps st ! i))) \<and>
         (\<forall>i. latest_otp (rq_id me) c OtpPassword st = Some i \<longrightarrow> acc_now st \<le> o_expiresAt (acc_otps st ! i) \<longrightarrow>
            snd (resetPasswordWithOtp (Some me) (Some c) (Some p) st) =
              mark_used i (update_user (rq_id me) (\<lambda>u. u\<lparr>u_password := Some (PwHash p)\<rparr>) st)) \<and>
         (fst (resetPasswordWithOtp (Some me) (Some c) (Some p) st) \<noteq> Reply 200 ''Password changed successfully.'' \<longrightarrow>
            snd (resetPasswordWithOtp (Some me) (Some c) (Some p) st) = st)"
proof (intro conjI allI impI)
  show "fst (resetPasswordWithOtp (Some me) (Some c) (Some p) st) = Reply 200 ''Password changed successfully.'' \<longleftrightarrow>
        (\<exists>i. latest_otp (rq_id me) c OtpPassword st = Some i \<and> acc_now st \<le> o_expiresAt (acc_otps st ! i))"
    by (rule resetPasswordWithOtp_ok_iff [OF assms])
next
  fix i assume "latest_otp (rq_id me) c OtpPassword st = Some i" and "acc_now st \<le> o_expiresAt (acc_otps st ! i)"
  then show "snd (resetPasswordWithOtp (Some me) (Some c) (Some p) st) =
      mark_used i (update_user (rq_id me) (\<lambda>u. u\<lparr>u_password := Some (PwHash p)\<rparr>) st)"
    by (simp add: resetPasswordWithOtp_state [OF assms])
next
  assume "fst (resetPasswordWithOtp (Some me) (Some c) (Some p) st) \<noteq> Reply 200 ''Password changed successfully.''"
  then show "snd (resetPasswordWithOtp (Some me) (Some c) (Some p) st) = st"
    using resetPasswordWithOtp_ok_iff [OF assms, of me st]
    by (auto simp: resetPasswordWithOtp_state [OF assms] split: option.split)
qed

theorem reset_password_with_otp_witness:
  "fst (resetPasswordWithOtp (Some meB) (Some ''111111'') (Some ''secret99'') accB) =
     Reply 200 ''Password changed successfully.'' \<and>
   find_user (fresh_oid 0) (snd (resetPasswordWithOtp (Some meB) (Some ''111111'') (Some ''secret99'') accB)) =
     Some ((new_user (fresh_oid 0) (Some ''Bob'') ''bob@mail.io'' (Some (PwHash ''hunter22'')))\<lparr>u_password := Some (PwHash ''secret99'')\<rparr>) \<and>
   o_used (acc_otps (snd (resetPasswordWithOtp (Some meB) (Some ''111111'') (Some ''secret99'') accB)) ! 0)"
proof -
  have h: "''111111'' \<noteq> []" "6 \<le> length ''secret99''" by simp_all
  have l: "latest_otp (rq_id meB) ''111111'' OtpPassword accB = Some 0"
    "acc_now accB \<le> o_expiresAt (acc_otps accB ! 0)"
    by (simp_all add: acc_fixture_defs Let_def)
  have r: "fst (resetPasswordWithOtp (Some meB) (Some ''111111'') (Some ''secret99'') accB) =
      Reply 200 ''Password changed successfully.'' \<and>
    snd (resetPasswordWithOtp (Some meB) (Some ''111111'') (Some ''secret99'') accB) =
      mark_used 0 (update_user (rq_id meB) (\<lambda>u. u\<lparr>u_password := Some (PwHash ''secret99'')\<rparr>) accB)"
    using reset_password_with_otp [OF h, of meB accB] l by blast
  then show ?thesis
    by (simp add: acc_fixture_defs mark_used_def update_user_def Let_def)
qed

text \<open>C30. Requesting a new password OTP does not revoke the earlier ones: an
  unused, unexpired earlier code still resets the password after a new code was
  sent.\<close>

theorem earlier_otp_still_valid:
  assumes "latest_otp (rq_id me) c1 OtpPassword st = Some i"
    and "acc_now st \<le> o_expiresAt (acc_otps st ! i)" and "c1 \<noteq> c2" and "c1 \<noteq> []" and "6 \<le> length p"
  shows "fst (resetPasswordWithOtp (Some me) (Some c1) (Some p) (snd (requestPasswordOtp (Some me) c2 ok st))) =
           Reply 200 ''Password changed successfully.''"
proof -
  let ?st = "snd (requestPasswordOtp (Some me) c2 ok st)"
  let ?a = "add_otp (rq_id me) OtpPassword c2 None st"
  have st: "latest_otp (rq_id me) c1 OtpPassword ?st = latest_otp (rq_id me) c1 OtpPassword ?a \<and>
            acc_otps ?st = acc_otps ?a \<and> acc_now ?st = acc_now st"
    by (simp add: requestPasswordOtp_def Let_def)
  have i: "i < length (acc_otps st)" using latest_otp_Some [OF assms(1)] by simp
  have "latest_otp (rq_id me) c1 OtpPassword ?st = Some i"
    using assms(1,3) by (simp add: st latest_otp_add_otp otp_match_def)
  moreover have "acc_now ?st \<le> o_expiresAt (acc_otps ?st ! i)"
    using assms(2) i by (simp add: st nth_append)
  ultimately show ?thesis using resetPasswordWithOtp_ok_iff [OF assms(4,5), of me ?st] by blast
qed

theorem earlier_otp_still_valid_witness:
  "fst (resetPasswordWithOtp (Some meB) (Some ''111111'') (Some ''secret99'')
      (snd (requestPasswordOtp (Some meB) ''222222'' False accB))) = Reply 200 ''Password changed successfully.''"
proof -
  have h: "latest_otp (rq_id meB) ''111111'' OtpPassword accB = Some 0"
    "acc_now accB \<le> o_expiresAt (acc_otps accB ! 0)" "''111111'' \<noteq> ''222222''" "''111111'' \<noteq> []"
    "6 \<le> length ''secret99''"
    by (simp_all add: acc_fixture_defs Let_def)
  show ?thesis using earlier_otp_still_valid [OF h] .
qed

text \<open>C31. An account created by \<open>googleRegister\<close> has no password, and the password
  login of it fails with a server error (bcrypt throws), whatever password is given.\<close>

theorem google_account_password_login_fails:
  assumes "find_email e st = None" and "e \<noteq> []" and "p \<noteq> []"
  shows "login cfg (Some e) (Some p) (snd (googleRegister cfg (Some e) st)) =
           (Reply 500 ''Server error during login'', snd (googleRegister cfg (Some e) st))"
proof -
  have "find_email e (snd (googleRegister cfg (Some e) st)) =
          Some (new_user (fresh_oid (acc_next st)) None e None)"
    using assms(1,2) by (simp add: googleRegister_def find_email_add_user Let_def)
  then show ?thesis using assms(2,3) by (simp add: login_def new_user_def)
qed

theorem google_account_password_login_fails_witness:
  "login cfg0 (Some ''eve@mail.io'') (Some ''guess'') (snd (googleRegister cfg0 (Some ''eve@mail.io'') accA)) =
     (Reply 500 ''Server error during login'', snd (googleRegister cfg0 (Some ''eve@mail.io'') accA))"
proof -
  have h: "find_email ''eve@mail.io'' accA = None" "''eve@mail.io'' \<noteq> []" "''guess'' \<noteq> []"
    by (simp_all add: acc_fixture_defs Let_def)
  show ?thesis using google_account_password_login_fails [OF h] .
qed

text \<open>A login with the right password returns a one-day token for the account
  and records the login: one more login, two more points and a login activity.\<close>

theorem login_records_activity:
  assumes "find_email e st = Some u" and "find_user (u_id u) st = Some u"
    and "u_password u = Some (PwHash p)" and "e \<noteq> []" and "p \<noteq> []"
  shows "fst (login cfg (Some e) (Some p) st) = RToken 200 (login_token cfg (u_id u) (acc_now st)) (u_id u) \<and>
         getProfile (u_id u) (snd (login cfg (Some e) (Some p) st)) =
           RProfile ((u_profile u)\<lparr>pf_totalLogins := pf_totalLogins (u_profile u) + 1,
                                   pf_points := pf_points (u_profile u) + 2,
                                   pf_activities := pf_activities (u_profile u) @ [login_activity (acc_now st)]\<rparr>)"
  using assms by (simp add: login_def getProfile_def find_user_update_user record_login_def)

theorem login_records_activity_witness:
  "fst (login cfg0 (Some ''bob@mail.io'') (Some ''hunter22'') accA) = RToken 200 (login_token cfg0 (fresh_oid 0) 1000) (fresh_oid 0) \<and>
   getProfile (fresh_oid 0) (snd (login cfg0 (Some ''bob@mail.io'') (Some ''hunter22'') accA)) =
     RProfile (default_profile\<lparr>pf_totalLogins := 1, pf_points := 2, pf_activities := [login_activity 1000]\<rparr>)"
proof -
  have h: "find_email ''bob@mail.io'' accA = Some (new_user (fresh_oid 0) (Some ''Bob'') ''bob@mail.io'' (Some (PwHash ''hunter22'')))"
    "find_user (u_id (new_user (fresh_oid 0) (Some ''Bob'') ''bob@mail.io'' (Some (PwHash ''hunter22'')))) accA =
       Some (new_user (fresh_oid 0) (Some ''Bob'') ''bob@mail.io'' (Some (PwHash ''hunter22'')))"
    "u_password (new_user (fresh_oid 0) (Some ''Bob'') ''bob@mail.io'' (Some (PwHash ''hunter22''))) = Some (PwHash ''hunter22'')"
    "''bob@mail.io'' \<noteq> []" "''hunter22'' \<noteq> []"
    by (simp_all add: acc_fixture_defs Let_def)
  show ?thesis using login_records_activity [OF h] by (simp add: new_user_def acc_fixture_defs Let_def default_profile_def)
qed

text \<open>C26. What the profile page shows of today after the server's handlers: after a
  successful login the page, loaded from \<open>GET /auth/profile\<close>, shows one more
  login and two more points today; after a chat message
  (\<open>POST /api/chat/updateProfile\<close>) the stored points rise by one but today's
  chats and today's points do not move, because the server records the message as
  type \<open>message_sent\<close> without points while the page counts type \<open>chat\<close>.\<close>

theorem profile_page_today_after_login_and_chat:
  assumes "find_email e st = Some u" and "find_user (u_id u) st = Some u"
    and "u_password u = Some (PwHash p)" and "e \<noteq> []" and "p \<noteq> []"
    and "profile_today_counts (acc_now st) (pf_activities (u_profile u)) = (l, g, c, pts)"
  shows "profile_today_counts (acc_now st)
           (pf_activities (pp_profile (profile_loaded (getProfile (u_id u) (snd (login cfg (Some e) (Some p) st))) pg)))
           = (Suc l, g, c, pts + 2) \<and>
         profile_today_counts (acc_now st)
           (pf_activities (pp_profile (profile_loaded (getProfile (u_id u) (chat_updateProfile (u_id u) st)) pg)))
           = (l, g, c, pts) \<and>
         pf_points (pp_profile (profile_loaded (getProfile (u_id u) (chat_updateProfile (u_id u) st)) pg))
           = pf_points (u_profile u) + 1"
proof -
  have li: "snd (login cfg (Some e) (Some p) st) = update_user (u_id u) (record_login (acc_now st)) st"
    using assms(1-5) by (simp add: login_def)
  have fl: "find_user (u_id u) (snd (login cfg (Some e) (Some p) st)) = Some (record_login (acc_now st) u)"
    unfolding li using assms(2) by (simp add: find_user_update_user record_login_def)
  have fc: "find_user (u_id u) (chat_updateProfile (u_id u) st) =
      Some (u\<lparr>u_profile := (u_profile u)\<lparr>pf_points := pf_points (u_profile u) + 1,
        pf_activities := pf_activities (u_profile u) @
          [\<lparr>act_type = ''message_sent'', act_title = ''Message sent'', act_time = acc_now st, act_points = None\<rparr>]\<rparr>\<rparr>)"
    using assms(2) by (simp add: chat_updateProfile_def find_user_update_user)
  have m: "profile_today_counts (acc_now st) (xs @
      [\<lparr>act_type = ''message_sent'', act_title = ''Message sent'', act_time = acc_now st, act_points = None\<rparr>]) =
      profile_today_counts (acc_now st) xs" for xs
    by (simp add: profile_today_counts_def act_pts_def Let_def)
  show ?thesis
    using assms(6) by (simp add: loaded_getProfile [OF fl] loaded_getProfile [OF fc] record_login_def m)
qed

theorem profile_page_today_after_login_and_chat_witness:
  "profile_today_counts 1000
     (pf_activities (pp_profile (profile_loaded (getProfile (fresh_oid 0)
        (snd (login cfg0 (Some ''bob@mail.io'') (Some ''hunter22'') accA))) (profile_initial None)))) = (1, 0, 0, 2) \<and>
   profile_today_counts 1000
     (pf_activities (pp_profile (profile_loaded (getProfile (fresh_oid 0) (chat_updateProfile (fresh_oid 0) accA))
        (profile_initial None)))) = (0, 0, 0, 0) \<and>
   pf_points (pp_profile (profile_loaded (getProfile (fresh_oid 0) (chat_updateProfile (fresh_oid 0) accA))
        (profile_initial None))) = 1"
proof -
  have h: "find_email ''bob@mail.io'' accA = Some (new_user (fresh_oid 0) (Some ''Bob'') ''bob@mail.io'' (Some (PwHash ''hunter22'')))"
    "find_user (u_id (new_user (fresh_oid 0) (Some ''Bob'') ''bob@mail.io'' (Some (PwHash ''hunter22'')))) accA =
       Some (new_user (fresh_oid 0) (Some ''Bob'') ''bob@mail.io'' (Some (PwHash ''hunter22'')))"
    "u_password (new_user (fresh_oid 0) (Some ''Bob'') ''bob@mail.io'' (Some (PwHash ''hunter22''))) = Some (PwHash ''hunter22'')"
    "''bob@mail.io'' \<noteq> []" "''hunter22'' \<noteq> []"
    "profile_today_counts (acc_now accA)
       (pf_activities (u_profile (new_user (fresh_oid 0) (Some ''Bob'') ''bob@mail.io'' (Some (PwHash ''hunter22''))))) = (0, 0, 0, 0)"
    by (simp_all add: acc_fixture_defs Let_def default_profile_def profile_today_counts_def)
  have n: "acc_now accA = 1000" "u_id (new_user (fresh_oid 0) (Some ''Bob'') ''bob@mail.io'' (Some (PwHash ''hunter22''))) = fresh_oid 0"
    "pf_points (u_profile (new_user (fresh_oid 0) (Some ''Bob'') ''bob@mail.io'' (Some (PwHash ''hunter22'')))) = 0"
    by (simp_all add: acc_fixture_defs Let_def default_profile_def)
  show ?thesis using profile_page_today_after_login_and_chat [OF h, of cfg0] n by simp
qed

subsection \<open>Client routing and session\<close>

text \<open>C33. The Google button of the registration page stores a token but no
  \<open>userType\<close>, then navigates to \<open>/home\<close>: from a browser with no earlier
  \<open>userType\<close>, the protected route redirects \<open>/home\<close> to itself, and no number of
  navigations renders a page; the login page's handlers, which store \<open>userType\<close>,
  render the home page at once.\<close>

theorem google_signup_redirect_loop:
  assumes "ls_userType ls = None" and "tok \<noteq> []"
  shows "settle n (register_google_store tok u ls) ''/home'' = None \<and>
         settle 1 (login_store tok u ls) ''/home'' = Some PHome"
proof -
  have "settle n (register_google_store tok u ls) ''/home'' = None"
    using assms by (induction n) (simp_all add: app_route_home protected_route_def register_google_store_def)
  moreover have "settle 1 (login_store tok u ls) ''/home'' = Some PHome"
    using assms(2) by (simp add: app_route_home protected_route_def login_store_def mount_redirect_def)
  ultimately show ?thesis by simp
qed

theorem google_signup_redirect_loop_witness:
  "settle 100 (register_google_store ''tk'' ''{}'' ls0) ''/home'' = None \<and>
   settle 1 (login_store ''tk'' ''{}'' ls0) ''/home'' = Some PHome"
proof -
  have "ls_userType ls0 = None" "''tk'' \<noteq> []" by (simp_all add: ls0_def)
  then show ?thesis by (rule google_signup_redirect_loop)
qed

text \<open>C34. With a consistent session (no token, or a token with \<open>userType\<close> user
  or caretaker, as every login handler leaves it), every path of the application
  settles on a page within three navigations.\<close>

theorem navigation_settles:
  assumes "consistent_session ls"
  shows "\<exists>pg. settle 3 ls p = Some pg"
proof (cases "app_route ls p")
  case (Render pg)
  show ?thesis
  proof (cases "mount_redirect ls pg")
    case None
    then show ?thesis using Render by (simp add: numeral_3_eq_3)
  next
    case (Some q)
    then have "\<exists>pg. settle 2 ls q = Some pg"
      using mount_redirect_targets [OF Some] targets_settle [OF assms] by auto
    then show ?thesis using Render Some by (simp add: numeral_3_eq_3 numeral_2_eq_2)
  qed
next
  case (NavigateTo q)
  then have "\<exists>pg. settle 2 ls q = Some pg"
    using app_route_nav [OF NavigateTo] targets_settle [OF assms] by auto
  then show ?thesis using NavigateTo by (simp add: numeral_3_eq_3 numeral_2_eq_2)
qed

theorem navigation_settles_witness:
  "consistent_session lsC \<and> (\<exists>pg. settle 3 lsC ''/login'' = Some pg) \<and>
   settle 3 lsC ''/login'' = Some PCareHome"
proof -
  have c: "consistent_session lsC"
    by (simp add: lsC_def ls0_def caretaker_login_store_def consistent_session_def)
  have "settle 3 lsC ''/login'' = Some PCareHome"
    by (simp add: lsC_def ls0_def caretaker_login_store_def app_route_def public_route_def
        protected_route_def caretaker_pages_def user_pages_def play_param_def mount_redirect_def
        numeral_3_eq_3)
  then show ?thesis using navigation_settles [OF c, of "''/login''"] c by simp
qed

subsection \<open>Game play\<close>

text \<open>C35. A play with a difficulty in the body awards
  \<open>round(clamp(difficulty) * floor(minutes))\<close> points, between 0 and 1000 per whole
  minute, and records them with one more game played in the caller's profile. The
  points are computed from the client's numbers only.\<close>

theorem play_game_points:
  assumes "find_user uid st = Some u" and "pb_difficulty b = Some d" and "pb_minutes b = Some m"
  shows "(\<exists>p. fst (playGame gs uid gid b st) = GPlayed p (play_points d m)) \<and>
         0 \<le> play_points d m \<and> play_points d m \<le> 1000 * max 0 \<lfloor>m\<rfloor> \<and>
         find_user uid (snd (playGame gs uid gid b st)) =
           Some (record_play (play_points d m) (play_activity gid b (acc_now st) (play_points d m)) u)"
  using playGame_ok [OF assms(1,2)] assms(1,3) play_points_bounds [of d m]
  by (simp add: Let_def find_user_update_user record_play_def)

theorem play_game_points_witness:
  "(\<exists>p. fst (playGame [] (fresh_oid 0) ''7'' pb1 accA) = GPlayed p 8) \<and>
   play_points (5 / 2) 3 = 8 \<and> play_points 5000 10 = 10000"
proof -
  have h: "find_user (fresh_oid 0) accA = Some (new_user (fresh_oid 0) (Some ''Bob'') ''bob@mail.io'' (Some (PwHash ''hunter22'')))"
    "pb_difficulty pb1 = Some (5 / 2)" "pb_minutes pb1 = Some 3"
    by (simp_all add: acc_fixture_defs pb1_def Let_def)
  have e: "play_points (5 / 2) 3 = 8" "play_points 5000 10 = 10000"
    by (simp_all add: play_points_def clamp_difficulty_def floor_eq_iff)
  show ?thesis using play_game_points [OF h, of "[]" "''7''"] e by simp
qed

text \<open>C36. The play page reports a play once: going back posts it (at least one
  minute) and navigates back, and the unmount that follows posts nothing more. The
  report the page sends when the tab closes is a beacon, which carries no
  \<open>Authorization\<close> header: the route answers it 401 and records nothing.\<close>

theorem play_reported_once:
  assumes "\<not> gp_sent gp" and "gp_gameId gp = Some gid" and "gid \<noteq> []"
  shows "gp_out (gameplay_unmount (handle_go_back gp now) now') =
           gp_out gp @ [PostPlay gid (play_payload gp gid (played_minutes gp now)), GoBack] \<and>
         (\<exists>k\<ge>1. pb_minutes (play_payload gp gid (played_minutes gp now)) = Some (of_int k)) \<and>
         play_request cfg dec t dir gs None gid b st = (GReply 401 ''No token provided'', st)"
proof -
  have "gp_out (gameplay_unmount (handle_go_back gp now) now') =
          gp_out gp @ [PostPlay gid (play_payload gp gid (played_minutes gp now)), GoBack]"
    using assms by (simp add: gameplay_unmount_def handle_go_back_def send_play_def Let_def)
  moreover have "\<exists>k\<ge>1. pb_minutes (play_payload gp gid (played_minutes gp now)) = Some (of_int k)"
    by (simp add: play_payload_def played_minutes_def)
  moreover have "play_request cfg dec t dir gs None gid b st = (GReply 401 ''No token provided'', st)"
    by (simp add: play_request_def rest_auth_def)
  ultimately show ?thesis by blast
qed

theorem play_reported_once_witness:
  "gp_out (gameplay_unmount (handle_go_back gp0 90000) 91000) =
     [PostPlay ''7'' \<lparr>pb_minutes = Some 2, pb_difficulty = Some 6, pb_title = Some ''Memory''\<rparr>, GoBack]"
proof -
  have h: "\<not> gp_sent gp0" "gp_gameId gp0 = Some ''7''" "''7'' \<noteq> []" by (simp_all add: gp0_def gameplay_mount_def)
  have p: "play_payload gp0 ''7'' (played_minutes gp0 90000) =
      \<lparr>pb_minutes = Some 2, pb_difficulty = Some 6, pb_title = Some ''Memory''\<rparr>"
    by (simp add: gp0_def gameplay_mount_def play_payload_def played_minutes_def parse_difficulty_def
        first_number_def is_digit_def digits_nat_def digit_val_def ceiling_eq_iff)
  have o: "gp_out gp0 = []" by (simp add: gp0_def gameplay_mount_def)
  show ?thesis using play_reported_once [OF h, of 90000 91000] p o by simp
qed

text \<open>C24. A play started from the catalogue: the \<open>Play Now\<close> link of the shown
  game opens the play page on \<open>/play/<id>\<close>, whose back button posts the play
  once under that id; the server's lookup of the id finds the same game, and the
  difficulty the page parses and sends is the one the server would derive from the
  game itself, so the points are those of a body without a difficulty.\<close>

theorem catalogue_play_roundtrip:
  assumes "gpg_active pg = Some g" and "g \<in> set gs" and "distinct (map g_id gs)"
    and "0 \<le> g_id g" and "g_id g < 10 ^ 23"
  shows "\<exists>gp b. open_play pg tok t = Some gp \<and>
           gp_out (handle_go_back gp t') = [PostPlay (int_str (g_id g)) b, GoBack] \<and>
           getGameById gs (int_str (g_id g)) = GGame g \<and>
           playGame gs uid (int_str (g_id g)) b st =
             playGame gs uid (int_str (g_id g)) (b\<lparr>pb_difficulty := None\<rparr>) st"
proof -
  let ?s = "int_str (g_id g)"
  let ?gp = "gameplay_mount (Some ?s) (Some (play_info g t)) tok t"
  let ?b = "play_payload ?gp ?s (played_minutes ?gp t')"
  have ne: "?s \<noteq> []" using assms(4) nat_str_digits [of "nat (g_id g)"] by (simp add: int_str_def)
  have o: "open_play pg tok t = Some ?gp"
    using assms(1,4) by (simp add: open_play_def play_param_link)
  have out: "gp_out (handle_go_back ?gp t') = [PostPlay ?s ?b, GoBack]"
    using ne by (simp add: handle_go_back_def send_play_def gameplay_mount_def Let_def)
  have l: "getGameById gs ?s = GGame g \<and> stored_difficulty gs ?s = Inr (parse_difficulty (Some (g_difficulty g)))"
    using printed_id_lookup [OF assms(2-5)] .
  have d: "pb_difficulty ?b = Some (parse_difficulty (Some (g_difficulty g)))"
    by (simp add: play_payload_def gameplay_mount_def play_info_def)
  have "playGame gs uid ?s ?b st = playGame gs uid ?s (?b\<lparr>pb_difficulty := None\<rparr>) st"
    using l d by (simp add: playGame_def play_activity_def)
  then show ?thesis using o out l by blast
qed

theorem catalogue_play_roundtrip_witness:
  "\<exists>gp b. open_play (handle_show game7 games_page_init) None 0 = Some gp \<and>
     gp_out (handle_go_back gp 90000) = [PostPlay ''7'' b, GoBack] \<and>
     getGameById [game7] ''7'' = GGame game7 \<and>
     playGame [game7] (fresh_oid 0) ''7'' b accA = playGame [game7] (fresh_oid 0) ''7'' (b\<lparr>pb_difficulty := None\<rparr>) accA"
proof -
  have h: "gpg_active (handle_show game7 games_page_init) = Some game7" "game7 \<in> set [game7]"
    "distinct (map g_id [game7])" "0 \<le> g_id game7" "g_id game7 < 10 ^ 23"
    by (simp_all add: handle_show_def game7_def)
  have s: "int_str (g_id game7) = ''7''" by (simp add: game7_def int_str_def nat_str.simps decimal_digits_def)
  show ?thesis using catalogue_play_roundtrip [OF h, of None 0 90000 "fresh_oid 0" accA] unfolding s .
qed

text \<open>C14. The play page reports a play even when it shows no game: opened without
  the catalogue's navigation state (a reload or a bookmark of \<open>/play/<id>\<close>) it
  shows only "Game info not found.", and leaving it by its back button unmounts
  it, whose cleanup posts a play of at least one minute at the default difficulty;
  the server then awards at least one point and counts one more game played.\<close>

theorem play_page_without_info_awards_points:
  assumes "gid \<noteq> []" and "find_user uid st = Some u"
  shows "gameplay_view (gameplay_mount (Some gid) None tok now) = PlayNoInfo \<and>
         (\<exists>b p k. gp_out (no_info_go_back (gameplay_mount (Some gid) None tok now) t) = [GoBack, PostPlay gid b] \<and>
                  fst (playGame gs uid gid b st) = GPlayed p k \<and> 1 \<le> k \<and>
                  pf_points p = pf_points (u_profile u) + k \<and>
                  pf_gamesPlayed p = pf_gamesPlayed (u_profile u) + 1)"
proof -
  let ?gp = "gameplay_mount (Some gid) None tok now"
  let ?b = "\<lparr>pb_minutes = Some (of_int (max 0 \<lfloor>played_minutes ?gp t\<rfloor>)), pb_difficulty = Some 1,
             pb_title = Some (''Played '' @ gid)\<rparr>"
  have o: "gameplay_view ?gp = PlayNoInfo \<and> gp_out (no_info_go_back ?gp t) = [GoBack, PostPlay gid ?b]"
    using no_info_reports_play [OF assms(1)] .
  have k: "1 \<le> play_points 1 (of_int (max 0 \<lfloor>played_minutes ?gp t\<rfloor>))"
    using play_points_default [OF played_minutes_ge_1] .
  have "fst (playGame gs uid gid ?b st) =
          GPlayed (u_profile (record_play (play_points 1 (of_int (max 0 \<lfloor>played_minutes ?gp t\<rfloor>)))
            (play_activity gid ?b (acc_now st) (play_points 1 (of_int (max 0 \<lfloor>played_minutes ?gp t\<rfloor>)))) u))
            (play_points 1 (of_int (max 0 \<lfloor>played_minutes ?gp t\<rfloor>)))"
    using playGame_ok [OF assms(2), of ?b 1 gs gid] by (simp add: Let_def)
  then show ?thesis using o k by (auto simp: record_play_def)
qed

theorem play_page_without_info_awards_points_witness:
  "gameplay_view (gameplay_mount (Some ''7'') None None 0) = PlayNoInfo \<and>
   (\<exists>b p k. gp_out (no_info_go_back (gameplay_mount (Some ''7'') None None 0) 90000) = [GoBack, PostPlay ''7'' b] \<and>
            fst (playGame [] (fresh_oid 0) ''7'' b accA) = GPlayed p k \<and> 1 \<le> k \<and>
            pf_points p = 0 + k \<and> pf_gamesPlayed p = 0 + 1)"
proof -
  have h: "find_user (fresh_oid 0) accA = Some (new_user (fresh_oid 0) (Some ''Bob'') ''bob@mail.io'' (Some (PwHash ''hunter22'')))"
    by (simp add: acc_fixture_defs Let_def find_user_def)
  have z: "pf_points (u_profile (new_user (fresh_oid 0) (Some ''Bob'') ''bob@mail.io'' (Some (PwHash ''hunter22'')))) = 0"
    "pf_gamesPlayed (u_profile (new_user (fresh_oid 0) (Some ''Bob'') ''bob@mail.io'' (Some (PwHash ''hunter22'')))) = 0"
    by (simp_all add: new_user_def default_profile_def)
  show ?thesis using play_page_without_info_awards_points [OF _ h, of "''7''" None 0 90000 "[]"] z by simp
qed

subsection \<open>Caretakers on the server\<close>

text \<open>The fixtures' identities: Bob's account id and the caretaker's id differ,
  and the codec's tokens authenticate Bob as a user and Ann as a caretaker.\<close>

lemma accA_ids: "u_id ` set (acc_users accA) = {fresh_oid 0}"
  by (simp add: acc_fixture_defs Let_def)

lemma cid1_facts: "cid1 \<noteq> fresh_oid 0 \<and> is_valid_oid cid1 \<and> oid_canon cid1 = cid1"
proof -
  have c0: "char_of (48::nat) = CHR ''0''" by (simp add: char_of_def bit_simps)
  have "hex_digits k 0 = replicate k CHR ''0''" for k
    by (induction k) (simp_all add: replicate_append_same c0)
  then show ?thesis
    by (simp add: fresh_oid_def cid1_def numeral_eq_Suc is_valid_oid_def is_hex_digit_def oid_canon_def
        ascii_lower_def)
qed

lemma rest_auth_bob:
  "rest_auth cfg0 decU t (care_dir (acc_users accA) [ct1]) (Some ''Bearer tu'') =
     (if t < 1000 + 86400 then Inr (PUser (fresh_oid 0)) else Inl RestInvalid)"
  by (simp add: rest_auth_def care_dir_def accA_ids ct1_def decU_def bearer_token_def cfg0_def jwt_verify_def
      token_defs is_valid_oid_fresh)

lemma rest_auth_ann:
  "rest_auth cfg0 decU 1000 (care_dir (acc_users accA) [ct1]) (Some ''Bearer tc'') = Inr (PCaretaker cid1)"
  using cid1_facts
  by (simp add: rest_auth_def care_dir_def accA_ids ct1_def decU_def bearer_token_def cfg0_def jwt_verify_def
      token_defs)

text \<open>C37. \<open>GET /api/caretaker\<close> answers any authenticated identity, a plain user
  included, with every caretaker document and its stored password. When that
  password is stored as plain text, \<open>comparePassword\<close> accepts it as it is, so the
  user can log in as the caretaker and obtains a seven-day token that the
  middleware resolves to the caretaker.\<close>

theorem caretaker_password_disclosed:
  assumes user: "rest_auth cfg dec now (care_dir us cts) hdr = Inr (PUser u)"
    and c: "c \<in> set cts" "cr_password c = Some p" "take 4 p \<noteq> ''$2a$''" "distinct (map cr_email cts)"
    and ids: "is_valid_oid (cr_id c)" "oid_canon (cr_id c) = cr_id c" "cr_id c \<notin> u_id ` set us"
    and tok: "env_run cfg = Some k" "k \<noteq> []" "dec s = Some (caretaker_token cfg (cr_id c) now)"
      "s \<noteq> []" "CHR '' '' \<notin> set s"
    and t: "t < now + 7 * 86400"
  shows "(\<exists>xs. fst (care_route cfg dec now us hdr GetCaretakers cts) = CCaretakers xs \<and>
              (c, populate us (cr_patients c)) \<in> set xs) \<and>
         fst (care_route cfg dec now us hdr (CaretakerLoginReq (Some (cr_email c)) (cr_password c)) cts) =
           CLoggedIn (caretaker_token cfg (cr_id c) now) (without_password c) \<and>
         rest_auth cfg dec t
           (care_dir us (snd (care_route cfg dec now us hdr (CaretakerLoginReq (Some (cr_email c)) (cr_password c)) cts)))
           (Some (''Bearer '' @ s)) = Inr (PCaretaker (cr_id c))"
proof -
  have list: "\<exists>xs. fst (care_route cfg dec now us hdr GetCaretakers cts) = CCaretakers xs \<and>
              (c, populate us (cr_patients c)) \<in> set xs"
    using user c(1) by (auto simp: care_route_def getCaretakers_def)
  have login: "care_route cfg dec now us hdr (CaretakerLoginReq (Some (cr_email c)) (cr_password c)) cts =
      (CLoggedIn (caretaker_token cfg (cr_id c) now) (without_password c),
       update_caretaker (cr_id c) (record_care_login now) cts)"
    using caretakerLogin_plain [OF c(1,4,2,3)] c(2) by (simp add: care_route_def)
  have dir: "care_dir us (update_caretaker (cr_id c) (record_care_login now) cts) = care_dir us cts"
    by (rule care_dir_update) (simp add: record_care_login_def)
  have mem: "cr_id c \<in> set (map cr_id cts)" using c(1) by simp
  have "jwt_verify dec (env_run cfg) t (bearer_token (''Bearer '' @ s)) = Inr \<lparr>pl_id = Some (cr_id c), pl__id = None\<rparr>"
    unfolding bearer_token_append [OF tok(5)] using tok t by (simp add: jwt_verify_def token_defs)
  then have "rest_auth cfg dec t (care_dir us cts) (Some (''Bearer '' @ s)) = Inr (PCaretaker (cr_id c))"
    using ids mem unfolding rest_auth_def by (auto simp: care_dir_def image_iff)
  with list login dir show ?thesis by simp
qed

theorem caretaker_password_disclosed_witness:
  "(\<exists>xs. fst (care_route cfg0 decU 1000 (acc_users accA) (Some ''Bearer tu'') GetCaretakers [ct1]) = CCaretakers xs \<and>
         (ct1, []) \<in> set xs) \<and>
   fst (care_route cfg0 decU 1000 (acc_users accA) (Some ''Bearer tu'')
          (CaretakerLoginReq (Some ''ann@care.io'') (Some ''ann-pass'')) [ct1]) =
     CLoggedIn (caretaker_token cfg0 cid1 1000) (without_password ct1) \<and>
   rest_auth cfg0 decU 2000
     (care_dir (acc_users accA) (snd (care_route cfg0 decU 1000 (acc_users accA) (Some ''Bearer tu'')
          (CaretakerLoginReq (Some ''ann@care.io'') (Some ''ann-pass'')) [ct1])))
     (Some ''Bearer tc'') = Inr (PCaretaker cid1)"
proof -
  have user: "rest_auth cfg0 decU 1000 (care_dir (acc_users accA) [ct1]) (Some ''Bearer tu'') = Inr (PUser (fresh_oid 0))"
    by (simp add: rest_auth_bob)
  have h: "ct1 \<in> set [ct1]" "cr_password ct1 = Some ''ann-pass''" "take 4 ''ann-pass'' \<noteq> ''$2a$''"
    "distinct (map cr_email [ct1])" "is_valid_oid (cr_id ct1)" "oid_canon (cr_id ct1) = cr_id ct1"
    "cr_id ct1 \<notin> u_id ` set (acc_users accA)"
    "env_run cfg0 = Some ''s3cret''" "''s3cret'' \<noteq> []"
    "decU ''tc'' = Some (caretaker_token cfg0 (cr_id ct1) 1000)" "''tc'' \<noteq> []" "CHR '' '' \<notin> set ''tc''"
    "(2000::nat) < 1000 + 7 * 86400"
    using cid1_facts by (simp_all add: ct1_def accA_ids cfg0_def decU_def)
  show ?thesis using caretaker_password_disclosed [OF user h] by (simp add: ct1_def cid1_def populate_def)
qed

text \<open>C38. Refinement of the assignment operation. Abstractly the collection is
  the relation of (caretaker, patient) references and \<open>assignPatient\<close> inserts a
  pair; on a well-formed collection (canonical references) the handler does exactly
  that when it answers 200, leaves the relation unchanged otherwise, answers 200
  exactly for an existing caretaker and an ObjectId patient, and keeps the
  collection well-formed. The patient need not be a user, and the route lets any
  authenticated identity call it.\<close>

theorem assign_patient_refines:
  assumes "care_wf cts"
  shows "assignments (snd (assignPatient cts cid pid)) =
           (if fst (assignPatient cts cid pid) = CReply 200 ''Patient assigned successfully''
            then insert (oid_canon (the cid), oid_canon pid) (assignments cts) else assignments cts) \<and>
         care_wf (snd (assignPatient cts cid pid)) \<and>
         (fst (assignPatient cts cid pid) = CReply 200 ''Patient assigned successfully'' \<longleftrightarrow>
            (\<exists>s c. cid = Some s \<and> is_valid_oid s \<and> find_caretaker (oid_canon s) cts = Some c \<and> is_valid_oid pid))"
proof (cases "\<exists>s c. cid = Some s \<and> is_valid_oid s \<and> find_caretaker (oid_canon s) cts = Some c")
  case False
  then have "snd (assignPatient cts cid pid) = cts \<and>
             fst (assignPatient cts cid pid) \<noteq> CReply 200 ''Patient assigned successfully''"
    by (auto simp: assignPatient_def find_caretaker_str_def split: option.splits)
  then show ?thesis using False assms by auto
next
  case True
  then obtain s c where s: "cid = Some s" "is_valid_oid s" and c: "find_caretaker (oid_canon s) cts = Some c"
    by blast
  from find_caretaker_Some [OF c] have cin: "c \<in> set cts" and cid: "cr_id c = oid_canon s" by simp_all
  show ?thesis
  proof (cases "pid \<in> set (cr_patients c)")
    case True
    with canon_patient [OF assms cin] assignments_mem [OF cin True] s c cid assms show ?thesis
      by (auto simp: assignPatient_def find_caretaker_str_def insert_absorb)
  next
    case False
    have "oid_canon s \<in> cr_id ` set cts" using cin cid by force
    with False s c cid cin assms show ?thesis
      by (auto simp: assignPatient_def find_caretaker_str_def caretaker_save_def assignments_append_patient
          is_valid_oid_canon intro: care_wf_append_patient)
  qed
qed

theorem assign_patient_refines_witness:
  "assignments (snd (assignPatient [ct1] (Some cid1) u1)) = {(cid1, u1)} \<and>
   assignments (snd (assignPatient [ct1] (Some cid1) ''nope'')) = {}"
proof -
  have wf: "care_wf [ct1]" by (simp add: care_wf_def ct1_def)
  have v: "is_valid_oid cid1" "oid_canon cid1 = cid1" "is_valid_oid u1" "oid_canon u1 = u1" "\<not> is_valid_oid ''nope''"
    by (simp_all add: cid1_def u1_def is_valid_oid_def is_hex_digit_def oid_canon_def ascii_lower_def)
  have f: "find_caretaker cid1 [ct1] = Some ct1" by (simp add: find_caretaker_def ct1_def)
  have a0: "assignments [ct1] = {}" by (simp add: assignments_def ct1_def)
  have r1: "fst (assignPatient [ct1] (Some cid1) u1) = CReply 200 ''Patient assigned successfully''"
    using assign_patient_refines [OF wf, of "Some cid1" u1] v f by auto
  have r2: "fst (assignPatient [ct1] (Some cid1) ''nope'') \<noteq> CReply 200 ''Patient assigned successfully''"
    using assign_patient_refines [OF wf, of "Some cid1" "''nope''"] v by auto
  show ?thesis
    using assign_patient_refines [OF wf, of "Some cid1" u1] assign_patient_refines [OF wf, of "Some cid1" "''nope''"]
      r1 r2 v a0 by simp
qed

text \<open>C21. Every caretaker route keeps the collection typed as its schema says:
  patient references stay canonical ObjectIds, \<open>_id\<close>s and e-mails stay unique,
  and every document keeps a password, whatever the request, its token and its
  body, on every branch (errors included).\<close>

theorem caretaker_routes_keep_typing:
  assumes "care_typed cts"
  shows "care_typed (snd (care_route cfg dec now us hdr r cts))"
  using assms unfolding care_route_def
  by (auto simp: assignPatient_typed putCaretakerSettings_typed care_updateProfile_typed
      caretakerLogin_def record_care_login_def intro!: care_typed_update
      split: care_req.splits sum.splits rest_auth_error.splits option.splits bool.splits)

theorem caretaker_routes_keep_typing_witness:
  "care_typed (snd (care_route cfg0 decU 1000 (acc_users accA) None
      (CaretakerLoginReq (Some ''ann@care.io'') (Some ''ann-pass'')) [ct1])) \<and>
   care_typed (snd (care_route cfg0 decU 1000 (acc_users accA) (Some ''Bearer tu'')
      (AssignPatient (Some cid1) u1) [ct1]))"
proof -
  have t: "care_typed [ct1]" by (simp add: care_typed_def care_wf_def ct1_def)
  show ?thesis using caretaker_routes_keep_typing [OF t] by simp
qed

subsection \<open>The account router\<close>

text \<open>C18. No request of the account service revokes a session: the controller's
  \<open>logout\<close> is not routed (\<open>POST /api/auth/logout\<close> is answered 404 and changes
  nothing), and after any request of the account router, from any reachable state,
  a header that authenticated a user at time \<open>t\<close> still authenticates that user at
  \<open>t\<close>, a password change or reset included; only the token's expiry ends it.\<close>

theorem sessions_survive_account_requests:
  assumes "acc_reachable cfg st" and "acc_next (snd (auth_route cfg dec now cts hdr' r st)) \<le> 16 ^ 24"
    and "rest_auth cfg dec t (care_dir (acc_users st) cts) hdr = Inr (PUser u)"
  shows "rest_auth cfg dec t (care_dir (acc_users (snd (auth_route cfg dec now cts hdr' r st))) cts) hdr =
           Inr (PUser u) \<and>
         auth_route cfg dec now cts hdr' AuthLogout st = (Reply 404 ''Cannot POST /api/auth/logout'', st)"
proof
  have "set (map u_id (acc_users st)) \<subseteq> set (map u_id (acc_users (snd (auth_route cfg dec now cts hdr' r st))))"
    using user_ids_grow [OF assms(1) auth_route_reachable [OF assms(1)] auth_route_next_mono assms(2)] .
  then show "rest_auth cfg dec t (care_dir (acc_users (snd (auth_route cfg dec now cts hdr' r st))) cts) hdr =
           Inr (PUser u)"
    using rest_auth_user_mono [of cfg dec t "map u_id (acc_users st)" "map cr_id cts" hdr u] assms(3)
    unfolding care_dir_def by blast
next
  show "auth_route cfg dec now cts hdr' AuthLogout st = (Reply 404 ''Cannot POST /api/auth/logout'', st)"
    by (simp add: auth_route_def)
qed
theorem sessions_survive_account_requests_witness:
  "rest_auth cfg0 decU 2000 (care_dir (acc_users (snd (auth_route cfg0 decU 1000 [ct1] (Some ''Bearer tu'')
      (AuthChangePassword (Some ''hunter22'') (Some ''newpass1'')) accA))) [ct1]) (Some ''Bearer tu'') =
     Inr (PUser (fresh_oid 0)) \<and>
   auth_route cfg0 decU 1000 [ct1] (Some ''Bearer tu'') AuthLogout accA =
     (Reply 404 ''Cannot POST /api/auth/logout'', accA)"
proof -
  have r: "acc_reachable cfg0 accA"
    using acc_reachable.step [OF acc_reachable.init, of cfg0 1000
        "ARegister (Some ''Bob'') (Some ''bob@mail.io'') (Some ''hunter22'')"]
    by (simp add: accA_def)
  have n: "acc_next accA = 1" by (simp add: accA_def register_def add_user_def acc_init_def find_email_def Let_def)
  have b: "acc_next (snd (auth_route cfg0 decU 1000 [ct1] (Some ''Bearer tu'')
      (AuthChangePassword (Some ''hunter22'') (Some ''newpass1'')) accA)) \<le> 16 ^ 24"
    using auth_route_next_le [of cfg0 decU 1000 "[ct1]" "Some ''Bearer tu''"
        "AuthChangePassword (Some ''hunter22'') (Some ''newpass1'')" accA] n by simp
  have a: "rest_auth cfg0 decU 2000 (care_dir (acc_users accA) [ct1]) (Some ''Bearer tu'') = Inr (PUser (fresh_oid 0))"
    by (simp add: rest_auth_bob)
  show ?thesis using sessions_survive_account_requests [OF r b a] .
qed
text \<open>C17. A failed caretaker login leaves the caretaker pages: a wrong e-mail or
  password is answered 401, the shared response interceptor of \<open>api.js\<close> takes
  every 401 for an expired session, clears the token and sends the browser to the
  user's login page \<open>/login\<close>, which the router then renders, instead of the
  caretaker login page showing its error.\<close>

theorem caretaker_login_failure_goes_to_user_login:
  assumes "find (\<lambda>c. cr_email c = ap_email pg) cts = None \<or>
           (\<exists>c. find (\<lambda>c. cr_email c = ap_email pg) cts = Some c \<and>
                comparePassword (Some (ap_password pg)) c = Some False)"
  shows "snd (caretaker_login_flow cfg dec now us enc cj pg cts) = cts \<and>
         ap_nav (fst (caretaker_login_flow cfg dec now us enc cj pg cts)) = ap_nav pg @ [''/login''] \<and>
         ls_token (ap_ls (fst (caretaker_login_flow cfg dec now us enc cj pg cts))) = None \<and>
         settle 1 (ap_ls (fst (caretaker_login_flow cfg dec now us enc cj pg cts))) ''/login'' = Some PLogin"
proof -
  have r: "care_route cfg dec now us (auth_header ''post'' ''/caretaker/login'' (ap_ls (auth_submit pg)))
             (CaretakerLoginReq (Some (ap_email (auth_submit pg))) (Some (ap_password (auth_submit pg)))) cts =
           (CReply 401 ''Invalid email or password'', cts)"
    using caretakerLogin_rejects [OF assms] by (simp add: care_route_login auth_submit_def)
  have f: "caretaker_login_flow cfg dec now us enc cj pg cts =
      ((api_fail 401 (auth_submit pg))\<lparr>ap_toasts := ap_toasts pg @ [ToastErr ''Invalid caretaker credentials. Please try again!''],
         ap_loading := False\<rparr>, cts)"
    unfolding caretaker_login_flow_def Let_def r by (simp add: caretaker_login_reply_def is_2xx_def auth_submit_def)
  show ?thesis
    by (simp add: f api_fail_401 auth_submit_def unauthorized_store_def app_route_def public_route_def
        mount_redirect_def)
qed

theorem caretaker_login_failure_goes_to_user_login_witness:
  "snd (caretaker_login_flow cfg0 decU 1000 [] (\<lambda>_. ''tk'') (\<lambda>_. ''{}'')
      ((auth_page_mount ls0 PCaretakerLogin)\<lparr>ap_email := ''ann@care.io'', ap_password := ''guess''\<rparr>) [ct1]) = [ct1] \<and>
   ap_nav (fst (caretaker_login_flow cfg0 decU 1000 [] (\<lambda>_. ''tk'') (\<lambda>_. ''{}'')
      ((auth_page_mount ls0 PCaretakerLogin)\<lparr>ap_email := ''ann@care.io'', ap_password := ''guess''\<rparr>) [ct1])) = [''/login''] \<and>
   ls_token (ap_ls (fst (caretaker_login_flow cfg0 decU 1000 [] (\<lambda>_. ''tk'') (\<lambda>_. ''{}'')
      ((auth_page_mount ls0 PCaretakerLogin)\<lparr>ap_email := ''ann@care.io'', ap_password := ''guess''\<rparr>) [ct1]))) = None \<and>
   settle 1 (ap_ls (fst (caretaker_login_flow cfg0 decU 1000 [] (\<lambda>_. ''tk'') (\<lambda>_. ''{}'')
      ((auth_page_mount ls0 PCaretakerLogin)\<lparr>ap_email := ''ann@care.io'', ap_password := ''guess''\<rparr>) [ct1]))) ''/login''
     = Some PLogin"
proof -
  have h: "find (\<lambda>c. cr_email c = ap_email ((auth_page_mount ls0 PCaretakerLogin)\<lparr>ap_email := ''ann@care.io'', ap_password := ''guess''\<rparr>)) [ct1] = None \<or>
           (\<exists>c. find (\<lambda>c. cr_email c = ap_email ((auth_page_mount ls0 PCaretakerLogin)\<lparr>ap_email := ''ann@care.io'', ap_password := ''guess''\<rparr>)) [ct1] = Some c \<and>
                comparePassword (Some (ap_password ((auth_page_mount ls0 PCaretakerLogin)\<lparr>ap_email := ''ann@care.io'', ap_password := ''guess''\<rparr>))) c = Some False)"
    by (simp add: ct1_def comparePassword_def)
  have n: "ap_nav (auth_page_mount ls0 PCaretakerLogin) = []"
    by (simp add: auth_page_mount_def mount_redirect_def ls0_def)
  show ?thesis using caretaker_login_failure_goes_to_user_login [OF h, of cfg0 decU 1000 "[]" "\<lambda>_. ''tk''" "\<lambda>_. ''{}''"] n by simp
qed
subsection \<open>The caretaker pages of the client\<close>

text \<open>C16. The ``Today's Progress'' chart of the track-progress page builds each row
  as \<open>{ name, points: todayPoints, ...user.profile }\<close>; the profile's \<open>points\<close>
  overwrites today's points, so every bar shows the user's total points and
  ``Active Today'' counts the users with any points at all, whatever they did today;
  this holds of the page as loaded, whose chart follows the sorted table.\<close>

theorem today_progress_shows_totals:
  "map pr_points (tp_today (track_loaded now (Some us) tp)) = map (\<lambda>u. pf_points (u_profile u)) (sort_by_points us) \<and>
   fst (snd (track_summary (track_loaded now (Some us) tp))) = length (filter (\<lambda>u. 0 < pf_points (u_profile u)) us)"
proof -
  have rows: "map pr_points (today_progress now vs) = map (\<lambda>u. pf_points (u_profile u)) vs" for vs
    by (simp add: today_progress_def today_row_def spread_profile_def comp_def)
  have "length (filter P (sort_by_points us)) = length (filter P us)" for P
    by (metis mset_filter mset_sort size_mset sort_by_points_def)
  moreover have "active_today (today_progress now vs) = length (filter (\<lambda>u. 0 < pf_points (u_profile u)) vs)" for vs
    by (simp add: today_progress_def today_row_def spread_profile_def active_today_def filter_map comp_def)
  ultimately show ?thesis
    using rows by (simp add: track_loaded_def track_summary_def Let_def)
qed

text \<open>C23. The caretaker's settings page saves the profile through the user
  endpoint \<open>/auth/update-basic\<close>. For a caretaker's session the middleware
  resolves the token to a caretaker id that no user has, so the update matches no
  document and the account store is unchanged, yet the reply is 200: the page
  shows the new name, stores it locally and reports success, and the caretaker
  document is never written.\<close>

theorem caretaker_profile_save_lost:
  assumes auth: "rest_auth cfg dec now (care_dir (acc_users st) cts) hdr = Inr (PCaretaker cid)"
  shows "sp_out (sp_save_profile s) = sp_out s @ [SpUpdateBasic (sp_nameValue s) (sp_photoValue s)] \<and>
         acc_step cfg st (AUpdateBasic cid (Some (sp_nameValue s)) (Some (sp_photoValue s))) =
           (Reply 200 ''Profile updated'', st) \<and>
         sp_name (sp_update_basic_done True (sp_save_profile s)) = sp_nameValue s \<and>
         sp_out (sp_update_basic_done True (sp_save_profile s)) =
           sp_out s @ [SpUpdateBasic (sp_nameValue s) (sp_photoValue s), SpAlert ''Profile updated successfully'']"
proof -
  have "cid \<notin> u_id ` set (acc_users st)"
    using rest_auth_caretaker [OF auth] by (auto simp: care_dir_def)
  then show ?thesis
    by (simp add: sp_save_profile_def sp_update_basic_done_def sp_store_profile_def sp_emit_def
        updateBasicProfile_def update_user_absent)
qed

theorem caretaker_profile_save_lost_witness:
  "acc_step cfg0 accA (AUpdateBasic cid1 (Some ''Ann B'') (Some [])) = (Reply 200 ''Profile updated'', accA) \<and>
   sp_name (sp_update_basic_done True (sp_save_profile ((sp_initial (Some ''tc'') None)\<lparr>sp_nameValue := ''Ann B''\<rparr>))) = ''Ann B''"
proof -
  note auth = rest_auth_ann
  show ?thesis
    using caretaker_profile_save_lost [OF auth, of "(sp_initial (Some ''tc'') None)\<lparr>sp_nameValue := ''Ann B''\<rparr>"]
    by (simp add: sp_initial_def)
qed

text \<open>C39. The level chart and the leaderboard agree: the chart's four bucket
  tests are exactly the table's level cascade, so each bucket counts the users
  whose badge is that level, and the four counts add up to the number of users.\<close>

theorem level_chart_matches_table:
  "map snd (level_data us) =
     map (\<lambda>l. length (filter (\<lambda>u. level_of (pf_points (u_profile u)) = l) us)) [Gold, Silver, Bronze, Newbie] \<and>
   sum_list (map snd (level_data us)) = length us"
  using sum_level_counts [of "\<lambda>u. pf_points (u_profile u)" us]
  by (simp add: level_data_def level_pred_iff del: level_pred.simps)

text \<open>C40. The profile page's activity pager loses and repeats nothing: pages 1
  to \<open>totalPages\<close> put together give back all activities, newest first (a
  permutation of the list, sorted by time); no page has more than five entries, and
  the page after the last is empty.\<close>

theorem activity_pages_cover:
  "concat (map (paged_overall acts) [1..<total_pages (length acts) + 1]) = newest_first acts \<and>
   mset (newest_first acts) = mset acts \<and>
   sorted (map (\<lambda>a. - int (ca_time a)) (newest_first acts)) \<and>
   (\<forall>p. length (paged_overall acts p) \<le> page_size) \<and>
   paged_overall acts (total_pages (length acts) + 1) = []"
proof -
  have up: "[1..<total_pages (length acts) + 1] = map Suc [0..<total_pages (length acts)]"
    by (simp add: map_Suc_upt)
  have len: "length (newest_first acts) \<le> total_pages (length acts) * page_size"
    using length_le_total_pages [of "length acts"] by (simp add: newest_first_def)
  have "concat (map (paged_overall acts) [1..<total_pages (length acts) + 1]) =
      take (total_pages (length acts) * page_size) (newest_first acts)"
    unfolding up by (simp add: paged_overall_def comp_def concat_pages mult.commute)
  with len show ?thesis
    by (simp add: paged_overall_def newest_first_def sorted_sort_key)
qed

subsection \<open>The AI assistant\<close>

text \<open>C32. The assistant fails from its second turn on. The chat screen sends the
  whole conversation with its own roles, \<open>user\<close> and \<open>assistant\<close>; the server
  passes the roles to Gemini unchanged, which accepts only \<open>user\<close> and \<open>model\<close>.
  Once the conversation holds a reply, every request therefore carries an
  \<open>assistant\<close> message and is rejected, and the endpoint answers 200 with its
  fallback text, which the screen shows as the assistant's reply. The first request,
  with only the user's text, reaches the model.\<close>

theorem ai_turn_after_reply_fails:
  assumes hist: "\<exists>m\<in>set (cl_ai st). am_role m = ''assistant''"
    and auth: "rest_auth cfg dec now dir hdr = Inr me"
  shows "(\<exists>msgs. last (cl_out (ai_send st t)) = OAiRequest msgs \<and>
           ai_route cfg dec now dir hdr True gen (Some msgs) = AiMessage ai_fallback \<and>
           last (cl_ai (ai_deliver (ai_route cfg dec now dir hdr True gen (Some msgs)) (ai_send st t))) =
             \<lparr>am_message = ai_fallback, am_role = ''assistant'', am_createdAt = cl_now st\<rparr>) \<and>
         ai_route cfg dec now dir hdr True gen (Some [(''user'', t)]) =
           (case gen [(''user'', t)] of Some r \<Rightarrow> AiMessage r | None \<Rightarrow> AiMessage ai_fallback)"
proof -
  let ?msgs = "map (\<lambda>m. (if am_role m = [] then ''assistant'' else am_role m, am_message m)) (cl_ai st) @ [(''user'', t)]"
  from hist obtain m where m: "m \<in> set (cl_ai st)" "am_role m = ''assistant''" by blast
  then have "(''assistant'', am_message m) \<in> set ?msgs" by force
  then have bad: "\<not> list_all (\<lambda>(r, _). gemini_role_ok r) ?msgs"
    by (force simp: list_all_iff gemini_role_ok_def)
  have fb: "ai_fallback \<noteq> []" by (simp add: ai_fallback_def)
  have out: "last (cl_out (ai_send st t)) = OAiRequest ?msgs" by (simp add: ai_send_def)
  have r: "ai_route cfg dec now dir hdr True gen (Some ?msgs) = AiMessage ai_fallback"
    using auth by (simp add: ai_route_def ai_endpoint_def bad del: list_all_append)
  have shown: "last (cl_ai (ai_deliver (AiMessage ai_fallback) (ai_send st t))) =
      \<lparr>am_message = ai_fallback, am_role = ''assistant'', am_createdAt = cl_now st\<rparr>"
    using fb by (simp add: ai_deliver_def ai_reply_def ai_send_def js_or_default_def js_or_opt_def)
  have first: "ai_route cfg dec now dir hdr True gen (Some [(''user'', t)]) =
      (case gen [(''user'', t)] of Some r \<Rightarrow> AiMessage r | None \<Rightarrow> AiMessage ai_fallback)"
    using auth by (simp add: ai_route_def ai_endpoint_def gemini_role_ok_def)
  have "last (cl_out (ai_send st t)) = OAiRequest ?msgs \<and>
        ai_route cfg dec now dir hdr True gen (Some ?msgs) = AiMessage ai_fallback \<and>
        last (cl_ai (ai_deliver (ai_route cfg dec now dir hdr True gen (Some ?msgs)) (ai_send st t))) =
          \<lparr>am_message = ai_fallback, am_role = ''assistant'', am_createdAt = cl_now st\<rparr>"
    by (simp only: out r shown simp_thms)
  then show ?thesis using first by blast
qed

theorem ai_turn_after_reply_fails_witness:
  "ai_route cfg0 decU 1000 (care_dir (acc_users accA) [ct1]) (Some ''Bearer tu'') True (\<lambda>_. Some ''Hello'')
     (Some [(''user'', ''hi''), (''assistant'', ''Hello''), (''user'', ''again'')]) = AiMessage ai_fallback \<and>
   ai_route cfg0 decU 1000 (care_dir (acc_users accA) [ct1]) (Some ''Bearer tu'') True (\<lambda>_. Some ''Hello'')
     (Some [(''user'', ''again'')]) = AiMessage ''Hello''"
proof -
  let ?st = "clA\<lparr>cl_ai := [\<lparr>am_message = ''hi'', am_role = ''user'', am_createdAt = 0\<rparr>,
                           \<lparr>am_message = ''Hello'', am_role = ''assistant'', am_createdAt = 0\<rparr>]\<rparr>"
  have h: "\<exists>m\<in>set (cl_ai ?st). am_role m = ''assistant''" by simp
  have a: "rest_auth cfg0 decU 1000 (care_dir (acc_users accA) [ct1]) (Some ''Bearer tu'') = Inr (PUser (fresh_oid 0))"
    by (simp add: rest_auth_bob)
  show ?thesis
    using ai_turn_after_reply_fails [OF h a, of "''again''" "\<lambda>_. Some ''Hello''"]
    by (simp add: ai_send_def)
qed

end
